(* ===== verification/Prelude.thy ===== *)
theory Prelude
  imports Main "HOL-Library.Char_ord" "HOL-Library.List_Lexorder" "HOL-Library.Sublist" "HOL-Library.Multiset"
begin

text \<open>
  Shared material of the development: Go's byte strings and the functions of the packages
  strings, unicode and utf8 that the sources call, time stamps, 64-bit integers with their
  wrap-around, the early-return chains of the validators, and generic facts on lists and maps.

  Go strings are byte strings, so a Go string is an Isabelle \<open>string\<close> whose characters are
  its bytes. A time stamp is an \<open>int\<close>: nanoseconds since the Unix epoch, as UnixNano reads it.
\<close>

named_theorems go_defs \<open>definitions of the Go string and time helpers\<close>
named_theorems inv_intros \<open>preservation of component invariants by operations\<close>

section \<open>Early returns\<close>

text \<open>
  A Go validator is a chain of \<open>if cond { return err }\<close>. Here it is the list of its
  conditions with their errors, in order: the first condition that holds decides.
\<close>

fun first_failure :: "(bool \<times> 'e) list \<Rightarrow> 'e option" where
  "first_failure [] = None"
| "first_failure ((bad, e) # rest) = (if bad then Some e else first_failure rest)"

lemma first_failure_None: "first_failure cs = None \<longleftrightarrow> (\<forall>c \<in> set cs. \<not> fst c)"
  by (induction cs rule: first_failure.induct) auto

lemma first_failure_append:
  "first_failure (xs @ ys) = (case first_failure xs of None \<Rightarrow> first_failure ys | Some e \<Rightarrow> Some e)"
  by (induction xs rule: first_failure.induct) auto

text \<open>The error of the first element of a list that has one: a validating loop.\<close>

fun first_error :: "('a \<Rightarrow> 'e option) \<Rightarrow> 'a list \<Rightarrow> 'e option" where
  "first_error f [] = None"
| "first_error f (x # xs) = (case f x of Some e \<Rightarrow> Some e | None \<Rightarrow> first_error f xs)"

lemma first_error_None: "first_error f xs = None \<longleftrightarrow> (\<forall>x \<in> set xs. f x = None)"
  by (induction xs) (auto split: option.splits)

lemma first_error_Some: "first_error f xs = Some e \<Longrightarrow> \<exists>x \<in> set xs. f x = Some e"
  by (induction xs) (auto split: option.splits)

lemma first_failure_Some: "first_failure cs = Some e \<Longrightarrow> \<exists>c \<in> set cs. fst c \<and> snd c = e"
  by (induction cs rule: first_failure.induct) (auto split: if_splits)

definition or_else :: "'e option \<Rightarrow> 'e option \<Rightarrow> 'e option" where
  "or_else a b = (case a of Some e \<Rightarrow> Some e | None \<Rightarrow> b)"

lemma or_else_None [simp]: "or_else a b = None \<longleftrightarrow> a = None \<and> b = None"
  by (auto simp: or_else_def split: option.splits)

lemma or_else_simps [simp]: "or_else None b = b" "or_else (Some e) b = Some e"
  by (simp_all add: or_else_def)

section \<open>Time stamps\<close>

type_synonym time = int

definition zero_time :: time where \<comment> \<open>Go's zero time.Time: year 1, January 1, UTC\<close>
  "zero_time = - 62135596800000000000"

definition IsZero :: "time \<Rightarrow> bool" where
  "IsZero t = (t = zero_time)"

definition Second :: int where "Second = 1000000000"
definition Minute :: int where "Minute = 60 * Second"

lemma Second_pos [simp]: "0 < Second" and Minute_pos [simp]: "0 < Minute"
  by (simp_all add: Second_def Minute_def)

section \<open>Integers of a fixed width\<close>

text \<open>int64 arithmetic wraps: a result is taken modulo \<open>2^64\<close> into the signed range.\<close>

definition wrap_s64 :: "int \<Rightarrow> int" where
  "wrap_s64 x = (x + 2 ^ 63) mod 2 ^ 64 - 2 ^ 63"

definition wrap_u64 :: "nat \<Rightarrow> nat" where
  "wrap_u64 n = n mod 2 ^ 64"

lemma wrap_s64_id: "- (2 ^ 63) \<le> x \<Longrightarrow> x < 2 ^ 63 \<Longrightarrow> wrap_s64 x = x"
  by (simp add: wrap_s64_def)

lemma wrap_s64_range: "- (2 ^ 63) \<le> wrap_s64 x \<and> wrap_s64 x < 2 ^ 63"
  using pos_mod_bound [of "2 ^ 64" "x + 2 ^ 63"] by (simp add: wrap_s64_def)

lemma wrap_s64_add_left [simp]: "wrap_s64 (wrap_s64 x + y) = wrap_s64 (x + y)"
proof -
  have "wrap_s64 (wrap_s64 x + y) = ((x + 2 ^ 63) mod 2 ^ 64 + y) mod 2 ^ 64 - 2 ^ 63"
    by (simp add: wrap_s64_def)
  also have "\<dots> = (x + 2 ^ 63 + y) mod 2 ^ 64 - 2 ^ 63"
    by (simp only: mod_add_left_eq)
  also have "\<dots> = wrap_s64 (x + y)"
    by (simp add: wrap_s64_def algebra_simps)
  finally show ?thesis .
qed

lemma wrap_s64_add_right [simp]: "wrap_s64 (x + wrap_s64 y) = wrap_s64 (x + y)"
  using wrap_s64_add_left [of y x] by (simp add: add.commute)

lemma wrap_u64_id: "n < 2 ^ 64 \<Longrightarrow> wrap_u64 n = n"
  by (simp add: wrap_u64_def)

lemma wrap_u64_less: "wrap_u64 n < 2 ^ 64"
  by (simp add: wrap_u64_def)

lemmas wrap_u64_less_numeral [simp] = wrap_u64_less [simplified]

section \<open>Strings\<close>

definition ascii_lower_char :: "char \<Rightarrow> char" where
  \<comment> \<open>an upper-case letter plus 32, which sets its bit 5\<close>
  "ascii_lower_char c =
     (if CHR ''A'' \<le> c \<and> c \<le> CHR ''Z''
      then (case c of Char b0 b1 b2 b3 b4 b5 b6 b7 \<Rightarrow> Char b0 b1 b2 b3 b4 True b6 b7) else c)"

lemma ascii_lower_idem [simp]: "ascii_lower_char (ascii_lower_char c) = ascii_lower_char c"
proof (cases c)
  case (Char b0 b1 b2 b3 b4 b5 b6 b7)
  then show ?thesis
    by (cases b0; cases b1; cases b2; cases b3; cases b4; cases b5; cases b6; cases b7)
      (simp_all add: ascii_lower_char_def)
qed

text \<open>strings.ToLower on ASCII text (bytes above 127 are left alone).\<close>

definition ToLower :: "string \<Rightarrow> string" where
  "ToLower s = map ascii_lower_char s"

definition is_digit :: "char \<Rightarrow> bool" where "is_digit c = (CHR ''0'' \<le> c \<and> c \<le> CHR ''9'')"
definition is_lower :: "char \<Rightarrow> bool" where "is_lower c = (CHR ''a'' \<le> c \<and> c \<le> CHR ''z'')"
definition is_upper :: "char \<Rightarrow> bool" where "is_upper c = (CHR ''A'' \<le> c \<and> c \<le> CHR ''Z'')"
definition is_alnum :: "char \<Rightarrow> bool" where "is_alnum c = (is_digit c \<or> is_lower c \<or> is_upper c)"
definition is_hex_lower :: "char \<Rightarrow> bool" where
  "is_hex_lower c = (is_digit c \<or> CHR ''a'' \<le> c \<and> c \<le> CHR ''f'')"

lemmas char_classes = is_digit_def is_lower_def is_upper_def is_alnum_def is_hex_lower_def

definition ContainsAny :: "string \<Rightarrow> string \<Rightarrow> bool" where
  "ContainsAny s chars = list_ex (\<lambda>c. c \<in> set chars) s"

text \<open>Go's strings.Contains, HasPrefix, HasSuffix, TrimSuffix, with Go's argument order.\<close>

abbreviation HasPrefix :: "string \<Rightarrow> string \<Rightarrow> bool" where "HasPrefix s p \<equiv> prefix p s"
abbreviation HasSuffix :: "string \<Rightarrow> string \<Rightarrow> bool" where "HasSuffix s p \<equiv> suffix p s"

fun Contains :: "string \<Rightarrow> string \<Rightarrow> bool" where
  "Contains [] p = (p = [])"
| "Contains (c # s) p = (prefix p (c # s) \<or> Contains s p)"

lemma Contains_sublist: "Contains s p = sublist p s"
  by (induction s) (auto simp: sublist_Cons_right)

definition TrimSuffix :: "string \<Rightarrow> string \<Rightarrow> string" where
  "TrimSuffix s p = (if suffix p s then take (length s - length p) s else s)"

text \<open>strings.Split with a one-byte separator.\<close>

fun Split :: "char \<Rightarrow> string \<Rightarrow> string list" where
  "Split sep [] = [[]]"
| "Split sep (c # s) =
     (if c = sep then [] # Split sep s
      else case Split sep s of [] \<Rightarrow> [[c]] | w # ws \<Rightarrow> (c # w) # ws)"

lemma Split_nonempty [simp]: "Split sep s \<noteq> []"
  by (induction s) (auto split: list.splits)

lemma Split_chars: "w \<in> set (Split sep s) \<Longrightarrow> c \<in> set w \<Longrightarrow> c \<in> set s \<and> c \<noteq> sep"
  by (induction s arbitrary: w) (fastforce split: list.splits if_splits)+

lemma Split_no_sep: "sep \<notin> set s \<Longrightarrow> Split sep s = [s]"
  by (induction s) auto

lemma Split_append_sep: "Split sep (xs @ sep # ys) = Split sep xs @ Split sep ys"
  by (induction xs) (auto split: list.splits)

text \<open>The UTF-8 encodings of the runes that unicode.IsSpace accepts.\<close>

definition space_runes :: "string list" where
  "space_runes =
     [[CHR 0x09], [CHR 0x0A], [CHR 0x0B], [CHR 0x0C], [CHR 0x0D], [CHR 0x20], [CHR 0xC2, CHR 0x85],
      [CHR 0xC2, CHR 0xA0], [CHR 0xE1, CHR 0x9A, CHR 0x80], [CHR 0xE2, CHR 0x80, CHR 0x80],
      [CHR 0xE2, CHR 0x80, CHR 0x81], [CHR 0xE2, CHR 0x80, CHR 0x82],
      [CHR 0xE2, CHR 0x80, CHR 0x83], [CHR 0xE2, CHR 0x80, CHR 0x84],
      [CHR 0xE2, CHR 0x80, CHR 0x85], [CHR 0xE2, CHR 0x80, CHR 0x86],
      [CHR 0xE2, CHR 0x80, CHR 0x87], [CHR 0xE2, CHR 0x80, CHR 0x88],
      [CHR 0xE2, CHR 0x80, CHR 0x89], [CHR 0xE2, CHR 0x80, CHR 0x8A],
      [CHR 0xE2, CHR 0x80, CHR 0xA8], [CHR 0xE2, CHR 0x80, CHR 0xA9],
      [CHR 0xE2, CHR 0x80, CHR 0xAF], [CHR 0xE2, CHR 0x81, CHR 0x9F],
      [CHR 0xE3, CHR 0x80, CHR 0x80]]"

text \<open>\<open>trim_left rs\<close> drops the runes of \<open>rs\<close> from the front, as often as one is there.\<close>

function trim_left :: "string list \<Rightarrow> string \<Rightarrow> string" where
  "trim_left rs s =
     (case filter (\<lambda>r. r \<noteq> [] \<and> prefix r s) rs of
        [] \<Rightarrow> s
      | r # _ \<Rightarrow> trim_left rs (drop (length r) s))"
  by pat_completeness auto
termination
proof (relation "measure (\<lambda>(rs, s). length s)", goal_cases)
  case (2 rs s r rest)
  then have "r \<in> set (filter (\<lambda>r. r \<noteq> [] \<and> prefix r s) rs)" by simp
  then have "r \<noteq> []" and "prefix r s" by auto
  then show ?case by (auto simp: prefix_def)
qed simp

declare trim_left.simps [simp del]

definition TrimSpace :: "string \<Rightarrow> string" where
  "TrimSpace s = rev (trim_left (map rev space_runes) (rev (trim_left space_runes s)))"

lemma trim_left_suffix: "suffix (trim_left rs s) s"
proof (induction rs s rule: trim_left.induct)
  case (1 rs s)
  show ?case
    by (subst trim_left.simps) (auto split: list.split intro: suffix_order.trans [OF "1.IH"] suffix_drop)
qed

lemma length_trim_left: "length (trim_left rs s) \<le> length s"
  using trim_left_suffix by (rule suffix_length_le)

lemma length_TrimSpace: "length (TrimSpace s) \<le> length s"
  unfolding TrimSpace_def length_rev
  by (rule order_trans [OF length_trim_left]) (simp add: length_trim_left)

lemma set_TrimSpace: "set (TrimSpace s) \<subseteq> set s"
  unfolding TrimSpace_def set_rev
  by (rule order_trans [OF set_mono_suffix [OF trim_left_suffix]])
    (simp add: set_mono_suffix [OF trim_left_suffix])

lemma trim_left_idem: "trim_left rs (trim_left rs s) = trim_left rs s"
proof (induction rs s rule: trim_left.induct)
  case (1 rs s)
  show ?case
  proof (cases "filter (\<lambda>r. r \<noteq> [] \<and> prefix r s) rs")
    case Nil
    then have "trim_left rs s = s" by (subst trim_left.simps) simp
    then show ?thesis by simp
  next
    case (Cons r rest)
    then have "trim_left rs s = trim_left rs (drop (length r) s)"
      by (subst trim_left.simps) simp
    with "1.IH" [OF Cons] show ?thesis by simp
  qed
qed

lemma trim_left_stuck: "r \<in> set rs \<Longrightarrow> r \<noteq> [] \<Longrightarrow> \<not> prefix r (trim_left rs s)"
proof (induction rs s rule: trim_left.induct)
  case (1 rs s)
  show ?case
  proof (cases "filter (\<lambda>r. r \<noteq> [] \<and> prefix r s) rs")
    case Nil
    then have "trim_left rs s = s" by (subst trim_left.simps) simp
    then show ?thesis using Nil "1.prems" by (auto simp: filter_empty_conv)
  next
    case (Cons r' rest)
    then have "trim_left rs s = trim_left rs (drop (length r') s)" by (subst trim_left.simps) simp
    with "1.IH" [OF Cons] "1.prems" show ?thesis by simp
  qed
qed

lemma trim_left_fixed:
  assumes "\<And>r. r \<in> set rs \<Longrightarrow> r \<noteq> [] \<Longrightarrow> \<not> prefix r s"
  shows "trim_left rs s = s"
proof -
  have "filter (\<lambda>r. r \<noteq> [] \<and> prefix r s) rs = []" using assms by (auto simp: filter_empty_conv)
  then show ?thesis by (subst trim_left.simps) simp
qed

lemma TrimSpace_idem [simp]: "TrimSpace (TrimSpace s) = TrimSpace s"
proof -
  define t where "t = trim_left space_runes s"
  define u where "u = trim_left (map rev space_runes) (rev t)"
  have "prefix (rev u) t"
    using trim_left_suffix [of "map rev space_runes" "rev t"] by (simp add: u_def suffix_to_prefix)
  then have "trim_left space_runes (rev u) = rev u"
    using trim_left_stuck [of _ space_runes s] prefix_order.trans unfolding t_def by (intro trim_left_fixed) blast
  then have "TrimSpace (rev u) = rev u" by (simp add: TrimSpace_def) (simp add: u_def trim_left_idem)
  then show ?thesis by (simp add: TrimSpace_def t_def u_def)
qed

subsection \<open>UTF-8 and control characters\<close>

definition in_range :: "nat \<Rightarrow> nat \<Rightarrow> char \<Rightarrow> bool" where
  "in_range lo hi c = (lo \<le> of_char c \<and> of_char c \<le> hi)"

abbreviation cont :: "char \<Rightarrow> bool" where "cont \<equiv> in_range 0x80 0xBF"

text \<open>
  utf8.ValidString: \<open>rune_len s\<close> is the length of the encoded rune \<open>s\<close> starts with, 0 when it
  starts with none.
\<close>

definition rune_len :: "string \<Rightarrow> nat" where
  "rune_len s = (case s of [] \<Rightarrow> 0 | a # s1 \<Rightarrow>
     if in_range 0 0x7F a then 1
     else case s1 of [] \<Rightarrow> 0 | b # s2 \<Rightarrow>
     if in_range 0xC2 0xDF a then (if cont b then 2 else 0)
     else case s2 of [] \<Rightarrow> 0 | c # s3 \<Rightarrow>
     if in_range 0xE0 0xEF a then
       (if in_range (if a = CHR 0xE0 then 0xA0 else 0x80) (if a = CHR 0xED then 0x9F else 0xBF) b
           \<and> cont c then 3 else 0)
     else case s3 of [] \<Rightarrow> 0 | d # _ \<Rightarrow>
     if in_range 0xF0 0xF4 a
        \<and> in_range (if a = CHR 0xF0 then 0x90 else 0x80) (if a = CHR 0xF4 then 0x8F else 0xBF) b
        \<and> cont c \<and> cont d then 4 else 0)"

function ValidString :: "string \<Rightarrow> bool" where
  "ValidString s = (if s = [] then True else if rune_len s = 0 then False else ValidString (drop (rune_len s) s))"
  by pat_completeness auto
termination by (relation "measure length") auto
declare ValidString.simps [simp del]

lemma not_cont_slash [simp]: "\<not> cont (CHR ''/'')" "\<not> in_range (if P then 0xA0 else 0x80) n (CHR ''/'')"
   "\<not> in_range (if P then 0x90 else 0x80) n (CHR ''/'')"
  by (simp_all add: in_range_def)

lemma rune_len_snoc:
  assumes "s \<noteq> []" "rune_len (s @ ''/'') \<noteq> 0"
  shows "rune_len s = rune_len (s @ ''/'')"
  using assms
  unfolding rune_len_def
  by (cases s; cases "tl s"; cases "tl (tl s)"; cases "tl (tl (tl s))") (simp_all split: if_splits)

lemma rune_len_le: "rune_len s \<le> length s"
  by (auto simp: rune_len_def split: list.split)

lemma ValidString_snoc_slash: "ValidString (s @ ''/'') \<Longrightarrow> ValidString s"
proof (induction "length s" arbitrary: s rule: less_induct)
  case less
  show ?case
  proof (cases "s = []")
    case True then show ?thesis by (subst ValidString.simps) simp
  next
    case False
    have *: "rune_len (s @ ''/'') \<noteq> 0 \<and> ValidString (drop (rune_len (s @ ''/'')) (s @ ''/''))"
      using less.prems ValidString.simps [of "s @ ''/''"] by (auto split: if_splits)
    then have len: "rune_len s = rune_len (s @ ''/'')" using False by (simp add: rune_len_snoc)
    with * rune_len_le [of s] have "ValidString (drop (rune_len s) s @ ''/'')" by simp
    then have "ValidString (drop (rune_len s) s)" using less.hyps False len * by simp
    with * len show ?thesis by (subst ValidString.simps) simp
  qed
qed
text \<open>
  A rune is a control character when it is below 0x20 or in 0x7F-0x9F; the latter
  range is encoded as the byte 0x7F or as 0xC2 followed by a byte in 0x80-0x9F.
\<close>

fun containsControl :: "string \<Rightarrow> bool" where
  "containsControl [] = False"
| "containsControl (a # s) =
     (in_range 0 0x1F a \<or> a = CHR 0x7F
      \<or> a = CHR 0xC2 \<and> (case s of [] \<Rightarrow> False | b # _ \<Rightarrow> in_range 0x80 0x9F b)
      \<or> containsControl s)"

subsection \<open>Decimal numbers\<close>

definition digit_val :: "char \<Rightarrow> nat" where
  "digit_val c = of_char c - 48"

definition dec_val :: "string \<Rightarrow> nat" where
  "dec_val s = foldl (\<lambda>n c. 10 * n + digit_val c) 0 s"

fun dec :: "nat \<Rightarrow> string" where
  "dec n = (if n < 10 then [char_of (48 + n)] else dec (n div 10) @ [char_of (48 + n mod 10)])"

declare dec.simps [simp del]

lemma digit_val_char_of: "n < 10 \<Longrightarrow> digit_val (char_of (48 + n)) = n"
  by (simp add: digit_val_def)

lemma dec_val_dec: "dec_val (dec n) = n"
proof (induction n rule: dec.induct)
  case (1 n)
  show ?case
  proof (cases "n < 10")
    case True
    then show ?thesis by (subst dec.simps) (simp add: dec_val_def digit_val_char_of)
  next
    case False
    with "1.IH" have "dec_val (dec (n div 10)) = n div 10" by simp
    with False show ?thesis
      by (subst dec.simps) (simp add: dec_val_def digit_val_char_of)
  qed
qed

lemma dec_inject: "dec m = dec n \<longleftrightarrow> m = n"
  by (metis dec_val_dec)

lemma containsControl_append: "containsControl s \<Longrightarrow> containsControl (s @ t)"
proof (induction s)
  case (Cons a s)
  show ?case
  proof (cases s)
    case Nil
    with Cons show ?thesis by (auto simp del: char_of_eq_iff)
  next
    case (Cons b s')
    with Cons.prems Cons.IH show ?thesis by simp metis
  qed
qed simp

lemma trim_left_id:
  assumes "\<forall>r \<in> set rs. r = [] \<or> \<not> P (hd r)" "s = [] \<or> P (hd s)"
  shows "trim_left rs s = s"
proof -
  have "filter (\<lambda>r. r \<noteq> [] \<and> prefix r s) rs = []"
    using assms by (auto simp: filter_empty_conv prefix_def)
  then show ?thesis by (subst trim_left.simps) simp
qed

lemma space_runes_printable: "\<forall>r \<in> set space_runes. \<not> in_range 0x21 0x7E (hd r) \<and> \<not> in_range 0x21 0x7E (last r) \<and> r \<noteq> []"
  by (simp add: space_runes_def in_range_def)

lemma TrimSpace_printable:
  assumes "list_all (in_range 0x21 0x7E) s"
  shows "TrimSpace s = s"
proof -
  have "trim_left space_runes s = s"
    using assms space_runes_printable by (intro trim_left_id [where P = "in_range 0x21 0x7E"]) (cases s; auto)+
  moreover have "trim_left (map rev space_runes) (rev s) = rev s"
    using assms space_runes_printable
    by (intro trim_left_id [where P = "in_range 0x21 0x7E"]) (cases "s = []"; auto simp: hd_rev list_all_iff)+
  ultimately show ?thesis by (simp add: TrimSpace_def)
qed

lemma ValidString_ascii: "list_all (in_range 0 0x7F) s \<Longrightarrow> ValidString s"
proof (induction s)
  case Nil
  then show ?case by (subst ValidString.simps) simp
next
  case (Cons a s)
  then have "rune_len (a # s) = 1" by (simp add: rune_len_def)
  with Cons show ?case by (subst ValidString.simps) simp
qed

lemma containsControl_printable: "list_all (in_range 0x20 0x7E) s \<Longrightarrow> \<not> containsControl s"
  by (induction s) (auto simp: in_range_def)
text \<open>What evaluates the string functions on concrete ASCII texts.\<close>

lemmas string_eval = TrimSpace_printable ValidString_ascii containsControl_printable
  in_range_def char_classes ContainsAny_def TrimSuffix_def ToLower_def ascii_lower_char_def suffix_def

section \<open>Identifier patterns\<close>

text \<open>
  Patterns of the shape \<open>^[first][rest]{0,n}$\<close>, which most of the sources' regular
  expressions are (Go's \<open>$\<close> matches only at the end of the text).
\<close>

definition ident :: "(char \<Rightarrow> bool) \<Rightarrow> (char \<Rightarrow> bool) \<Rightarrow> nat \<Rightarrow> string \<Rightarrow> bool" where
  "ident first rest n s = (case s of [] \<Rightarrow> False | c # cs \<Rightarrow> first c \<and> list_all rest cs \<and> length cs \<le> n)"

text \<open>\<open>^[A-Za-z0-9][A-Za-z0-9._:-]{0,127}$\<close>\<close>

definition opaqueID :: "string \<Rightarrow> bool" where
  "opaqueID = ident is_alnum (\<lambda>c. is_alnum c \<or> c \<in> set ''._:-'') 127"

text \<open>\<open>^[0-9a-f]{64}$\<close>\<close>

definition hash64 :: "string \<Rightarrow> bool" where
  "hash64 s = (length s = 64 \<and> list_all is_hex_lower s)"

lemma ident_nonempty: "ident f r n s \<Longrightarrow> s \<noteq> []"
  by (auto simp: ident_def)

lemma opaqueID_nonempty: "opaqueID s \<Longrightarrow> s \<noteq> []"
  by (auto simp: opaqueID_def dest: ident_nonempty)

lemma opaqueID_length: "opaqueID s \<Longrightarrow> length s \<le> 128"
  by (auto simp: opaqueID_def ident_def split: list.splits)

lemma hash64_nonempty: "hash64 s \<Longrightarrow> s \<noteq> []"
  by (auto simp: hash64_def)

lemma opaqueID_no_nul: "opaqueID s \<Longrightarrow> CHR 0x00 \<notin> set s"
  by (auto simp: opaqueID_def ident_def char_classes list_all_iff less_eq_char_def split: list.splits)

lemma opaqueID_hash64: "opaqueID (replicate 64 (CHR ''a''))" "hash64 (replicate 64 (CHR ''a''))"
  by (simp_all add: opaqueID_def hash64_def ident_def char_classes numeral_eq_Suc)

section \<open>Sorting\<close>

lemma sorted_map_sort_key: "sorted (map f (sort_key f xs))"
  by (rule sorted_sort_key)

lemma sort_key_idem: "sort_key f (sort_key f xs) = sort_key f xs"
  by (rule sort_key_id_if_sorted) (rule sorted_sort_key)

lemma sort_sorted_id: "sorted xs \<Longrightarrow> sort xs = xs"
  by (rule sorted_sort_id)

lemma sort_key_mset_eq:
  assumes "mset xs = mset ys" "distinct (map f xs)"
  shows "sort_key f xs = sort_key f ys"
  using assms by (intro sort_key_inj_key_eq) (auto simp: distinct_map)

lemma distinct_map_sort_key [simp]: "distinct (map f (sort_key f xs)) \<longleftrightarrow> distinct (map f xs)"
  by (metis distinct_map distinct_sort set_sort)

lemma sort_key_Nil [simp]: "sort_key f xs = [] \<longleftrightarrow> xs = []"
  by (metis length_0_conv length_sort)

end
