(* ===== verification/Exposure.thy ===== *)
theory Exposure
  imports Prelude
begin

text \<open>
  The external exposure contract, contracts/go/exposurev1/types.go: hostname and path
  normalisation, the shape checks, canonicalisation with its hash check, and the route
  conflict relations. json.Marshal followed by SHA-256 in hexadecimal is the parameter
  \<open>h\<close> of the definitions (None: the encoder fails). Go slices are values here: the code
  normalises \<open>AdditionalPaths\<close> in place, which callers cannot tell apart from a copy once
  canonicalisation has succeeded, because it is idempotent.
\<close>

section \<open>Data\<close>

definition SchemaVersion_exposure :: string where
  "SchemaVersion_exposure = ''opsi.exposure_spec/v1''"

definition MaxPathBytes :: nat where "MaxPathBytes = 2048"
definition MaxAdditionalPaths :: nat where "MaxAdditionalPaths = 15"

record ValidationError =
  ve_Code :: string
  ve_Field :: string
  ve_Message :: string

record TLSConfig =
  tls_Mode :: string
  tls_SecretReference :: string

record Metadata =
  md_DisplayName :: string
  md_Rationale :: string

record ExposureSpec =
  ex_SchemaVersion :: string
  ex_ProjectID :: string
  ex_EnvironmentID :: string
  ex_RuntimeID :: string
  ex_ServiceKey :: string
  ex_DeploymentJobID :: string
  ex_Hostname :: string
  ex_Path :: string
  ex_AdditionalPaths :: "string list"
  ex_ServicePort :: int
  ex_TLS :: TLSConfig
  ex_Metadata :: "Metadata option"
  ex_SpecHash :: string

text \<open>The zero value \<open>ExposureSpec{}\<close>.\<close>

definition zero_ExposureSpec :: ExposureSpec where
  "zero_ExposureSpec = \<lparr>ex_SchemaVersion = [], ex_ProjectID = [], ex_EnvironmentID = [],
     ex_RuntimeID = [], ex_ServiceKey = [], ex_DeploymentJobID = [], ex_Hostname = [], ex_Path = [],
     ex_AdditionalPaths = [], ex_ServicePort = 0, ex_TLS = \<lparr>tls_Mode = [], tls_SecretReference = []\<rparr>,
     ex_Metadata = None, ex_SpecHash = []\<rparr>"

definition validationError :: "string \<Rightarrow> string \<Rightarrow> string \<Rightarrow> ValidationError" where
  "validationError code field message = \<lparr>ve_Code = code, ve_Field = field, ve_Message = message\<rparr>"

definition CodeInvalidSchemaVersion :: string where "CodeInvalidSchemaVersion = ''EXPOSURE_INVALID_SCHEMA_VERSION''"
definition CodeInvalidIdentity :: string where "CodeInvalidIdentity = ''EXPOSURE_INVALID_IDENTITY''"
definition CodeInvalidHostname :: string where "CodeInvalidHostname = ''EXPOSURE_INVALID_HOSTNAME''"
definition CodeInvalidPath :: string where "CodeInvalidPath = ''EXPOSURE_INVALID_PATH''"
definition CodeInvalidPort :: string where "CodeInvalidPort = ''EXPOSURE_INVALID_SERVICE_PORT''"
definition CodeInvalidTLS :: string where "CodeInvalidTLS = ''EXPOSURE_INVALID_TLS''"
definition CodeInvalidMetadata :: string where "CodeInvalidMetadata = ''EXPOSURE_INVALID_METADATA''"
definition CodeSpecHashMismatch :: string where "CodeSpecHashMismatch = ''EXPOSURE_SPEC_HASH_MISMATCH''"

section \<open>Hostnames and paths\<close>

text \<open>
  net.ParseIP on a text without a colon: four decimal fields, each at most 255 and
  without a leading zero.
\<close>

definition ipv4_field :: "string \<Rightarrow> bool" where
  "ipv4_field w = (w \<noteq> [] \<and> list_all is_digit w \<and> (length w = 1 \<or> hd w \<noteq> CHR ''0'') \<and> dec_val w \<le> 255)"

definition parses_ipv4 :: "string \<Rightarrow> bool" where
  "parses_ipv4 s = (let ws = Split (CHR ''.'') s in length ws = 4 \<and> list_all ipv4_field ws)"

definition hostname_char :: "char \<Rightarrow> bool" where
  "hostname_char c = (is_lower c \<or> is_digit c \<or> c = CHR ''-'')"

definition label_shape_bad :: "string \<Rightarrow> bool" where
  "label_shape_bad w = (w = [] \<or> 63 < length w \<or> hd w = CHR ''-'' \<or> last w = CHR ''-'')"

definition label_error :: "string \<Rightarrow> ValidationError option" where
  "label_error w = first_failure
     [(label_shape_bad w,
         validationError CodeInvalidHostname ''hostname'' ''hostname contains an empty or oversized DNS label''),
      (\<not> list_all hostname_char w,
         validationError CodeInvalidHostname ''hostname'' ''hostname contains an invalid DNS character'')]"

definition NormalizeHostname :: "string \<Rightarrow> ValidationError + string" where
  "NormalizeHostname value =
     (let hostname = ToLower value in
      case or_else (first_failure
       [(value = [] \<or> 253 < length value,
           validationError CodeInvalidHostname ''hostname'' ''hostname length is outside DNS bounds''),
        (\<not> list_all (in_range 0 0x7F) value,
           validationError CodeInvalidHostname ''hostname'' ''Unicode and IDNA hostnames are not supported''),
        (hostname \<noteq> TrimSpace hostname \<or> HasPrefix hostname ''.'' \<or> HasSuffix hostname ''.'',
           validationError CodeInvalidHostname ''hostname'' ''hostname must not contain whitespace or a leading/trailing dot''),
        (ContainsAny hostname ''/:?#*'' \<or> parses_ipv4 hostname \<or> hostname = ''localhost'' \<or> HasSuffix hostname ''.localhost'',
           validationError CodeInvalidHostname ''hostname'' ''hostname must be a non-local DNS name without scheme, port, path, or wildcard'')])
        (first_error label_error (Split (CHR ''.'') hostname)) of
        Some e \<Rightarrow> Inl e
      | None \<Rightarrow> Inr hostname)"

definition NormalizePath :: "string \<Rightarrow> ValidationError + string" where
  "NormalizePath value =
     (case first_failure
       [(value = [] \<or> MaxPathBytes < length value \<or> \<not> ValidString value,
           validationError CodeInvalidPath ''path'' ''path must be valid UTF-8 within the allowed bound''),
        (\<not> HasPrefix value ''/'' \<or> Contains value ''//'' \<or> ContainsAny value (CHR 0x5C # ''?#%'') \<or> containsControl value,
           validationError CodeInvalidPath ''path'' ''path must be absolute and must not contain query, fragment, backslash, percent encoding, repeated slash, or control characters''),
        (list_ex (\<lambda>segment. segment = ''.'' \<or> segment = ''..'') (Split (CHR ''/'') value),
           validationError CodeInvalidPath ''path'' ''dot path segments are not allowed'')] of
        Some e \<Rightarrow> Inl e
      | None \<Rightarrow> Inr (if value \<noteq> ''/'' \<and> HasSuffix value ''/'' then TrimSuffix value ''/'' else value))"

text \<open>PathsConflict: Kubernetes Prefix path-component semantics.\<close>

definition PathsConflict :: "string \<Rightarrow> string \<Rightarrow> bool" where
  "PathsConflict first second =
     (first = ''/'' \<or> second = ''/'' \<or> first = second
      \<or> HasPrefix first (second @ ''/'') \<or> HasPrefix second (first @ ''/''))"

definition ManagedPathsConflict :: "string \<Rightarrow> string \<Rightarrow> bool" where
  "ManagedPathsConflict first second = (first = second)"

section \<open>The specification\<close>

definition identity_error :: "string \<times> string \<Rightarrow> ValidationError option" where
  "identity_error = (\<lambda>(field, value).
     if opaqueID value then None
     else Some (validationError CodeInvalidIdentity field ''identity must be an opaque bounded identifier''))"

definition tls_error :: "TLSConfig \<Rightarrow> ValidationError option" where
  "tls_error t =
     (if tls_Mode t = ''disabled'' then
        (if tls_SecretReference t \<noteq> []
         then Some (validationError CodeInvalidTLS ''tls.secret_ref'' ''disabled TLS must not include a secret reference'')
         else None)
      else if tls_Mode t = ''secret_ref'' then
        (if \<not> opaqueID (tls_SecretReference t)
         then Some (validationError CodeInvalidTLS ''tls.secret_ref'' ''TLS secret reference must be an opaque bounded identifier'')
         else None)
      else Some (validationError CodeInvalidTLS ''tls.mode'' ''TLS mode must be disabled or secret_ref''))"

definition metadata_error :: "Metadata option \<Rightarrow> ValidationError option" where
  "metadata_error m = (case m of None \<Rightarrow> None | Some md \<Rightarrow>
     if 128 < length (md_DisplayName md) \<or> 512 < length (md_Rationale md)
        \<or> containsControl (md_DisplayName md) \<or> containsControl (md_Rationale md)
     then Some (validationError CodeInvalidMetadata ''metadata'' ''display metadata exceeds its bound or contains control characters'')
     else None)"

definition validateShape :: "ExposureSpec \<Rightarrow> ValidationError option" where
  "validateShape s =
     or_else (if ex_SchemaVersion s \<noteq> SchemaVersion_exposure
              then Some (validationError CodeInvalidSchemaVersion ''schema_version'' ''unsupported ExposureSpec schema version'')
              else None)
    (or_else (first_error identity_error
                [(''project_id'', ex_ProjectID s), (''environment_id'', ex_EnvironmentID s),
                 (''runtime_id'', ex_RuntimeID s), (''service_key'', ex_ServiceKey s),
                 (''deployment_job_id'', ex_DeploymentJobID s)])
    (or_else (if ex_ServicePort s < 1 \<or> 65535 < ex_ServicePort s
              then Some (validationError CodeInvalidPort ''service_port'' ''service_port must be between 1 and 65535'')
              else None)
    (or_else (tls_error (ex_TLS s))
             (metadata_error (ex_Metadata s)))))"

type_synonym exposure_hash = "ExposureSpec \<Rightarrow> string option"

definition RuntimeHash :: "exposure_hash \<Rightarrow> ExposureSpec \<Rightarrow> string option" where
  "RuntimeHash h s = h (s\<lparr>ex_SpecHash := [], ex_Metadata := None\<rparr>)"

definition legacyHash :: "exposure_hash \<Rightarrow> ExposureSpec \<Rightarrow> string option" where
  "legacyHash h s = h (s\<lparr>ex_SpecHash := []\<rparr>)"

definition hash_failure :: ValidationError where \<comment> \<open>json.Marshal failed\<close>
  "hash_failure = validationError [] [] ''marshal runtime ExposureSpec''"

fun canonical_paths :: "nat \<Rightarrow> string list \<Rightarrow> string list \<Rightarrow> ValidationError + string list" where
  "canonical_paths index seenPaths [] = Inr []"
| "canonical_paths index seenPaths (additionalPath # rest) =
     (case NormalizePath additionalPath of
        Inl _ \<Rightarrow> Inl (validationError CodeInvalidPath (''additional_paths['' @ dec index @ '']'') ''additional exposure path is invalid'')
      | Inr canonical \<Rightarrow>
          if canonical \<in> set seenPaths
          then Inl (validationError CodeInvalidPath (''additional_paths['' @ dec index @ '']'') ''exposure paths must be unique'')
          else (case canonical_paths (Suc index) (canonical # seenPaths) rest of
                  Inl e \<Rightarrow> Inl e
                | Inr canonicals \<Rightarrow> Inr (canonical # canonicals)))"

definition drop_empty_metadata :: "Metadata option \<Rightarrow> Metadata option" where
  "drop_empty_metadata m = (case m of None \<Rightarrow> None | Some md \<Rightarrow>
     if md_DisplayName md = [] \<and> md_Rationale md = [] then None else Some md)"

text \<open>The normalising part of Canonicalize, before the hash is checked.\<close>

definition normalize_spec :: "ExposureSpec \<Rightarrow> ValidationError + ExposureSpec" where
  "normalize_spec s =
     (case NormalizeHostname (ex_Hostname s) of Inl e \<Rightarrow> Inl e | Inr hostname \<Rightarrow>
      case NormalizePath (ex_Path s) of Inl e \<Rightarrow> Inl e | Inr canonicalPath \<Rightarrow>
      if MaxAdditionalPaths < length (ex_AdditionalPaths s)
      then Inl (validationError CodeInvalidPath ''additional_paths'' ''too many additional exposure paths'')
      else case canonical_paths 0 [canonicalPath] (ex_AdditionalPaths s) of Inl e \<Rightarrow> Inl e | Inr paths \<Rightarrow>
      let out = s\<lparr>ex_Hostname := hostname, ex_Path := canonicalPath, ex_AdditionalPaths := sort paths,
                  ex_Metadata := drop_empty_metadata (ex_Metadata s)\<rparr>
      in case validateShape out of Some e \<Rightarrow> Inl e | None \<Rightarrow> Inr out)"

definition Canonicalize_exposure :: "exposure_hash \<Rightarrow> ExposureSpec \<Rightarrow> ValidationError + ExposureSpec" where
  "Canonicalize_exposure h s =
     (case normalize_spec s of Inl e \<Rightarrow> Inl e | Inr out \<Rightarrow>
      case RuntimeHash h out of None \<Rightarrow> Inl hash_failure | Some hash \<Rightarrow>
      if ex_SpecHash s \<noteq> [] \<and> ex_SpecHash s \<noteq> hash \<and> legacyHash h out \<noteq> Some (ex_SpecHash s)
      then Inl (validationError CodeSpecHashMismatch ''spec_hash'' ''spec_hash does not match the canonical contract'')
      else Inr (out\<lparr>ex_SpecHash := hash\<rparr>))"

definition Validate_exposure :: "exposure_hash \<Rightarrow> ExposureSpec \<Rightarrow> ValidationError option" where
  "Validate_exposure h s =
     (if ex_SpecHash s = [] then Some (validationError CodeSpecHashMismatch ''spec_hash'' ''spec_hash is required'')
      else case Canonicalize_exposure h s of Inl e \<Rightarrow> Some e | Inr _ \<Rightarrow> None)"

definition Hash_exposure :: "exposure_hash \<Rightarrow> ExposureSpec \<Rightarrow> ValidationError + string" where
  "Hash_exposure h s = map_sum id ex_SpecHash (Canonicalize_exposure h s)"

definition RoutePaths :: "exposure_hash \<Rightarrow> ExposureSpec \<Rightarrow> ValidationError + string list" where
  "RoutePaths h s = map_sum id (\<lambda>c. ex_Path c # ex_AdditionalPaths c) (Canonicalize_exposure h s)"

section \<open>Hostnames\<close>

lemma ToLower_idem [simp]: "ToLower (ToLower s) = ToLower s"
  by (simp add: ToLower_def)

lemma length_ToLower [simp]: "length (ToLower s) = length s"
  by (simp add: ToLower_def)

lemma ToLower_eq_Nil [simp]: "ToLower s = [] \<longleftrightarrow> s = []"
  by (simp add: ToLower_def)

lemma hostname_char_ascii: "hostname_char c \<or> c = CHR ''.'' \<Longrightarrow> in_range 0 0x7F c"
  by (auto simp: hostname_char_def char_classes in_range_def less_eq_char_def)

lemma label_error_None:
  "label_error w = None \<longleftrightarrow>
     w \<noteq> [] \<and> length w \<le> 63 \<and> hd w \<noteq> CHR ''-'' \<and> last w \<noteq> CHR ''-'' \<and> list_all hostname_char w"
  by (auto simp: label_error_def label_shape_bad_def)

lemma Split_all:
  "(\<forall>w \<in> set (Split sep s). list_all P w) \<Longrightarrow> list_all (\<lambda>c. P c \<or> c = sep) s"
proof (induction s)
  case (Cons c s)
  show ?case
  proof (cases "c = sep")
    case False
    obtain w ws where "Split sep s = w # ws" by (cases "Split sep s") auto
    with False Cons show ?thesis by auto
  qed (use Cons in auto)
qed simp

lemma NormalizeHostname_Inr:
  "NormalizeHostname value = Inr h \<longleftrightarrow>
     h = ToLower value \<and> value \<noteq> [] \<and> length value \<le> 253 \<and> list_all (in_range 0 0x7F) value
     \<and> h = TrimSpace h \<and> \<not> HasPrefix h ''.'' \<and> \<not> HasSuffix h ''.'' \<and> \<not> ContainsAny h ''/:?#*''
     \<and> \<not> parses_ipv4 h \<and> h \<noteq> ''localhost'' \<and> \<not> HasSuffix h ''.localhost''
     \<and> (\<forall>w \<in> set (Split (CHR ''.'') h). label_error w = None)"
  unfolding NormalizeHostname_def Let_def
  by (auto simp: first_failure_None first_error_None [symmetric] not_less split: option.splits)

lemma NormalizeHostname_ascii:
  assumes "\<forall>w \<in> set (Split (CHR ''.'') h). label_error w = None"
  shows "list_all (in_range 0 0x7F) h"
proof -
  from assms have "\<forall>w \<in> set (Split (CHR ''.'') h). list_all hostname_char w"
    by (simp add: label_error_None)
  then have "list_all (\<lambda>c. hostname_char c \<or> c = CHR ''.'') h" by (rule Split_all)
  then show ?thesis by (rule list.pred_mono_strong) (rule hostname_char_ascii)
qed

lemma NormalizeHostname_idem:
  assumes "NormalizeHostname value = Inr h"
  shows "NormalizeHostname h = Inr h"
  using assms NormalizeHostname_ascii [of h] unfolding NormalizeHostname_Inr
  by auto

section \<open>Paths\<close>

lemma NormalizePath_Inr:
  "NormalizePath value = Inr p \<longleftrightarrow>
     value \<noteq> [] \<and> length value \<le> MaxPathBytes \<and> ValidString value \<and> HasPrefix value ''/''
     \<and> \<not> Contains value ''//'' \<and> \<not> ContainsAny value (CHR 0x5C # ''?#%'') \<and> \<not> containsControl value
     \<and> (\<forall>segment \<in> set (Split (CHR ''/'') value). segment \<noteq> ''.'' \<and> segment \<noteq> ''..'')
     \<and> p = (if value \<noteq> ''/'' \<and> HasSuffix value ''/'' then TrimSuffix value ''/'' else value)"
  unfolding NormalizePath_def
  by (auto simp: first_failure_None not_less list_ex_iff split: option.splits)

lemma TrimSuffix_append [simp]: "TrimSuffix (s @ t) t = s"
  by (auto simp: TrimSuffix_def suffix_def)

lemma NormalizePath_cases:
  assumes "NormalizePath value = Inr p"
  obtains "value = p" "p = ''/'' \<or> \<not> HasSuffix p ''/''" | "value = p @ ''/''" "p \<noteq> []"
proof (cases "value \<noteq> ''/'' \<and> HasSuffix value ''/''")
  case True
  then obtain q where q: "value = q @ ''/''" by (auto simp: suffix_def)
  with True assms have "p = q" by (simp add: NormalizePath_Inr)
  moreover have "q \<noteq> []" using True q by auto
  ultimately show ?thesis using that(2) q by simp
next
  case False
  with assms have "value = p" by (auto simp: NormalizePath_Inr)
  with False show ?thesis using that(1) by auto
qed

lemma NormalizePath_shape:
  assumes "NormalizePath value = Inr p"
  shows "HasPrefix p ''/'' \<and> (p = ''/'' \<or> \<not> HasSuffix p ''/'')"
  using assms
proof (cases rule: NormalizePath_cases)
  case 1
  with assms show ?thesis by (auto simp: NormalizePath_Inr)
next
  case 2
  from assms 2 have "HasPrefix (p @ ''/'') ''/''" "\<not> Contains (p @ ''/'') ''//''"
    by (auto simp: NormalizePath_Inr)
  moreover have "\<not> HasSuffix p ''/''"
  proof
    assume "HasSuffix p ''/''"
    then obtain q where "p = q @ ''/''" by (auto simp: suffix_def)
    then have "sublist ''//'' (p @ ''/'')" by (auto simp: sublist_def)
    with calculation(2) show False by (simp add: Contains_sublist)
  qed
  ultimately show ?thesis using 2 by (cases p) auto
qed

lemma NormalizePath_idem:
  assumes "NormalizePath value = Inr p"
  shows "NormalizePath p = Inr p"
  using assms
proof (cases rule: NormalizePath_cases)
  case 1
  with assms show ?thesis by simp
next
  case 2
  from assms 2(1) have ok: "length (p @ ''/'') \<le> MaxPathBytes" "ValidString (p @ ''/'')"
      "\<not> Contains (p @ ''/'') ''//''" "\<not> ContainsAny (p @ ''/'') (CHR 0x5C # ''?#%'')"
      "\<not> containsControl (p @ ''/'')"
      "\<forall>segment \<in> set (Split (CHR ''/'') (p @ ''/'')). segment \<noteq> ''.'' \<and> segment \<noteq> ''..''"
    by (simp_all add: NormalizePath_Inr)
  have "\<not> Contains p ''//''"
    using ok(3) by (auto simp: Contains_sublist sublist_append)
  moreover have "\<not> ContainsAny p (CHR 0x5C # ''?#%'')" using ok(4) by (auto simp: ContainsAny_def)
  moreover have "\<forall>segment \<in> set (Split (CHR ''/'') p). segment \<noteq> ''.'' \<and> segment \<noteq> ''..''"
    using ok(6) by (simp add: Split_append_sep)
  ultimately show ?thesis
    using 2(2) ok(1,2,5) NormalizePath_shape [OF assms] containsControl_append [of p "''/''"]
    by (auto simp: NormalizePath_Inr dest: ValidString_snoc_slash)
qed

subsection \<open>Route conflicts are conflicts of path components\<close>

text \<open>The components of a canonical path: none for the root.\<close>

definition components :: "string \<Rightarrow> string list" where
  "components p = (if p = ''/'' then [] else tl (Split (CHR ''/'') p))"

definition closed_with :: "char \<Rightarrow> string list \<Rightarrow> string" where
  "closed_with sep ws = concat (map (\<lambda>w. w @ [sep]) ws)"

lemma closed_with_Split: "closed_with sep (Split sep s) = s @ [sep]"
  by (induction s) (auto simp: closed_with_def split: list.splits)

lemma prefix_until_sep:
  assumes "sep \<notin> set w" "sep \<notin> set v"
  shows "prefix (w @ sep # x) (v @ sep # y) \<longleftrightarrow> w = v \<and> prefix x y"
  using assms
proof (induction w arbitrary: v)
  case Nil
  then show ?case by (cases v) auto
next
  case (Cons a w)
  then show ?case by (cases v) auto
qed

lemma prefix_closed_with:
  assumes "\<forall>w \<in> set ws. sep \<notin> set w" "\<forall>v \<in> set vs. sep \<notin> set v"
  shows "prefix (closed_with sep ws) (closed_with sep vs) \<longleftrightarrow> prefix ws vs"
  using assms
proof (induction ws arbitrary: vs)
  case Nil
  then show ?case by (simp add: closed_with_def)
next
  case (Cons w ws)
  show ?case
  proof (cases vs)
    case Nil
    then show ?thesis by (simp add: closed_with_def)
  next
    case (Cons v vs')
    with Cons.prems Cons.IH [of vs'] show ?thesis
      by (simp add: closed_with_def prefix_until_sep)
  qed
qed

lemma prefix_closed_path: "prefix (p @ [c]) (q @ [c]) \<longleftrightarrow> p = q \<or> prefix (p @ [c]) q"
  by (auto simp: prefix_snoc)

lemma Split_slash_Cons: "HasPrefix p ''/'' \<Longrightarrow> Split (CHR ''/'') p = [] # tl (Split (CHR ''/'') p)"
  by (cases p) auto

lemma components_prefix:
  assumes "HasPrefix p ''/''" "HasPrefix q ''/''" "p \<noteq> ''/''" "q \<noteq> ''/''"
  shows "prefix (components p) (components q) \<longleftrightarrow> p = q \<or> HasPrefix q (p @ ''/'')"
proof -
  have no_sep: "\<forall>w \<in> set (Split (CHR ''/'') s). CHR ''/'' \<notin> set w" for s
    using Split_chars by blast
  have "prefix (components p) (components q) \<longleftrightarrow> prefix (Split (CHR ''/'') p) (Split (CHR ''/'') q)"
    using Split_slash_Cons [OF assms(1)] Split_slash_Cons [OF assms(2)] assms(3,4)
    by (metis Cons_prefix_Cons components_def)
  also have "\<dots> \<longleftrightarrow> prefix (p @ ''/'') (q @ ''/'')"
    by (simp add: prefix_closed_with [OF no_sep no_sep, symmetric] closed_with_Split)
  finally show ?thesis by (simp add: prefix_closed_path)
qed

section \<open>Canonical specifications\<close>

lemma canonical_paths_Inr:
  assumes "canonical_paths i seen ps = Inr cs"
  shows "length cs = length ps \<and> distinct cs \<and> set cs \<inter> set seen = {}
           \<and> (\<forall>c \<in> set cs. NormalizePath c = Inr c)"
  using assms
proof (induction i seen ps arbitrary: cs rule: canonical_paths.induct)
  case (2 i seen p rest)
  from "2.prems" obtain c cs' where c: "NormalizePath p = Inr c" "c \<notin> set seen"
      "canonical_paths (Suc i) (c # seen) rest = Inr cs'" "cs = c # cs'"
    by (auto split: sum.splits if_splits)
  from "2.IH" [OF c(1,2,3)] c(2,4) NormalizePath_idem [OF c(1)] show ?case by auto
qed simp

lemma canonical_paths_fixed:
  assumes "distinct cs" "set cs \<inter> set seen = {}" "\<forall>c \<in> set cs. NormalizePath c = Inr c"
  shows "canonical_paths i seen cs = Inr cs"
  using assms by (induction cs arbitrary: i seen) auto

lemma drop_empty_metadata_idem [simp]:
  "drop_empty_metadata (drop_empty_metadata m) = drop_empty_metadata m"
  by (auto simp: drop_empty_metadata_def split: option.splits)

lemma validateShape_SpecHash [simp]: "validateShape (s\<lparr>ex_SpecHash := x\<rparr>) = validateShape s"
  by (simp add: validateShape_def)

lemma normalize_spec_Inr:
  assumes "normalize_spec s = Inr c"
  shows "NormalizeHostname (ex_Hostname c) = Inr (ex_Hostname c)"
    and "NormalizePath (ex_Path c) = Inr (ex_Path c)"
    and "length (ex_AdditionalPaths c) \<le> MaxAdditionalPaths"
    and "distinct (ex_Path c # ex_AdditionalPaths c)"
    and "sorted (ex_AdditionalPaths c)"
    and "\<forall>p \<in> set (ex_AdditionalPaths c). NormalizePath p = Inr p"
    and "drop_empty_metadata (ex_Metadata c) = ex_Metadata c"
    and "validateShape c = None"
    and "ex_SpecHash c = ex_SpecHash s"
proof -
  from assms obtain hostname path paths where *:
      "NormalizeHostname (ex_Hostname s) = Inr hostname" "NormalizePath (ex_Path s) = Inr path"
      "length (ex_AdditionalPaths s) \<le> MaxAdditionalPaths"
      "canonical_paths 0 [path] (ex_AdditionalPaths s) = Inr paths"
      "c = s\<lparr>ex_Hostname := hostname, ex_Path := path, ex_AdditionalPaths := sort paths,
             ex_Metadata := drop_empty_metadata (ex_Metadata s)\<rparr>"
      "validateShape c = None"
    by (auto simp: normalize_spec_def Let_def split: sum.splits if_splits option.splits)
  note ps = canonical_paths_Inr [OF *(4)]
  show "NormalizeHostname (ex_Hostname c) = Inr (ex_Hostname c)"
    using * NormalizeHostname_idem by simp
  show "NormalizePath (ex_Path c) = Inr (ex_Path c)" using * NormalizePath_idem by simp
  show "length (ex_AdditionalPaths c) \<le> MaxAdditionalPaths" using * ps by simp
  show "distinct (ex_Path c # ex_AdditionalPaths c)" using * ps by auto
  show "sorted (ex_AdditionalPaths c)" using * by simp
  show "\<forall>p \<in> set (ex_AdditionalPaths c). NormalizePath p = Inr p" using * ps by simp
  show "drop_empty_metadata (ex_Metadata c) = ex_Metadata c" using *(5) by simp
  show "validateShape c = None" by (rule *(6))
  show "ex_SpecHash c = ex_SpecHash s" using *(5) by simp
qed

lemma normalize_spec_fixed:
  assumes "normalize_spec s = Inr c"
  shows "normalize_spec (c\<lparr>ex_SpecHash := x\<rparr>) = Inr (c\<lparr>ex_SpecHash := x\<rparr>)"
proof -
  note c = normalize_spec_Inr [OF assms]
  have "canonical_paths 0 [ex_Path c] (ex_AdditionalPaths c) = Inr (ex_AdditionalPaths c)"
    using c(4,6) by (intro canonical_paths_fixed) auto
  then show ?thesis
    using c(1-3,5,7,8) by (simp add: normalize_spec_def sort_sorted_id)
qed

lemma RuntimeHash_SpecHash [simp]: "RuntimeHash h (s\<lparr>ex_SpecHash := x\<rparr>) = RuntimeHash h s"
  by (simp add: RuntimeHash_def)

lemma Canonicalize_Inr:
  "Canonicalize_exposure h s = Inr c \<longleftrightarrow>
     (\<exists>out hash. normalize_spec s = Inr out \<and> RuntimeHash h out = Some hash
        \<and> (ex_SpecHash s = [] \<or> ex_SpecHash s = hash \<or> legacyHash h out = Some (ex_SpecHash s))
        \<and> c = out\<lparr>ex_SpecHash := hash\<rparr>)"
  by (auto simp: Canonicalize_exposure_def split: sum.splits option.splits)

section \<open>Properties\<close>

definition sample_exposure :: ExposureSpec where \<comment> \<open>a concrete input for the witnesses\<close>
  "sample_exposure = \<lparr>ex_SchemaVersion = SchemaVersion_exposure, ex_ProjectID = ''p1'', ex_EnvironmentID = ''e1'',
     ex_RuntimeID = ''r1'', ex_ServiceKey = ''web'', ex_DeploymentJobID = ''job-1'', ex_Hostname = ''App.Example.com'',
     ex_Path = ''/'', ex_AdditionalPaths = [''/v2/'', ''/api''], ex_ServicePort = 8080,
     ex_TLS = \<lparr>tls_Mode = ''disabled'', tls_SecretReference = []\<rparr>,
     ex_Metadata = Some \<lparr>md_DisplayName = ''Web'', md_Rationale = []\<rparr>, ex_SpecHash = []\<rparr>"

definition sample_hash :: exposure_hash where
  "sample_hash s = Some (ex_Hostname s @ ex_Path s @ concat (ex_AdditionalPaths s))"

text \<open>What evaluates the definitions above on concrete inputs.\<close>

lemmas exposure_eval = NormalizePath_def MaxPathBytes_def NormalizeHostname_def parses_ipv4_def ipv4_field_def
  label_error_def label_shape_bad_def hostname_char_def normalize_spec_def Canonicalize_exposure_def
  RuntimeHash_def legacyHash_def MaxAdditionalPaths_def drop_empty_metadata_def validateShape_def
  identity_error_def tls_error_def metadata_error_def opaqueID_def ident_def string_eval

lemma sample_canonical:
  "Canonicalize_exposure sample_hash sample_exposure =
     Inr (sample_exposure\<lparr>ex_Hostname := ''app.example.com'', ex_AdditionalPaths := [''/api'', ''/v2''],
            ex_SpecHash := ''app.example.com//api/v2''\<rparr>)"
  by (simp add: exposure_eval sample_exposure_def sample_hash_def)



text \<open>
  Canonicalisation is idempotent: a canonical specification canonicalises to itself, so
  storing, hashing and canonicalising it again never changes it.
\<close>

theorem exposure_canonicalize_idem:
  assumes "Canonicalize_exposure h s = Inr c"
  shows "Canonicalize_exposure h c = Inr c"
  using assms normalize_spec_fixed by (fastforce simp: Canonicalize_Inr)

lemma exposure_canonicalize_idem_witness:
  "\<exists>c. Canonicalize_exposure sample_hash sample_exposure = Inr c \<and> Canonicalize_exposure sample_hash c = Inr c"
  using sample_canonical exposure_canonicalize_idem [OF sample_canonical] by blast

text \<open>
  C29: Display metadata is no part of the identity of an exposure: two specifications that
  differ only in their metadata (and in the hash they were submitted with) canonicalise to
  the same hash, so a display edit cannot trigger a rollout.
\<close>

theorem exposure_hash_ignores_metadata:
  assumes "Canonicalize_exposure h s = Inr c"
    and "Canonicalize_exposure h (s\<lparr>ex_Metadata := m, ex_SpecHash := x\<rparr>) = Inr d"
  shows "ex_SpecHash d = ex_SpecHash c"
proof -
  from assms obtain out out' where
      "normalize_spec s = Inr out" "RuntimeHash h out = Some (ex_SpecHash c)"
      "normalize_spec (s\<lparr>ex_Metadata := m, ex_SpecHash := x\<rparr>) = Inr out'" "RuntimeHash h out' = Some (ex_SpecHash d)"
    by (auto simp: Canonicalize_Inr)
  moreover from this(1,3) have "out'\<lparr>ex_SpecHash := [], ex_Metadata := None\<rparr> = out\<lparr>ex_SpecHash := [], ex_Metadata := None\<rparr>"
    by (auto simp: normalize_spec_def Let_def split: sum.splits if_splits option.splits)
  ultimately show ?thesis by (simp add: RuntimeHash_def)
qed

lemma sample_canonical_renamed:
  "Canonicalize_exposure sample_hash (sample_exposure\<lparr>ex_Metadata := None, ex_SpecHash := []\<rparr>) =
     Inr (sample_exposure\<lparr>ex_Hostname := ''app.example.com'', ex_AdditionalPaths := [''/api'', ''/v2''],
            ex_Metadata := None, ex_SpecHash := ''app.example.com//api/v2''\<rparr>)"
  by (simp add: exposure_eval sample_exposure_def sample_hash_def)

lemma exposure_hash_ignores_metadata_witness:
  "\<exists>c d. Canonicalize_exposure sample_hash sample_exposure = Inr c
     \<and> Canonicalize_exposure sample_hash (sample_exposure\<lparr>ex_Metadata := None, ex_SpecHash := []\<rparr>) = Inr d
     \<and> ex_SpecHash d = ex_SpecHash c"
  using sample_canonical sample_canonical_renamed
    exposure_hash_ignores_metadata [OF sample_canonical sample_canonical_renamed] by blast

text \<open>
  C30: Two canonical routes conflict exactly when one's path components are a prefix of the
  other's: the string tests of PathsConflict implement the component-wise prefix semantics.
\<close>

theorem route_conflict_components:
  assumes "NormalizePath p = Inr p" "NormalizePath q = Inr q"
  shows "PathsConflict p q \<longleftrightarrow>
           prefix (components p) (components q) \<or> prefix (components q) (components p)"
proof (cases "p = ''/'' \<or> q = ''/''")
  case True
  then show ?thesis by (auto simp: PathsConflict_def components_def)
next
  case False
  with NormalizePath_shape [OF assms(1)] NormalizePath_shape [OF assms(2)]
  show ?thesis by (auto simp: PathsConflict_def components_prefix)
qed

lemma route_conflict_components_witness:
  "PathsConflict ''/api'' ''/api/v2'' \<and> \<not> PathsConflict ''/api'' ''/apiv2''"
proof -
  have ok: "NormalizePath ''/api'' = Inr ''/api''" "NormalizePath ''/api/v2'' = Inr ''/api/v2''"
    "NormalizePath ''/apiv2'' = Inr ''/apiv2''" by (simp_all add: exposure_eval)
  show ?thesis
    using route_conflict_components [OF ok(1,2)] route_conflict_components [OF ok(1,3)]
    by (simp add: components_def)
qed

end
