(* ===== verification/Workload.thy ===== *)
theory Workload
  imports Exposure "HOL-Library.Multiset"
begin

text \<open>
  The workload contract, contracts/go/deploymentv1/types.go: immutable images, probes, resource
  quantities, environments, secret and registry references, previews, and the normalisation,
  validation and hash of WorkloadSpec. An error is its message. int32 and int64 fields are
  \<open>int\<close>; the arithmetic on them (the quantity parsers) writes the int64 bounds out.
  sort.Slice is a stable sort, as it is for the lists of up to 12 elements; longer lists differ
  at most in the order of equal names, which Validate rejects.
\<close>

section \<open>Patterns\<close>

text \<open>\<open>^[A-Za-z0-9][A-Za-z0-9._-]{0,127}$\<close>\<close>

definition serviceKeyPattern :: "string \<Rightarrow> bool" where
  "serviceKeyPattern = ident is_alnum (\<lambda>c. is_alnum c \<or> c \<in> set ''._-'') 127"

text \<open>\<open>^[0-9a-f]{40}$\<close>\<close>

definition shaPattern :: "string \<Rightarrow> bool" where
  "shaPattern s = (length s = 40 \<and> list_all is_hex_lower s)"

text \<open>\<open>^[A-Za-z_][A-Za-z0-9_]{0,127}$\<close>\<close>

definition envNamePattern :: "string \<Rightarrow> bool" where
  "envNamePattern = ident (\<lambda>c. is_lower c \<or> is_upper c \<or> c = CHR ''_'') (\<lambda>c. is_alnum c \<or> c = CHR ''_'') 127"

text \<open>\<open>^sha256:[0-9a-f]{64}$\<close>\<close>

definition digestPattern :: "string \<Rightarrow> bool" where
  "digestPattern s = (HasPrefix s ''sha256:'' \<and> hash64 (drop 7 s))"

text \<open>
  \<open>^[a-z0-9](?:[a-z0-9.-]*[a-z0-9])?(?::[0-9]{1,5})?(?:/[a-z0-9]+(?:[._-][a-z0-9]+)*)+$\<close>:
  a host with an optional port, then one or more components. No class holds a slash and only
  the port holds a colon, so the text can be split at them.
\<close>

definition lower_alnum :: "char \<Rightarrow> bool" where
  "lower_alnum c = (is_lower c \<or> is_digit c)"

definition registry_host :: "string \<Rightarrow> bool" where
  "registry_host w = (w \<noteq> [] \<and> lower_alnum (hd w) \<and> lower_alnum (last w)
     \<and> list_all (\<lambda>c. lower_alnum c \<or> c = CHR ''.'' \<or> c = CHR ''-'') w)"

definition registry_port :: "string \<Rightarrow> bool" where
  "registry_port w = (w \<noteq> [] \<and> length w \<le> 5 \<and> list_all is_digit w)"

fun repository_component :: "string \<Rightarrow> bool" where
  "repository_component [] = False"
| "repository_component [c] = lower_alnum c"
| "repository_component (c # d # w) =
     (lower_alnum c \<and> (if d \<in> set ''._-'' then repository_component w else repository_component (d # w)))"

definition repositoryPattern :: "string \<Rightarrow> bool" where
  "repositoryPattern s = (case Split (CHR ''/'') s of
     registry # part # parts \<Rightarrow>
       (case Split (CHR '':'') registry of
          [name] \<Rightarrow> registry_host name
        | [name, port] \<Rightarrow> registry_host name \<and> registry_port port
        | _ \<Rightarrow> False)
       \<and> list_all repository_component (part # parts)
   | _ \<Rightarrow> False)"

text \<open>\<open>^(?:[1-9][0-9]{0,6}m|[1-9][0-9]{0,3})$\<close>\<close>

definition positive_decimal :: "nat \<Rightarrow> string \<Rightarrow> bool" where
  "positive_decimal n = ident (\<lambda>c. is_digit c \<and> c \<noteq> CHR ''0'') is_digit n"

definition cpuQuantityPattern :: "string \<Rightarrow> bool" where
  "cpuQuantityPattern s =
     (HasSuffix s ''m'' \<and> positive_decimal 6 (TrimSuffix s ''m'') \<or> positive_decimal 3 s)"

definition memory_units :: "(string \<times> int) list" where
  "memory_units = [(''Ki'', 2 ^ 10), (''Mi'', 2 ^ 20), (''Gi'', 2 ^ 30), (''Ti'', 2 ^ 40)]"

text \<open>\<open>^[1-9][0-9]{0,9}(?:Ki|Mi|Gi|Ti)?$\<close>\<close>

definition memoryQuantityPattern :: "string \<Rightarrow> bool" where
  "memoryQuantityPattern s =
     (positive_decimal 9 s
      \<or> list_ex (\<lambda>(unit, _). HasSuffix s unit \<and> positive_decimal 9 (TrimSuffix s unit)) memory_units)"

section \<open>Images\<close>

record ImmutableImage =
  img_Repository :: string
  img_Digest :: string
  img_Reference :: string

definition Validate_image :: "ImmutableImage \<Rightarrow> string option" where
  "Validate_image i = first_failure
     [(img_Repository i = [] \<or> 255 < length (img_Repository i) \<or> img_Repository i \<noteq> ToLower (img_Repository i)
         \<or> ContainsAny (img_Repository i) [CHR ''@'', CHR '' '', CHR 0x09, CHR 0x0D, CHR 0x0A]
         \<or> \<not> repositoryPattern (img_Repository i),
         ''OCI repository is not canonical''),
      (\<not> digestPattern (img_Digest i), ''OCI digest must be a lowercase sha256 digest''),
      (img_Reference i \<noteq> img_Repository i @ ''@'' @ img_Digest i,
         ''OCI reference must exactly match repository and digest'')]"

definition NewImmutableImage :: "string \<Rightarrow> string \<Rightarrow> ImmutableImage \<times> string option" where
  "NewImmutableImage repository digest =
     (let image = \<lparr>img_Repository = repository, img_Digest = digest, img_Reference = repository @ ''@'' @ digest\<rparr>
      in (image, Validate_image image))"

definition WithinPrefix :: "ImmutableImage \<Rightarrow> string \<Rightarrow> bool" where
  "WithinPrefix i pre =
     (let p = TrimSuffix pre ''/''
      in img_Repository i = p \<or> HasPrefix (img_Repository i) (p @ ''/''))"

section \<open>Workload data\<close>

record Probe =
  pr_Path :: string
  pr_Port :: int
  pr_InitialDelaySeconds :: int
  pr_PeriodSeconds :: int
  pr_TimeoutSeconds :: int
  pr_FailureThreshold :: int

record ResourceValues =
  rv_CPU :: string
  rv_Memory :: string

record Resources =
  rs_Requests :: ResourceValues
  rs_Limits :: ResourceValues

record EnvironmentVariable =
  ev_Name :: string
  ev_Value :: string

record SecretReference =
  sr_EnvName :: string
  sr_SecretID :: string

record SecretMaterial = \<comment> \<open>Values is a map: an association list without repeated names\<close>
  sm_SecretID :: string
  sm_Values :: "(string \<times> string) list"

record RegistryPullCredentialReference =
  rr_Provider :: string
  rr_CredentialID :: string
  rr_Registry :: string

record RegistryPullCredential =
  rc_Reference :: RegistryPullCredentialReference
  rc_Username :: string
  rc_Password :: string

record WorkloadSpec =
  wl_SchemaVersion :: string
  wl_ServiceKey :: string
  wl_Replicas :: int
  wl_ApplicationContainerName :: string
  wl_ContainerPort :: int
  wl_StartupProbe :: "Probe option"
  wl_ReadinessProbe :: "Probe option"
  wl_LivenessProbe :: "Probe option"
  wl_Resources :: Resources
  wl_TerminationGracePeriodSecond :: int
  wl_SecretReferences :: "SecretReference list"
  wl_Environment :: "EnvironmentVariable list"
  wl_RegistryPullCredential :: "RegistryPullCredentialReference option"
  wl_ExposureMode :: string

record PreviewSpec =
  pv_Namespace :: string
  pv_Hostname :: string
  pv_RepositoryID :: nat
  pv_RepositoryOwnerID :: nat
  pv_PRNumber :: int
  pv_HeadSHA :: string
  pv_ServiceKey :: string
  pv_CPU :: string
  pv_Memory :: string
  pv_MaxReplicas :: int
  pv_CreatedAt :: time
  pv_ExpiresAt :: time

definition Validate_secret_material :: "SecretMaterial \<Rightarrow> string option" where
  "Validate_secret_material m = first_failure
     [(\<not> opaqueID (sm_SecretID m) \<or> sm_Values m = [] \<or> 32 < length (sm_Values m), ''secret material is invalid''),
      (list_ex (\<lambda>(name, value). \<not> envNamePattern name \<or> value = [] \<or> 16 * 1024 < length value
                    \<or> CHR 0x00 \<in> set value) (sm_Values m), ''secret material is invalid'')]"

definition Validate_pull_reference :: "RegistryPullCredentialReference \<Rightarrow> string option" where
  "Validate_pull_reference r =
     (if \<not> opaqueID (rr_Provider r) \<or> \<not> opaqueID (rr_CredentialID r) \<or> rr_Registry r = []
         \<or> rr_Registry r \<noteq> ToLower (rr_Registry r)
         \<or> ContainsAny (rr_Registry r) [CHR ''/'', CHR ''@'', CHR '' '', CHR 0x09, CHR 0x0D, CHR 0x0A]
      then Some ''registry pull credential reference is invalid'' else None)"

definition Validate_pull_credential :: "RegistryPullCredential \<Rightarrow> string option" where
  "Validate_pull_credential c =
     or_else (Validate_pull_reference (rc_Reference c))
       (if rc_Username c = [] \<or> 256 < length (rc_Username c) \<or> rc_Password c = [] \<or> 16 * 1024 < length (rc_Password c)
           \<or> CHR 0x00 \<in> set (rc_Username c) \<or> CHR 0x00 \<in> set (rc_Password c)
        then Some ''registry pull credential is invalid'' else None)"

section \<open>Quantities\<close>

text \<open>strconv.ParseInt in base 10 with 64 bits: the value and whether there was an error.\<close>

definition parse_digits :: "string \<Rightarrow> int option" where
  "parse_digits s = (if s \<noteq> [] \<and> list_all is_digit s then Some (int (dec_val s)) else None)"

definition ParseInt :: "string \<Rightarrow> int \<times> bool" where
  "ParseInt s =
     (let (neg, body) = (case s of [] \<Rightarrow> (False, [])
            | c # cs \<Rightarrow> if c = CHR ''-'' then (True, cs) else if c = CHR ''+'' then (False, cs) else (False, s))
      in case parse_digits body of None \<Rightarrow> (0, True)
         | Some n \<Rightarrow>
             if neg then (if n > 2 ^ 63 then (- (2 ^ 63), True) else (- n, False))
             else (if n \<ge> 2 ^ 63 then (2 ^ 63 - 1, True) else (n, False)))"

definition cpuMillicores :: "string \<Rightarrow> int \<times> bool" where
  "cpuMillicores value =
     (if HasSuffix value ''m'' then ParseInt (TrimSuffix value ''m'')
      else let (cores, err) = ParseInt value in (wrap_s64 (cores * 1000), err))"

fun split_unit :: "(string \<times> int) list \<Rightarrow> string \<Rightarrow> int \<times> string" where
  "split_unit [] value = (1, value)"
| "split_unit ((suf, factor) # us) value =
     (if HasSuffix value suf then (factor, TrimSuffix value suf) else split_unit us value)"

definition memoryBytes :: "string \<Rightarrow> int \<times> bool" where
  "memoryBytes value =
     (let (multiplier, digits) = split_unit memory_units value;
          (quantity, err) = ParseInt digits
      in if err \<or> quantity > (2 ^ 63 - 1) div multiplier then (0, True)
         else (wrap_s64 (quantity * multiplier), False))"

text \<open>The two parsers' errors are dropped by validateResources, as in the code.\<close>

definition validateResources :: "Resources \<Rightarrow> string option" where
  "validateResources r =
     (let requestCPU = fst (cpuMillicores (rv_CPU (rs_Requests r)));
          limitCPU = fst (cpuMillicores (rv_CPU (rs_Limits r)));
          requestMemory = fst (memoryBytes (rv_Memory (rs_Requests r)));
          limitMemory = fst (memoryBytes (rv_Memory (rs_Limits r)))
      in first_failure
       [(\<not> cpuQuantityPattern (rv_CPU (rs_Requests r)) \<or> \<not> cpuQuantityPattern (rv_CPU (rs_Limits r)),
           ''CPU quantities must be bounded millicore or whole-core values''),
        (\<not> memoryQuantityPattern (rv_Memory (rs_Requests r)) \<or> \<not> memoryQuantityPattern (rv_Memory (rs_Limits r)),
           ''memory quantities must be bounded Ki/Mi/Gi/Ti values''),
        (requestCPU > limitCPU \<or> requestMemory > limitMemory,
           ''resource limits must be greater than or equal to requests'')])"

section \<open>Probes and environments\<close>

definition validateProbe :: "Probe option \<Rightarrow> int \<Rightarrow> int \<Rightarrow> string option" where
  "validateProbe probe containerPort maxFailureThreshold =
     (case probe of None \<Rightarrow> None | Some p \<Rightarrow> first_failure
       [(pr_Path p = [] \<or> 256 < length (pr_Path p) \<or> \<not> HasPrefix (pr_Path p) ''/''
           \<or> ContainsAny (pr_Path p) [CHR 0x0D, CHR 0x0A, CHR 0x00] \<or> pr_Port p \<noteq> containerPort,
           ''path or port is invalid''),
        (pr_InitialDelaySeconds p < 0 \<or> 300 < pr_InitialDelaySeconds p \<or> pr_PeriodSeconds p < 1
           \<or> 60 < pr_PeriodSeconds p \<or> pr_TimeoutSeconds p < 1 \<or> 30 < pr_TimeoutSeconds p
           \<or> pr_FailureThreshold p < 1 \<or> maxFailureThreshold < pr_FailureThreshold p,
           ''probe timing exceeds allowed bounds'')])"

definition secret_words :: "string list" where
  "secret_words = [''password'', ''passwd'', ''secret'', ''token'', ''credential'']"

definition secret_suffixes :: "string list" where
  "secret_suffixes = [''password'', ''passwd'', ''secret'', ''token'', ''credential'', ''privatekey'',
     ''signingkey'', ''accesskey'', ''apikey'', ''key'']"

definition IsSecretLikeEnvironmentName :: "string \<Rightarrow> bool" where
  "IsSecretLikeEnvironmentName value =
     (let normalized = ToLower value;
          parts = filter (\<lambda>w. w \<noteq> []) (Split (CHR ''_'') normalized);
          compact = filter (\<lambda>c. c \<noteq> CHR ''_'') normalized
      in list_ex (\<lambda>part. part \<in> set secret_words) parts
         \<or> Contains compact ''connectionstring''
         \<or> list_ex (\<lambda>suf. HasSuffix compact suf) secret_suffixes)"

definition IsValidEnvironmentName :: "string \<Rightarrow> bool" where
  "IsValidEnvironmentName name = envNamePattern name"

text \<open>The two loops of ValidateEnvironment, with the names seen so far.\<close>

fun environment_loop :: "string list \<Rightarrow> EnvironmentVariable list \<Rightarrow> string + string list" where
  "environment_loop seen [] = Inr seen"
| "environment_loop seen (item # rest) =
     (if \<not> envNamePattern (ev_Name item) \<or> 4096 < length (ev_Value item) \<or> CHR 0x00 \<in> set (ev_Value item)
      then Inl ''environment entry is invalid''
      else if IsSecretLikeEnvironmentName (ev_Name item)
      then Inl ''secret-like environment names require a secret reference''
      else if ev_Name item \<in> set seen then Inl ''environment names must be unique''
      else environment_loop (ev_Name item # seen) rest)"

fun secret_loop :: "string list \<Rightarrow> SecretReference list \<Rightarrow> string option" where
  "secret_loop seen [] = None"
| "secret_loop seen (item # rest) =
     (if \<not> envNamePattern (sr_EnvName item) \<or> \<not> opaqueID (sr_SecretID item) then Some ''secret reference is invalid''
      else if sr_EnvName item \<in> set seen then Some ''environment and secret names must be unique''
      else secret_loop (sr_EnvName item # seen) rest)"

definition ValidateEnvironment :: "EnvironmentVariable list \<Rightarrow> SecretReference list \<Rightarrow> string option" where
  "ValidateEnvironment environment secretReferences =
     (if 64 < length environment \<or> 32 < length secretReferences
      then Some ''environment or secret reference count exceeds the bound''
      else case environment_loop [] environment of Inl e \<Rightarrow> Some e
           | Inr seen \<Rightarrow> secret_loop seen secretReferences)"

section \<open>WorkloadSpec and PreviewSpec\<close>

definition WorkloadSchemaVersion :: string where "WorkloadSchemaVersion = ''opsi.workload_spec/v1''"
definition ApplicationContainer :: string where "ApplicationContainer = ''app''"

definition Normalize_workload :: "WorkloadSpec \<Rightarrow> WorkloadSpec" where
  "Normalize_workload s = s\<lparr>
     wl_SchemaVersion := (if wl_SchemaVersion s = [] then WorkloadSchemaVersion else wl_SchemaVersion s),
     wl_ApplicationContainerName := (if wl_ApplicationContainerName s = [] then ApplicationContainer
                                     else wl_ApplicationContainerName s),
     wl_TerminationGracePeriodSecond := (if wl_TerminationGracePeriodSecond s = 0 then 30
                                         else wl_TerminationGracePeriodSecond s),
     wl_Environment := sort_key ev_Name (wl_Environment s),
     wl_SecretReferences := sort_key sr_EnvName (wl_SecretReferences s)\<rparr>"

definition wrap_error :: "string \<Rightarrow> string option \<Rightarrow> string option" where \<comment> \<open>fmt.Errorf with the context and the wrapped error\<close>
  "wrap_error ctx = map_option (\<lambda>e. ctx @ '': '' @ e)"

definition Validate_workload :: "WorkloadSpec \<Rightarrow> string option" where
  "Validate_workload w =
     (let s = Normalize_workload w in
      or_else (first_failure
        [(wl_SchemaVersion s \<noteq> WorkloadSchemaVersion, ''unsupported WorkloadSpec schema_version''),
         (\<not> serviceKeyPattern (wl_ServiceKey s), ''service_key is invalid''),
         (wl_Replicas s < 1 \<or> 20 < wl_Replicas s, ''replicas must be between 1 and 20''),
         (wl_ApplicationContainerName s \<noteq> ApplicationContainer, ''application_container_name must be '' @ [CHR 0x22] @ ApplicationContainer @ [CHR 0x22]),
         (wl_ContainerPort s < 1 \<or> 65535 < wl_ContainerPort s, ''container_port must be between 1 and 65535'')])
     (or_else (wrap_error ''startup_probe'' (validateProbe (wl_StartupProbe s) (wl_ContainerPort s) 120))
     (or_else (wrap_error ''readiness_probe'' (validateProbe (wl_ReadinessProbe s) (wl_ContainerPort s) 10))
     (or_else (wrap_error ''liveness_probe'' (validateProbe (wl_LivenessProbe s) (wl_ContainerPort s) 10))
     (or_else (validateResources (wl_Resources s))
     (or_else (first_failure
        [(wl_TerminationGracePeriodSecond s < 1 \<or> 300 < wl_TerminationGracePeriodSecond s,
            ''termination_grace_period_seconds must be between 1 and 300''),
         (wl_ExposureMode s \<noteq> ''none'' \<and> wl_ExposureMode s \<noteq> ''internal'',
            ''R5-010 exposure mode must be none or internal'')])
     (or_else (ValidateEnvironment (wl_Environment s) (wl_SecretReferences s))
        (case wl_RegistryPullCredential s of None \<Rightarrow> None | Some r \<Rightarrow> Validate_pull_reference r))))))))"

type_synonym workload_hash = "WorkloadSpec \<Rightarrow> string option"

definition Hash_workload :: "workload_hash \<Rightarrow> WorkloadSpec \<Rightarrow> string + string" where
  "Hash_workload h s =
     (let normalized = Normalize_workload s in
      case Validate_workload normalized of Some e \<Rightarrow> Inl e
      | None \<Rightarrow> (case h normalized of None \<Rightarrow> Inl ''json: marshal error'' | Some x \<Rightarrow> Inr x))"

definition Validate_preview :: "PreviewSpec \<Rightarrow> string option" where
  "Validate_preview p =
     or_else (first_failure
       [(\<not> opaqueID (pv_Namespace p) \<or> pv_RepositoryID p = 0 \<or> pv_RepositoryOwnerID p = 0 \<or> pv_PRNumber p < 1
           \<or> \<not> shaPattern (pv_HeadSHA p) \<or> \<not> serviceKeyPattern (pv_ServiceKey p) \<or> IsZero (pv_CreatedAt p)
           \<or> \<not> pv_ExpiresAt p > pv_CreatedAt p \<or> pv_MaxReplicas p < 1 \<or> 20 < pv_MaxReplicas p,
           ''preview authority is invalid''),
        (isl (NormalizeHostname (pv_Hostname p)), ''preview hostname is invalid'')])
     (validateResources \<lparr>rs_Requests = \<lparr>rv_CPU = pv_CPU p, rv_Memory = pv_Memory p\<rparr>,
                         rs_Limits = \<lparr>rv_CPU = pv_CPU p, rv_Memory = pv_Memory p\<rparr>\<rparr>)"

section \<open>Facts on normalisation\<close>

lemma constants_nonempty [simp]: "WorkloadSchemaVersion \<noteq> []" "ApplicationContainer \<noteq> []"
  by (simp_all add: WorkloadSchemaVersion_def ApplicationContainer_def)

lemma Normalize_workload_idem [simp]: "Normalize_workload (Normalize_workload s) = Normalize_workload s"
  by (simp add: Normalize_workload_def sort_key_idem)

lemma Validate_Normalize_workload [simp]: "Validate_workload (Normalize_workload s) = Validate_workload s"
  by (simp add: Validate_workload_def)

section \<open>Facts on environments\<close>

definition env_item_ok :: "EnvironmentVariable \<Rightarrow> bool" where
  "env_item_ok e = (envNamePattern (ev_Name e) \<and> length (ev_Value e) \<le> 4096 \<and> CHR 0x00 \<notin> set (ev_Value e)
     \<and> \<not> IsSecretLikeEnvironmentName (ev_Name e))"

definition secret_item_ok :: "SecretReference \<Rightarrow> bool" where
  "secret_item_ok r = (envNamePattern (sr_EnvName r) \<and> opaqueID (sr_SecretID r))"

lemma environment_loop_Inr:
  "environment_loop seen items = Inr seen' \<longleftrightarrow>
     seen' = rev (map ev_Name items) @ seen \<and> (\<forall>e \<in> set items. env_item_ok e)
     \<and> distinct (map ev_Name items) \<and> set (map ev_Name items) \<inter> set seen = {}"
  by (induction seen items rule: environment_loop.induct) (auto simp: env_item_ok_def)

lemma secret_loop_None:
  "secret_loop seen items = None \<longleftrightarrow>
     (\<forall>r \<in> set items. secret_item_ok r) \<and> distinct (map sr_EnvName items)
     \<and> set (map sr_EnvName items) \<inter> set seen = {}"
  by (induction seen items rule: secret_loop.induct) (auto simp: secret_item_ok_def)

lemma environment_loop_Inl:
  "environment_loop seen items = Inl e \<Longrightarrow>
     \<not> ((\<forall>e \<in> set items. env_item_ok e) \<and> distinct (map ev_Name items) \<and> set (map ev_Name items) \<inter> set seen = {})"
  using environment_loop_Inr [of seen items] by auto

lemma ValidateEnvironment_None:
  "ValidateEnvironment env secrets = None \<longleftrightarrow>
     length env \<le> 64 \<and> length secrets \<le> 32 \<and> (\<forall>e \<in> set env. env_item_ok e) \<and> (\<forall>r \<in> set secrets. secret_item_ok r)
     \<and> distinct (map ev_Name env @ map sr_EnvName secrets)"
  by (auto simp: ValidateEnvironment_def environment_loop_Inr secret_loop_None split: sum.splits
      dest!: environment_loop_Inl)

lemma Validate_workload_None:
  "Validate_workload w = None \<longleftrightarrow>
     (let s = Normalize_workload w in
      wl_SchemaVersion s = WorkloadSchemaVersion \<and> serviceKeyPattern (wl_ServiceKey s)
      \<and> 1 \<le> wl_Replicas s \<and> wl_Replicas s \<le> 20 \<and> wl_ApplicationContainerName s = ApplicationContainer
      \<and> 1 \<le> wl_ContainerPort s \<and> wl_ContainerPort s \<le> 65535
      \<and> validateProbe (wl_StartupProbe s) (wl_ContainerPort s) 120 = None
      \<and> validateProbe (wl_ReadinessProbe s) (wl_ContainerPort s) 10 = None
      \<and> validateProbe (wl_LivenessProbe s) (wl_ContainerPort s) 10 = None
      \<and> validateResources (wl_Resources s) = None
      \<and> 1 \<le> wl_TerminationGracePeriodSecond s \<and> wl_TerminationGracePeriodSecond s \<le> 300
      \<and> (wl_ExposureMode s = ''none'' \<or> wl_ExposureMode s = ''internal'')
      \<and> ValidateEnvironment (wl_Environment s) (wl_SecretReferences s) = None
      \<and> (\<forall>r. wl_RegistryPullCredential s = Some r \<longrightarrow> Validate_pull_reference r = None))"
  by (auto simp: Validate_workload_def Let_def wrap_error_def not_less split: option.split)

section \<open>Facts on quantities\<close>

text \<open>The exact quantities the texts denote, without a width.\<close>

definition cpu_quantity :: "string \<Rightarrow> int" where
  "cpu_quantity value = (if HasSuffix value ''m'' then int (dec_val (TrimSuffix value ''m'')) else int (dec_val value) * 1000)"

definition memory_quantity :: "string \<Rightarrow> int" where
  "memory_quantity value = (case split_unit memory_units value of (multiplier, digits) \<Rightarrow> int (dec_val digits) * multiplier)"

lemma dec_val_snoc: "dec_val (s @ [c]) = 10 * dec_val s + digit_val c"
  by (simp add: dec_val_def)

lemma digit_val_less: "is_digit c \<Longrightarrow> digit_val c < 10"
  by (auto simp: is_digit_def digit_val_def less_eq_char_def)

lemma dec_val_less: "list_all is_digit s \<Longrightarrow> dec_val s < 10 ^ length s"
proof (induction s rule: rev_induct)
  case (snoc c s)
  then show ?case using digit_val_less [of c] by (simp add: dec_val_snoc)
qed (simp add: dec_val_def)

lemma positive_decimal_digits:
  "positive_decimal n s \<Longrightarrow> s \<noteq> [] \<and> list_all is_digit s \<and> length s \<le> Suc n"
  by (auto simp: positive_decimal_def ident_def split: list.splits)

lemma ParseInt_decimal:
  assumes "positive_decimal n s" "n \<le> 9"
  shows "ParseInt s = (int (dec_val s), False) \<and> dec_val s < 10 ^ 10"
proof -
  from assms have s: "s \<noteq> []" "list_all is_digit s" "length s \<le> 10"
    using positive_decimal_digits by fastforce+
  from s(2) have "dec_val s < 10 ^ length s" by (rule dec_val_less)
  also have "\<dots> \<le> 10 ^ 10" using s(3) by (intro power_increasing) auto
  finally have "dec_val s < 10 ^ 10" .
  moreover from s have "hd s \<noteq> CHR ''-''" "hd s \<noteq> CHR ''+''"
    by (cases s; auto simp: is_digit_def less_eq_char_def)+
  ultimately show ?thesis using s(1,2)
    by (cases s) (auto simp: ParseInt_def parse_digits_def)
qed

lemma cpuMillicores_exact:
  assumes "cpuQuantityPattern v"
  shows "cpuMillicores v = (cpu_quantity v, False)"
proof (cases "HasSuffix v ''m''")
  case True
  then have "list_all is_digit v \<Longrightarrow> False"
    by (auto simp: suffix_def is_digit_def less_eq_char_def)
  with assms have "positive_decimal 6 (TrimSuffix v ''m'')"
    using positive_decimal_digits by (auto simp: cpuQuantityPattern_def)
  with True ParseInt_decimal show ?thesis by (simp add: cpuMillicores_def cpu_quantity_def)
next
  case False
  with assms have "positive_decimal 3 v" by (simp add: cpuQuantityPattern_def)
  with False ParseInt_decimal [of 3 v] show ?thesis
    by (auto simp: cpuMillicores_def cpu_quantity_def wrap_s64_id)
qed

lemma suffix_two: "HasSuffix (d @ [c, e]) [a, b] \<longleftrightarrow> a = c \<and> b = e"
  by (auto simp: suffix_def)

lemma memoryQuantity_cases:
  assumes "memoryQuantityPattern v"
  obtains "positive_decimal 9 v"
  | d u where "v = d @ [u, CHR ''i'']" "positive_decimal 9 d" "u \<in> set ''KMGT''"
  using assms unfolding memoryQuantityPattern_def memory_units_def
  by (auto simp: suffix_def TrimSuffix_def)

lemma decimal_no_unit: "positive_decimal 9 v \<Longrightarrow> \<not> HasSuffix v [a, CHR ''i'']"
  using positive_decimal_digits [of 9 v] by (auto simp: suffix_def is_digit_def less_eq_char_def)

lemma split_unit_decimal:
  assumes "memoryQuantityPattern v"
  shows "\<exists>m d. split_unit memory_units v = (m, d) \<and> positive_decimal 9 d \<and> 1 \<le> m \<and> m \<le> 2 ^ 40"
  using assms
proof (cases rule: memoryQuantity_cases)
  case 1
  then show ?thesis by (simp add: memory_units_def decimal_no_unit)
next
  case (2 d u)
  then have "TrimSuffix v [u, CHR ''i''] = d" by (simp only: TrimSuffix_append)
  with 2 show ?thesis by (auto simp: memory_units_def suffix_two)
qed

lemma foldl_dec_mono: "(k::nat) \<le> foldl (\<lambda>n c. 10 * n + digit_val c) k s"
proof (induction s arbitrary: k)
  case (Cons c s)
  show ?case using Cons [of "10 * k + digit_val c"] by simp
qed simp

lemma dec_val_pos: "positive_decimal n s \<Longrightarrow> 0 < dec_val s"
proof (cases s)
  case (Cons c cs)
  assume "positive_decimal n s"
  with Cons have c: "is_digit c" "c \<noteq> CHR ''0''" by (simp_all add: positive_decimal_def ident_def)
  then have "(of_char c :: nat) \<noteq> of_char (CHR ''0'')" by (simp only: of_char_eq_iff) simp
  with c(1) have "0 < digit_val c" by (simp add: is_digit_def digit_val_def less_eq_char_def)
  with foldl_dec_mono [of "digit_val c" cs] Cons show ?thesis by (simp add: dec_val_def)
qed (simp add: positive_decimal_def ident_def)

lemma div_bound:
  assumes "0 < (m::int)"
  shows "(k - 1) div m < q \<longleftrightarrow> k \<le> q * m"
proof
  assume "(k - 1) div m < q"
  then have "((k - 1) div m + 1) * m \<le> q * m" using assms by (intro mult_right_mono) auto
  moreover have "k - 1 < m * ((k - 1) div m) + m"
    using assms mult_div_mod_eq [of m "k - 1"] pos_mod_bound [OF assms, of "k - 1"] by linarith
  moreover have "((k - 1) div m + 1) * m = m * ((k - 1) div m) + m" by (simp add: algebra_simps)
  ultimately show "k \<le> q * m" by linarith
next
  assume "k \<le> q * m"
  moreover have "(k - 1) div m * m \<le> k - 1"
    using mult_div_mod_eq [of m "k - 1"] pos_mod_sign [OF assms, of "k - 1"] mult.commute [of m "(k - 1) div m"] by linarith
  ultimately have "(k - 1) div m * m < q * m" by simp
  then show "(k - 1) div m < q" using assms by (simp add: mult_less_cancel_right)
qed

lemma memoryBytes_exact:
  assumes "memoryQuantityPattern v"
  shows "memoryBytes v = (if 2 ^ 63 \<le> memory_quantity v then (0, True) else (memory_quantity v, False))
           \<and> 0 < memory_quantity v"
proof -
  obtain m d where md: "split_unit memory_units v = (m, d)" "positive_decimal 9 d" "1 \<le> m" "m \<le> 2 ^ 40"
    using split_unit_decimal [OF assms] by blast
  have d: "ParseInt d = (int (dec_val d), False)" using ParseInt_decimal [OF md(2)] by simp
  have eq: "memory_quantity v = int (dec_val d) * m" by (simp add: memory_quantity_def md(1))
  have pos: "0 < int (dec_val d) * m" using dec_val_pos [OF md(2)] md(3) by simp
  have "int (dec_val d) > (2 ^ 63 - 1) div m \<longleftrightarrow> 2 ^ 63 \<le> int (dec_val d) * m"
    using md(3) by (intro div_bound) simp
  then have "memoryBytes v = (if 2 ^ 63 \<le> int (dec_val d) * m then (0, True) else (wrap_s64 (int (dec_val d) * m), False))"
    by (simp only: memoryBytes_def md(1) d prod.case Let_def HOL.simp_thms)
  with pos show ?thesis by (simp add: eq wrap_s64_id)
qed

lemma validateResources_None:
  "validateResources r = None \<longleftrightarrow>
     cpuQuantityPattern (rv_CPU (rs_Requests r)) \<and> cpuQuantityPattern (rv_CPU (rs_Limits r))
     \<and> memoryQuantityPattern (rv_Memory (rs_Requests r)) \<and> memoryQuantityPattern (rv_Memory (rs_Limits r))
     \<and> fst (cpuMillicores (rv_CPU (rs_Requests r))) \<le> fst (cpuMillicores (rv_CPU (rs_Limits r)))
     \<and> fst (memoryBytes (rv_Memory (rs_Requests r))) \<le> fst (memoryBytes (rv_Memory (rs_Limits r)))"
  by (auto simp: validateResources_def Let_def)

section \<open>Properties\<close>


definition sample_resources :: "string \<Rightarrow> string \<Rightarrow> Resources" where
  "sample_resources request limit = \<lparr>rs_Requests = \<lparr>rv_CPU = ''250m'', rv_Memory = request\<rparr>,
     rs_Limits = \<lparr>rv_CPU = ''1'', rv_Memory = limit\<rparr>\<rparr>"

lemmas quantity_eval = validateResources_def sample_resources_def cpuQuantityPattern_def memoryQuantityPattern_def
  positive_decimal_def cpuMillicores_def memoryBytes_def memory_quantity_def cpu_quantity_def memory_units_def
  ParseInt_def parse_digits_def dec_val_def digit_val_def ident_def string_eval wrap_s64_def

lemma sample_ok: "validateResources (sample_resources ''128Mi'' ''1Gi'') = None"
  by (simp add: quantity_eval)


definition sample_workload :: "EnvironmentVariable list \<Rightarrow> WorkloadSpec" where
  "sample_workload env = \<lparr>wl_SchemaVersion = [], wl_ServiceKey = ''web'', wl_Replicas = 2,
     wl_ApplicationContainerName = [], wl_ContainerPort = 8080,
     wl_StartupProbe = Some \<lparr>pr_Path = ''/healthz'', pr_Port = 8080, pr_InitialDelaySeconds = 0,
       pr_PeriodSeconds = 5, pr_TimeoutSeconds = 2, pr_FailureThreshold = 60\<rparr>,
     wl_ReadinessProbe = None, wl_LivenessProbe = None,
     wl_Resources = sample_resources ''128Mi'' ''1Gi'', wl_TerminationGracePeriodSecond = 0,
     wl_SecretReferences = [\<lparr>sr_EnvName = ''DB_URL'', sr_SecretID = ''sec-1''\<rparr>],
     wl_Environment = env, wl_RegistryPullCredential = None, wl_ExposureMode = ''internal''\<rparr>"

definition sample_env :: "EnvironmentVariable list" where
  "sample_env = [\<lparr>ev_Name = ''PORT'', ev_Value = ''8080''\<rparr>, \<lparr>ev_Name = ''MODE'', ev_Value = ''prod''\<rparr>]"

lemmas workload_eval = Validate_workload_def Normalize_workload_def WorkloadSchemaVersion_def
  ApplicationContainer_def serviceKeyPattern_def validateProbe_def wrap_error_def ValidateEnvironment_def
  envNamePattern_def IsSecretLikeEnvironmentName_def secret_words_def secret_suffixes_def opaqueID_def
  sample_workload_def sample_env_def quantity_eval

lemma sample_env_ok: "ValidateEnvironment (sort_key ev_Name sample_env) [\<lparr>sr_EnvName = ''DB_URL'', sr_SecretID = ''sec-1''\<rparr>] = None"
  by (simp add: workload_eval)

lemma sample_workload_ok: "Validate_workload (sample_workload sample_env) = None"
  using sample_env_ok sample_ok
  by (simp add: Validate_workload_None sample_workload_def Normalize_workload_def serviceKeyPattern_def ident_def
      char_classes validateProbe_def ContainsAny_def WorkloadSchemaVersion_def ApplicationContainer_def)


text \<open>
  The workload hash does not depend on the order in which environment variables and secret
  references are listed: permuting them in a valid workload changes neither the verdict nor the
  hash.
\<close>

theorem workload_hash_order_independent:
  assumes "Validate_workload w = None"
    and "mset env = mset (wl_Environment w)" and "mset secrets = mset (wl_SecretReferences w)"
  shows "Hash_workload h (w\<lparr>wl_Environment := env, wl_SecretReferences := secrets\<rparr>) = Hash_workload h w"
proof -
  from assms(1) have "distinct (map ev_Name (wl_Environment w))" "distinct (map sr_EnvName (wl_SecretReferences w))"
    by (auto simp: Validate_workload_None Let_def Normalize_workload_def ValidateEnvironment_None)
  then have "sort_key ev_Name env = sort_key ev_Name (wl_Environment w)"
      "sort_key sr_EnvName secrets = sort_key sr_EnvName (wl_SecretReferences w)"
    using assms(2,3) by (metis sort_key_mset_eq)+
  then have "Normalize_workload (w\<lparr>wl_Environment := env, wl_SecretReferences := secrets\<rparr>) = Normalize_workload w"
    by (simp add: Normalize_workload_def)
  then show ?thesis by (simp add: Hash_workload_def)
qed

lemma workload_hash_order_independent_witness:
  "Hash_workload (\<lambda>w. Some (concat (map ev_Name (wl_Environment w)))) (sample_workload (rev sample_env)) =
   Hash_workload (\<lambda>w. Some (concat (map ev_Name (wl_Environment w)))) (sample_workload sample_env)"
  using workload_hash_order_independent [OF sample_workload_ok, of "rev sample_env"
      "wl_SecretReferences (sample_workload sample_env)"]
  by (simp add: sample_workload_def)

text \<open>
  Accepted resources request no more than their limits, as exact quantities, provided the
  requested memory fits in an int64 number of bytes.
\<close>

theorem resource_requests_within_limits:
  assumes "validateResources r = None" "memory_quantity (rv_Memory (rs_Requests r)) < 2 ^ 63"
  shows "cpu_quantity (rv_CPU (rs_Requests r)) \<le> cpu_quantity (rv_CPU (rs_Limits r))
    \<and> memory_quantity (rv_Memory (rs_Requests r)) \<le> memory_quantity (rv_Memory (rs_Limits r))"
  using assms memoryBytes_exact [of "rv_Memory (rs_Requests r)"] memoryBytes_exact [of "rv_Memory (rs_Limits r)"]
    cpuMillicores_exact
  by (auto simp: validateResources_None split: if_splits)

lemma resource_requests_within_limits_witness:
  "memory_quantity ''128Mi'' \<le> memory_quantity ''1Gi''"
  using resource_requests_within_limits [OF sample_ok] by (simp add: quantity_eval)

text \<open>
  The proviso is needed: memoryBytes reports an overflowing quantity as 0 with an error that
  validateResources drops, so a request of 9999999999Ti passes under a limit of 1Mi.
\<close>

theorem overflowing_memory_request_accepted:
  "validateResources (sample_resources ''9999999999Ti'' ''1Mi'') = None
   \<and> memory_quantity ''1Mi'' < memory_quantity ''9999999999Ti''"
  by (simp add: quantity_eval)
end
