(* ===== verification/Rollout_Contract.thy ===== *)
theory Rollout_Contract
  imports Workload
begin

text \<open>
  The rollout contract, contracts/go/deploymentv1/rollout.go: runtime targets, authorities and
  snapshots, rollout intents, records and events, readiness evidence, known-good snapshots, and
  the rollout state machine. State and operation names are string constants in Go; here they are
  datatypes with a constructor for any other text. The canonical hash (json.Marshal, SHA-256,
  hexadecimal) of each type is a field of the parameter \<open>hashes\<close>; None is an encoding error.
\<close>

section \<open>States, operations and errors\<close>

datatype RolloutState = Prepared | Applying | Waiting | Succeeded | Failed | RollingBack
  | RolledBack | RollbackFailed | Cleaned | OtherState string

datatype RolloutOperation = NoOperation | OpApply | OpRollback | OpCleanup | OpFirstDeployCleanup
  | OtherOperation string

definition MaxRolloutAttempts :: int where "MaxRolloutAttempts = 3"
definition MaxRolloutErrorBytes :: nat where "MaxRolloutErrorBytes = 1024"
definition MaxRolloutResources :: nat where "MaxRolloutResources = 8"

definition RolloutSchemaVersion :: string where "RolloutSchemaVersion = ''opsi.rollout_intent/v1''"
definition RolloutRecordVersion :: string where "RolloutRecordVersion = ''opsi.rollout_record/v1''"
definition RolloutEventVersion :: string where "RolloutEventVersion = ''opsi.rollout_event/v1''"
definition RuntimeSnapshotVersion :: string where "RuntimeSnapshotVersion = ''opsi.runtime_snapshot/v1''"
definition KnownGoodSchemaVersion :: string where "KnownGoodSchemaVersion = ''opsi.known_good/v1''"
definition ReadinessEvidenceVersion :: string where "ReadinessEvidenceVersion = ''opsi.readiness_evidence/v1''"

definition RolloutCodeInvalid :: string where "RolloutCodeInvalid = ''ROLLOUT_INVALID''"
definition RolloutCodeConflict :: string where "RolloutCodeConflict = ''ROLLOUT_CONFLICT''"
definition RolloutCodeTargetBusy :: string where "RolloutCodeTargetBusy = ''ROLLOUT_TARGET_BUSY''"
definition RolloutCodeTerminalImmutable :: string where "RolloutCodeTerminalImmutable = ''ROLLOUT_TERMINAL_IMMUTABLE''"
definition RolloutCodeInvalidTransition :: string where "RolloutCodeInvalidTransition = ''ROLLOUT_INVALID_TRANSITION''"
definition RolloutCodeKnownGoodCorrupt :: string where "RolloutCodeKnownGoodCorrupt = ''KNOWN_GOOD_CORRUPT''"
definition RolloutCodeReadinessFailed :: string where "RolloutCodeReadinessFailed = ''RUNTIME_READINESS_FAILED''"
definition RolloutCodePreflightFailed :: string where "RolloutCodePreflightFailed = ''ROLLOUT_PREFLIGHT_FAILED''"
definition RolloutCodeRuntimeFailed :: string where "RolloutCodeRuntimeFailed = ''ROLLOUT_RUNTIME_FAILED''"
definition RolloutCodeCancelledBeforeMutation :: string where
  "RolloutCodeCancelledBeforeMutation = ''CANCELLED_BEFORE_MUTATION''"

definition FailurePhasePreMutation :: string where "FailurePhasePreMutation = ''pre_mutation''"
definition FailurePhasePostMutation :: string where "FailurePhasePostMutation = ''post_mutation''"

record RolloutError =
  re_Code :: string
  re_Message :: string
  re_Retryable :: bool
  re_FailurePhase :: string

definition Error_rollout :: "RolloutError option \<Rightarrow> string" where \<comment> \<open>(*RolloutError).Error\<close>
  "Error_rollout e = (case e of None \<Rightarrow> []
     | Some r \<Rightarrow> if re_Message r = [] then re_Code r else re_Code r @ '': '' @ re_Message r)"

definition NewRolloutError :: "string \<Rightarrow> string \<Rightarrow> bool \<Rightarrow> RolloutError" where
  "NewRolloutError code message retryable =
     \<lparr>re_Code = code, re_Message = take MaxRolloutErrorBytes (TrimSpace message),
      re_Retryable = retryable, re_FailurePhase = []\<rparr>"

section \<open>Runtime targets and snapshots\<close>

record RuntimeTarget =
  tg_ProjectID :: string
  tg_EnvironmentID :: string
  tg_RuntimeID :: string
  tg_ServiceKey :: string
  tg_NodeID :: string
  tg_AgentID :: string

text \<open>strings.Join with the NUL separator.\<close>

definition Key_target :: "RuntimeTarget \<Rightarrow> string" where
  "Key_target t = tg_ProjectID t @ CHR 0x00 # tg_EnvironmentID t @ CHR 0x00 # tg_RuntimeID t @ CHR 0x00 # tg_ServiceKey t"

text \<open>
  Go ranges over a map here, in no fixed order: with several invalid fields any of them may be
  the one reported. The model reports the first in declaration order.
\<close>

definition Validate_target :: "RuntimeTarget \<Rightarrow> string option" where
  "Validate_target t = first_error (\<lambda>(field, value). if opaqueID value then None else Some (field @ '' is invalid''))
     [(''project_id'', tg_ProjectID t), (''environment_id'', tg_EnvironmentID t), (''runtime_id'', tg_RuntimeID t),
      (''service_key'', tg_ServiceKey t), (''node_id'', tg_NodeID t), (''agent_id'', tg_AgentID t)]"

record RuntimeAuthority =
  ra_TopologyPlanID :: string
  ra_TopologyRevision :: nat
  ra_TopologyHash :: string
  ra_DeploymentPolicyID :: string
  ra_DeploymentPolicyRevision :: nat
  ra_DeploymentPolicyHash :: string
  ra_RoutingDecisionHash :: string

definition Validate_authority :: "RuntimeAuthority \<Rightarrow> string option" where
  "Validate_authority a =
     (if \<not> opaqueID (ra_TopologyPlanID a) \<or> ra_TopologyRevision a = 0 \<or> \<not> hash64 (ra_TopologyHash a)
         \<or> \<not> opaqueID (ra_DeploymentPolicyID a) \<or> ra_DeploymentPolicyRevision a = 0
         \<or> \<not> hash64 (ra_DeploymentPolicyHash a) \<or> \<not> hash64 (ra_RoutingDecisionHash a)
      then Some ''runtime authority identity is incomplete'' else None)"

record RuntimeSnapshot =
  sn_SchemaVersion :: string
  sn_Target :: RuntimeTarget
  sn_DeploymentJobID :: string
  sn_Image :: ImmutableImage
  sn_Workload :: WorkloadSpec
  sn_WorkloadSpecHash :: string
  sn_Exposure :: ExposureSpec
  sn_ExposureSpecHash :: string
  sn_Authority :: RuntimeAuthority
  sn_Preview :: "PreviewSpec option"

definition HasExternalExposure :: "RuntimeSnapshot \<Rightarrow> bool" where
  "HasExternalExposure s = (sn_ExposureSpecHash s \<noteq> [])"

definition exposure_matches :: "RuntimeSnapshot \<Rightarrow> ExposureSpec \<Rightarrow> bool" where
  "exposure_matches s e =
     (ex_SpecHash e = sn_ExposureSpecHash s \<and> ex_ProjectID e = tg_ProjectID (sn_Target s)
      \<and> ex_EnvironmentID e = tg_EnvironmentID (sn_Target s) \<and> ex_RuntimeID e = tg_RuntimeID (sn_Target s)
      \<and> ex_ServiceKey e = tg_ServiceKey (sn_Target s) \<and> ex_DeploymentJobID e = sn_DeploymentJobID s
      \<and> ex_ServicePort e = wl_ContainerPort (sn_Workload s))"

definition Validate_snapshot :: "exposure_hash \<Rightarrow> workload_hash \<Rightarrow> RuntimeSnapshot \<Rightarrow> string option" where
  "Validate_snapshot hE hW s =
     or_else (if sn_SchemaVersion s \<noteq> RuntimeSnapshotVersion
              then Some ''unsupported runtime snapshot schema_version'' else None)
    (or_else (Validate_target (sn_Target s))
    (or_else (case sn_Preview s of None \<Rightarrow> None | Some p \<Rightarrow>
                if Validate_preview p \<noteq> None \<or> pv_ServiceKey p \<noteq> tg_ServiceKey (sn_Target s)
                then Some ''preview authority is invalid'' else None)
    (or_else (if \<not> opaqueID (sn_DeploymentJobID s) then Some ''deployment_job_id is invalid'' else None)
    (or_else (Validate_image (sn_Image s))
    (or_else (if Hash_workload hW (sn_Workload s) \<noteq> Inr (sn_WorkloadSpecHash s)
                 \<or> wl_ServiceKey (sn_Workload s) \<noteq> tg_ServiceKey (sn_Target s)
              then Some ''workload snapshot hash or identity is invalid'' else None)
    (or_else (if sn_ExposureSpecHash s = []
              then (if sn_Exposure s \<noteq> zero_ExposureSpec
                    then Some ''no-external runtime snapshot must omit ExposureSpec'' else None)
              else (case Canonicalize_exposure hE (sn_Exposure s) of
                      Inl _ \<Rightarrow> Some ''exposure snapshot hash or identity is invalid''
                    | Inr e \<Rightarrow> if exposure_matches s e then None
                               else Some ''exposure snapshot hash or identity is invalid''))
      (Validate_authority (sn_Authority s))))))))"

text \<open>What the hashes of a snapshot and of everything that holds one leave out.\<close>

definition drop_metadata :: "RuntimeSnapshot \<Rightarrow> RuntimeSnapshot" where
  "drop_metadata s = s\<lparr>sn_Exposure := (sn_Exposure s)\<lparr>ex_Metadata := None\<rparr>\<rparr>"

definition Hash_snapshot ::
  "exposure_hash \<Rightarrow> workload_hash \<Rightarrow> (RuntimeSnapshot \<Rightarrow> string option) \<Rightarrow> RuntimeSnapshot \<Rightarrow> string + string" where
  "Hash_snapshot hE hW hS s =
     (case Validate_snapshot hE hW s of Some e \<Rightarrow> Inl e
      | None \<Rightarrow> (case hS (drop_metadata s) of None \<Rightarrow> Inl ''json: marshal error'' | Some x \<Rightarrow> Inr x))"

section \<open>Intents, records, evidence and known-good snapshots\<close>

record RolloutIntent =
  in_SchemaVersion :: string
  in_RolloutID :: string
  in_Operation :: RolloutOperation
  in_Target :: RuntimeTarget
  in_Desired :: RuntimeSnapshot
  in_PreviousKnownGoodID :: string
  in_PreviousKnownGoodHash :: string
  in_PreviousDigest :: string
  in_ExpectedKnownGoodID :: string
  in_ExpectedKnownGoodHash :: string
  in_Attempt :: int
  in_CreatedAt :: time
  in_IntentHash :: string

record ResourceIdentity =
  ri_Kind :: string
  ri_Namespace :: string
  ri_Name :: string
  ri_UID :: string
  ri_ResourceVersion :: string
  ri_FunctionalHash :: string

record ReadinessEvidence =
  ed_SchemaVersion :: string
  ed_RuntimeReady :: bool
  ed_LocalRoutingReady :: bool
  ed_ExternalReady :: bool
  ed_ApplicationImageID :: string
  ed_AvailableReplicas :: int
  ed_WorkloadEvidenceHash :: string
  ed_ServiceEvidenceHash :: string
  ed_ExposureEvidenceHash :: string
  ed_ApplicationImageIDHash :: string
  ed_LocalProbeEvidenceHash :: string
  ed_ExternalEvidenceHash :: string
  ed_ObservedAt :: time

record RolloutRecord =
  rec_SchemaVersion :: string
  rec_Intent :: RolloutIntent
  rec_State :: RolloutState
  rec_Version :: nat
  rec_StateHash :: string
  rec_Error :: "RolloutError option"
  rec_Resources :: "ResourceIdentity list"
  rec_Evidence :: "ReadinessEvidence option"
  rec_CreatedAt :: time
  rec_UpdatedAt :: time
  rec_TerminalAt :: "time option"

record RolloutEvent =
  evt_SchemaVersion :: string
  evt_RolloutID :: string
  evt_Version :: nat
  evt_State :: RolloutState
  evt_StateHash :: string
  evt_Error :: "RolloutError option"
  evt_CreatedAt :: time

record KnownGoodSnapshot =
  kg_SchemaVersion :: string
  kg_ID :: string
  kg_Target :: RuntimeTarget
  kg_Runtime :: RuntimeSnapshot
  kg_Resources :: "ResourceIdentity list"
  kg_EvidenceHash :: string
  kg_VerifiedAt :: time
  kg_SnapshotHash :: string

record hashes =
  hx_exposure :: exposure_hash
  hx_workload :: workload_hash
  hx_intent :: "RolloutIntent \<Rightarrow> string option"
  hx_record :: "RolloutRecord \<Rightarrow> string option"
  hx_evidence :: "ReadinessEvidence \<Rightarrow> string option"
  hx_known_good :: "KnownGoodSnapshot \<Rightarrow> string option"

definition CalculateStateHash :: "hashes \<Rightarrow> RolloutRecord \<Rightarrow> string option" where
  "CalculateStateHash H r = hx_record H (r\<lparr>rec_StateHash := []\<rparr>)"

text \<open>The reference checks of RolloutIntent.Canonicalize, on the intent with its operation set.\<close>

definition intent_reference_error :: "RolloutIntent \<Rightarrow> string option" where
  "intent_reference_error out =
     (let prevID = in_PreviousKnownGoodID out; prevHash = in_PreviousKnownGoodHash out;
          expID = in_ExpectedKnownGoodID out; expHash = in_ExpectedKnownGoodHash out in
      first_failure
       [((prevID = []) \<noteq> (prevHash = []), ''previous known-good reference is incomplete''),
        (prevID \<noteq> [] \<and> (\<not> opaqueID prevID \<or> \<not> hash64 prevHash), ''previous known-good reference is invalid''),
        (in_PreviousDigest out \<noteq> [] \<and> \<not> digestPattern (in_PreviousDigest out), ''previous digest is invalid''),
        (prevID = [] \<and> in_PreviousDigest out \<noteq> [], ''previous digest requires a known-good reference''),
        ((expID = []) \<noteq> (expHash = []), ''expected known-good reference is incomplete''),
        (expID \<noteq> [] \<and> (\<not> opaqueID expID \<or> \<not> hash64 expHash), ''expected known-good reference is invalid''),
        (in_Operation out = OpApply \<and> expID \<noteq> [],
           ''apply rollout must use the previous known-good reference as its expectation''),
        (in_Operation out = OpRollback \<and> (prevID = [] \<or> expID = []),
           ''explicit rollback requires target and expected current known-good references''),
        (in_Operation out = OpCleanup \<and> (sn_Preview (in_Desired out) = None \<or> prevID \<noteq> [] \<or> expID \<noteq> []),
           ''preview cleanup requires preview authority and no known-good references''),
        (in_Operation out = OpFirstDeployCleanup \<and> (sn_Preview (in_Desired out) \<noteq> None \<or> prevID \<noteq> [] \<or> expID \<noteq> []),
           ''first deploy cleanup requires production authority and no known-good references'')])"

definition known_operation :: "RolloutOperation \<Rightarrow> bool" where
  "known_operation operation = (operation = OpApply \<or> operation = OpRollback \<or> operation = OpCleanup
     \<or> operation = OpFirstDeployCleanup)"

definition intent_error :: "hashes \<Rightarrow> RolloutIntent \<Rightarrow> string option" where
  "intent_error H out =
     or_else (if \<not> known_operation (in_Operation out) then Some ''rollout operation is invalid'' else None)
    (or_else (Validate_target (in_Target out))
    (or_else (if Validate_snapshot (hx_exposure H) (hx_workload H) (in_Desired out) \<noteq> None
                 \<or> in_Target out \<noteq> sn_Target (in_Desired out)
              then Some ''desired runtime snapshot does not match rollout target'' else None)
    (or_else (if in_Attempt out < 1 \<or> MaxRolloutAttempts < in_Attempt out \<or> IsZero (in_CreatedAt out)
              then Some ''rollout attempt or timestamp is invalid'' else None)
      (intent_reference_error out))))"

definition intent_hash :: "hashes \<Rightarrow> RolloutIntent \<Rightarrow> string option" where
  "intent_hash H out = hx_intent H (out\<lparr>in_IntentHash := [], in_Desired := drop_metadata (in_Desired out)\<rparr>)"

definition Canonicalize_intent :: "hashes \<Rightarrow> RolloutIntent \<Rightarrow> string + RolloutIntent" where
  "Canonicalize_intent H i =
     (if in_SchemaVersion i \<noteq> RolloutSchemaVersion \<or> \<not> opaqueID (in_RolloutID i)
      then Inl ''rollout schema or id is invalid''
      else let out = (if in_Operation i = NoOperation then i\<lparr>in_Operation := OpApply\<rparr> else i) in
      case intent_error H out of Some e \<Rightarrow> Inl e | None \<Rightarrow>
      case intent_hash H out of None \<Rightarrow> Inl ''json: marshal error'' | Some hash \<Rightarrow>
      if in_IntentHash out \<noteq> [] \<and> in_IntentHash out \<noteq> hash then Inl ''rollout intent hash mismatch''
      else Inr (out\<lparr>in_IntentHash := hash\<rparr>))"

definition Validate_intent :: "hashes \<Rightarrow> RolloutIntent \<Rightarrow> string option" where
  "Validate_intent H i =
     (if in_IntentHash i = [] then Some ''rollout intent_hash is required''
      else case Canonicalize_intent H i of Inl e \<Rightarrow> Some e | Inr _ \<Rightarrow> None)"

definition Validate_evidence :: "ReadinessEvidence \<Rightarrow> bool \<Rightarrow> bool \<Rightarrow> string option" where
  "Validate_evidence e requireLocal requireExternal =
     or_else (first_failure
       [(ed_SchemaVersion e \<noteq> ReadinessEvidenceVersion \<or> IsZero (ed_ObservedAt e) \<or> \<not> ed_RuntimeReady e,
           ''runtime readiness evidence is incomplete''),
        (list_ex (\<lambda>hash. \<not> hash64 hash) [ed_WorkloadEvidenceHash e, ed_ServiceEvidenceHash e,
                                       ed_ExposureEvidenceHash e, ed_ApplicationImageIDHash e],
           ''runtime readiness evidence hash is invalid''),
        (requireLocal \<and> (\<not> ed_LocalRoutingReady e \<or> \<not> hash64 (ed_LocalProbeEvidenceHash e)),
           ''local routing readiness evidence is incomplete''),
        (requireExternal \<and> (\<not> ed_ExternalReady e \<or> \<not> hash64 (ed_ExternalEvidenceHash e)),
           ''external readiness evidence is incomplete'')])
     (if ed_ApplicationImageID e = [] \<and> ed_AvailableReplicas e = 0 then None
      else if ed_AvailableReplicas e < 1 \<or> 2048 < length (ed_ApplicationImageID e)
              \<or> ContainsAny (ed_ApplicationImageID e) [CHR 0x0D, CHR 0x0A, CHR 0x00]
      then Some ''application readiness facts are invalid'' else None)"

definition Hash_evidence :: "hashes \<Rightarrow> ReadinessEvidence \<Rightarrow> string option" where
  "Hash_evidence H e = hx_evidence H e"

definition resource_key :: "ResourceIdentity \<Rightarrow> string" where
  "resource_key r = ri_Kind r @ CHR 0x00 # ri_Namespace r @ CHR 0x00 # ri_Name r"

definition resource_ok :: "ResourceIdentity \<Rightarrow> bool" where
  "resource_ok r = (ri_Kind r \<noteq> [] \<and> ri_Name r \<noteq> [] \<and> ri_UID r \<noteq> [] \<and> ri_ResourceVersion r \<noteq> []
     \<and> hash64 (ri_FunctionalHash r))"

definition known_good_hash :: "hashes \<Rightarrow> KnownGoodSnapshot \<Rightarrow> string option" where
  "known_good_hash H out = hx_known_good H (out\<lparr>kg_SnapshotHash := [], kg_Runtime := drop_metadata (kg_Runtime out)\<rparr>)"

definition Canonicalize_known_good :: "hashes \<Rightarrow> KnownGoodSnapshot \<Rightarrow> string + KnownGoodSnapshot" where
  "Canonicalize_known_good H s =
     (if kg_SchemaVersion s \<noteq> KnownGoodSchemaVersion \<or> \<not> opaqueID (kg_ID s) \<or> kg_Target s \<noteq> sn_Target (kg_Runtime s)
         \<or> IsZero (kg_VerifiedAt s) \<or> \<not> hash64 (kg_EvidenceHash s)
      then Inl ''known-good identity or evidence is invalid''
      else if Validate_snapshot (hx_exposure H) (hx_workload H) (kg_Runtime s) \<noteq> None
              \<or> kg_Resources s = [] \<or> MaxRolloutResources < length (kg_Resources s)
      then Inl ''known-good runtime or resources are invalid''
      else let out = s\<lparr>kg_Resources := sort_key resource_key (kg_Resources s)\<rparr> in
      if \<not> list_all resource_ok (kg_Resources out) then Inl ''known-good resource identity is invalid''
      else case known_good_hash H out of None \<Rightarrow> Inl ''json: marshal error'' | Some hash \<Rightarrow>
      if kg_SnapshotHash out \<noteq> [] \<and> kg_SnapshotHash out \<noteq> hash then Inl ''known-good snapshot hash mismatch''
      else Inr (out\<lparr>kg_SnapshotHash := hash\<rparr>))"

definition Validate_known_good :: "hashes \<Rightarrow> KnownGoodSnapshot \<Rightarrow> string option" where
  "Validate_known_good H s =
     (if kg_SnapshotHash s = [] then Some ''known-good snapshot_hash is required''
      else case Canonicalize_known_good H s of Inl e \<Rightarrow> Some e | Inr _ \<Rightarrow> None)"

section \<open>The rollout state machine\<close>

definition IsTerminalRolloutState :: "RolloutState \<Rightarrow> bool" where
  "IsTerminalRolloutState state = (case state of
     Succeeded \<Rightarrow> True | RolledBack \<Rightarrow> True | RollbackFailed \<Rightarrow> True | Cleaned \<Rightarrow> True | _ \<Rightarrow> False)"

definition IsRolloutFailurePhase :: "string \<Rightarrow> bool" where
  "IsRolloutFailurePhase phase = (phase = FailurePhasePreMutation \<or> phase = FailurePhasePostMutation)"

definition RolloutMutationObserved :: "RolloutState \<Rightarrow> bool" where
  "RolloutMutationObserved state = (case state of
     Applying \<Rightarrow> True | Waiting \<Rightarrow> True | Failed \<Rightarrow> True | RollingBack \<Rightarrow> True | RolledBack \<Rightarrow> True
   | RollbackFailed \<Rightarrow> True | Succeeded \<Rightarrow> True | _ \<Rightarrow> False)"

definition IsFactualTerminalRollout :: "RolloutRecord \<Rightarrow> bool" where
  "IsFactualTerminalRollout r =
     (rec_TerminalAt r \<noteq> None \<and> (case rec_State r of
        Succeeded \<Rightarrow> True | RolledBack \<Rightarrow> True | RollbackFailed \<Rightarrow> True
      | Failed \<Rightarrow> rec_Error r \<noteq> None | _ \<Rightarrow> False))"

fun CanTransitionRollout :: "RolloutState \<Rightarrow> RolloutState \<Rightarrow> bool" where
  "CanTransitionRollout Prepared to = (to \<in> {Applying, RollingBack, Failed})"
| "CanTransitionRollout Applying to = (to \<in> {Waiting, Failed})"
| "CanTransitionRollout Waiting to = (to \<in> {Succeeded, Cleaned, Failed})"
| "CanTransitionRollout Failed to = (to = RollingBack)"
| "CanTransitionRollout RollingBack to = (to \<in> {RolledBack, RollbackFailed})"
| "CanTransitionRollout _ to = False"

definition rollout_states :: "RolloutState list" where
  "rollout_states = [Prepared, Applying, Waiting, Failed, RollingBack, Succeeded, RolledBack, RollbackFailed, Cleaned]"

text \<open>
  The inner loop of CanCompleteRollout: Inl is its \<open>return true\<close>, Inr the states seen and the
  queue once the loop is done.
\<close>

fun visit_next :: "RolloutState \<Rightarrow> RolloutState \<Rightarrow> RolloutState list \<Rightarrow> RolloutState list \<Rightarrow> RolloutState list
    \<Rightarrow> unit + (RolloutState list \<times> RolloutState list)" where
  "visit_next current to [] seen queue = Inr (seen, queue)"
| "visit_next current to (next # rest) seen queue =
     (if next \<in> set seen \<or> \<not> CanTransitionRollout current next then visit_next current to rest seen queue
      else if next = to then Inl ()
      else visit_next current to rest (next # seen) (queue @ [next]))"

definition unseen :: "RolloutState list \<Rightarrow> nat" where
  "unseen seen = card (set rollout_states - set seen)"

lemma unseen_Cons: "x \<in> set rollout_states \<Longrightarrow> x \<notin> set seen \<Longrightarrow> unseen seen = Suc (unseen (x # seen))"
proof -
  assume x: "x \<in> set rollout_states" "x \<notin> set seen"
  have "set rollout_states - set (x # seen) = set rollout_states - set seen - {x}" by auto
  moreover have "x \<in> set rollout_states - set seen" using x by blast
  ultimately show "unseen seen = Suc (unseen (x # seen))"
    unfolding unseen_def by (metis List.finite_set card_Suc_Diff1 finite_Diff)
qed

lemma visit_next_measure:
  assumes "visit_next current to ns seen queue = Inr (seen', queue')" "set ns \<subseteq> set rollout_states"
  shows "unseen seen' + length queue' = unseen seen + length queue"
  using assms
  by (induction current to ns seen queue rule: visit_next.induct) (fastforce dest: unseen_Cons split: if_splits)+

function search_rollout :: "RolloutState \<Rightarrow> RolloutState list \<Rightarrow> RolloutState list \<Rightarrow> bool" where
  "search_rollout to seen queue = (case queue of [] \<Rightarrow> False
     | current # rest \<Rightarrow> (case visit_next current to rollout_states seen rest of
         Inl _ \<Rightarrow> True | Inr (seen', queue') \<Rightarrow> search_rollout to seen' queue'))"
  by pat_completeness auto
termination
  by (relation "measure (\<lambda>(to, seen, queue). unseen seen + length queue)")
    (auto dest: visit_next_measure)

declare search_rollout.simps [simp del]

definition CanCompleteRollout :: "RolloutState \<Rightarrow> RolloutState \<Rightarrow> bool" where
  "CanCompleteRollout from to = (from = to \<or> search_rollout to [from] [from])"

subsection \<open>Facts on the state machine\<close>

fun_cases CanTransitionRolloutE: "CanTransitionRollout from to"

lemma CanTransition_known: "CanTransitionRollout from to \<Longrightarrow> from \<in> set rollout_states \<and> to \<in> set rollout_states"
  by (cases "from") (auto simp: rollout_states_def)

lemma terminal_state_final: "IsTerminalRolloutState from \<Longrightarrow> \<not> CanTransitionRollout from to"
  by (cases "from") (auto simp: IsTerminalRolloutState_def)

lemma visit_next_Inl:
  "visit_next current to ns seen queue = Inl u \<Longrightarrow> CanTransitionRollout current to \<and> to \<notin> set seen"
  by (induction current to ns seen queue rule: visit_next.induct) (auto split: if_splits)

lemma visit_next_Inr:
  assumes "visit_next current to ns seen queue = Inr (seen', queue')" "to \<notin> set seen"
  shows "to \<notin> set seen' \<and> (\<exists>new. set seen' = set new \<union> set seen \<and> set queue' = set new \<union> set queue
            \<and> (\<forall>x \<in> set new. CanTransitionRollout current x))
         \<and> (\<forall>n \<in> set ns. CanTransitionRollout current n \<longrightarrow> n \<in> set seen')"
  using assms
proof (induction current to ns seen queue rule: visit_next.induct)
  case (1 current to seen queue)
  then show ?case by (auto intro: exI [of _ "[]"])
next
  case (2 current to n rest seen queue)
  show ?case
  proof (cases "n \<in> set seen \<or> \<not> CanTransitionRollout current n")
    case True
    with 2 show ?thesis by auto
  next
    case False
    with 2(3,4) have "visit_next current to rest (n # seen) (queue @ [n]) = Inr (seen', queue')" "n \<noteq> to"
      by (auto split: if_splits)
    with 2(2) [OF False] 2(4) obtain new where "to \<notin> set seen'" "set seen' = set new \<union> set (n # seen)"
        "set queue' = set new \<union> set (queue @ [n])" "\<forall>x \<in> set new. CanTransitionRollout current x"
        "\<forall>m \<in> set rest. CanTransitionRollout current m \<longrightarrow> m \<in> set seen'"
      by auto
    with False show ?thesis by (intro conjI exI [of _ "n # new"]) auto
  qed
qed

text \<open>
  The search answers whether \<open>to\<close> can be reached from the queue, when the states already seen
  and no longer queued have all their successors among the seen ones.
\<close>

lemma search_rollout_correct:
  assumes "set queue \<subseteq> set seen" "to \<notin> set seen"
    and "\<forall>x \<in> set seen - set queue. \<forall>y. CanTransitionRollout x y \<longrightarrow> y \<in> set seen"
  shows "search_rollout to seen queue \<longleftrightarrow> (\<exists>x \<in> set queue. CanTransitionRollout\<^sup>*\<^sup>* x to)"
  using assms
proof (induction to seen queue rule: search_rollout.induct)
  case (1 to seen queue)
  show ?case
  proof (cases queue)
    case Nil
    then show ?thesis by (subst search_rollout.simps) simp
  next
    case (Cons current rest)
    show ?thesis
    proof (cases "visit_next current to rollout_states seen rest")
      case (Inl u)
      then have "CanTransitionRollout current to" using visit_next_Inl by blast
      with Cons Inl show ?thesis by (auto simp: search_rollout.simps [of to seen "current # rest"])
    next
      case (Inr r)
      obtain seen' queue' where r: "r = (seen', queue')" by (cases r)
      have v: "to \<notin> set seen' \<and> (\<exists>new. set seen' = set new \<union> set seen \<and> set queue' = set new \<union> set rest
            \<and> (\<forall>x \<in> set new. CanTransitionRollout current x))
         \<and> (\<forall>n \<in> set rollout_states. CanTransitionRollout current n \<longrightarrow> n \<in> set seen')"
        using Inr r by (intro visit_next_Inr "1.prems"(2)) simp
      then obtain new where new: "to \<notin> set seen'" "set seen' = set new \<union> set seen"
          "set queue' = set new \<union> set rest" "\<forall>x \<in> set new. CanTransitionRollout current x" by blast
      have next_seen: "\<forall>y. CanTransitionRollout current y \<longrightarrow> y \<in> set seen'"
        using v CanTransition_known by blast
      have closed: "\<forall>x \<in> set seen' - set queue'. \<forall>y. CanTransitionRollout x y \<longrightarrow> y \<in> set seen'"
      proof (intro ballI allI impI)
        fix x y assume x: "x \<in> set seen' - set queue'" "CanTransitionRollout x y"
        then have "x \<in> set seen" "x \<notin> set rest" using new(2,3) by auto
        then have "x = current \<or> x \<in> set seen - set queue" using Cons by simp
        then have "y \<in> set seen' \<or> y \<in> set seen" using next_seen x(2) "1.prems"(3) by blast
        then show "y \<in> set seen'" using new(2) by simp
      qed
      have IH: "search_rollout to seen' queue' \<longleftrightarrow> (\<exists>x \<in> set queue'. CanTransitionRollout\<^sup>*\<^sup>* x to)"
      proof (rule "1.IH" [OF Cons Inr r [symmetric] _ new(1) closed])
        show "set queue' \<subseteq> set seen'" using "1.prems"(1) new(2,3) Cons by auto
      qed
      have "(\<exists>x \<in> set queue'. CanTransitionRollout\<^sup>*\<^sup>* x to) \<longleftrightarrow> (\<exists>x \<in> set queue. CanTransitionRollout\<^sup>*\<^sup>* x to)"
      proof
        assume "\<exists>x \<in> set queue'. CanTransitionRollout\<^sup>*\<^sup>* x to"
        then show "\<exists>x \<in> set queue. CanTransitionRollout\<^sup>*\<^sup>* x to"
          using new(3,4) Cons by (metis Un_iff converse_rtranclp_into_rtranclp list.set_intros)
      next
        assume "\<exists>x \<in> set queue. CanTransitionRollout\<^sup>*\<^sup>* x to"
        then obtain x where x: "x \<in> set queue" "CanTransitionRollout\<^sup>*\<^sup>* x to" by blast
        have "x \<in> set seen' \<Longrightarrow> \<exists>z \<in> set queue'. CanTransitionRollout\<^sup>*\<^sup>* z to"
          using x(2)
        proof (induction rule: converse_rtranclp_induct)
          case base
          with new(1) show ?case by simp
        next
          case (step y z)
          then show ?case using closed by (metis DiffI converse_rtranclp_into_rtranclp)
        qed
        with x(1) "1.prems"(1) new(2) show "\<exists>x \<in> set queue'. CanTransitionRollout\<^sup>*\<^sup>* x to" by auto
      qed
      with IH Cons Inr r show ?thesis by (simp add: search_rollout.simps [of to seen "current # rest"])
    qed
  qed
qed

lemma CanCompleteRollout_iff: "CanCompleteRollout from to \<longleftrightarrow> CanTransitionRollout\<^sup>*\<^sup>* from to"
  using search_rollout_correct [of "[from]" "[from]" to] by (auto simp: CanCompleteRollout_def)

text \<open>
  C24: CanCompleteRollout decides reachability in the rollout state machine: it accepts a
  reported state exactly when some sequence of allowed transitions leads to it.
\<close>

theorem can_complete_iff_reachable:
  "CanCompleteRollout from to \<longleftrightarrow> CanTransitionRollout\<^sup>*\<^sup>* from to"
  by (rule CanCompleteRollout_iff)

text \<open>The number of transitions still possible from a state.\<close>

definition rollout_rank :: "RolloutState \<Rightarrow> nat" where
  "rollout_rank s = (case s of Prepared \<Rightarrow> 5 | Applying \<Rightarrow> 4 | Waiting \<Rightarrow> 3 | Failed \<Rightarrow> 2 | RollingBack \<Rightarrow> 1 | _ \<Rightarrow> 0)"

lemma CanTransition_rank: "CanTransitionRollout from to \<Longrightarrow> rollout_rank to < rollout_rank from"
  by (erule CanTransitionRolloutE) (auto simp: rollout_rank_def)

lemma rollout_path_rank:
  "(CanTransitionRollout ^^ n) from to \<Longrightarrow> n + rollout_rank to \<le> rollout_rank from"
proof (induction n arbitrary: to)
  case (Suc n)
  then obtain mid where "(CanTransitionRollout ^^ n) from mid" "CanTransitionRollout mid to" by auto
  with Suc.IH [of mid] CanTransition_rank show ?case by fastforce
qed simp

lemma rollout_path_acyclic: "CanTransitionRollout\<^sup>+\<^sup>+ from to \<Longrightarrow> rollout_rank to < rollout_rank from"
  by (induction rule: tranclp_induct) (auto dest: CanTransition_rank)

lemma after_failure:
  "CanTransitionRollout\<^sup>*\<^sup>* from to \<Longrightarrow> from \<in> {Failed, RollingBack, RolledBack, RollbackFailed}
     \<Longrightarrow> to \<in> {Failed, RollingBack, RolledBack, RollbackFailed}"
proof (induction rule: rtranclp_induct)
  case (step y z)
  then show ?case by (auto elim: CanTransitionRolloutE)
qed

lemma terminal_reachable:
  assumes "from \<in> set rollout_states"
  shows "\<exists>to. IsTerminalRolloutState to \<and> CanTransitionRollout\<^sup>*\<^sup>* from to"
proof -
  have rb: "CanTransitionRollout RollingBack RolledBack" "CanTransitionRollout Failed RollingBack"
    "CanTransitionRollout Waiting Failed" "CanTransitionRollout Applying Failed" "CanTransitionRollout Prepared Failed"
    by simp_all
  then have "CanTransitionRollout\<^sup>*\<^sup>* RollingBack RolledBack" "CanTransitionRollout\<^sup>*\<^sup>* Failed RolledBack"
    "CanTransitionRollout\<^sup>*\<^sup>* Waiting RolledBack" "CanTransitionRollout\<^sup>*\<^sup>* Applying RolledBack"
    "CanTransitionRollout\<^sup>*\<^sup>* Prepared RolledBack"
    by (meson converse_rtranclp_into_rtranclp r_into_rtranclp)+
  with assms show ?thesis
    by (auto simp: rollout_states_def IsTerminalRolloutState_def intro: exI [of _ RolledBack] split: RolloutState.splits)
qed

text \<open>
  C25: The life cycle of a rollout: from every state of the contract some terminal state can be
  reported, no path of transitions has more than five steps, a terminal state is never left, and
  a rollout that failed is never reported as succeeded.
\<close>

theorem rollout_lifecycle:
  assumes "from \<in> set rollout_states"
  shows "(\<exists>to. IsTerminalRolloutState to \<and> CanCompleteRollout from to)
    \<and> (\<forall>n to. (CanTransitionRollout ^^ n) from to \<longrightarrow> n \<le> 5)
    \<and> (IsTerminalRolloutState from \<longrightarrow> (\<forall>to. CanCompleteRollout from to \<longrightarrow> to = from))
    \<and> (from = Failed \<longrightarrow> \<not> CanCompleteRollout from Succeeded)"
proof (intro conjI allI impI)
  show "\<exists>to. IsTerminalRolloutState to \<and> CanCompleteRollout from to"
    using terminal_reachable [OF assms] by (simp add: CanCompleteRollout_iff)
next
  fix n to assume "(CanTransitionRollout ^^ n) from to"
  then show "n \<le> 5"
    using rollout_path_rank [of n "from" to] by (auto simp: rollout_rank_def split: RolloutState.splits)
next
  fix to assume "IsTerminalRolloutState from" "CanCompleteRollout from to"
  then show "to = from" by (metis CanCompleteRollout_iff converse_rtranclpE terminal_state_final)
next
  assume "from = Failed"
  then show "\<not> CanCompleteRollout from Succeeded"
    using after_failure [of "from" Succeeded] by (auto simp: CanCompleteRollout_iff)
qed

lemma rollout_lifecycle_witness:
  "(\<exists>to. IsTerminalRolloutState to \<and> CanCompleteRollout Waiting to) \<and> \<not> CanCompleteRollout Failed Succeeded"
  using rollout_lifecycle [of Waiting] rollout_lifecycle [of Failed] by (simp add: rollout_states_def)

section \<open>Canonical intents and known-good snapshots\<close>

lemma Canonicalize_intent_Inr:
  "Canonicalize_intent H i = Inr c \<longleftrightarrow>
     in_SchemaVersion i = RolloutSchemaVersion \<and> opaqueID (in_RolloutID i)
     \<and> (\<exists>out hash. out = (if in_Operation i = NoOperation then i\<lparr>in_Operation := OpApply\<rparr> else i)
          \<and> intent_error H out = None \<and> intent_hash H out = Some hash
          \<and> (in_IntentHash i = [] \<or> in_IntentHash i = hash) \<and> c = out\<lparr>in_IntentHash := hash\<rparr>)"
  by (auto simp: Canonicalize_intent_def Let_def split: option.splits)

lemma intent_hash_update [simp]:
  "intent_error H (i\<lparr>in_IntentHash := x\<rparr>) = intent_error H i"
  "intent_hash H (i\<lparr>in_IntentHash := x\<rparr>) = intent_hash H i"
  by (simp_all add: intent_error_def intent_hash_def intent_reference_error_def Let_def)

lemma intent_error_None:
  "intent_error H i = None \<longleftrightarrow>
     known_operation (in_Operation i) \<and> Validate_target (in_Target i) = None
     \<and> Validate_snapshot (hx_exposure H) (hx_workload H) (in_Desired i) = None \<and> in_Target i = sn_Target (in_Desired i)
     \<and> 1 \<le> in_Attempt i \<and> in_Attempt i \<le> MaxRolloutAttempts \<and> \<not> IsZero (in_CreatedAt i)
     \<and> intent_reference_error i = None"
  by (auto simp: intent_error_def not_less)

lemma intent_reference_error_None:
  "intent_reference_error i = None \<longleftrightarrow>
     (in_PreviousKnownGoodID i = [] \<longleftrightarrow> in_PreviousKnownGoodHash i = [])
     \<and> (in_PreviousKnownGoodID i \<noteq> [] \<longrightarrow> opaqueID (in_PreviousKnownGoodID i) \<and> hash64 (in_PreviousKnownGoodHash i))
     \<and> (in_PreviousDigest i \<noteq> [] \<longrightarrow> digestPattern (in_PreviousDigest i) \<and> in_PreviousKnownGoodID i \<noteq> [])
     \<and> (in_ExpectedKnownGoodID i = [] \<longleftrightarrow> in_ExpectedKnownGoodHash i = [])
     \<and> (in_ExpectedKnownGoodID i \<noteq> [] \<longrightarrow> opaqueID (in_ExpectedKnownGoodID i) \<and> hash64 (in_ExpectedKnownGoodHash i))
     \<and> (in_Operation i = OpApply \<longrightarrow> in_ExpectedKnownGoodID i = [])
     \<and> (in_Operation i = OpRollback \<longrightarrow> in_PreviousKnownGoodID i \<noteq> [] \<and> in_ExpectedKnownGoodID i \<noteq> [])
     \<and> (in_Operation i = OpCleanup \<longrightarrow> sn_Preview (in_Desired i) \<noteq> None
          \<and> in_PreviousKnownGoodID i = [] \<and> in_ExpectedKnownGoodID i = [])
     \<and> (in_Operation i = OpFirstDeployCleanup \<longrightarrow> sn_Preview (in_Desired i) = None
          \<and> in_PreviousKnownGoodID i = [] \<and> in_ExpectedKnownGoodID i = [])"
  unfolding intent_reference_error_def Let_def first_failure_None by auto

lemma Canonicalize_intent_idem:
  assumes "Canonicalize_intent H i = Inr c"
  shows "Canonicalize_intent H c = Inr c"
proof -
  from assms have "known_operation (in_Operation c)"
    by (auto simp: Canonicalize_intent_Inr intent_error_None)
  then have "in_Operation c \<noteq> NoOperation" by (auto simp: known_operation_def)
  with assms show ?thesis by (auto simp: Canonicalize_intent_Inr)
qed

lemma Validate_intent_canonical:
  assumes "Canonicalize_intent H i = Inr c" "in_IntentHash c \<noteq> []"
  shows "Validate_intent H c = None"
  using assms by (simp add: Validate_intent_def Canonicalize_intent_idem)

lemma Canonicalize_known_good_Inr:
  "Canonicalize_known_good H s = Inr c \<longleftrightarrow>
     kg_SchemaVersion s = KnownGoodSchemaVersion \<and> opaqueID (kg_ID s) \<and> kg_Target s = sn_Target (kg_Runtime s)
     \<and> \<not> IsZero (kg_VerifiedAt s) \<and> hash64 (kg_EvidenceHash s)
     \<and> Validate_snapshot (hx_exposure H) (hx_workload H) (kg_Runtime s) = None
     \<and> kg_Resources s \<noteq> [] \<and> length (kg_Resources s) \<le> MaxRolloutResources
     \<and> (\<forall>r \<in> set (kg_Resources s). resource_ok r)
     \<and> (\<exists>out hash. out = s\<lparr>kg_Resources := sort_key resource_key (kg_Resources s)\<rparr>
          \<and> known_good_hash H out = Some hash \<and> (kg_SnapshotHash s = [] \<or> kg_SnapshotHash s = hash)
          \<and> c = out\<lparr>kg_SnapshotHash := hash\<rparr>)"
  by (auto simp: Canonicalize_known_good_def Let_def list_all_iff not_less split: option.splits)

lemma known_good_hash_update [simp]:
  "known_good_hash H (s\<lparr>kg_SnapshotHash := x\<rparr>) = known_good_hash H s"
  "known_good_hash H (s\<lparr>kg_SnapshotHash := x, kg_Resources := y\<rparr>) = known_good_hash H (s\<lparr>kg_Resources := y\<rparr>)"
  by (simp_all add: known_good_hash_def)

lemma Canonicalize_known_good_idem:
  assumes "Canonicalize_known_good H s = Inr c"
  shows "Canonicalize_known_good H c = Inr c"
  using assms by (auto simp: Canonicalize_known_good_Inr sort_key_idem)

text \<open>
  C26: A canonical rollout intent is a fixed point of Canonicalize and passes Validate; it
  names a known operation on the target of its desired snapshot, within the attempt bound, and
  carries the known-good references its operation needs: an explicit rollback both, an apply no
  expectation, the two cleanups none.
\<close>

theorem canonical_intent:
  assumes "Canonicalize_intent H i = Inr c" "in_IntentHash c \<noteq> []"
  shows "Canonicalize_intent H c = Inr c \<and> Validate_intent H c = None
    \<and> in_Target c = sn_Target (in_Desired c) \<and> 1 \<le> in_Attempt c \<and> in_Attempt c \<le> MaxRolloutAttempts
    \<and> (case in_Operation c of
         OpApply \<Rightarrow> in_ExpectedKnownGoodID c = []
       | OpRollback \<Rightarrow> opaqueID (in_PreviousKnownGoodID c) \<and> opaqueID (in_ExpectedKnownGoodID c)
       | OpCleanup \<Rightarrow> sn_Preview (in_Desired c) \<noteq> None \<and> in_PreviousKnownGoodID c = [] \<and> in_ExpectedKnownGoodID c = []
       | OpFirstDeployCleanup \<Rightarrow> sn_Preview (in_Desired c) = None \<and> in_PreviousKnownGoodID c = [] \<and> in_ExpectedKnownGoodID c = []
       | _ \<Rightarrow> False)"
proof -
  have "intent_error H c = None" using assms(1) by (auto simp: Canonicalize_intent_Inr)
  then have "known_operation (in_Operation c)" "in_Target c = sn_Target (in_Desired c)" "1 \<le> in_Attempt c"
      "in_Attempt c \<le> MaxRolloutAttempts" "intent_reference_error c = None"
    by (simp_all add: intent_error_None)
  moreover have "Canonicalize_intent H c = Inr c" "Validate_intent H c = None"
    using Canonicalize_intent_idem [OF assms(1)] Validate_intent_canonical [OF assms] by simp_all
  ultimately show ?thesis
    by (auto simp: known_operation_def intent_reference_error_None)
qed

text \<open>A concrete target, snapshot and intent, with hashes that are 64 hexadecimal digits.\<close>

definition sample_hex :: string where "sample_hex = replicate 64 (CHR ''a'')"

definition sample_hashes :: hashes where
  "sample_hashes = \<lparr>hx_exposure = (\<lambda>_. Some sample_hex), hx_workload = (\<lambda>_. Some sample_hex),
     hx_intent = (\<lambda>_. Some sample_hex), hx_record = (\<lambda>_. Some sample_hex),
     hx_evidence = (\<lambda>_. Some sample_hex), hx_known_good = (\<lambda>_. Some sample_hex)\<rparr>"

definition sample_target :: RuntimeTarget where
  "sample_target = \<lparr>tg_ProjectID = ''p1'', tg_EnvironmentID = ''e1'', tg_RuntimeID = ''r1'',
     tg_ServiceKey = ''web'', tg_NodeID = ''n1'', tg_AgentID = ''a1''\<rparr>"

definition sample_image :: ImmutableImage where
  "sample_image = \<lparr>img_Repository = ''reg/app'', img_Digest = ''sha256:'' @ sample_hex,
     img_Reference = ''reg/app@sha256:'' @ sample_hex\<rparr>"

definition sample_snapshot :: RuntimeSnapshot where
  "sample_snapshot = \<lparr>sn_SchemaVersion = RuntimeSnapshotVersion, sn_Target = sample_target,
     sn_DeploymentJobID = ''job-1'', sn_Image = sample_image, sn_Workload = sample_workload sample_env,
     sn_WorkloadSpecHash = sample_hex, sn_Exposure = zero_ExposureSpec, sn_ExposureSpecHash = [],
     sn_Authority = \<lparr>ra_TopologyPlanID = ''tp'', ra_TopologyRevision = 1, ra_TopologyHash = sample_hex,
       ra_DeploymentPolicyID = ''dp'', ra_DeploymentPolicyRevision = 1, ra_DeploymentPolicyHash = sample_hex,
       ra_RoutingDecisionHash = sample_hex\<rparr>, sn_Preview = None\<rparr>"

definition sample_intent :: RolloutIntent where
  "sample_intent = \<lparr>in_SchemaVersion = RolloutSchemaVersion, in_RolloutID = ''ro-1'', in_Operation = OpApply,
     in_Target = sample_target, in_Desired = sample_snapshot, in_PreviousKnownGoodID = [],
     in_PreviousKnownGoodHash = [], in_PreviousDigest = [], in_ExpectedKnownGoodID = [],
     in_ExpectedKnownGoodHash = [], in_Attempt = 1, in_CreatedAt = 0, in_IntentHash = sample_hex\<rparr>"

lemma sample_hex [simp]: "hash64 sample_hex" "sample_hex \<noteq> []"
  by (simp_all add: sample_hex_def hash64_def char_classes list_all_iff)

lemma sample_target_valid [simp]: "Validate_target sample_target = None"
  by (simp add: Validate_target_def sample_target_def opaqueID_def ident_def char_classes)

lemma sample_digest [simp]: "digestPattern (''sha256:'' @ sample_hex)"
  by (simp add: digestPattern_def)

lemma sample_image_valid [simp]: "Validate_image sample_image = None"
  using sample_digest
  by (simp add: Validate_image_def sample_image_def repositoryPattern_def registry_host_def lower_alnum_def string_eval)

lemma sample_snapshot_valid [simp]:
  "Validate_snapshot (hx_exposure sample_hashes) (hx_workload sample_hashes) sample_snapshot = None"
proof -
  have "Hash_workload (hx_workload sample_hashes) (sample_workload sample_env) = Inr sample_hex"
    using sample_workload_ok by (simp add: Hash_workload_def sample_hashes_def Let_def)
  then show ?thesis
    by (simp add: Validate_snapshot_def sample_snapshot_def Validate_authority_def sample_hashes_def
        opaqueID_def ident_def char_classes sample_workload_def sample_target_def [THEN arg_cong, of tg_ServiceKey])
qed

lemma sample_intent_canonical: "Canonicalize_intent sample_hashes sample_intent = Inr sample_intent"
proof -
  have "intent_error sample_hashes sample_intent = None"
    by (simp add: intent_error_None intent_reference_error_None sample_intent_def known_operation_def
        sample_snapshot_def [THEN arg_cong, of sn_Target] MaxRolloutAttempts_def IsZero_def zero_time_def)
  moreover have "intent_hash sample_hashes sample_intent = Some sample_hex"
    by (simp add: intent_hash_def sample_hashes_def)
  ultimately show ?thesis
    by (auto simp: Canonicalize_intent_Inr sample_intent_def opaqueID_def ident_def char_classes)
qed

lemma canonical_intent_witness:
  "Validate_intent sample_hashes sample_intent = None \<and> in_ExpectedKnownGoodID sample_intent = []"
  using canonical_intent [OF sample_intent_canonical] by (simp add: sample_intent_def)

text \<open>
  C27: A canonical known-good snapshot is a fixed point of Canonicalize, holds a valid runtime
  snapshot of its own target and between one and eight well-formed resources in the order of
  kind, namespace and name; neither the order in which the resources (with different names) were
  reported nor the exposure's display metadata changes its hash.
\<close>

theorem canonical_known_good:
  assumes "Canonicalize_known_good H s = Inr c"
    and "mset res = mset (kg_Resources s)" "distinct (map resource_key (kg_Resources s))"
    and "Canonicalize_known_good H (s\<lparr>kg_Resources := res, kg_Runtime := rt, kg_SnapshotHash := []\<rparr>) = Inr d"
    and "drop_metadata rt = drop_metadata (kg_Runtime s)"
  shows "Canonicalize_known_good H c = Inr c \<and> kg_Target c = sn_Target (kg_Runtime c)
    \<and> Validate_snapshot (hx_exposure H) (hx_workload H) (kg_Runtime c) = None
    \<and> 1 \<le> length (kg_Resources c) \<and> length (kg_Resources c) \<le> MaxRolloutResources
    \<and> sorted (map resource_key (kg_Resources c)) \<and> (\<forall>r \<in> set (kg_Resources c). resource_ok r)
    \<and> kg_SnapshotHash d = kg_SnapshotHash c"
proof -
  let ?sorted = "\<lambda>s. s\<lparr>kg_Resources := sort_key resource_key (kg_Resources s)\<rparr>"
  have res: "sort_key resource_key res = sort_key resource_key (kg_Resources s)"
    using assms(2,3) by (metis sort_key_mset_eq)
  from assms(1) obtain hash where c: "known_good_hash H (?sorted s) = Some hash" "c = (?sorted s)\<lparr>kg_SnapshotHash := hash\<rparr>"
      "kg_Target s = sn_Target (kg_Runtime s)" "\<forall>r \<in> set (kg_Resources s). resource_ok r"
      "Validate_snapshot (hx_exposure H) (hx_workload H) (kg_Runtime s) = None"
      "kg_Resources s \<noteq> []" "length (kg_Resources s) \<le> MaxRolloutResources"
    unfolding Canonicalize_known_good_Inr by blast
  from assms(4) have d: "known_good_hash H (s\<lparr>kg_Runtime := rt, kg_Resources := sort_key resource_key (kg_Resources s)\<rparr>) = Some (kg_SnapshotHash d)"
    unfolding Canonicalize_known_good_Inr using res by auto
  have "known_good_hash H (s\<lparr>kg_Runtime := rt, kg_Resources := sort_key resource_key (kg_Resources s)\<rparr>) = known_good_hash H (?sorted s)"
    using assms(5) by (simp add: known_good_hash_def)
  with c d have "kg_SnapshotHash d = kg_SnapshotHash c" by simp
  with c Canonicalize_known_good_idem [OF assms(1)] show ?thesis
    by (simp add: Suc_le_eq)
qed

definition sample_resource :: "string \<Rightarrow> ResourceIdentity" where
  "sample_resource kind = \<lparr>ri_Kind = kind, ri_Namespace = ''ns'', ri_Name = ''web'', ri_UID = ''u'',
     ri_ResourceVersion = ''1'', ri_FunctionalHash = sample_hex\<rparr>"

definition sample_known_good :: "ResourceIdentity list \<Rightarrow> KnownGoodSnapshot" where
  "sample_known_good resources = \<lparr>kg_SchemaVersion = KnownGoodSchemaVersion, kg_ID = ''known-ro-1'',
     kg_Target = sample_target, kg_Runtime = sample_snapshot, kg_Resources = resources,
     kg_EvidenceHash = sample_hex, kg_VerifiedAt = 0, kg_SnapshotHash = []\<rparr>"

lemma sample_known_good_canonical:
  assumes "resources = map sample_resource kinds" "kinds \<noteq> []" "length kinds \<le> 8" "[] \<notin> set kinds"
  shows "Canonicalize_known_good sample_hashes (sample_known_good resources) =
    Inr (sample_known_good (sort_key resource_key resources)\<lparr>kg_SnapshotHash := sample_hex\<rparr>)"
  using assms sample_snapshot_valid
  by (auto simp: Canonicalize_known_good_Inr sample_known_good_def opaqueID_def ident_def char_classes IsZero_def
      zero_time_def MaxRolloutResources_def resource_ok_def sample_resource_def known_good_hash_def sample_hashes_def
      sample_snapshot_def [THEN arg_cong, of sn_Target])

lemma canonical_known_good_witness:
  "\<exists>c. Canonicalize_known_good sample_hashes (sample_known_good (map sample_resource [''Service'', ''Deployment''])) = Inr c
     \<and> Canonicalize_known_good sample_hashes c = Inr c"
proof -
  note s = sample_known_good_canonical [OF refl, of "[''Service'', ''Deployment'']"]
    and t = sample_known_good_canonical [OF refl, of "[''Deployment'', ''Service'']"]
  have t': "sample_known_good (map sample_resource [''Deployment'', ''Service'']) =
      (sample_known_good (map sample_resource [''Service'', ''Deployment'']))
        \<lparr>kg_Resources := map sample_resource [''Deployment'', ''Service''], kg_Runtime := sample_snapshot, kg_SnapshotHash := []\<rparr>"
    by (simp add: sample_known_good_def)
  show ?thesis
    using s canonical_known_good [OF s _ _ t [unfolded t']]
    by (simp add: sample_known_good_def sample_resource_def resource_key_def)
qed

end
