(* ===== verification/Rollout_Store.thy ===== *)
theory Rollout_Store
  imports Rollout_Contract "HOL-Library.AList"
begin

text \<open>
  The rollout part of the Agent's SQLite store, agent/internal/deploy/store.go: the tables
  rollouts, rollout_events, known_good_snapshots and known_good_current, and the operations that
  read and change them. A transaction is a function on the tables that returns an error or a
  value with the new tables; an error leaves the tables of the caller as they were, as the
  deferred Rollback does. What SQLite and the machine do at each call is the argument \<open>call\<close>: the
  time that time.Now returns and, for each statement, the driver's error text if it fails.
  JSON text columns hold the encoded value, nothing, or text that does not decode.
\<close>

section \<open>Errors, contexts and calls\<close>

text \<open>
  A Go error as the callers inspect it: a rolloutStoreError, a RolloutError, any other error by
  its text, or one of these wrapped by fmt.Errorf with the verb w.
\<close>

datatype failure = PlainError string | StoreError string string | RolloutFailure RolloutError
  | Wrapped string failure

fun Error_failure :: "failure \<Rightarrow> string" where
  "Error_failure (PlainError text) = text"
| "Error_failure (StoreError code msg) = code @ '': '' @ msg"
| "Error_failure (RolloutFailure e) = Error_rollout (Some e)"
| "Error_failure (Wrapped ctx e) = ctx @ '': '' @ Error_failure e"

text \<open>errors.As for the two typed errors.\<close>

fun as_store_error :: "failure \<Rightarrow> (string \<times> string) option" where
  "as_store_error (StoreError code msg) = Some (code, msg)"
| "as_store_error (Wrapped ctx e) = as_store_error e"
| "as_store_error _ = None"

fun as_rollout_error :: "failure \<Rightarrow> RolloutError option" where
  "as_rollout_error (RolloutFailure e) = Some e"
| "as_rollout_error (Wrapped ctx e) = as_rollout_error e"
| "as_rollout_error _ = None"

text \<open>
  A context is the moment at which it is done, None when it is never cancelled and has no
  deadline.
\<close>

type_synonym ctx = "time option"

definition ctx_done :: "ctx \<Rightarrow> time \<Rightarrow> bool" where
  "ctx_done c t = (case c of None \<Rightarrow> False | Some d \<Rightarrow> d \<le> t)"

definition WithoutCancel :: "ctx \<Rightarrow> ctx" where
  "WithoutCancel c = None"

definition WithTimeout :: "ctx \<Rightarrow> time \<Rightarrow> int \<Rightarrow> ctx" where
  "WithTimeout c t timeout = (case c of None \<Rightarrow> Some (t + timeout) | Some d \<Rightarrow> Some (min d (t + timeout)))"

datatype statement_kind = BeginTx | SelectRollout | SelectActive | SelectCurrent | InsertRollout | InsertEvent
  | SelectSnapshot | UpsertCurrent | InsertSnapshot | SelectPrune | DeleteSnapshot | UpdateRollout
  | ListRollouts | DeleteCurrent | SelectHistorical | CommitTx

record call =
  cl_now :: time
  cl_failing :: "statement_kind \<Rightarrow> string option"
  cl_conflict :: string \<comment> \<open>what the driver reports for a violated constraint\<close>
  cl_done :: string \<comment> \<open>the text of ctx.Err() when the context is done: cancelled or past its deadline\<close>

section \<open>Tables\<close>

datatype 'a column = NoText | Stored 'a | BadText

record rollout_row =
  rw_RolloutID :: string
  rw_SchemaVersion :: string
  rw_TargetKey :: string
  rw_Intent :: "RolloutIntent column"
  rw_State :: RolloutState
  rw_Version :: nat
  rw_StateHash :: string
  rw_Error :: "RolloutError column"
  rw_Resources :: "ResourceIdentity list column"
  rw_Evidence :: "ReadinessEvidence column"
  rw_CreatedAt :: int
  rw_UpdatedAt :: int
  rw_TerminalAt :: int

record event_row =
  er_RolloutID :: string
  er_Version :: nat
  er_Event :: RolloutEvent
  er_CreatedAt :: int

record snapshot_row =
  sw_ID :: string
  sw_TargetKey :: string
  sw_Hash :: string
  sw_Snapshot :: "KnownGoodSnapshot column"
  sw_VerifiedAt :: int

record db =
  db_rollouts :: "rollout_row list"
  db_events :: "event_row list"
  db_snapshots :: "snapshot_row list"
  db_current :: "(string \<times> string) list" \<comment> \<open>target key and snapshot id\<close>

definition empty_db :: db where
  "empty_db = \<lparr>db_rollouts = [], db_events = [], db_snapshots = [], db_current = []\<rparr>"

definition active :: "rollout_row \<Rightarrow> bool" where
  "active r = (rw_TerminalAt r = 0)"

definition find_rollout :: "string \<Rightarrow> db \<Rightarrow> rollout_row option" where
  "find_rollout rid db = find (\<lambda>r. rw_RolloutID r = rid) (db_rollouts db)"

definition find_active :: "string \<Rightarrow> db \<Rightarrow> rollout_row option" where
  "find_active key db = find (\<lambda>r. rw_TargetKey r = key \<and> active r) (db_rollouts db)"

definition find_snapshot :: "string \<Rightarrow> db \<Rightarrow> snapshot_row option" where
  "find_snapshot sid db = find (\<lambda>s. sw_ID s = sid) (db_snapshots db)"

text \<open>known_good_current joined with known_good_snapshots on the snapshot id.\<close>

definition current_snapshot :: "string \<Rightarrow> db \<Rightarrow> (string \<times> string) option" where
  "current_snapshot key db = (case map_of (db_current db) key of None \<Rightarrow> None
     | Some sid \<Rightarrow> map_option (\<lambda>s. (sid, sw_Hash s)) (find_snapshot sid db))"

text \<open>The inserts check the primary keys and the unique indexes.\<close>

definition insert_rollout :: "rollout_row \<Rightarrow> db \<Rightarrow> db option" where
  "insert_rollout row db =
     (if find_rollout (rw_RolloutID row) db \<noteq> None \<or> active row \<and> find_active (rw_TargetKey row) db \<noteq> None then None
      else Some (db\<lparr>db_rollouts := db_rollouts db @ [row]\<rparr>))"

definition insert_event :: "event_row \<Rightarrow> db \<Rightarrow> db option" where
  "insert_event row db =
     (if list_ex (\<lambda>e. er_RolloutID e = er_RolloutID row \<and> er_Version e = er_Version row) (db_events db) then None
      else Some (db\<lparr>db_events := db_events db @ [row]\<rparr>))"

definition insert_snapshot :: "snapshot_row \<Rightarrow> db \<Rightarrow> db option" where
  "insert_snapshot row db =
     (if list_ex (\<lambda>s. sw_ID s = sw_ID row \<or> sw_Hash s = sw_Hash row) (db_snapshots db) then None
      else Some (db\<lparr>db_snapshots := db_snapshots db @ [row]\<rparr>))"

section \<open>Transactions\<close>

type_synonym 'a tx = "db \<Rightarrow> failure + 'a \<times> db"

definition return_tx :: "'a \<Rightarrow> 'a tx" where "return_tx x = (\<lambda>db. Inr (x, db))"
definition fail_tx :: "failure \<Rightarrow> 'a tx" where "fail_tx e = (\<lambda>db. Inl e)"

definition bind_tx :: "'a tx \<Rightarrow> ('a \<Rightarrow> 'b tx) \<Rightarrow> 'b tx" where
  "bind_tx m f = (\<lambda>db. case m db of Inl e \<Rightarrow> Inl e | Inr (x, db') \<Rightarrow> f x db')"

definition guard_tx :: "bool \<Rightarrow> failure \<Rightarrow> unit tx" where \<comment> \<open>\<open>if bad { return err }\<close>\<close>
  "guard_tx bad e = (if bad then fail_tx e else return_tx ())"

definition lift_tx :: "failure + 'a \<Rightarrow> 'a tx" where
  "lift_tx r = (case r of Inl e \<Rightarrow> fail_tx e | Inr x \<Rightarrow> return_tx x)"

definition get_tx :: "(db \<Rightarrow> 'a) \<Rightarrow> 'a tx" where "get_tx f = (\<lambda>db. Inr (f db, db))"
definition put_tx :: "(db \<Rightarrow> db) \<Rightarrow> unit tx" where "put_tx f = (\<lambda>db. Inr ((), f db))"

text \<open>A statement that the driver may fail; \<open>wrap\<close> makes the error the code returns for it.\<close>

definition statement :: "call \<Rightarrow> statement_kind \<Rightarrow> (string \<Rightarrow> failure) \<Rightarrow> unit tx" where
  "statement c k wrap = (case cl_failing c k of None \<Rightarrow> return_tx () | Some text \<Rightarrow> fail_tx (wrap text))"

definition modify_tx :: "call \<Rightarrow> statement_kind \<Rightarrow> (string \<Rightarrow> failure) \<Rightarrow> (db \<Rightarrow> db option) \<Rightarrow> unit tx" where
  "modify_tx c k wrap ins = bind_tx (statement c k wrap) (\<lambda>_ db.
     case ins db of None \<Rightarrow> Inl (wrap (cl_conflict c)) | Some db' \<Rightarrow> Inr ((), db'))"

text \<open>BeginTx, and a statement outside a transaction, fail when the context is done.\<close>

definition checked :: "call \<Rightarrow> ctx \<Rightarrow> statement_kind \<Rightarrow> (string \<Rightarrow> failure) \<Rightarrow> unit tx" where
  "checked c ctx k wrap =
     bind_tx (guard_tx (ctx_done ctx (cl_now c)) (wrap (cl_done c))) (\<lambda>_. statement c k wrap)"

definition run_tx :: "'a tx \<Rightarrow> db \<Rightarrow> (failure + 'a) \<times> db" where
  "run_tx m db = (case m db of Inl e \<Rightarrow> (Inl e, db) | Inr (x, db') \<Rightarrow> (Inr x, db'))"

definition wrapped :: "string \<Rightarrow> string \<Rightarrow> failure" where
  "wrapped ctx text = Wrapped ctx (PlainError text)"

section \<open>Reading rollouts\<close>

definition stored_failure :: "string \<Rightarrow> failure" where
  "stored_failure msg = StoreError RolloutCodeInvalid msg"

definition row_record :: "rollout_row \<Rightarrow> RolloutIntent \<Rightarrow> RolloutError option \<Rightarrow> ResourceIdentity list
    \<Rightarrow> ReadinessEvidence option \<Rightarrow> RolloutRecord" where
  "row_record row intent failure resources evidence =
     \<lparr>rec_SchemaVersion = rw_SchemaVersion row, rec_Intent = intent, rec_State = rw_State row,
      rec_Version = rw_Version row, rec_StateHash = rw_StateHash row, rec_Error = failure,
      rec_Resources = resources, rec_Evidence = evidence, rec_CreatedAt = rw_CreatedAt row,
      rec_UpdatedAt = rw_UpdatedAt row,
      rec_TerminalAt = (if rw_TerminalAt row > 0 then Some (rw_TerminalAt row) else None)\<rparr>"

text \<open>A text column that may be empty: nothing, the value, or an error for text that does not decode.\<close>

definition optional_column :: "'a column \<Rightarrow> string \<Rightarrow> failure + 'a option" where
  "optional_column col msg = (case col of NoText \<Rightarrow> Inr None | Stored x \<Rightarrow> Inr (Some x)
     | BadText \<Rightarrow> Inl (stored_failure msg))"

definition required_column :: "'a column \<Rightarrow> string \<Rightarrow> failure + 'a" where
  "required_column col msg = (case col of Stored x \<Rightarrow> Inr x | _ \<Rightarrow> Inl (stored_failure msg))"

definition scanRollout :: "hashes \<Rightarrow> rollout_row \<Rightarrow> failure + RolloutRecord" where
  "scanRollout H row =
     (case required_column (rw_Intent row) ''stored rollout intent is invalid'' of Inl e \<Rightarrow> Inl e | Inr intent \<Rightarrow>
      case optional_column (rw_Error row) ''stored rollout error is invalid'' of Inl e \<Rightarrow> Inl e | Inr failure \<Rightarrow>
      case required_column (rw_Resources row) ''stored rollout resources are invalid'' of Inl e \<Rightarrow> Inl e | Inr resources \<Rightarrow>
      case optional_column (rw_Evidence row) ''stored rollout evidence is invalid'' of Inl e \<Rightarrow> Inl e | Inr evidence \<Rightarrow>
      let rec = row_record row intent failure resources evidence in
      case first_failure
        [(rw_SchemaVersion row \<noteq> RolloutRecordVersion, stored_failure ''stored rollout schema is unsupported''),
         (isl (Canonicalize_intent H intent), stored_failure ''stored rollout intent failed validation''),
         (CalculateStateHash H rec \<noteq> Some (rec_StateHash rec), stored_failure ''stored rollout state hash mismatch'')] of
        Some e \<Rightarrow> Inl e | None \<Rightarrow> Inr rec)"

definition encode_error :: "RolloutError option \<Rightarrow> RolloutError column" where
  "encode_error e = (case e of None \<Rightarrow> NoText | Some x \<Rightarrow> Stored x)"

definition encode_evidence :: "ReadinessEvidence option \<Rightarrow> ReadinessEvidence column" where
  "encode_evidence e = (case e of None \<Rightarrow> NoText | Some x \<Rightarrow> Stored x)"

section \<open>Writing rollouts\<close>

definition event_of :: "RolloutRecord \<Rightarrow> RolloutEvent" where
  "event_of r = \<lparr>evt_SchemaVersion = RolloutEventVersion, evt_RolloutID = in_RolloutID (rec_Intent r),
     evt_Version = rec_Version r, evt_State = rec_State r, evt_StateHash = rec_StateHash r,
     evt_Error = rec_Error r, evt_CreatedAt = rec_UpdatedAt r\<rparr>"

definition appendRolloutEvent :: "call \<Rightarrow> RolloutRecord \<Rightarrow> unit tx" where
  "appendRolloutEvent c r = modify_tx c InsertEvent PlainError (insert_event
     \<lparr>er_RolloutID = in_RolloutID (rec_Intent r), er_Version = rec_Version r, er_Event = event_of r,
      er_CreatedAt = rec_UpdatedAt r\<rparr>)"

definition update_row :: "RolloutRecord \<Rightarrow> rollout_row \<Rightarrow> rollout_row" where
  "update_row r row = row\<lparr>rw_State := rec_State r, rw_Version := rec_Version r, rw_StateHash := rec_StateHash r,
     rw_Error := encode_error (rec_Error r), rw_Resources := Stored (rec_Resources r),
     rw_Evidence := encode_evidence (rec_Evidence r), rw_UpdatedAt := rec_UpdatedAt r,
     rw_TerminalAt := (case rec_TerminalAt r of None \<Rightarrow> 0 | Some t \<Rightarrow> t)\<rparr>"

definition update_rollout :: "RolloutRecord \<Rightarrow> db \<Rightarrow> db" where
  "update_rollout r db = db\<lparr>db_rollouts := map (\<lambda>row.
     if rw_RolloutID row = in_RolloutID (rec_Intent r) then update_row r row else row) (db_rollouts db)\<rparr>"

definition unique_active :: "db \<Rightarrow> bool" where \<comment> \<open>the index rollouts_active_target_idx\<close>
  "unique_active db = distinct (map rw_TargetKey (filter active (db_rollouts db)))"

definition persistRolloutTransition :: "call \<Rightarrow> RolloutRecord \<Rightarrow> unit tx" where
  "persistRolloutTransition c r = modify_tx c UpdateRollout PlainError
     (\<lambda>db. let db' = update_rollout r db in if unique_active db' then Some db' else None)"

definition upsert_current :: "string \<Rightarrow> string \<Rightarrow> db \<Rightarrow> db" where
  "upsert_current key sid db = db\<lparr>db_current := AList.update key sid (db_current db)\<rparr>"

definition restoreCurrentKnownGood :: "call \<Rightarrow> RolloutIntent \<Rightarrow> unit tx" where
  "restoreCurrentKnownGood c intent =
     bind_tx (guard_tx (in_PreviousKnownGoodID intent = [] \<or> in_PreviousKnownGoodHash intent = [])
       (StoreError RolloutCodeKnownGoodCorrupt ''rolled_back rollout has no previous known-good reference'')) (\<lambda>_.
     bind_tx (statement c SelectSnapshot (wrapped ''read rollback known-good snapshot'')) (\<lambda>_.
     bind_tx (get_tx (\<lambda>db. list_ex (\<lambda>s. sw_ID s = in_PreviousKnownGoodID intent
                  \<and> sw_TargetKey s = Key_target (in_Target intent) \<and> sw_Hash s = in_PreviousKnownGoodHash intent)
                (db_snapshots db))) (\<lambda>found.
     bind_tx (guard_tx (\<not> found) (StoreError RolloutCodeKnownGoodCorrupt
       ''rolled_back rollout previous known-good snapshot is missing or stale'')) (\<lambda>_.
     bind_tx (statement c UpsertCurrent (wrapped ''restore current known-good'')) (\<lambda>_.
     put_tx (upsert_current (Key_target (in_Target intent)) (in_PreviousKnownGoodID intent)))))))"

section \<open>Pruning\<close>

text \<open>
  The rows of a target, newest first (verified_at descending, then id descending), and the deletion
  of those after the first 32 that no current pointer names.
\<close>

definition newest_first :: "string \<Rightarrow> db \<Rightarrow> string list" where
  "newest_first key db = map sw_ID (rev (sort_key sw_VerifiedAt (sort_key sw_ID
     (filter (\<lambda>s. sw_TargetKey s = key) (db_snapshots db)))))"

definition delete_snapshot :: "string \<Rightarrow> db \<Rightarrow> db" where
  "delete_snapshot sid db =
     (if sid \<in> snd ` set (db_current db) then db
      else db\<lparr>db_snapshots := filter (\<lambda>s. sw_ID s \<noteq> sid) (db_snapshots db)\<rparr>)"

definition MaxKnownGoodSnapshots :: nat where "MaxKnownGoodSnapshots = 32"

definition pruneKnownGood :: "call \<Rightarrow> string \<Rightarrow> unit tx" where
  "pruneKnownGood c key =
     bind_tx (statement c SelectPrune PlainError) (\<lambda>_.
     bind_tx (get_tx (newest_first key)) (\<lambda>ids.
     if length ids \<le> MaxKnownGoodSnapshots then return_tx ()
     else bind_tx (statement c DeleteSnapshot PlainError) (\<lambda>_.
          put_tx (fold delete_snapshot (drop MaxKnownGoodSnapshots ids)))))"

section \<open>The operations of the store\<close>

definition wrap_inner :: "string \<Rightarrow> failure + 'a \<Rightarrow> failure + 'a" where
  "wrap_inner ctx r = map_sum (Wrapped ctx) id r"

definition expected_known_good :: "RolloutIntent \<Rightarrow> string \<times> string" where
  "expected_known_good i =
     (if in_Operation i = OpRollback then (in_ExpectedKnownGoodID i, in_ExpectedKnownGoodHash i)
      else (in_PreviousKnownGoodID i, in_PreviousKnownGoodHash i))"

definition known_good_stale :: "RolloutIntent \<Rightarrow> (string \<times> string) option \<Rightarrow> bool" where
  "known_good_stale i current = (case current of None \<Rightarrow> fst (expected_known_good i) \<noteq> []
     | Some c \<Rightarrow> c \<noteq> expected_known_good i)"

definition new_rollout :: "RolloutIntent \<Rightarrow> ResourceIdentity list \<Rightarrow> time \<Rightarrow> RolloutRecord" where
  "new_rollout intent resources t =
     \<lparr>rec_SchemaVersion = RolloutRecordVersion, rec_Intent = intent, rec_State = Prepared, rec_Version = 1,
      rec_StateHash = [], rec_Error = None, rec_Resources = resources, rec_Evidence = None,
      rec_CreatedAt = t, rec_UpdatedAt = t, rec_TerminalAt = None\<rparr>"

definition with_state_hash :: "hashes \<Rightarrow> RolloutRecord \<Rightarrow> failure + RolloutRecord" where
  "with_state_hash H r = (case CalculateStateHash H r of None \<Rightarrow> Inl (PlainError ''json: marshal error'')
     | Some x \<Rightarrow> Inr (r\<lparr>rec_StateHash := x\<rparr>))"

definition new_row :: "RolloutRecord \<Rightarrow> rollout_row" where
  "new_row r = \<lparr>rw_RolloutID = in_RolloutID (rec_Intent r), rw_SchemaVersion = RolloutRecordVersion,
     rw_TargetKey = Key_target (in_Target (rec_Intent r)), rw_Intent = Stored (rec_Intent r), rw_State = rec_State r,
     rw_Version = rec_Version r, rw_StateHash = rec_StateHash r, rw_Error = NoText,
     rw_Resources = Stored (rec_Resources r), rw_Evidence = NoText, rw_CreatedAt = rec_CreatedAt r,
     rw_UpdatedAt = rec_UpdatedAt r, rw_TerminalAt = 0\<rparr>"

text \<open>The part of BeginRollout after no rollout of the same id was found.\<close>

definition claim_target :: "hashes \<Rightarrow> call \<Rightarrow> RolloutIntent \<Rightarrow> ResourceIdentity list \<Rightarrow> RolloutRecord tx" where
  "claim_target H c canonical resources =
     (let key = Key_target (in_Target canonical) in
      bind_tx (statement c SelectActive (wrapped ''check active rollout'')) (\<lambda>_.
      bind_tx (get_tx (find_active key)) (\<lambda>act.
      bind_tx (guard_tx (case act of None \<Rightarrow> False | Some row \<Rightarrow> rw_RolloutID row \<noteq> in_RolloutID canonical)
        (StoreError RolloutCodeTargetBusy ''another rollout owns this runtime target'')) (\<lambda>_.
      bind_tx (statement c SelectCurrent (wrapped ''check current known-good'')) (\<lambda>_.
      bind_tx (get_tx (current_snapshot key)) (\<lambda>current.
      bind_tx (guard_tx (known_good_stale canonical current)
        (StoreError RolloutCodeConflict ''previous known-good reference is stale'')) (\<lambda>_.
      bind_tx (lift_tx (with_state_hash H (new_rollout canonical resources (cl_now c)))) (\<lambda>record.
      bind_tx (modify_tx c InsertRollout
        (\<lambda>_. StoreError RolloutCodeTargetBusy ''rollout target was claimed concurrently'') (insert_rollout (new_row record))) (\<lambda>_.
      bind_tx (appendRolloutEvent c record) (\<lambda>_.
      bind_tx (statement c CommitTx (wrapped ''commit rollout intent'')) (\<lambda>_.
      return_tx record)))))))))))"

definition begin_body :: "hashes \<Rightarrow> call \<Rightarrow> ctx \<Rightarrow> RolloutIntent \<Rightarrow> ResourceIdentity list \<Rightarrow> RolloutRecord tx" where
  "begin_body H c ctx intent resources =
     bind_tx (lift_tx (map_sum (StoreError RolloutCodeInvalid) id (Canonicalize_intent H intent))) (\<lambda>canonical.
     bind_tx (guard_tx (MaxRolloutResources < length resources)
       (StoreError RolloutCodeInvalid ''resource observation bound exceeded'')) (\<lambda>_.
     bind_tx (checked c ctx BeginTx (wrapped ''begin rollout transaction'')) (\<lambda>_.
     bind_tx (statement c SelectRollout (wrapped ''read rollout identity'')) (\<lambda>_.
     bind_tx (get_tx (find_rollout (in_RolloutID canonical))) (\<lambda>existing.
     case existing of
       None \<Rightarrow> claim_target H c canonical resources
     | Some row \<Rightarrow> bind_tx (lift_tx (wrap_inner ''read rollout identity'' (scanRollout H row))) (\<lambda>record.
         bind_tx (guard_tx (in_IntentHash (rec_Intent record) \<noteq> in_IntentHash canonical)
           (StoreError RolloutCodeConflict ''rollout id already has a different intent'')) (\<lambda>_.
         return_tx record)))))))"

definition BeginRollout :: "hashes \<Rightarrow> call \<Rightarrow> ctx \<Rightarrow> RolloutIntent \<Rightarrow> ResourceIdentity list \<Rightarrow> db
    \<Rightarrow> (failure + RolloutRecord) \<times> db" where
  "BeginRollout H c ctx intent resources = run_tx (begin_body H c ctx intent resources)"

definition GetRollout :: "hashes \<Rightarrow> call \<Rightarrow> ctx \<Rightarrow> string \<Rightarrow> db \<Rightarrow> failure + RolloutRecord option" where
  "GetRollout H c ctx rid db =
     (if rid = [] then Inl (StoreError RolloutCodeInvalid ''rollout id is required'')
      else case checked c ctx SelectRollout (wrapped ''read rollout'') db of Inl e \<Rightarrow> Inl e | Inr _ \<Rightarrow>
      case find_rollout rid db of None \<Rightarrow> Inr None
      | Some row \<Rightarrow> (case scanRollout H row of Inl e \<Rightarrow> Inl (Wrapped ''read rollout'' e) | Inr r \<Rightarrow> Inr (Some r)))"

fun scan_rows :: "hashes \<Rightarrow> rollout_row list \<Rightarrow> failure + RolloutRecord list" where
  "scan_rows H [] = Inr []"
| "scan_rows H (row # rows) = (case scanRollout H row of Inl e \<Rightarrow> Inl e | Inr r \<Rightarrow>
     (case scan_rows H rows of Inl e \<Rightarrow> Inl e | Inr rs \<Rightarrow> Inr (r # rs)))"

definition ListNonTerminalRollouts :: "hashes \<Rightarrow> call \<Rightarrow> ctx \<Rightarrow> int \<Rightarrow> db \<Rightarrow> failure + RolloutRecord list" where
  "ListNonTerminalRollouts H c ctx limit db =
     (let n = if limit \<le> 0 \<or> 64 < limit then 64 else limit in
      case checked c ctx ListRollouts (wrapped ''list nonterminal rollouts'') db of Inl e \<Rightarrow> Inl e | Inr _ \<Rightarrow>
      scan_rows H (take (nat n) (sort_key rw_UpdatedAt (sort_key rw_RolloutID (filter active (db_rollouts db))))))"

subsection \<open>Transitions\<close>

text \<open>The checks of TransitionRollout on the record it has read.\<close>

definition transition_error :: "RolloutRecord \<Rightarrow> RolloutState \<Rightarrow> ResourceIdentity list \<Rightarrow> bool \<Rightarrow> failure option" where
  "transition_error record state resources terminal = first_failure
     [(rec_TerminalAt record \<noteq> None,
         StoreError RolloutCodeTerminalImmutable ''terminal rollout cannot transition''),
      (\<not> CanTransitionRollout (rec_State record) state,
         StoreError RolloutCodeInvalidTransition ''rollout state transition is not allowed''),
      (state = Succeeded \<or> terminal \<and> state \<noteq> Failed \<and> \<not> IsTerminalRolloutState state,
         StoreError RolloutCodeInvalidTransition ''known-good and terminal state transitions require their dedicated commit path''),
      (MaxRolloutResources < length resources,
         StoreError RolloutCodeInvalid ''resource observation bound exceeded'')]"

definition evidence_missing :: "ReadinessEvidence option \<Rightarrow> bool" where
  "evidence_missing evidence = (case evidence of None \<Rightarrow> True | Some e \<Rightarrow> Validate_evidence e True False \<noteq> None)"

definition transitioned :: "RolloutRecord \<Rightarrow> RolloutState \<Rightarrow> RolloutError option \<Rightarrow> ResourceIdentity list
    \<Rightarrow> ReadinessEvidence option \<Rightarrow> bool \<Rightarrow> time \<Rightarrow> RolloutRecord" where
  "transitioned record state failure resources evidence terminal t = record\<lparr>
     rec_State := state, rec_Version := wrap_u64 (Suc (rec_Version record)),
     rec_Error := map_option (\<lambda>f. NewRolloutError (re_Code f) (re_Message f) (re_Retryable f)) failure,
     rec_Resources := resources, rec_Evidence := evidence, rec_UpdatedAt := t,
     rec_TerminalAt := (if terminal \<or> IsTerminalRolloutState state then Some t else rec_TerminalAt record)\<rparr>"

text \<open>The end of both operations that advance a rollout.\<close>

definition save_transition :: "hashes \<Rightarrow> call \<Rightarrow> RolloutRecord \<Rightarrow> RolloutRecord tx" where
  "save_transition H c r =
     bind_tx (lift_tx (with_state_hash H r)) (\<lambda>record.
     bind_tx (persistRolloutTransition c record) (\<lambda>_.
     bind_tx (appendRolloutEvent c record) (\<lambda>_.
     bind_tx (statement c CommitTx PlainError) (\<lambda>_.
     return_tx record))))"

definition transition_body :: "hashes \<Rightarrow> call \<Rightarrow> ctx \<Rightarrow> string \<Rightarrow> RolloutState \<Rightarrow> RolloutError option
    \<Rightarrow> ResourceIdentity list \<Rightarrow> ReadinessEvidence option \<Rightarrow> bool \<Rightarrow> RolloutRecord tx" where
  "transition_body H c ctx rid state failure resources evidence terminal =
     bind_tx (checked c ctx BeginTx PlainError) (\<lambda>_.
     bind_tx (statement c SelectRollout PlainError) (\<lambda>_.
     bind_tx (get_tx (find_rollout rid)) (\<lambda>existing.
     case existing of
       None \<Rightarrow> fail_tx (StoreError RolloutCodeInvalid ''rollout does not exist'')
     | Some row \<Rightarrow> bind_tx (lift_tx (scanRollout H row)) (\<lambda>record.
         case transition_error record state resources terminal of Some e \<Rightarrow> fail_tx e | None \<Rightarrow>
         bind_tx (if state = RolledBack then
                    bind_tx (guard_tx (evidence_missing evidence)
                      (StoreError RolloutCodeReadinessFailed ''rolled_back requires verified readiness evidence''))
                      (\<lambda>_. restoreCurrentKnownGood c (rec_Intent record))
                  else return_tx ()) (\<lambda>_.
         save_transition H c (transitioned record state failure resources evidence terminal (cl_now c)))))))"

definition TransitionRollout :: "hashes \<Rightarrow> call \<Rightarrow> ctx \<Rightarrow> string \<Rightarrow> RolloutState \<Rightarrow> RolloutError option
    \<Rightarrow> ResourceIdentity list \<Rightarrow> ReadinessEvidence option \<Rightarrow> bool \<Rightarrow> db \<Rightarrow> (failure + RolloutRecord) \<times> db" where
  "TransitionRollout H c ctx rid state failure resources evidence terminal =
     run_tx (transition_body H c ctx rid state failure resources evidence terminal)"

subsection \<open>The success commit\<close>

definition snapshot_row_of :: "KnownGoodSnapshot \<Rightarrow> snapshot_row" where
  "snapshot_row_of s = \<lparr>sw_ID = kg_ID s, sw_TargetKey = Key_target (kg_Target s), sw_Hash = kg_SnapshotHash s,
     sw_Snapshot = Stored s, sw_VerifiedAt = kg_VerifiedAt s\<rparr>"

definition succeeded :: "RolloutRecord \<Rightarrow> ResourceIdentity list \<Rightarrow> ReadinessEvidence \<Rightarrow> time \<Rightarrow> RolloutRecord" where
  "succeeded record resources evidence t = record\<lparr>rec_State := Succeeded,
     rec_Version := wrap_u64 (Suc (rec_Version record)), rec_Error := None, rec_Resources := resources,
     rec_Evidence := Some evidence, rec_UpdatedAt := t, rec_TerminalAt := Some t\<rparr>"

text \<open>The checks of CommitRolloutSuccess before its transaction, giving the canonical snapshot.\<close>

definition commit_input :: "hashes \<Rightarrow> KnownGoodSnapshot \<Rightarrow> ReadinessEvidence \<Rightarrow> failure + KnownGoodSnapshot" where
  "commit_input H snapshot evidence =
     (case Canonicalize_known_good H snapshot of Inl e \<Rightarrow> Inl (StoreError RolloutCodeKnownGoodCorrupt e)
      | Inr canonical \<Rightarrow>
      case Validate_evidence evidence True False of Some e \<Rightarrow> Inl (StoreError RolloutCodeReadinessFailed e)
      | None \<Rightarrow>
      if Hash_evidence H evidence \<noteq> Some (kg_EvidenceHash canonical)
      then Inl (StoreError RolloutCodeKnownGoodCorrupt ''known-good evidence hash does not match readiness evidence'')
      else Inr canonical)"

definition commit_known_good :: "call \<Rightarrow> KnownGoodSnapshot \<Rightarrow> unit tx" where
  "commit_known_good c canonical =
     (let key = Key_target (kg_Target canonical) in
      bind_tx (modify_tx c InsertSnapshot PlainError (insert_snapshot (snapshot_row_of canonical))) (\<lambda>_.
      bind_tx (statement c UpsertCurrent PlainError) (\<lambda>_.
      bind_tx (put_tx (upsert_current key (kg_ID canonical))) (\<lambda>_.
      pruneKnownGood c key))))"

definition commit_body :: "hashes \<Rightarrow> call \<Rightarrow> ctx \<Rightarrow> string \<Rightarrow> KnownGoodSnapshot \<Rightarrow> ResourceIdentity list
    \<Rightarrow> ReadinessEvidence \<Rightarrow> RolloutRecord tx" where
  "commit_body H c ctx rid snapshot resources evidence =
     bind_tx (lift_tx (commit_input H snapshot evidence)) (\<lambda>canonical.
     bind_tx (checked c ctx BeginTx PlainError) (\<lambda>_.
     bind_tx (statement c SelectRollout PlainError) (\<lambda>_.
     bind_tx (get_tx (find_rollout rid)) (\<lambda>existing.
     case existing of
       None \<Rightarrow> fail_tx (PlainError ''sql: no rows in result set'')
     | Some row \<Rightarrow> bind_tx (lift_tx (scanRollout H row)) (\<lambda>record.
         if rec_State record = Succeeded \<and> rec_TerminalAt record \<noteq> None then return_tx record
         else
         bind_tx (guard_tx (rec_TerminalAt record \<noteq> None \<or> rec_State record \<noteq> Waiting)
           (StoreError RolloutCodeInvalidTransition ''rollout is not waiting for readiness commit'')) (\<lambda>_.
         bind_tx (guard_tx (Key_target (kg_Target canonical) \<noteq> Key_target (in_Target (rec_Intent record)))
           (StoreError RolloutCodeKnownGoodCorrupt ''known-good target does not match rollout'')) (\<lambda>_.
         bind_tx (commit_known_good c canonical) (\<lambda>_.
         save_transition H c (succeeded record resources evidence (cl_now c)))))))))) "

definition CommitRolloutSuccess :: "hashes \<Rightarrow> call \<Rightarrow> ctx \<Rightarrow> string \<Rightarrow> KnownGoodSnapshot \<Rightarrow> ResourceIdentity list
    \<Rightarrow> ReadinessEvidence \<Rightarrow> db \<Rightarrow> (failure + RolloutRecord) \<times> db" where
  "CommitRolloutSuccess H c ctx rid snapshot resources evidence =
     run_tx (commit_body H c ctx rid snapshot resources evidence)"

subsection \<open>Known-good snapshots\<close>

definition GetKnownGood :: "hashes \<Rightarrow> call \<Rightarrow> ctx \<Rightarrow> string \<Rightarrow> db \<Rightarrow> failure + KnownGoodSnapshot option" where
  "GetKnownGood H c ctx sid db =
     (case checked c ctx SelectSnapshot PlainError db of Inl e \<Rightarrow> Inl e | Inr _ \<Rightarrow>
      case find_snapshot sid db of None \<Rightarrow> Inr None
      | Some row \<Rightarrow> (case sw_Snapshot row of
          Stored snapshot \<Rightarrow>
            if isl (Canonicalize_known_good H snapshot)
            then Inl (StoreError RolloutCodeKnownGoodCorrupt ''known-good snapshot failed validation'')
            else Inr (Some (snapshot\<lparr>kg_Resources := sort_key resource_key (kg_Resources snapshot)\<rparr>))
        | _ \<Rightarrow> Inl (StoreError RolloutCodeKnownGoodCorrupt ''known-good JSON is invalid'')))"

definition CurrentKnownGood :: "hashes \<Rightarrow> call \<Rightarrow> ctx \<Rightarrow> RuntimeTarget \<Rightarrow> db \<Rightarrow> failure + KnownGoodSnapshot option" where
  "CurrentKnownGood H c ctx target db =
     (case checked c ctx SelectCurrent PlainError db of Inl e \<Rightarrow> Inl e | Inr _ \<Rightarrow>
      case map_of (db_current db) (Key_target target) of None \<Rightarrow> Inr None
      | Some sid \<Rightarrow> GetKnownGood H c ctx sid db)"

definition ClearCurrentKnownGood :: "call \<Rightarrow> ctx \<Rightarrow> RuntimeTarget \<Rightarrow> db \<Rightarrow> (failure + unit) \<times> db" where
  "ClearCurrentKnownGood c ctx target =
     run_tx (bind_tx (checked c ctx DeleteCurrent PlainError) (\<lambda>_.
       put_tx (\<lambda>db. db\<lparr>db_current := AList.delete (Key_target target) (db_current db)\<rparr>)))"

subsection \<open>Repair of historical rollbacks\<close>

definition repair_one :: "hashes \<Rightarrow> call \<Rightarrow> rollout_row \<Rightarrow> unit tx" where
  "repair_one H c row = (case rw_Intent row of
     Stored intent \<Rightarrow> (case Canonicalize_intent H intent of
       Inl _ \<Rightarrow> fail_tx (StoreError RolloutCodeKnownGoodCorrupt ''historical rollback intent is invalid'')
     | Inr canonical \<Rightarrow>
         if in_Operation canonical \<noteq> OpRollback \<or> in_PreviousKnownGoodID canonical = []
            \<or> in_ExpectedKnownGoodID canonical = [] then return_tx ()
         else
         bind_tx (statement c SelectCurrent (wrapped ''read current known-good during historical rollback reconciliation'')) (\<lambda>_.
         bind_tx (get_tx (current_snapshot (Key_target (in_Target canonical)))) (\<lambda>current.
         if current \<noteq> Some (in_ExpectedKnownGoodID canonical, in_ExpectedKnownGoodHash canonical) then return_tx ()
         else restoreCurrentKnownGood c canonical)))
   | _ \<Rightarrow> fail_tx (StoreError RolloutCodeKnownGoodCorrupt ''historical rollback intent JSON is invalid''))"

fun repair_rows :: "hashes \<Rightarrow> call \<Rightarrow> rollout_row list \<Rightarrow> unit tx" where
  "repair_rows H c [] = return_tx ()"
| "repair_rows H c (row # rows) = bind_tx (repair_one H c row) (\<lambda>_. repair_rows H c rows)"

definition historical_rollbacks :: "db \<Rightarrow> rollout_row list" where
  "historical_rollbacks db = sort_key (\<lambda>r. - rw_TerminalAt r)
     (filter (\<lambda>r. rw_State r = RolledBack \<and> rw_TerminalAt r > 0) (db_rollouts db))"

definition reconcileHistoricalRollbacks :: "hashes \<Rightarrow> call \<Rightarrow> ctx \<Rightarrow> db \<Rightarrow> (failure + unit) \<times> db" where
  "reconcileHistoricalRollbacks H c ctx = run_tx
     (bind_tx (checked c ctx BeginTx (wrapped ''begin historical rollback reconciliation'')) (\<lambda>_.
      bind_tx (statement c SelectHistorical (wrapped ''list historical rollbacks'')) (\<lambda>_.
      bind_tx (get_tx historical_rollbacks) (\<lambda>rows.
      bind_tx (repair_rows H c rows) (\<lambda>_.
      statement c CommitTx (wrapped ''commit historical rollback reconciliation''))))))"

end
