(* ===== verification/Rollout_Engine.thy ===== *)
theory Rollout_Engine
  imports Rollout_Store
begin

text \<open>
  The rollout reconciler of the Agent, agent/internal/deploy/rollout_engine.go (with the types of
  engine.go and the interface RolloutRuntime of reconciliation.go). The store and the runtime are
  interfaces in Go; here they are records of functions, and an engine run is explicit state
  passing over a world: the state of the store, the state of the cluster, the number of calls made
  so far and the progress events. \<open>en_calls\<close> gives what the machine does at each call: the clock
  and which statements fail.

  The zero RolloutRecord that the code returns with some errors is None; a Go pair of a record and
  an error is a pair of options.
\<close>

section \<open>Interfaces\<close>

record 's store_ops =
  so_begin :: "call \<Rightarrow> ctx \<Rightarrow> RolloutIntent \<Rightarrow> ResourceIdentity list \<Rightarrow> 's \<Rightarrow> (failure + RolloutRecord) \<times> 's"
  so_get :: "call \<Rightarrow> ctx \<Rightarrow> string \<Rightarrow> 's \<Rightarrow> failure + RolloutRecord option"
  so_list :: "call \<Rightarrow> ctx \<Rightarrow> int \<Rightarrow> 's \<Rightarrow> failure + RolloutRecord list"
  so_transition :: "call \<Rightarrow> ctx \<Rightarrow> string \<Rightarrow> RolloutState \<Rightarrow> RolloutError option \<Rightarrow> ResourceIdentity list
    \<Rightarrow> ReadinessEvidence option \<Rightarrow> bool \<Rightarrow> 's \<Rightarrow> (failure + RolloutRecord) \<times> 's"
  so_commit :: "call \<Rightarrow> ctx \<Rightarrow> string \<Rightarrow> KnownGoodSnapshot \<Rightarrow> ResourceIdentity list \<Rightarrow> ReadinessEvidence
    \<Rightarrow> 's \<Rightarrow> (failure + RolloutRecord) \<times> 's"
  so_known_good :: "call \<Rightarrow> ctx \<Rightarrow> string \<Rightarrow> 's \<Rightarrow> failure + KnownGoodSnapshot option"
  so_current :: "call \<Rightarrow> ctx \<Rightarrow> RuntimeTarget \<Rightarrow> 's \<Rightarrow> failure + KnownGoodSnapshot option"
  so_clear :: "call \<Rightarrow> ctx \<Rightarrow> RuntimeTarget \<Rightarrow> 's \<Rightarrow> (failure + unit) \<times> 's"

text \<open>The SQLite store behind the interface.\<close>

definition sqlite_ops :: "hashes \<Rightarrow> db store_ops" where
  "sqlite_ops H = \<lparr>so_begin = BeginRollout H, so_get = GetRollout H, so_list = ListNonTerminalRollouts H,
     so_transition = TransitionRollout H, so_commit = CommitRolloutSuccess H, so_known_good = GetKnownGood H,
     so_current = CurrentKnownGood H, so_clear = ClearCurrentKnownGood\<rparr>"

record rolloutObservation =
  ob_Kind :: string
  ob_Namespace :: string
  ob_Name :: string
  ob_Functional :: string
  ob_Exists :: bool
  ob_UID :: string
  ob_ResourceVersion :: string

definition resourceIdentity :: "rolloutObservation \<Rightarrow> ResourceIdentity" where
  "resourceIdentity o1 = \<lparr>ri_Kind = ob_Kind o1, ri_Namespace = ob_Namespace o1, ri_Name = ob_Name o1,
     ri_UID = ob_UID o1, ri_ResourceVersion = ob_ResourceVersion o1, ri_FunctionalHash = ob_Functional o1\<rparr>"

text \<open>
  RolloutRuntime, with the two cleaners that the code looks for by a type assertion. A plan is
  opaque to the engine but for its field Observed. Each operation may change the cluster.
\<close>

record ('p, 'k) runtime_ops =
  rt_prepare :: "call \<Rightarrow> ctx \<Rightarrow> RuntimeSnapshot \<Rightarrow> 'k \<Rightarrow> (failure + 'p) \<times> 'k"
  rt_observed :: "'p \<Rightarrow> rolloutObservation list"
  rt_apply :: "call \<Rightarrow> ctx \<Rightarrow> 'p \<Rightarrow> 'k \<Rightarrow> (failure + ResourceIdentity list) \<times> 'k"
  rt_observe :: "call \<Rightarrow> ctx \<Rightarrow> 'p \<Rightarrow> 'k \<Rightarrow> (failure + ReadinessEvidence \<times> ResourceIdentity list) \<times> 'k"
  rt_cleanup_preview :: "(call \<Rightarrow> ctx \<Rightarrow> RuntimeSnapshot \<Rightarrow> 'k \<Rightarrow> failure option \<times> 'k) option"
  rt_cleanup_first :: "(call \<Rightarrow> ctx \<Rightarrow> RuntimeSnapshot \<Rightarrow> 'k \<Rightarrow> failure option \<times> 'k) option"

definition planObservedIdentities :: "('p, 'k) runtime_ops \<Rightarrow> 'p \<Rightarrow> ResourceIdentity list" where
  "planObservedIdentities rt plan = map resourceIdentity (rt_observed rt plan)"

text \<open>
  ProgressEvent.Err is an interface: a nil *RolloutError passed to it is not the nil interface, so
  the two are kept apart.
\<close>

datatype event_error = NoError | TypedError "RolloutError option"

record ProgressEvent =
  pe_OperationID :: string
  pe_ProjectID :: string
  pe_ServiceID :: string
  pe_ServiceName :: string
  pe_Phase :: string
  pe_Message :: string
  pe_Percent :: int
  pe_Err :: event_error
  pe_Rollout :: RolloutRecord

record ('s, 'p, 'k) Engine =
  en_configured :: bool \<comment> \<open>Store and Reconciler are not nil\<close>
  en_store :: "'s store_ops"
  en_runtime :: "('p, 'k) runtime_ops"
  en_RolloutTimeout :: int
  en_hashes :: hashes
  en_redact :: "string \<Rightarrow> string" \<comment> \<open>RedactSensitive, regular expressions of package regexp\<close>
  en_progress :: bool \<comment> \<open>a ProgressFunc was given\<close>
  en_calls :: "nat \<Rightarrow> call"

record ('s, 'k) world =
  w_store :: 's
  w_cluster :: 'k
  w_calls :: nat
  w_progress :: "ProgressEvent list"

type_synonym outcome = "RolloutRecord option \<times> failure option"

section \<open>Calls\<close>

definition next_call :: "('s, 'p, 'k) Engine \<Rightarrow> ('s, 'k) world \<Rightarrow> call" where
  "next_call e w = en_calls e (w_calls w)"

definition store_call :: "('s, 'p, 'k) Engine \<Rightarrow> (call \<Rightarrow> 's \<Rightarrow> 'a \<times> 's) \<Rightarrow> ('s, 'k) world \<Rightarrow> 'a \<times> ('s, 'k) world" where
  "store_call e f w = (case f (next_call e w) (w_store w) of (x, s) \<Rightarrow> (x, w\<lparr>w_store := s, w_calls := Suc (w_calls w)\<rparr>))"

definition store_read :: "('s, 'p, 'k) Engine \<Rightarrow> (call \<Rightarrow> 's \<Rightarrow> 'a) \<Rightarrow> ('s, 'k) world \<Rightarrow> 'a \<times> ('s, 'k) world" where
  "store_read e f w = (f (next_call e w) (w_store w), w\<lparr>w_calls := Suc (w_calls w)\<rparr>)"

definition runtime_call :: "('s, 'p, 'k) Engine \<Rightarrow> (call \<Rightarrow> 'k \<Rightarrow> 'a \<times> 'k) \<Rightarrow> ('s, 'k) world \<Rightarrow> 'a \<times> ('s, 'k) world" where
  "runtime_call e f w = (case f (next_call e w) (w_cluster w) of (x, k) \<Rightarrow> (x, w\<lparr>w_cluster := k, w_calls := Suc (w_calls w)\<rparr>))"

text \<open>context.WithTimeout(context.WithoutCancel(ctx), e.RolloutTimeout), at the time it is made.\<close>

definition fresh_ctx :: "('s, 'p, 'k) Engine \<Rightarrow> ctx \<Rightarrow> ('s, 'k) world \<Rightarrow> ctx \<times> ('s, 'k) world" where
  "fresh_ctx e c w = (WithTimeout (WithoutCancel c) (cl_now (next_call e w)) (en_RolloutTimeout e),
     w\<lparr>w_calls := Suc (w_calls w)\<rparr>)"

text \<open>\<open>if err != nil { ... }\<close> after a call, and what follows otherwise.\<close>

definition on_result :: "((failure + 'a) \<times> 'w) \<Rightarrow> (failure \<Rightarrow> 'w \<Rightarrow> 'b) \<Rightarrow> ('a \<Rightarrow> 'w \<Rightarrow> 'b) \<Rightarrow> 'b" where
  "on_result result fail ok = (case result of (Inl err, w) \<Rightarrow> fail err w | (Inr x, w) \<Rightarrow> ok x w)"

definition emitRolloutProgress :: "('s, 'p, 'k) Engine \<Rightarrow> RolloutRecord \<Rightarrow> string \<Rightarrow> string \<Rightarrow> int \<Rightarrow> event_error
    \<Rightarrow> ('s, 'k) world \<Rightarrow> ('s, 'k) world" where
  "emitRolloutProgress e r phase message percent err w =
     (if \<not> en_progress e then w
      else w\<lparr>w_progress := w_progress w @ [\<lparr>pe_OperationID = in_RolloutID (rec_Intent r),
        pe_ProjectID = tg_ProjectID (in_Target (rec_Intent r)), pe_ServiceID = tg_ServiceKey (in_Target (rec_Intent r)),
        pe_ServiceName = tg_ServiceKey (in_Target (rec_Intent r)), pe_Phase = phase, pe_Message = message,
        pe_Percent = percent, pe_Err = err, pe_Rollout = r\<rparr>]\<rparr>)"

definition transition :: "('s, 'p, 'k) Engine \<Rightarrow> ctx \<Rightarrow> RolloutRecord \<Rightarrow> RolloutState \<Rightarrow> RolloutError option
    \<Rightarrow> ResourceIdentity list \<Rightarrow> ReadinessEvidence option \<Rightarrow> bool \<Rightarrow> ('s, 'k) world
    \<Rightarrow> (failure + RolloutRecord) \<times> ('s, 'k) world" where
  "transition e ctx record state failure resources evidence terminal =
     store_call e (\<lambda>c. so_transition (en_store e) c ctx (in_RolloutID (rec_Intent record)) state failure resources evidence terminal)"

section \<open>Failures\<close>

definition cleanupOperation :: "RolloutOperation \<Rightarrow> bool" where
  "cleanupOperation operation = (operation = OpCleanup \<or> operation = OpFirstDeployCleanup)"

definition boundedRolloutFailure :: "('s, 'p, 'k) Engine \<Rightarrow> failure \<Rightarrow> RolloutError" where
  "boundedRolloutFailure e err = (case as_rollout_error err of
     Some f \<Rightarrow> NewRolloutError (re_Code f) (en_redact e (re_Message f)) (re_Retryable f)
   | None \<Rightarrow> NewRolloutError RolloutCodeRuntimeFailed (en_redact e (Error_failure err)) False)"

definition rollout_failure :: "string \<Rightarrow> string \<Rightarrow> bool \<Rightarrow> failure" where
  "rollout_failure code message retryable = RolloutFailure (NewRolloutError code message retryable)"

definition preMutationRolloutFailure :: "failure \<Rightarrow> string \<Rightarrow> failure" where
  "preMutationRolloutFailure err fallbackCode =
     (let pre = (\<lambda>f. RolloutFailure (f\<lparr>re_FailurePhase := FailurePhasePreMutation\<rparr>)) in
      case as_rollout_error err of
        Some typed \<Rightarrow> if re_Code typed \<noteq> [] then pre (NewRolloutError (re_Code typed) (re_Message typed) (re_Retryable typed))
                      else pre (NewRolloutError fallbackCode (Error_failure err) False)
      | None \<Rightarrow> (case as_store_error err of
          Some (code, msg) \<Rightarrow> if code \<noteq> [] then pre (NewRolloutError code msg False)
                              else pre (NewRolloutError fallbackCode (Error_failure err) False)
        | None \<Rightarrow> pre (NewRolloutError fallbackCode (Error_failure err) False)))"

section \<open>Rolling back\<close>

definition rollbackFailed :: "('s, 'p, 'k) Engine \<Rightarrow> ctx \<Rightarrow> RolloutRecord \<Rightarrow> failure \<Rightarrow> ('s, 'k) world
    \<Rightarrow> outcome \<times> ('s, 'k) world" where
  "rollbackFailed e ctx record cause w =
     (let failure = boundedRolloutFailure e cause;
          primary = (case rec_Error record of None \<Rightarrow> failure | Some p \<Rightarrow> p) in
      on_result (transition e ctx record RollbackFailed (Some primary) (rec_Resources record) None True w)
        (\<lambda>err w. ((Some record, Some err), w))
        (\<lambda>failed w. ((Some failed, Some (RolloutFailure failure)),
           emitRolloutProgress e failed ''failed'' (''rollback failed: '' @ Error_rollout (Some failure)) 100
             (TypedError (Some failure)) w)))"

definition previous_matches :: "RolloutRecord \<Rightarrow> KnownGoodSnapshot \<Rightarrow> bool" where
  "previous_matches record k = (kg_SnapshotHash k = in_PreviousKnownGoodHash (rec_Intent record)
     \<and> kg_Target k = in_Target (rec_Intent record))"

text \<open>The end of resumeRollback, once the previous runtime has been applied and observed.\<close>

definition finish_rollback :: "('s, 'p, 'k) Engine \<Rightarrow> ctx \<Rightarrow> RolloutRecord \<Rightarrow> ReadinessEvidence \<Rightarrow> ResourceIdentity list
    \<Rightarrow> ('s, 'k) world \<Rightarrow> outcome \<times> ('s, 'k) world" where
  "finish_rollback e ctx record evidence resources w =
     (if Validate_evidence evidence True False \<noteq> None
      then rollbackFailed e ctx record
        (rollout_failure RolloutCodeReadinessFailed ''previous known-good did not pass post-rollback readiness'' False) w
      else on_result (transition e ctx record RolledBack (rec_Error record) resources (Some evidence) True w)
        (\<lambda>err w. ((Some record, Some err), w))
        (\<lambda>rolledBack w. ((Some rolledBack, map_option RolloutFailure (rec_Error record)),
           emitRolloutProgress e rolledBack ''rollback'' ''exact previous known-good snapshot restored'' 100
             (TypedError (rec_Error record)) w)))"

definition restore_runtime :: "('s, 'p, 'k) Engine \<Rightarrow> ctx \<Rightarrow> RolloutRecord \<Rightarrow> RuntimeSnapshot \<Rightarrow> ('s, 'k) world
    \<Rightarrow> outcome \<times> ('s, 'k) world" where
  "restore_runtime e ctx record runtime w =
     on_result (runtime_call e (\<lambda>c. rt_prepare (en_runtime e) c ctx runtime) w) (rollbackFailed e ctx record) (\<lambda>plan w.
     on_result (runtime_call e (\<lambda>c. rt_apply (en_runtime e) c ctx plan) w) (rollbackFailed e ctx record) (\<lambda>_ w.
     on_result (runtime_call e (\<lambda>c. rt_observe (en_runtime e) c ctx plan) w) (rollbackFailed e ctx record)
       (\<lambda>(evidence, resources) w. finish_rollback e ctx record evidence resources w)))"

definition resumeRollback :: "('s, 'p, 'k) Engine \<Rightarrow> ctx \<Rightarrow> RolloutRecord \<Rightarrow> ('s, 'k) world \<Rightarrow> outcome \<times> ('s, 'k) world" where
  "resumeRollback e ctx record w =
     (let (rollbackCtx, w) = fresh_ctx e ctx w;
          (previous, w) = store_read e (\<lambda>c. so_known_good (en_store e) c rollbackCtx
                            (in_PreviousKnownGoodID (rec_Intent record))) w in
      case previous of
        Inr (Some k) \<Rightarrow>
          if previous_matches record k then restore_runtime e rollbackCtx record (kg_Runtime k) w
          else rollbackFailed e rollbackCtx record (rollout_failure RolloutCodeKnownGoodCorrupt
            ''previous known-good snapshot is missing or does not match the WAL reference'' False) w
      | _ \<Rightarrow> rollbackFailed e rollbackCtx record (rollout_failure RolloutCodeKnownGoodCorrupt
            ''previous known-good snapshot is missing or does not match the WAL reference'' False) w)"

definition rollback :: "('s, 'p, 'k) Engine \<Rightarrow> ctx \<Rightarrow> RolloutRecord \<Rightarrow> ('s, 'k) world \<Rightarrow> outcome \<times> ('s, 'k) world" where
  "rollback e ctx record w =
     on_result (transition e ctx record RollingBack (rec_Error record) (rec_Resources record) None False w)
       (\<lambda>err w. ((Some record, Some err), w))
       (\<lambda>rolling w. resumeRollback e ctx rolling (emitRolloutProgress e rolling ''rollback''
          ''restoring exact previous known-good snapshot'' 85 (TypedError (rec_Error record)) w))"

definition startExplicitRollback :: "('s, 'p, 'k) Engine \<Rightarrow> ctx \<Rightarrow> RolloutRecord \<Rightarrow> ('s, 'k) world
    \<Rightarrow> outcome \<times> ('s, 'k) world" where
  "startExplicitRollback e ctx record w =
     on_result (transition e ctx record RollingBack None (rec_Resources record) None False w)
       (\<lambda>err w. ((Some record, Some err), w))
       (\<lambda>transitioned w. resumeRollback e ctx transitioned (emitRolloutProgress e transitioned ''rollback''
          ''restoring exact previous known-good snapshot'' 40 NoError w))"

definition failAndRollback :: "('s, 'p, 'k) Engine \<Rightarrow> ctx \<Rightarrow> RolloutRecord \<Rightarrow> failure \<Rightarrow> ('s, 'k) world
    \<Rightarrow> outcome \<times> ('s, 'k) world" where
  "failAndRollback e ctx record cause w =
     (let (recoveryCtx, w) = fresh_ctx e ctx w;
          previousExists = (in_PreviousKnownGoodID (rec_Intent record) \<noteq> []);
          failure = boundedRolloutFailure e cause in
      on_result (transition e recoveryCtx record Failed (Some failure) (rec_Resources record) None (\<not> previousExists) w)
        (\<lambda>err w. ((Some record, Some err), w))
        (\<lambda>failed w.
           if \<not> previousExists
           then ((Some failed, Some (RolloutFailure failure)), emitRolloutProgress e failed ''failed''
                  (Error_rollout (Some failure) @ ''; rollback unavailable: no previous known-good snapshot exists'') 80
                  (TypedError (Some failure)) w)
           else rollback e recoveryCtx failed (emitRolloutProgress e failed ''failed'' (Error_rollout (Some failure)) 80
                  (TypedError (Some failure)) w)))"

section \<open>Going forward\<close>

text \<open>The plan of the run, prepared now when the rollout is resumed without one.\<close>

definition with_plan :: "('s, 'p, 'k) Engine \<Rightarrow> ctx \<Rightarrow> RolloutRecord \<Rightarrow> 'p option \<Rightarrow> ('s, 'k) world
    \<Rightarrow> (failure + 'p) \<times> ('s, 'k) world" where
  "with_plan e ctx record plan w = (case plan of Some p \<Rightarrow> (Inr p, w)
     | None \<Rightarrow> runtime_call e (\<lambda>c. rt_prepare (en_runtime e) c ctx (in_Desired (rec_Intent record))) w)"

definition snapshot_of :: "RolloutRecord \<Rightarrow> ResourceIdentity list \<Rightarrow> string \<Rightarrow> ReadinessEvidence \<Rightarrow> KnownGoodSnapshot" where
  "snapshot_of record resources evidenceHash evidence =
     \<lparr>kg_SchemaVersion = KnownGoodSchemaVersion, kg_ID = in_RolloutID (rec_Intent record),
      kg_Target = in_Target (rec_Intent record), kg_Runtime = in_Desired (rec_Intent record),
      kg_Resources = resources, kg_EvidenceHash = evidenceHash, kg_VerifiedAt = ed_ObservedAt evidence,
      kg_SnapshotHash = []\<rparr>"

text \<open>
  The end of the waiting case. Canonicalize sorts the resources in place, so the list passed to
  the commit next to the snapshot is the sorted one.
\<close>

definition commit_ready :: "('s, 'p, 'k) Engine \<Rightarrow> ctx \<Rightarrow> RolloutRecord \<Rightarrow> ReadinessEvidence \<Rightarrow> ResourceIdentity list
    \<Rightarrow> ('s, 'k) world \<Rightarrow> outcome \<times> ('s, 'k) world" where
  "commit_ready e ctx record evidence resources w =
     (case Validate_evidence evidence True False of
        Some err \<Rightarrow> failAndRollback e ctx record (rollout_failure RolloutCodeReadinessFailed err False) w
      | None \<Rightarrow>
      case Hash_evidence (en_hashes e) evidence of
        None \<Rightarrow> ((Some record, Some (PlainError ''json: marshal error'')), w)
      | Some evidenceHash \<Rightarrow>
      case Canonicalize_known_good (en_hashes e) (snapshot_of record resources evidenceHash evidence) of
        Inl err \<Rightarrow> failAndRollback e ctx record (rollout_failure RolloutCodeKnownGoodCorrupt err False) w
      | Inr snapshot \<Rightarrow>
      on_result (store_call e (\<lambda>c. so_commit (en_store e) c ctx (in_RolloutID (rec_Intent record)) snapshot
                   (sort_key resource_key resources) evidence) w)
        (\<lambda>err w. ((Some record, Some err), w))
        (\<lambda>committed w. ((Some committed, None), emitRolloutProgress e committed ''success''
           ''runtime snapshot verified and committed as known-good'' 100 NoError w)))"

definition resume_waiting :: "('s, 'p, 'k) Engine \<Rightarrow> ctx \<Rightarrow> RolloutRecord \<Rightarrow> 'p option \<Rightarrow> ('s, 'k) world
    \<Rightarrow> outcome \<times> ('s, 'k) world" where
  "resume_waiting e ctx record plan w =
     (let (readinessCtx, w) = fresh_ctx e ctx w in
      on_result (with_plan e readinessCtx record plan w) (failAndRollback e readinessCtx record) (\<lambda>p w.
      on_result (runtime_call e (\<lambda>c. rt_observe (en_runtime e) c readinessCtx p) w) (failAndRollback e readinessCtx record)
        (\<lambda>(evidence, resources) w. commit_ready e readinessCtx record evidence resources w)))"

definition resume_applying :: "('s, 'p, 'k) Engine \<Rightarrow> ctx \<Rightarrow> RolloutRecord \<Rightarrow> 'p option \<Rightarrow> ('s, 'k) world
    \<Rightarrow> outcome \<times> ('s, 'k) world" where
  "resume_applying e ctx record plan w =
     (let (mutationCtx, w) = fresh_ctx e ctx w in
      on_result (with_plan e mutationCtx record plan w) (failAndRollback e mutationCtx record) (\<lambda>p w.
      on_result (runtime_call e (\<lambda>c. rt_apply (en_runtime e) c mutationCtx p) w) (failAndRollback e mutationCtx record) (\<lambda>resources w.
      on_result (transition e mutationCtx record Waiting None resources None False w)
        (\<lambda>err w. ((Some record, Some err), w))
        (\<lambda>waiting w. resume_waiting e ctx waiting (Some p) (emitRolloutProgress e waiting ''watching''
           ''waiting for factual workload and local routing readiness'' 70 NoError w)))))"

definition resume_prepared :: "('s, 'p, 'k) Engine \<Rightarrow> ctx \<Rightarrow> RolloutRecord \<Rightarrow> 'p option \<Rightarrow> ('s, 'k) world
    \<Rightarrow> outcome \<times> ('s, 'k) world" where
  "resume_prepared e ctx record plan w =
     (let checked_at = next_call e w; w = w\<lparr>w_calls := Suc (w_calls w)\<rparr> in
      if ctx_done ctx (cl_now checked_at)
      then on_result (transition e (WithoutCancel ctx) record Failed
             (Some (NewRolloutError RolloutCodeCancelledBeforeMutation ''rollout cancelled before Kubernetes mutation'' False))
             (rec_Resources record) None True w)
        (\<lambda>err w. ((Some record, Some err), w))
        (\<lambda>terminal w. ((Some terminal, Some (PlainError (cl_done checked_at))), w))
      else on_result (transition e ctx record Applying None (rec_Resources record) None False w)
        (\<lambda>err w. ((Some record, Some err), w))
        (\<lambda>applying w. resume_applying e ctx applying plan (emitRolloutProgress e applying ''applying''
           ''applying authoritative runtime snapshot'' 40 NoError w)))"

definition resumeRollout :: "('s, 'p, 'k) Engine \<Rightarrow> ctx \<Rightarrow> RolloutRecord \<Rightarrow> 'p option \<Rightarrow> ('s, 'k) world
    \<Rightarrow> outcome \<times> ('s, 'k) world" where
  "resumeRollout e ctx record plan w = (case rec_State record of
     Prepared \<Rightarrow> resume_prepared e ctx record plan w
   | Applying \<Rightarrow> resume_applying e ctx record plan w
   | Waiting \<Rightarrow> resume_waiting e ctx record plan w
   | Failed \<Rightarrow> rollback e (WithoutCancel ctx) record w
   | RollingBack \<Rightarrow> resumeRollback e (WithoutCancel ctx) record w
   | _ \<Rightarrow> if rec_TerminalAt record \<noteq> None then ((Some record, None), w)
          else ((Some record, Some (rollout_failure RolloutCodeInvalidTransition ''stored rollout state is not reconcilable'' False)), w))"

section \<open>Cleanups\<close>

text \<open>The two type assertions, with the error of each when the runtime has no such method.\<close>

definition cleanup_call :: "('s, 'p, 'k) Engine \<Rightarrow> ctx \<Rightarrow> RolloutRecord
    \<Rightarrow> failure + (('s, 'k) world \<Rightarrow> failure option \<times> ('s, 'k) world)" where
  "cleanup_call e ctx record =
     (let intent = rec_Intent record in
      if in_Operation intent = OpCleanup
      then (case rt_cleanup_preview (en_runtime e) of
          None \<Rightarrow> Inl (rollout_failure RolloutCodeRuntimeFailed ''preview cleanup is not supported'' False)
        | Some f \<Rightarrow> Inr (runtime_call e (\<lambda>c. f c ctx (in_Desired intent))))
      else (case rt_cleanup_first (en_runtime e) of
          None \<Rightarrow> Inl (rollout_failure RolloutCodeRuntimeFailed ''first deploy cleanup is not supported'' False)
        | Some f \<Rightarrow> Inr (runtime_call e (\<lambda>c. f c ctx (in_Desired intent)))))"

definition cleanup_waiting :: "('s, 'p, 'k) Engine \<Rightarrow> ctx \<Rightarrow> RolloutRecord \<Rightarrow> ('s, 'k) world \<Rightarrow> outcome \<times> ('s, 'k) world" where
  "cleanup_waiting e ctx record w =
     on_result (transition e ctx record Cleaned None [] None True w)
       (\<lambda>err w. ((Some record, Some err), w))
       (\<lambda>cleaned w. ((Some cleaned, None), emitRolloutProgress e cleaned ''success''
          ''failed rollout resources removed'' 100 NoError w))"

definition cleanup_applying :: "('s, 'p, 'k) Engine \<Rightarrow> ctx \<Rightarrow> RolloutRecord \<Rightarrow> ('s, 'k) world \<Rightarrow> outcome \<times> ('s, 'k) world" where
  "cleanup_applying e ctx record w = (case cleanup_call e ctx record of
     Inl err \<Rightarrow> ((Some record, Some err), w)
   | Inr run \<Rightarrow> (case run w of
       (Some cleanupErr, w) \<Rightarrow>
         on_result (transition e (WithoutCancel ctx) record Failed (Some (boundedRolloutFailure e cleanupErr)) [] None True w)
           (\<lambda>err w. ((Some record, Some err), w))
           (\<lambda>terminal w. ((Some terminal, Some cleanupErr), w))
     | (None, w) \<Rightarrow>
         on_result (transition e ctx record Waiting None [] None False w)
           (\<lambda>err w. ((Some record, Some err), w))
           (\<lambda>waiting w. cleanup_waiting e ctx waiting (emitRolloutProgress e waiting ''watching''
              ''cleanup mutation completed; verifying absence'' 90 NoError w))))"

definition resumeCleanup :: "('s, 'p, 'k) Engine \<Rightarrow> ctx \<Rightarrow> RolloutRecord \<Rightarrow> ('s, 'k) world \<Rightarrow> outcome \<times> ('s, 'k) world" where
  "resumeCleanup e ctx record w =
     (if rec_TerminalAt record \<noteq> None then ((Some record, None), w)
      else if rec_State record = Prepared
      then on_result (transition e ctx record Applying None [] None False w)
        (\<lambda>err w. ((Some record, Some err), w))
        (\<lambda>applying w. cleanup_applying e ctx applying (emitRolloutProgress e applying ''applying''
           ''deleting exact Opsi-owned preview'' 50 NoError w))
      else if rec_State record = Applying then cleanup_applying e ctx record w
      else if rec_State record = Waiting then cleanup_waiting e ctx record w
      else ((Some record, Some (rollout_failure RolloutCodeInvalidTransition ''cleanup rollout state is not reconcilable'' False)), w))"

definition cleanup_authority_bad :: "hashes \<Rightarrow> RolloutIntent \<Rightarrow> bool" where
  "cleanup_authority_bad H intent =
     (Validate_snapshot (hx_exposure H) (hx_workload H) (in_Desired intent) \<noteq> None
      \<or> in_Operation intent = OpCleanup \<and> sn_Preview (in_Desired intent) = None
      \<or> in_Operation intent = OpFirstDeployCleanup \<and> sn_Preview (in_Desired intent) \<noteq> None)"

definition reconcileCleanup :: "('s, 'p, 'k) Engine \<Rightarrow> ctx \<Rightarrow> RolloutIntent \<Rightarrow> ('s, 'k) world \<Rightarrow> outcome \<times> ('s, 'k) world" where
  "reconcileCleanup e ctx intent w =
     on_result (store_read e (\<lambda>c. so_get (en_store e) c ctx (in_RolloutID intent)) w)
       (\<lambda>err w. ((None, Some err), w))
       (\<lambda>existing w. case existing of
          Some record \<Rightarrow>
            if in_IntentHash (rec_Intent record) \<noteq> in_IntentHash intent
            then ((None, Some (rollout_failure RolloutCodeConflict ''cleanup rollout intent conflicts with durable record'' False)), w)
            else resumeCleanup e ctx record w
        | None \<Rightarrow>
            if cleanup_authority_bad (en_hashes e) intent
            then ((None, Some (rollout_failure RolloutCodeInvalid ''cleanup authority is invalid'' False)), w)
            else on_result (store_call e (\<lambda>c. so_begin (en_store e) c ctx intent []) w)
              (\<lambda>err w. ((None, Some err), w))
              (\<lambda>record w. resumeCleanup e ctx record w))"

section \<open>The entry points\<close>

definition legacy_evidence :: "RolloutRecord option \<Rightarrow> bool" where
  "legacy_evidence legacy = (case legacy of None \<Rightarrow> False | Some r \<Rightarrow> (case rec_Evidence r of None \<Rightarrow> False
     | Some ev \<Rightarrow> ed_ApplicationImageID ev = [] \<and> ed_AvailableReplicas ev = 0))"

text \<open>The last check of validatePreviousKnownGood.\<close>

definition stale_reference :: "RolloutIntent \<Rightarrow> KnownGoodSnapshot option \<Rightarrow> failure option" where
  "stale_reference intent current =
     (if (case current of None \<Rightarrow> True | Some k \<Rightarrow> (kg_ID k, kg_SnapshotHash k) \<noteq> expected_known_good intent)
      then Some (rollout_failure RolloutCodeConflict ''previous known-good reference is stale'' False) else None)"

definition validatePreviousKnownGood :: "('s, 'p, 'k) Engine \<Rightarrow> ctx \<Rightarrow> RolloutIntent \<Rightarrow> ('s, 'k) world
    \<Rightarrow> failure option \<times> ('s, 'k) world" where
  "validatePreviousKnownGood e ctx intent w =
     on_result (store_read e (\<lambda>c. so_current (en_store e) c ctx (in_Target intent)) w) (\<lambda>err w. (Some err, w))
       (\<lambda>current w.
          let expectedID = fst (expected_known_good intent) in
          case current of
            None \<Rightarrow> if expectedID = [] then (None, w) else (stale_reference intent current, w)
          | Some k \<Rightarrow>
              if expectedID \<noteq> [] then (stale_reference intent current, w)
              else on_result (store_read e (\<lambda>c. so_get (en_store e) c ctx (kg_ID k)) w) (\<lambda>err w. (Some err, w))
                (\<lambda>legacy w.
                   if legacy_evidence legacy
                   then (case store_call e (\<lambda>c. so_clear (en_store e) c ctx (in_Target intent)) w of
                           (Inl err, w) \<Rightarrow> (Some err, w) | (Inr _, w) \<Rightarrow> (None, w))
                   else (stale_reference intent current, w)))"

definition resume_existing :: "('s, 'p, 'k) Engine \<Rightarrow> ctx \<Rightarrow> RolloutRecord \<Rightarrow> 'p option \<Rightarrow> ('s, 'k) world
    \<Rightarrow> outcome \<times> ('s, 'k) world" where
  "resume_existing e ctx record plan w =
     (if in_Operation (rec_Intent record) = OpRollback \<and> rec_State record = Prepared
      then startExplicitRollback e (WithoutCancel ctx) record w
      else resumeRollout e ctx record plan w)"

definition start_rollout :: "('s, 'p, 'k) Engine \<Rightarrow> ctx \<Rightarrow> RolloutIntent \<Rightarrow> ('s, 'k) world \<Rightarrow> outcome \<times> ('s, 'k) world" where
  "start_rollout e ctx intent w = (case validatePreviousKnownGood e ctx intent w of
     (Some err, w) \<Rightarrow> ((None, Some (preMutationRolloutFailure err RolloutCodeConflict)), w)
   | (None, w) \<Rightarrow>
       on_result (runtime_call e (\<lambda>c. rt_prepare (en_runtime e) c ctx (in_Desired intent)) w)
         (\<lambda>err w. ((None, Some (preMutationRolloutFailure err RolloutCodePreflightFailed)), w)) (\<lambda>plan w.
       on_result (store_call e (\<lambda>c. so_begin (en_store e) c ctx intent (planObservedIdentities (en_runtime e) plan)) w)
         (\<lambda>err w. ((None, Some (preMutationRolloutFailure err RolloutCodePreflightFailed)), w)) (\<lambda>record w.
       if rec_TerminalAt record \<noteq> None then ((Some record, None), w)
       else resume_existing e ctx record (Some plan)
         (emitRolloutProgress e record ''queued'' ''durable rollout prepared'' 20 NoError w))))"

definition ReconcileRollout :: "('s, 'p, 'k) Engine \<Rightarrow> ctx \<Rightarrow> RolloutIntent \<Rightarrow> ('s, 'k) world \<Rightarrow> outcome \<times> ('s, 'k) world" where
  "ReconcileRollout e ctx intent w =
     (if \<not> en_configured e then ((None, Some (PlainError ''rollout reconciliation is not configured'')), w)
      else case Canonicalize_intent (en_hashes e) intent of
        Inl err \<Rightarrow> ((None, Some (preMutationRolloutFailure (PlainError err) RolloutCodeInvalid)), w)
      | Inr canonical \<Rightarrow>
        if cleanupOperation (in_Operation canonical) then reconcileCleanup e ctx canonical w
        else on_result (store_read e (\<lambda>c. so_get (en_store e) c ctx (in_RolloutID canonical)) w)
          (\<lambda>err w. ((None, Some err), w))
          (\<lambda>existing w. case existing of
             None \<Rightarrow> start_rollout e ctx canonical w
           | Some record \<Rightarrow>
               if in_IntentHash (rec_Intent record) \<noteq> in_IntentHash canonical
               then ((None, Some (preMutationRolloutFailure (rollout_failure RolloutCodeConflict
                      ''rollout id already has a different intent'' False) RolloutCodeConflict)), w)
               else if cleanupOperation (in_Operation (rec_Intent record)) then resumeCleanup e ctx record w
               else if rec_TerminalAt record \<noteq> None then ((Some record, None), w)
               else resume_existing e ctx record None w))"

text \<open>The loop of ReconcilePending: it stops at the first error, after appending that result.\<close>

fun pending_loop :: "('s, 'p, 'k) Engine \<Rightarrow> ctx \<Rightarrow> RolloutRecord list \<Rightarrow> ('s, 'k) world
    \<Rightarrow> (RolloutRecord option list \<times> failure option) \<times> ('s, 'k) world" where
  "pending_loop e ctx [] w = (([], None), w)"
| "pending_loop e ctx (record # records) w =
     (let ((result, err), w) = (if cleanupOperation (in_Operation (rec_Intent record)) then resumeCleanup e ctx record w
                                else resume_existing e ctx record None w) in
      if err \<noteq> None then (([result], err), w)
      else let ((results, err), w) = pending_loop e ctx records w in ((result # results, err), w))"

definition ReconcilePending :: "('s, 'p, 'k) Engine \<Rightarrow> ctx \<Rightarrow> ('s, 'k) world
    \<Rightarrow> (RolloutRecord option list \<times> failure option) \<times> ('s, 'k) world" where
  "ReconcilePending e ctx w =
     (if \<not> en_configured e then (([], Some (PlainError ''rollout reconciliation is not configured'')), w)
      else on_result (store_read e (\<lambda>c. so_list (en_store e) c ctx 64) w)
        (\<lambda>err w. (([], Some err), w)) (\<lambda>records w. pending_loop e ctx records w))"

end
