(* ===== verification/Rollout_Store_Invariant.thy ===== *)
theory Rollout_Store_Invariant
  imports Rollout_Store
begin

text \<open>
  The invariant of the rollout store and the effect of each of its operations on what the store
  says of rollouts and of known-good snapshots.
\<close>

section \<open>Successful transactions\<close>

lemma return_tx_Inr [simp]: "return_tx x db = Inr (y, db') \<longleftrightarrow> y = x \<and> db' = db"
  by (auto simp: return_tx_def)

lemma fail_tx_Inr [simp]: "fail_tx e db = Inl e"
  by (simp add: fail_tx_def)

lemma bind_tx_Inr [simp]:
  "bind_tx m f db = Inr (y, db') \<longleftrightarrow> (\<exists>x db1. m db = Inr (x, db1) \<and> f x db1 = Inr (y, db'))"
  by (auto simp: bind_tx_def split: sum.splits)

lemma guard_tx_Inr [simp]: "guard_tx bad e db = Inr (u, db') \<longleftrightarrow> \<not> bad \<and> db' = db"
  by (simp add: guard_tx_def)

lemma lift_tx_Inr [simp]: "lift_tx r db = Inr (x, db') \<longleftrightarrow> r = Inr x \<and> db' = db"
  by (auto simp: lift_tx_def split: sum.splits)

lemma get_tx_Inr [simp]: "get_tx f db = Inr (x, db') \<longleftrightarrow> x = f db \<and> db' = db"
  by (auto simp: get_tx_def)

lemma put_tx_Inr [simp]: "put_tx f db = Inr (u, db') \<longleftrightarrow> db' = f db"
  by (auto simp: put_tx_def)

lemma statement_Inr [simp]: "statement c k wrap db = Inr (u, db') \<longleftrightarrow> cl_failing c k = None \<and> db' = db"
  by (simp add: statement_def split: option.splits)

lemma checked_Inr [simp]:
  "checked c ctx k wrap db = Inr (u, db') \<longleftrightarrow> \<not> ctx_done ctx (cl_now c) \<and> cl_failing c k = None \<and> db' = db"
  by (auto simp: checked_def)

lemma modify_tx_Inr [simp]:
  "modify_tx c k wrap ins db = Inr (u, db') \<longleftrightarrow> cl_failing c k = None \<and> ins db = Some db'"
  by (auto simp: modify_tx_def bind_tx_def statement_def return_tx_def split: option.splits sum.splits)

lemma run_tx_Inr [simp]: "run_tx m db = (Inr x, db') \<longleftrightarrow> m db = Inr (x, db')"
  by (auto simp: run_tx_def split: sum.splits)

lemma run_tx_Inl: "run_tx m db = (Inl e, db') \<Longrightarrow> db' = db"
  by (auto simp: run_tx_def split: sum.splits)

lemma case_option_tx_Inr [simp]:
  "(case x of None \<Rightarrow> m | Some v \<Rightarrow> f v) db = Inr y \<longleftrightarrow>
     (x = None \<and> m db = Inr y \<or> (\<exists>v. x = Some v \<and> f v db = Inr y))"
  by (auto split: option.splits)

lemma if_tx_Inr [simp]: "(if b then m else n) db = Inr y \<longleftrightarrow> (if b then m db = Inr y else n db = Inr y)"
  by simp

section \<open>Rows and records\<close>

lemma optional_column_Inr [simp]:
  "optional_column col msg = Inr v \<longleftrightarrow> col = NoText \<and> v = None \<or> (\<exists>x. col = Stored x \<and> v = Some x)"
  by (cases col) (auto simp: optional_column_def)

lemma required_column_Inr [simp]: "required_column col msg = Inr v \<longleftrightarrow> col = Stored v"
  by (cases col) (auto simp: required_column_def)

lemma encode_columns [simp]:
  "optional_column (encode_error e) msg = Inr e" "optional_column (encode_evidence ev) msg = Inr ev"
  by (auto simp: encode_error_def encode_evidence_def split: option.splits)

lemma scanRollout_Inr:
  "scanRollout H row = Inr r \<longleftrightarrow>
     (\<exists>intent failure resources evidence. rw_Intent row = Stored intent
        \<and> optional_column (rw_Error row) [] = Inr failure \<and> rw_Resources row = Stored resources
        \<and> optional_column (rw_Evidence row) [] = Inr evidence
        \<and> r = row_record row intent failure resources evidence
        \<and> rw_SchemaVersion row = RolloutRecordVersion \<and> \<not> isl (Canonicalize_intent H intent)
        \<and> CalculateStateHash H r = Some (rec_StateHash r))"
  unfolding scanRollout_def Let_def
  by (auto split: sum.splits option.splits simp del: optional_column_Inr
      simp: optional_column_def required_column_def split: column.splits)

section \<open>The invariant of the tables\<close>

definition record_ok :: "hashes \<Rightarrow> RolloutRecord \<Rightarrow> bool" where
  "record_ok H r =
     (Canonicalize_intent H (rec_Intent r) = Inr (rec_Intent r) \<and> rec_State r \<in> set rollout_states
      \<and> 1 \<le> rec_Version r \<and> rec_Version r + rollout_rank (rec_State r) \<le> 6
      \<and> (IsTerminalRolloutState (rec_State r) \<longrightarrow> rec_TerminalAt r \<noteq> None)
      \<and> (rec_TerminalAt r \<noteq> None \<longrightarrow> IsTerminalRolloutState (rec_State r) \<or> rec_State r = Failed)
      \<and> (rec_State r \<in> {Succeeded, RolledBack} \<longrightarrow> \<not> evidence_missing (rec_Evidence r)))"

definition row_ok :: "hashes \<Rightarrow> rollout_row \<Rightarrow> bool" where
  "row_ok H row = (case scanRollout H row of Inl _ \<Rightarrow> False | Inr r \<Rightarrow>
     record_ok H r \<and> rw_RolloutID row = in_RolloutID (rec_Intent r)
     \<and> rw_TargetKey row = Key_target (in_Target (rec_Intent r)) \<and> (active row \<longleftrightarrow> rec_TerminalAt r = None))"

definition events_of :: "string \<Rightarrow> db \<Rightarrow> event_row list" where
  "events_of rid db = filter (\<lambda>e. er_RolloutID e = rid) (db_events db)"

definition event_state :: "event_row \<Rightarrow> RolloutState" where
  "event_state e = evt_State (er_Event e)"

text \<open>The log of a rollout: one event per version, from prepared to the current state along allowed transitions.\<close>

definition log_ok :: "db \<Rightarrow> rollout_row \<Rightarrow> bool" where
  "log_ok db row =
     (let log = events_of (rw_RolloutID row) db in
      log \<noteq> [] \<and> map er_Version log = [1..<Suc (rw_Version row)]
      \<and> event_state (hd log) = Prepared \<and> event_state (last log) = rw_State row
      \<and> successively (\<lambda>e f. CanTransitionRollout (event_state e) (event_state f)) log)"

definition rollouts_ok :: "hashes \<Rightarrow> db \<Rightarrow> bool" where
  "rollouts_ok H db =
     (distinct (map rw_RolloutID (db_rollouts db)) \<and> unique_active db
      \<and> (\<forall>row \<in> set (db_rollouts db). row_ok H row \<and> log_ok db row)
      \<and> (\<forall>e \<in> set (db_events db). er_RolloutID e \<in> rw_RolloutID ` set (db_rollouts db)))"

definition snapshot_ok :: "hashes \<Rightarrow> snapshot_row \<Rightarrow> bool" where
  "snapshot_ok H row = (case sw_Snapshot row of
     Stored s \<Rightarrow> row = snapshot_row_of s \<and> Canonicalize_known_good H s = Inr s | _ \<Rightarrow> False)"

definition target_snapshots :: "string \<Rightarrow> db \<Rightarrow> snapshot_row list" where
  "target_snapshots key db = filter (\<lambda>s. sw_TargetKey s = key) (db_snapshots db)"

definition known_good_base :: "hashes \<Rightarrow> db \<Rightarrow> bool" where
  "known_good_base H db =
     (distinct (map sw_ID (db_snapshots db)) \<and> (\<forall>s \<in> set (db_snapshots db). snapshot_ok H s)
      \<and> distinct (map fst (db_current db))
      \<and> (\<forall>(key, sid) \<in> set (db_current db). \<exists>s \<in> set (db_snapshots db). sw_ID s = sid \<and> sw_TargetKey s = key))"

definition known_good_ok :: "hashes \<Rightarrow> db \<Rightarrow> bool" where
  "known_good_ok H db =
     (known_good_base H db \<and> (\<forall>key. length (target_snapshots key db) \<le> Suc MaxKnownGoodSnapshots))"

definition store_ok :: "hashes \<Rightarrow> db \<Rightarrow> bool" where
  "store_ok H db = (rollouts_ok H db \<and> known_good_ok H db)"

text \<open>What the store says of a rollout and of the current known-good snapshot of a target.\<close>

definition rollout_of :: "hashes \<Rightarrow> string \<Rightarrow> db \<Rightarrow> RolloutRecord option" where
  "rollout_of H rid db = (case find_rollout rid db of None \<Rightarrow> None
     | Some row \<Rightarrow> (case scanRollout H row of Inl _ \<Rightarrow> None | Inr r \<Rightarrow> Some r))"

definition known_good_of :: "string \<Rightarrow> db \<Rightarrow> KnownGoodSnapshot option" where
  "known_good_of sid db = (case find_snapshot sid db of None \<Rightarrow> None
     | Some row \<Rightarrow> (case sw_Snapshot row of Stored s \<Rightarrow> Some s | _ \<Rightarrow> None))"

definition current_of :: "string \<Rightarrow> db \<Rightarrow> KnownGoodSnapshot option" where
  "current_of key db = (case map_of (db_current db) key of None \<Rightarrow> None | Some sid \<Rightarrow> known_good_of sid db)"

subsection \<open>Rows\<close>

lemma find_unique:
  assumes "distinct (map f xs)" "x \<in> set xs" "f x = k"
  shows "find (\<lambda>x. f x = k) xs = Some x"
  using assms by (induction xs) auto

lemma find_rollout_in: "find_rollout rid db = Some row \<Longrightarrow> row \<in> set (db_rollouts db) \<and> rw_RolloutID row = rid"
  by (auto simp: find_rollout_def find_Some_iff)

lemma find_rollout_None: "find_rollout rid db = None \<longleftrightarrow> rid \<notin> rw_RolloutID ` set (db_rollouts db)"
  by (auto simp: find_rollout_def find_None_iff)

lemma scan_new_row:
  assumes "Canonicalize_intent H (rec_Intent r) = Inr (rec_Intent r)" "rec_SchemaVersion r = RolloutRecordVersion"
    "rec_Error r = None" "rec_Evidence r = None" "rec_TerminalAt r = None"
    "CalculateStateHash H r = Some (rec_StateHash r)"
  shows "scanRollout H (new_row r) = Inr r"
proof -
  have "row_record (new_row r) (rec_Intent r) None (rec_Resources r) None = r"
    using assms(2-5) by (simp add: row_record_def new_row_def)
  with assms show ?thesis by (auto simp: scanRollout_Inr new_row_def)
qed

lemma scan_update_row:
  assumes "scanRollout H row = Inr old" "rec_Intent r = rec_Intent old" "rec_SchemaVersion r = rec_SchemaVersion old"
    "rec_CreatedAt r = rec_CreatedAt old" "\<forall>t. rec_TerminalAt r = Some t \<longrightarrow> 0 < t"
    "CalculateStateHash H r = Some (rec_StateHash r)"
  shows "scanRollout H (update_row r row) = Inr r"
proof -
  have "row_record (update_row r row) (rec_Intent r) (rec_Error r) (rec_Resources r) (rec_Evidence r) = r"
    using assms(1-5) by (auto simp: scanRollout_Inr row_record_def update_row_def split: option.splits)
  with assms show ?thesis
    unfolding scanRollout_Inr using encode_columns by (auto simp: update_row_def row_record_def)
qed

subsection \<open>The rollout tables\<close>

definition event_row_of :: "RolloutRecord \<Rightarrow> event_row" where
  "event_row_of r = \<lparr>er_RolloutID = in_RolloutID (rec_Intent r), er_Version = rec_Version r,
     er_Event = event_of r, er_CreatedAt = rec_UpdatedAt r\<rparr>"

lemma event_row_of_simps [simp]:
  "er_RolloutID (event_row_of r) = in_RolloutID (rec_Intent r)" "er_Version (event_row_of r) = rec_Version r"
  "event_state (event_row_of r) = rec_State r"
  by (simp_all add: event_row_of_def event_state_def event_of_def)

lemma insert_event_Some:
  "insert_event e db = Some db' \<Longrightarrow> db' = db\<lparr>db_events := db_events db @ [e]\<rparr>"
  by (auto simp: insert_event_def split: if_splits)

lemma events_of_append [simp]:
  "events_of rid (db\<lparr>db_events := db_events db @ [e]\<rparr>) = events_of rid db @ (if er_RolloutID e = rid then [e] else [])"
  by (simp add: events_of_def)

lemma rollouts_ok_cong:
  "db_rollouts db' = db_rollouts db \<Longrightarrow> db_events db' = db_events db \<Longrightarrow> rollouts_ok H db' = rollouts_ok H db"
  by (simp add: rollouts_ok_def unique_active_def log_ok_def events_of_def)

lemma rollout_of_cong: "db_rollouts db' = db_rollouts db \<Longrightarrow> rollout_of H rid db' = rollout_of H rid db"
  by (simp add: rollout_of_def find_rollout_def)

lemma rollouts_ok_row:
  assumes "rollouts_ok H db" "find_rollout rid db = Some row"
  obtains r where "scanRollout H row = Inr r" "record_ok H r" "rid = in_RolloutID (rec_Intent r)"
    "rw_TargetKey row = Key_target (in_Target (rec_Intent r))" "active row \<longleftrightarrow> rec_TerminalAt r = None"
    "rw_RolloutID row = rid" "log_ok db row" "row \<in> set (db_rollouts db)"
proof -
  have row: "row_ok H row" "log_ok db row" "row \<in> set (db_rollouts db)" "rw_RolloutID row = rid"
    using assms find_rollout_in [OF assms(2)] by (auto simp: rollouts_ok_def)
  then show ?thesis by (cases "scanRollout H row") (auto simp: row_ok_def intro: that)
qed

lemma update_row_simps [simp]:
  "rw_RolloutID (update_row r row) = rw_RolloutID row" "rw_TargetKey (update_row r row) = rw_TargetKey row"
  "rw_State (update_row r row) = rec_State r" "rw_Version (update_row r row) = rec_Version r"
  by (simp_all add: update_row_def)

lemma find_update_rollout:
  "find_rollout rid (update_rollout r db) =
     map_option (\<lambda>row. if rw_RolloutID row = in_RolloutID (rec_Intent r) then update_row r row else row) (find_rollout rid db)"
proof -
  have "find (\<lambda>r. rw_RolloutID r = rid) (map (\<lambda>row. if rw_RolloutID row = in_RolloutID (rec_Intent r) then update_row r row else row) rows)
      = map_option (\<lambda>row. if rw_RolloutID row = in_RolloutID (rec_Intent r) then update_row r row else row)
          (find (\<lambda>r. rw_RolloutID r = rid) rows)" for rows
    by (induction rows) auto
  then show ?thesis by (simp add: find_rollout_def update_rollout_def)
qed

lemma log_ok_extend:
  assumes "log_ok db row" "CanTransitionRollout (rw_State row) (rec_State r)"
    "rec_Version r = Suc (rw_Version row)" "in_RolloutID (rec_Intent r) = rw_RolloutID row"
    "db_events db1 = db_events db"
  shows "log_ok (db1\<lparr>db_events := db_events db1 @ [event_row_of r]\<rparr>) (update_row r row)"
  using assms by (auto simp: log_ok_def Let_def successively_append_iff events_of_def)

lemma log_ok_other:
  assumes "log_ok db row" "in_RolloutID (rec_Intent r) \<noteq> rw_RolloutID row" "db_events db1 = db_events db"
  shows "log_ok (db1\<lparr>db_events := db_events db1 @ [event_row_of r]\<rparr>) row"
  using assms by (simp add: log_ok_def events_of_def)

text \<open>What both advancing operations establish of the record they store.\<close>

definition advances :: "hashes \<Rightarrow> RolloutRecord \<Rightarrow> RolloutRecord \<Rightarrow> bool" where
  "advances H old r =
     (rec_TerminalAt old = None \<and> CanTransitionRollout (rec_State old) (rec_State r)
      \<and> rec_Intent r = rec_Intent old \<and> rec_SchemaVersion r = rec_SchemaVersion old
      \<and> rec_CreatedAt r = rec_CreatedAt old \<and> rec_Version r = wrap_u64 (Suc (rec_Version old))
      \<and> (\<forall>t. rec_TerminalAt r = Some t \<longrightarrow> 0 < t)
      \<and> CalculateStateHash H r = Some (rec_StateHash r)
      \<and> (IsTerminalRolloutState (rec_State r) \<longrightarrow> rec_TerminalAt r \<noteq> None)
      \<and> (rec_TerminalAt r \<noteq> None \<longrightarrow> IsTerminalRolloutState (rec_State r) \<or> rec_State r = Failed)
      \<and> (rec_State r \<in> {Succeeded, RolledBack} \<longrightarrow> \<not> evidence_missing (rec_Evidence r)))"

lemma advances_record_ok:
  assumes "record_ok H old" "advances H old r"
  shows "record_ok H r \<and> rec_Version r = Suc (rec_Version old)"
proof -
  have "rollout_rank (rec_State r) < rollout_rank (rec_State old)"
    using assms(2) CanTransition_rank by (simp add: advances_def)
  moreover have "rec_Version old + rollout_rank (rec_State old) \<le> 6" using assms(1) by (simp add: record_ok_def)
  moreover from this have "rec_Version r = Suc (rec_Version old)"
    using assms(2) by (simp add: advances_def wrap_u64_id)
  moreover have "rec_State r \<in> set rollout_states"
    using assms(2) CanTransition_known unfolding advances_def by blast
  ultimately show ?thesis using assms by (auto simp: record_ok_def advances_def)
qed

lemma rollouts_ok_advance:
  assumes ok: "rollouts_ok H db" and found: "find_rollout rid db = Some row" "scanRollout H row = Inr old"
    and adv: "advances H old r" and uniq: "unique_active (update_rollout r db)"
    and ins: "insert_event (event_row_of r) (update_rollout r db) = Some db'"
  shows "rollouts_ok H db' \<and> rollout_of H rid db' = Some r
    \<and> (\<forall>other. other \<noteq> rid \<longrightarrow> rollout_of H other db' = rollout_of H other db)"
proof -
  from ok found obtain row: "record_ok H old" "rid = in_RolloutID (rec_Intent old)" "rw_RolloutID row = rid"
      "rw_TargetKey row = Key_target (in_Target (rec_Intent old))" "log_ok db row" "row \<in> set (db_rollouts db)"
    by (metis rollouts_ok_row Inr_inject)
  have db': "db' = (update_rollout r db)\<lparr>db_events := db_events (update_rollout r db) @ [event_row_of r]\<rparr>"
    using ins by (rule insert_event_Some)
  have events: "db_events (update_rollout r db) = db_events db" by (simp add: update_rollout_def)
  have r: "record_ok H r" "rec_Version r = Suc (rec_Version old)" "rec_Intent r = rec_Intent old"
    using advances_record_ok [OF row(1) adv] adv by (simp_all add: advances_def)
  have scan: "scanRollout H (update_row r row) = Inr r"
    using adv by (intro scan_update_row [OF found(2)]) (simp_all add: advances_def)
  have st: "rw_State row = rec_State old" "rw_Version row = rec_Version old"
    using found(2) by (auto simp: scanRollout_Inr row_record_def)
  have dist: "distinct (map rw_RolloutID (db_rollouts db))" using ok by (simp add: rollouts_ok_def)
  have ids: "map rw_RolloutID (db_rollouts db') = map rw_RolloutID (db_rollouts db)"
    by (simp add: db' update_rollout_def)
  have new_row: "row_ok H (update_row r row)"
    using scan r row(2-4) adv by (auto simp: row_ok_def active_def update_row_def advances_def split: option.splits)
  have "row_ok H row' \<and> log_ok db' row'" if "row' \<in> set (db_rollouts db')" for row'
  proof -
    from that obtain row0 where row0: "row0 \<in> set (db_rollouts db)"
        "row' = (if rw_RolloutID row0 = rid then update_row r row0 else row0)"
      using r(3) row(2) by (auto simp: db' update_rollout_def)
    show ?thesis
    proof (cases "rw_RolloutID row0 = rid")
      case True
      then have "row0 = row" using dist row0(1) row(3,6) by (metis distinct_map inj_onD)
      moreover have "log_ok db' (update_row r row)"
        unfolding db' using row r st adv events by (intro log_ok_extend) (auto simp: advances_def)
      ultimately show ?thesis using True row0(2) new_row by simp
    next
      case False
      then have "row_ok H row0" "log_ok db row0" using ok row0(1) by (auto simp: rollouts_ok_def)
      with False row0(2) show ?thesis
        using log_ok_other [of db row0 r "update_rollout r db"] r(3) row(2) events by (simp add: db')
    qed
  qed
  moreover have "\<forall>e \<in> set (db_events db'). er_RolloutID e \<in> rw_RolloutID ` set (db_rollouts db')"
  proof -
    have "set (map rw_RolloutID (db_rollouts db')) = set (map rw_RolloutID (db_rollouts db))" using ids by simp
    moreover have "rid \<in> rw_RolloutID ` set (db_rollouts db)" using row(3,6) by blast
    ultimately show ?thesis using ok row(2) r(3) events by (auto simp: rollouts_ok_def db')
  qed
  moreover have "unique_active db'" using uniq by (simp add: db' unique_active_def)
  ultimately have "rollouts_ok H db'" using dist ids by (simp add: rollouts_ok_def)
  moreover have "find_rollout x db' = find_rollout x (update_rollout r db)" for x
    by (simp add: db' find_rollout_def)
  ultimately show ?thesis
    using found scan r(3) row(2,3)
    by (auto simp: rollout_of_def find_update_rollout dest!: find_rollout_in split: option.splits)
qed

lemma find_append: "find P (xs @ ys) = (case find P xs of None \<Rightarrow> find P ys | Some x \<Rightarrow> Some x)"
  by (induction xs) auto

lemma new_row_simps [simp]:
  "rw_RolloutID (new_row r) = in_RolloutID (rec_Intent r)"
  "rw_TargetKey (new_row r) = Key_target (in_Target (rec_Intent r))"
  "active (new_row r)" "rw_Version (new_row r) = rec_Version r" "rw_State (new_row r) = rec_State r"
  by (simp_all add: new_row_def active_def)

lemma rollouts_ok_insert:
  assumes ok: "rollouts_ok H db" and scan: "scanRollout H (new_row r) = Inr r" and r: "record_ok H r"
    "rec_State r = Prepared" "rec_Version r = 1" "rec_TerminalAt r = None"
    and ins: "insert_rollout (new_row r) db = Some db1" "insert_event (event_row_of r) db1 = Some db'"
  shows "rollouts_ok H db' \<and> rollout_of H (in_RolloutID (rec_Intent r)) db' = Some r
    \<and> (\<forall>other. other \<noteq> in_RolloutID (rec_Intent r) \<longrightarrow> rollout_of H other db' = rollout_of H other db)"
proof -
  let ?rid = "in_RolloutID (rec_Intent r)"
  from ins(1) have new: "find_rollout ?rid db = None" "find_active (Key_target (in_Target (rec_Intent r))) db = None"
      and db1: "db1 = db\<lparr>db_rollouts := db_rollouts db @ [new_row r]\<rparr>"
    by (auto simp: insert_rollout_def split: if_splits)
  have db': "db' = db1\<lparr>db_events := db_events db1 @ [event_row_of r]\<rparr>" using ins(2) by (rule insert_event_Some)
  have fresh: "?rid \<notin> rw_RolloutID ` set (db_rollouts db)" using new(1) by (simp add: find_rollout_None)
  then have no_events: "events_of ?rid db = []"
    using ok by (force simp: rollouts_ok_def events_of_def filter_empty_conv)
  have "distinct (map rw_RolloutID (db_rollouts db'))"
    using ok fresh by (simp add: db' db1 rollouts_ok_def)
  moreover have "unique_active db'"
    using ok new(2) by (auto simp: db' db1 rollouts_ok_def unique_active_def find_active_def find_None_iff)
  moreover have "row_ok H row' \<and> log_ok db' row'" if "row' \<in> set (db_rollouts db')" for row'
  proof (cases "row' = new_row r")
    case True
    moreover have "log_ok db' (new_row r)"
      using no_events r by (simp add: log_ok_def db' db1 events_of_def)
    ultimately show ?thesis using scan r by (simp add: row_ok_def)
  next
    case False
    then have "row' \<in> set (db_rollouts db)" using that by (simp add: db' db1)
    then show ?thesis using ok fresh log_ok_other [of db row' r db1] by (auto simp: rollouts_ok_def db' db1)
  qed
  moreover have "\<forall>e \<in> set (db_events db'). er_RolloutID e \<in> rw_RolloutID ` set (db_rollouts db')"
    using ok by (auto simp: rollouts_ok_def db' db1)
  ultimately have "rollouts_ok H db'" by (simp add: rollouts_ok_def)
  moreover have "find_rollout x db' = (case find_rollout x db of None \<Rightarrow> if ?rid = x then Some (new_row r) else None | Some y \<Rightarrow> Some y)" for x
    by (simp add: db' db1 find_rollout_def find_append split: option.split)
  ultimately show ?thesis using scan new(1) by (auto simp: rollout_of_def split: option.splits)
qed

subsection \<open>The known-good tables\<close>

lemma find_snapshot_in: "find_snapshot sid db = Some s \<Longrightarrow> s \<in> set (db_snapshots db) \<and> sw_ID s = sid"
  by (auto simp: find_snapshot_def find_Some_iff)

lemma known_good_ok_cong:
  "db_snapshots db' = db_snapshots db \<Longrightarrow> db_current db' = db_current db \<Longrightarrow> known_good_ok H db' = known_good_ok H db"
  by (simp add: known_good_ok_def known_good_base_def target_snapshots_def)

lemma known_good_of_cong: "db_snapshots db' = db_snapshots db \<Longrightarrow> known_good_of sid db' = known_good_of sid db"
  by (simp add: known_good_of_def find_snapshot_def)

lemma current_of_cong:
  "db_snapshots db' = db_snapshots db \<Longrightarrow> db_current db' = db_current db \<Longrightarrow> current_of key db' = current_of key db"
  by (simp add: current_of_def known_good_of_def find_snapshot_def split: option.splits)

lemma known_good_row:
  assumes "known_good_base H db" "s \<in> set (db_snapshots db)"
  obtains k where "s = snapshot_row_of k" "Canonicalize_known_good H k = Inr k" "known_good_of (sw_ID s) db = Some k"
proof -
  have "find_snapshot (sw_ID s) db = Some s"
    using assms unfolding find_snapshot_def known_good_base_def by (intro find_unique) auto
  moreover have "snapshot_ok H s" using assms by (simp add: known_good_base_def)
  then obtain k where "sw_Snapshot s = Stored k" "s = snapshot_row_of k" "Canonicalize_known_good H k = Inr k"
    by (auto simp: snapshot_ok_def split: column.splits)
  ultimately show ?thesis by (intro that) (auto simp: known_good_of_def)
qed

lemma known_good_of_Some:
  assumes "known_good_base H db" "known_good_of sid db = Some k"
  shows "kg_ID k = sid \<and> Canonicalize_known_good H k = Inr k \<and> snapshot_row_of k \<in> set (db_snapshots db)"
proof -
  from assms(2) obtain s where s: "find_snapshot sid db = Some s" "sw_Snapshot s = Stored k"
    by (auto simp: known_good_of_def split: option.splits column.splits)
  with assms(1) find_snapshot_in [OF s(1)] show ?thesis
    by (auto simp: known_good_base_def snapshot_ok_def snapshot_row_of_def)
qed

lemma snapshot_row_of_simps [simp]:
  "sw_ID (snapshot_row_of k) = kg_ID k" "sw_TargetKey (snapshot_row_of k) = Key_target (kg_Target k)"
  "sw_Hash (snapshot_row_of k) = kg_SnapshotHash k" "snapshot_row_of k = snapshot_row_of l \<longleftrightarrow> k = l"
  by (auto simp: snapshot_row_of_def)

lemma known_good_of_row:
  assumes "known_good_base H db" "snapshot_row_of k \<in> set (db_snapshots db)"
  shows "known_good_of (kg_ID k) db = Some k"
  using known_good_row [OF assms] by auto

lemma in_set_update: "p \<in> set (AList.update k v al) \<Longrightarrow> p = (k, v) \<or> p \<in> set al"
  by (induction al) (auto split: if_splits)

lemma upsert_current_simps [simp]:
  "db_snapshots (upsert_current key sid db) = db_snapshots db"
  "db_rollouts (upsert_current key sid db) = db_rollouts db"
  "db_events (upsert_current key sid db) = db_events db"
  "target_snapshots k (upsert_current key sid db) = target_snapshots k db"
  "known_good_of x (upsert_current key sid db) = known_good_of x db"
  "current_of key (upsert_current key sid db) = known_good_of sid db"
  by (simp_all add: upsert_current_def target_snapshots_def known_good_of_def find_snapshot_def current_of_def update_conv')

lemma current_of_upsert_other [simp]: "other \<noteq> key \<Longrightarrow> current_of other (upsert_current key sid db) = current_of other db"
  by (simp add: current_of_def upsert_current_def update_conv' known_good_of_def find_snapshot_def split: option.split)

lemma upsert_current_base:
  assumes "known_good_base H db" "s \<in> set (db_snapshots db)" "sw_ID s = sid" "sw_TargetKey s = key"
  shows "known_good_base H (upsert_current key sid db)"
  using assms by (auto simp: known_good_base_def upsert_current_def distinct_update dest!: in_set_update)

lemma current_pointer:
  "known_good_base H db \<Longrightarrow> (key, sid) \<in> set (db_current db) \<Longrightarrow>
     \<exists>s \<in> set (db_snapshots db). sw_ID s = sid \<and> sw_TargetKey s = key"
  by (auto simp: known_good_base_def)

lemma current_entry:
  assumes "known_good_base H db" "map_of (db_current db) key = Some sid"
  obtains k where "known_good_of sid db = Some k" "Key_target (kg_Target k) = key" "kg_ID k = sid"
    "Canonicalize_known_good H k = Inr k"
proof -
  obtain s where s: "s \<in> set (db_snapshots db)" "sw_ID s = sid" "sw_TargetKey s = key"
    using assms map_of_SomeD unfolding known_good_base_def by fastforce
  from known_good_row [OF assms(1) s(1)] s(2,3) show ?thesis
    by (metis that snapshot_row_of_def snapshot_row.select_convs(1,2))
qed

subsection \<open>Pruning\<close>

lemma fold_delete_snapshot:
  "fold delete_snapshot ids db = db\<lparr>db_snapshots :=
     filter (\<lambda>s. sw_ID s \<notin> set ids \<or> sw_ID s \<in> snd ` set (db_current db)) (db_snapshots db)\<rparr>"
proof (induction ids arbitrary: db)
  case (Cons sid ids)
  show ?case
  proof (cases "sid \<in> snd ` set (db_current db)")
    case True
    then show ?thesis
      unfolding fold_Cons o_apply Cons.IH
      by (auto simp: delete_snapshot_def intro!: arg_cong [where f = "\<lambda>P. db\<lparr>db_snapshots := filter P (db_snapshots db)\<rparr>"])
  next
    case False
    then show ?thesis
      unfolding fold_Cons o_apply Cons.IH
      by (auto simp: delete_snapshot_def intro!: arg_cong [where f = "\<lambda>P. db\<lparr>db_snapshots := filter P (db_snapshots db)\<rparr>"])
  qed
qed simp

lemma length_map_distinct_le:
  assumes "distinct (map f xs)" "f ` set xs \<subseteq> A" "finite A" "card A \<le> n"
  shows "length xs \<le> n"
proof -
  have "length xs = card (f ` set xs)" using assms(1) by (metis distinct_card length_map list.set_map)
  also have "\<dots> \<le> card A" using assms(2,3) by (rule card_mono [rotated])
  finally show ?thesis using assms(4) by simp
qed

lemma newest_first_ids: "mset (newest_first key db) = mset (map sw_ID (target_snapshots key db))"
  by (simp add: newest_first_def target_snapshots_def)

text \<open>The rows that are left when the ids \<open>ids\<close> are deleted.\<close>

definition pruned :: "string list \<Rightarrow> db \<Rightarrow> db" where
  "pruned ids db = db\<lparr>db_snapshots :=
     filter (\<lambda>s. sw_ID s \<notin> set ids \<or> sw_ID s \<in> snd ` set (db_current db)) (db_snapshots db)\<rparr>"

lemma pruned_simps [simp]:
  "db_current (pruned ids db) = db_current db" "db_rollouts (pruned ids db) = db_rollouts db"
  "db_events (pruned ids db) = db_events db" "set (db_snapshots (pruned ids db)) \<subseteq> set (db_snapshots db)"
  by (auto simp: pruned_def)

lemma pruned_base:
  assumes base: "known_good_base H db"
  shows "known_good_base H (pruned ids db)"
proof -
  have "\<exists>s \<in> set (db_snapshots (pruned ids db)). sw_ID s = sid \<and> sw_TargetKey s = k"
    if "(k, sid) \<in> set (db_current db)" for k sid
    using current_pointer [OF base that] that by (force simp: pruned_def)
  with base show ?thesis by (auto simp: known_good_base_def pruned_def distinct_map_filter)
qed

lemma pruned_current: "current_of k (pruned ids db) = current_of k db"
proof -
  have "known_good_of sid (pruned ids db) = known_good_of sid db" if "sid \<in> snd ` set (db_current db)" for sid
  proof -
    have "find (\<lambda>s. sw_ID s = sid) (filter (\<lambda>s. sw_ID s \<notin> set ids \<or> sw_ID s \<in> snd ` set (db_current db)) xs)
        = find (\<lambda>s. sw_ID s = sid) xs" for xs :: "snapshot_row list"
      using that by (induction xs) auto
    then show ?thesis by (simp add: known_good_of_def find_snapshot_def pruned_def)
  qed
  then show ?thesis by (auto simp: current_of_def split: option.split dest!: map_of_SomeD) force+
qed

lemma pruned_known_good:
  assumes "known_good_base H db" "known_good_of sid (pruned ids db) = Some k"
  shows "known_good_of sid db = Some k"
  using known_good_of_Some [OF pruned_base [OF assms(1)] assms(2)] known_good_of_row [OF assms(1)]
  by (auto simp: pruned_def)

lemma pruned_target_ids:
  assumes base: "known_good_base H db"
  shows "sw_ID ` set (target_snapshots key (pruned (drop n (newest_first key db)) db))
    \<subseteq> set (take n (newest_first key db)) \<union> set_option (map_of (db_current db) key)"
proof
  fix sid assume "sid \<in> sw_ID ` set (target_snapshots key (pruned (drop n (newest_first key db)) db))"
  then obtain s where s: "s \<in> set (db_snapshots db)" "sw_TargetKey s = key" "sid = sw_ID s"
      "sid \<notin> set (drop n (newest_first key db)) \<or> sid \<in> snd ` set (db_current db)"
    by (auto simp: target_snapshots_def pruned_def)
  show "sid \<in> set (take n (newest_first key db)) \<union> set_option (map_of (db_current db) key)"
  proof (cases "sid \<in> snd ` set (db_current db)")
    case True
    then obtain k0 where k0: "(k0, sid) \<in> set (db_current db)" by auto
    then obtain s' where s': "s' \<in> set (db_snapshots db)" "sw_ID s' = sid" "sw_TargetKey s' = k0"
      using current_pointer [OF base] by blast
    have "inj_on sw_ID (set (db_snapshots db))" using base by (simp add: known_good_base_def distinct_map)
    then have "s' = s" using s(1,3) s'(1,2) by (metis inj_onD)
    then have "map_of (db_current db) key = Some sid"
      using base k0 s(2) s'(3) by (simp add: known_good_base_def)
    then show ?thesis by simp
  next
    case False
    have "set (newest_first key db) = set (map sw_ID (target_snapshots key db))"
      using newest_first_ids mset_eq_setD by blast
    with s(1-3) have "sid \<in> set (newest_first key db)" by (auto simp: target_snapshots_def)
    with False s(4) show ?thesis
      using append_take_drop_id [of n "newest_first key db"] by (metis Un_iff set_append)
  qed
qed

lemma pruned_bound:
  assumes "known_good_base H db"
  shows "length (target_snapshots key (pruned (drop n (newest_first key db)) db)) \<le> Suc n"
proof (rule length_map_distinct_le [OF _ pruned_target_ids [OF assms]])
  show "distinct (map sw_ID (target_snapshots key (pruned (drop n (newest_first key db)) db)))"
    using pruned_base [OF assms] by (simp add: known_good_base_def target_snapshots_def distinct_map_filter)
  have "card (set (take n (newest_first key db))) \<le> n" by (rule order_trans [OF card_length]) simp
  moreover have "card (set_option (map_of (db_current db) key)) \<le> 1" by (cases "map_of (db_current db) key") auto
  ultimately show "card (set (take n (newest_first key db)) \<union> set_option (map_of (db_current db) key)) \<le> Suc n"
    using card_Un_le [of "set (take n (newest_first key db))" "set_option (map_of (db_current db) key)"] by linarith
qed simp

lemma length_filter_filter: "length (filter P (filter Q xs)) \<le> length (filter P xs)"
  by (induction xs) auto

lemma pruned_other: "length (target_snapshots k (pruned ids db)) \<le> length (target_snapshots k db)"
  using length_filter_filter by (simp add: target_snapshots_def pruned_def del: filter_filter)

lemma pruneKnownGood_Inr:
  assumes "pruneKnownGood c key db = Inr (u, db')"
  shows "db' = pruned (drop MaxKnownGoodSnapshots (newest_first key db)) db"
  using assms by (auto simp: pruneKnownGood_def fold_delete_snapshot pruned_def split: if_splits)

lemma prune_ok:
  assumes base: "known_good_base H db"
    and bound: "\<forall>k. k \<noteq> key \<longrightarrow> length (target_snapshots k db) \<le> Suc MaxKnownGoodSnapshots"
    and prune: "pruneKnownGood c key db = Inr (u, db')"
  shows "known_good_ok H db' \<and> db_rollouts db' = db_rollouts db \<and> db_events db' = db_events db
    \<and> (\<forall>k. current_of k db' = current_of k db)
    \<and> (\<forall>sid k. known_good_of sid db' = Some k \<longrightarrow> known_good_of sid db = Some k)"
proof -
  note db' = pruneKnownGood_Inr [OF prune]
  have "length (target_snapshots k db') \<le> Suc MaxKnownGoodSnapshots" for k
    using pruned_bound [OF base] bound order_trans [OF pruned_other] unfolding db' by (cases "k = key") simp_all
  then show ?thesis
    using pruned_base [OF base] pruned_known_good [OF base] by (simp add: known_good_ok_def db' pruned_current)
qed

section \<open>The effect of the operations\<close>

lemma insert_snapshot_Some:
  assumes "known_good_ok H db" "Canonicalize_known_good H k = Inr k" "insert_snapshot (snapshot_row_of k) db = Some db'"
  shows "db_current db' = db_current db \<and> db_rollouts db' = db_rollouts db \<and> db_events db' = db_events db
    \<and> snapshot_row_of k \<in> set (db_snapshots db') \<and> known_good_base H db'
    \<and> known_good_of (kg_ID k) db' = Some k
    \<and> (\<forall>sid l. known_good_of sid db = Some l \<longrightarrow> known_good_of sid db' = Some l)
    \<and> (\<forall>key. key \<noteq> Key_target (kg_Target k) \<longrightarrow> length (target_snapshots key db') \<le> Suc MaxKnownGoodSnapshots)"
proof -
  from assms(3) have db': "db' = db\<lparr>db_snapshots := db_snapshots db @ [snapshot_row_of k]\<rparr>"
      and fresh: "\<forall>s \<in> set (db_snapshots db). sw_ID s \<noteq> kg_ID k"
    by (auto simp: insert_snapshot_def list_ex_iff split: if_splits)
  have "snapshot_ok H (snapshot_row_of k)" using assms(2) by (simp add: snapshot_ok_def snapshot_row_of_def)
  then have base: "known_good_base H db'"
    using assms(1) fresh by (auto simp: known_good_ok_def known_good_base_def db')
  moreover have "known_good_of (kg_ID k) db' = Some k"
    by (rule known_good_of_row [OF base]) (simp add: db')
  moreover have "known_good_of sid db' = Some l" if "known_good_of sid db = Some l" for sid l
    using that by (auto simp: known_good_of_def find_snapshot_def db' find_append split: option.splits)
  ultimately show ?thesis using assms(1) by (auto simp: known_good_ok_def target_snapshots_def db')
qed

lemma commit_known_good_Inr:
  assumes ok: "known_good_ok H db" and k: "Canonicalize_known_good H k = Inr k"
    and run: "commit_known_good c k db = Inr (u, db')"
  shows "known_good_ok H db' \<and> db_rollouts db' = db_rollouts db \<and> db_events db' = db_events db
    \<and> current_of (Key_target (kg_Target k)) db' = Some k
    \<and> (\<forall>key. key \<noteq> Key_target (kg_Target k) \<longrightarrow> current_of key db' = current_of key db)"
proof -
  let ?key = "Key_target (kg_Target k)"
  from run obtain db1 where ins: "insert_snapshot (snapshot_row_of k) db = Some db1"
      and prune: "pruneKnownGood c ?key (upsert_current ?key (kg_ID k) db1) = Inr (u, db')"
    by (auto simp: commit_known_good_def Let_def)
  note new = insert_snapshot_Some [OF ok k ins]
  have base: "known_good_base H (upsert_current ?key (kg_ID k) db1)"
    by (rule upsert_current_base [of _ _ "snapshot_row_of k"]) (use new in auto)
  have "current_of key db1 = current_of key db" for key
  proof (cases "map_of (db_current db) key")
    case (Some sid)
    moreover obtain l where "known_good_of sid db = Some l"
      using ok Some by (auto simp: known_good_ok_def elim: current_entry)
    moreover from this have "known_good_of sid db1 = Some l" using new by blast
    moreover have "db_current db1 = db_current db" using new by simp
    ultimately show ?thesis by (simp add: current_of_def)
  qed (use new in \<open>simp add: current_of_def\<close>)
  moreover have "\<forall>key. key \<noteq> ?key \<longrightarrow> length (target_snapshots key (upsert_current ?key (kg_ID k) db1)) \<le> Suc MaxKnownGoodSnapshots"
      "known_good_of (kg_ID k) db1 = Some k" using new by simp_all
  moreover have "db_rollouts db1 = db_rollouts db" "db_events db1 = db_events db" using new by simp_all
  ultimately show ?thesis using prune_ok [OF base _ prune] by simp
qed

lemma restoreCurrentKnownGood_Inr:
  assumes ok: "known_good_ok H db" and run: "restoreCurrentKnownGood c intent db = Inr (u, db')"
  shows "known_good_ok H db' \<and> db_rollouts db' = db_rollouts db \<and> db_events db' = db_events db
    \<and> (\<exists>k. current_of (Key_target (in_Target intent)) db' = Some k \<and> kg_ID k = in_PreviousKnownGoodID intent
         \<and> kg_SnapshotHash k = in_PreviousKnownGoodHash intent)
    \<and> (\<forall>key. key \<noteq> Key_target (in_Target intent) \<longrightarrow> current_of key db' = current_of key db)"
proof -
  let ?key = "Key_target (in_Target intent)"
  from run obtain s where s: "s \<in> set (db_snapshots db)" "sw_ID s = in_PreviousKnownGoodID intent" "sw_TargetKey s = ?key"
      "sw_Hash s = in_PreviousKnownGoodHash intent"
      and db': "db' = upsert_current ?key (in_PreviousKnownGoodID intent) db"
    by (auto simp: restoreCurrentKnownGood_def list_ex_iff)
  have base: "known_good_base H db" using ok by (simp add: known_good_ok_def)
  obtain k where k: "s = snapshot_row_of k" "known_good_of (sw_ID s) db = Some k"
    using known_good_row [OF base s(1)] by metis
  show ?thesis
    using upsert_current_base [OF base s(1-3)] ok k s by (auto simp: known_good_ok_def db')
qed

lemma store_ok_cong:
  "db_rollouts db' = db_rollouts db \<Longrightarrow> db_events db' = db_events db \<Longrightarrow> rollouts_ok H db \<Longrightarrow> known_good_ok H db'
     \<Longrightarrow> store_ok H db'"
  by (simp add: store_ok_def rollouts_ok_cong [of db' db])

lemma find_rollout_cong: "db_rollouts db' = db_rollouts db \<Longrightarrow> find_rollout rid db' = find_rollout rid db"
  by (simp add: find_rollout_def)

lemma appendRolloutEvent_Inr:
  "appendRolloutEvent c r db = Inr (u, db') \<longleftrightarrow> cl_failing c InsertEvent = None \<and> insert_event (event_row_of r) db = Some db'"
  by (simp add: appendRolloutEvent_def event_row_of_def)

lemma insert_event_keeps:
  "insert_event e db = Some db' \<Longrightarrow> db_snapshots db' = db_snapshots db \<and> db_current db' = db_current db"
  by (auto dest: insert_event_Some)

lemma insert_rollout_keeps:
  "insert_rollout row db = Some db' \<Longrightarrow> db_snapshots db' = db_snapshots db \<and> db_current db' = db_current db"
  by (auto simp: insert_rollout_def split: if_splits)

lemma with_state_hash_Inr:
  "with_state_hash H r = Inr r' \<longleftrightarrow> (\<exists>x. CalculateStateHash H r = Some x \<and> r' = r\<lparr>rec_StateHash := x\<rparr>)"
  by (auto simp: with_state_hash_def split: option.splits)

lemma CalculateStateHash_update [simp]: "CalculateStateHash H (r\<lparr>rec_StateHash := x\<rparr>) = CalculateStateHash H r"
  by (simp add: CalculateStateHash_def)

lemma save_transition_Inr:
  assumes ok: "rollouts_ok H db" and found: "find_rollout rid db = Some row" "scanRollout H row = Inr old"
    and adv: "\<And>x. CalculateStateHash H r0 = Some x \<Longrightarrow> advances H old (r0\<lparr>rec_StateHash := x\<rparr>)"
    and known: "known_good_ok H db"
    and run: "save_transition H c r0 db = Inr (r, db')"
  shows "store_ok H db' \<and> rollout_of H rid db' = Some r \<and> (\<exists>x. r = r0\<lparr>rec_StateHash := x\<rparr>)
    \<and> (\<forall>other. other \<noteq> rid \<longrightarrow> rollout_of H other db' = rollout_of H other db)
    \<and> (\<forall>key. current_of key db' = current_of key db)"
proof -
  from run obtain x where r: "CalculateStateHash H r0 = Some x" "r = r0\<lparr>rec_StateHash := x\<rparr>"
      and upd: "unique_active (update_rollout r db)" "insert_event (event_row_of r) (update_rollout r db) = Some db'"
    by (auto simp: save_transition_def with_state_hash_Inr persistRolloutTransition_def appendRolloutEvent_Inr
        Let_def split: if_splits)
  have keeps: "db_snapshots db' = db_snapshots db" "db_current db' = db_current db"
    using insert_event_keeps [OF upd(2)] by (simp_all add: update_rollout_def)
  have "advances H old r" using adv [OF r(1)] r(2) by simp
  from rollouts_ok_advance [OF ok found this upd] r(2) show ?thesis
    using known current_of_cong [OF keeps] known_good_ok_cong [OF keeps] by (auto simp: store_ok_def)
qed

lemma lookup_row:
  assumes "store_ok H db" "find_rollout rid db = Some row"
  obtains r where "scanRollout H row = Inr r" "rollout_of H rid db = Some r" "record_ok H r"
    "in_RolloutID (rec_Intent r) = rid" "rw_TargetKey row = Key_target (in_Target (rec_Intent r))"
    "active row \<longleftrightarrow> rec_TerminalAt r = None"
  using assms by (auto simp: store_ok_def rollout_of_def elim!: rollouts_ok_row intro: that)

lemma TransitionRollout_Inr:
  assumes ok: "store_ok H db" and clock: "0 < cl_now c"
    and run: "TransitionRollout H c ctx rid state failure resources evidence terminal db = (Inr r, db')"
  shows "\<exists>old x. rollout_of H rid db = Some old \<and> transition_error old state resources terminal = None
    \<and> r = transitioned old state failure resources evidence terminal (cl_now c)\<lparr>rec_StateHash := x\<rparr>
    \<and> store_ok H db' \<and> rollout_of H rid db' = Some r
    \<and> (\<forall>other. other \<noteq> rid \<longrightarrow> rollout_of H other db' = rollout_of H other db)
    \<and> (if state = RolledBack
       then \<not> evidence_missing evidence
         \<and> (\<exists>k. current_of (Key_target (in_Target (rec_Intent old))) db' = Some k
              \<and> kg_ID k = in_PreviousKnownGoodID (rec_Intent old) \<and> kg_SnapshotHash k = in_PreviousKnownGoodHash (rec_Intent old))
         \<and> (\<forall>key. key \<noteq> Key_target (in_Target (rec_Intent old)) \<longrightarrow> current_of key db' = current_of key db)
       else \<forall>key. current_of key db' = current_of key db)"
proof -
  from run obtain row old db1 u where "find_rollout rid db = Some row" "scanRollout H row = Inr old"
      "transition_error old state resources terminal = None"
      "(if state = RolledBack then bind_tx (guard_tx (evidence_missing evidence)
          (StoreError RolloutCodeReadinessFailed ''rolled_back requires verified readiness evidence''))
          (\<lambda>_. restoreCurrentKnownGood c (rec_Intent old)) else return_tx ()) db = Inr (u, db1)"
      "save_transition H c (transitioned old state failure resources evidence terminal (cl_now c)) db1 = Inr (r, db')"
    unfolding TransitionRollout_def run_tx_Inr transition_body_def
    by (simp del: if_tx_Inr split: option.splits) blast
  then have steps: "find_rollout rid db = Some row" "scanRollout H row = Inr old"
      "transition_error old state resources terminal = None"
      "(if state = RolledBack then \<not> evidence_missing evidence \<and> restoreCurrentKnownGood c (rec_Intent old) db = Inr (u, db1)
        else db1 = db)"
      "save_transition H c (transitioned old state failure resources evidence terminal (cl_now c)) db1 = Inr (r, db')"
    by (auto split: if_splits)
  have old: "rollout_of H rid db = Some old" "record_ok H old"
    using lookup_row [OF ok steps(1)] steps(2) by auto
  have tables: "db_rollouts db1 = db_rollouts db" "db_events db1 = db_events db" "known_good_ok H db1"
    using steps(4) ok restoreCurrentKnownGood_Inr [of H db c "rec_Intent old" u db1]
    by (auto simp: store_ok_def split: if_splits)
  have adv: "advances H old (transitioned old state failure resources evidence terminal (cl_now c)\<lparr>rec_StateHash := x\<rparr>)"
    if "CalculateStateHash H (transitioned old state failure resources evidence terminal (cl_now c)) = Some x" for x
    using that steps(3,4) clock
    by (auto simp: advances_def transitioned_def transition_error_def first_failure_None split: if_splits)
  have ok1: "rollouts_ok H db1" using ok tables by (simp add: store_ok_def rollouts_ok_cong [of db1 db])
  have "find_rollout rid db1 = Some row" using steps(1) find_rollout_cong [OF tables(1)] by simp
  note saved = save_transition_Inr [OF ok1 this steps(2) adv tables(3) steps(5)]
  show ?thesis
  proof (cases "state = RolledBack")
    case True
    then have "restoreCurrentKnownGood c (rec_Intent old) db = Inr (u, db1)" "\<not> evidence_missing evidence"
      using steps(4) by simp_all
    moreover have "known_good_ok H db" using ok by (simp add: store_ok_def)
    ultimately show ?thesis
      using saved old(1) steps(3) True rollout_of_cong [OF tables(1)] restoreCurrentKnownGood_Inr [of H db] by simp
  next
    case False
    then show ?thesis using saved old(1) steps(3,4) by auto
  qed
qed

lemma map_sum_Inr [simp]: "map_sum f id s = Inr x \<longleftrightarrow> s = Inr x"
  by (cases s) auto

lemma commit_body_Inr:
  assumes "commit_body H c ctx rid snapshot resources evidence db = Inr (r, db')"
  shows "\<exists>k row old. commit_input H snapshot evidence = Inr k \<and> find_rollout rid db = Some row \<and> scanRollout H row = Inr old
    \<and> (if rec_State old = Succeeded \<and> rec_TerminalAt old \<noteq> None then r = old \<and> db' = db
       else rec_TerminalAt old = None \<and> rec_State old = Waiting
          \<and> Key_target (kg_Target k) = Key_target (in_Target (rec_Intent old))
          \<and> (\<exists>db1. commit_known_good c k db = Inr ((), db1)
               \<and> save_transition H c (succeeded old resources evidence (cl_now c)) db1 = Inr (r, db')))"
proof -
  from assms obtain k row old where "commit_input H snapshot evidence = Inr k" "find_rollout rid db = Some row"
      "scanRollout H row = Inr old"
      and body: "(if rec_State old = Succeeded \<and> rec_TerminalAt old \<noteq> None then return_tx old else
         bind_tx (guard_tx (rec_TerminalAt old \<noteq> None \<or> rec_State old \<noteq> Waiting)
           (StoreError RolloutCodeInvalidTransition ''rollout is not waiting for readiness commit'')) (\<lambda>_.
         bind_tx (guard_tx (Key_target (kg_Target k) \<noteq> Key_target (in_Target (rec_Intent old)))
           (StoreError RolloutCodeKnownGoodCorrupt ''known-good target does not match rollout'')) (\<lambda>_.
         bind_tx (commit_known_good c k) (\<lambda>_.
         save_transition H c (succeeded old resources evidence (cl_now c)))))) db = Inr (r, db')"
    unfolding commit_body_def by (simp del: if_tx_Inr) blast
  moreover from body have "if rec_State old = Succeeded \<and> rec_TerminalAt old \<noteq> None then r = old \<and> db' = db
       else rec_TerminalAt old = None \<and> rec_State old = Waiting
          \<and> Key_target (kg_Target k) = Key_target (in_Target (rec_Intent old))
          \<and> (\<exists>db1. commit_known_good c k db = Inr ((), db1)
               \<and> save_transition H c (succeeded old resources evidence (cl_now c)) db1 = Inr (r, db'))"
    by (simp split: if_splits)
  ultimately show ?thesis by blast
qed

lemma commit_input_Inr:
  "commit_input H snapshot evidence = Inr k \<longleftrightarrow>
     Canonicalize_known_good H snapshot = Inr k \<and> Validate_evidence evidence True False = None
     \<and> Hash_evidence H evidence = Some (kg_EvidenceHash k)"
  by (auto simp: commit_input_def split: sum.splits option.splits)

lemma CommitRolloutSuccess_Inr:
  assumes ok: "store_ok H db" and clock: "0 < cl_now c"
    and run: "CommitRolloutSuccess H c ctx rid snapshot resources evidence db = (Inr r, db')"
  shows "\<exists>old k x. rollout_of H rid db = Some old \<and> Canonicalize_known_good H snapshot = Inr k
    \<and> Validate_evidence evidence True False = None \<and> Hash_evidence H evidence = Some (kg_EvidenceHash k)
    \<and> (rec_State old = Succeeded \<and> r = old \<and> db' = db
       \<or> rec_State old = Waiting \<and> rec_TerminalAt old = None
         \<and> r = succeeded old resources evidence (cl_now c)\<lparr>rec_StateHash := x\<rparr>
         \<and> store_ok H db' \<and> rollout_of H rid db' = Some r
         \<and> Key_target (kg_Target k) = Key_target (in_Target (rec_Intent old))
         \<and> (\<forall>other. other \<noteq> rid \<longrightarrow> rollout_of H other db' = rollout_of H other db)
         \<and> current_of (Key_target (in_Target (rec_Intent old))) db' = Some k
         \<and> (\<forall>key. key \<noteq> Key_target (in_Target (rec_Intent old)) \<longrightarrow> current_of key db' = current_of key db))"
proof -
  from run obtain k row old where steps: "commit_input H snapshot evidence = Inr k" "find_rollout rid db = Some row"
      "scanRollout H row = Inr old"
      and rest: "if rec_State old = Succeeded \<and> rec_TerminalAt old \<noteq> None then r = old \<and> db' = db
       else rec_TerminalAt old = None \<and> rec_State old = Waiting
          \<and> Key_target (kg_Target k) = Key_target (in_Target (rec_Intent old))
          \<and> (\<exists>db1. commit_known_good c k db = Inr ((), db1)
               \<and> save_transition H c (succeeded old resources evidence (cl_now c)) db1 = Inr (r, db'))"
    unfolding CommitRolloutSuccess_def run_tx_Inr by (blast dest: commit_body_Inr)
  have old: "rollout_of H rid db = Some old"
    using lookup_row [OF ok steps(2)] steps(3) by auto
  note k = steps(1) [unfolded commit_input_Inr]
  show ?thesis
  proof (cases "rec_State old = Succeeded \<and> rec_TerminalAt old \<noteq> None")
    case True
    with old k rest show ?thesis by auto
  next
    case False
    note rest' = rest [unfolded if_not_P [OF False]]
    then obtain db1 where w: "rec_TerminalAt old = None" "rec_State old = Waiting"
        "Key_target (kg_Target k) = Key_target (in_Target (rec_Intent old))"
        and cm: "commit_known_good c k db = Inr ((), db1)"
        and sv: "save_transition H c (succeeded old resources evidence (cl_now c)) db1 = Inr (r, db')"
      by blast
    have kg: "known_good_ok H db" and ro: "rollouts_ok H db" using ok by (simp_all add: store_ok_def)
    have "Canonicalize_known_good H k = Inr k" using k Canonicalize_known_good_idem by blast
    note cm1 = commit_known_good_Inr [OF kg this cm]
    have tables: "db_rollouts db1 = db_rollouts db" "db_events db1 = db_events db" "known_good_ok H db1" using cm1 by simp_all
    have adv: "advances H old (succeeded old resources evidence (cl_now c)\<lparr>rec_StateHash := x\<rparr>)"
      if "CalculateStateHash H (succeeded old resources evidence (cl_now c)) = Some x" for x
      using that w clock k by (auto simp: advances_def succeeded_def evidence_missing_def IsTerminalRolloutState_def)
    have ok1: "rollouts_ok H db1" using ro rollouts_ok_cong [OF tables(1,2)] by simp
    have "find_rollout rid db1 = Some row" using steps(2) find_rollout_cong [OF tables(1)] by simp
    from save_transition_Inr [OF ok1 this steps(3) adv tables(3) sv] show ?thesis
      using old k w cm1 rollout_of_cong [OF tables(1)] by auto
  qed
qed

lemma BeginRollout_Inr:
  assumes ok: "store_ok H db" and run: "BeginRollout H c ctx intent resources db = (Inr r, db')"
  shows "\<exists>canonical x. Canonicalize_intent H intent = Inr canonical
    \<and> (rollout_of H (in_RolloutID canonical) db = Some r \<and> in_IntentHash (rec_Intent r) = in_IntentHash canonical \<and> db' = db
       \<or> rollout_of H (in_RolloutID canonical) db = None
         \<and> r = new_rollout canonical resources (cl_now c)\<lparr>rec_StateHash := x\<rparr>
         \<and> find_active (Key_target (in_Target canonical)) db = None
         \<and> \<not> known_good_stale canonical (current_snapshot (Key_target (in_Target canonical)) db)
         \<and> store_ok H db' \<and> rollout_of H (in_RolloutID canonical) db' = Some r
         \<and> (\<forall>other. other \<noteq> in_RolloutID canonical \<longrightarrow> rollout_of H other db' = rollout_of H other db)
         \<and> (\<forall>key. current_of key db' = current_of key db))"
proof -
  from run obtain canonical where can: "Canonicalize_intent H intent = Inr canonical"
    and body: "(case find_rollout (in_RolloutID canonical) db of None \<Rightarrow> claim_target H c canonical resources
     | Some row \<Rightarrow> bind_tx (lift_tx (wrap_inner ''read rollout identity'' (scanRollout H row))) (\<lambda>record.
         bind_tx (guard_tx (in_IntentHash (rec_Intent record) \<noteq> in_IntentHash canonical)
           (StoreError RolloutCodeConflict ''rollout id already has a different intent'')) (\<lambda>_.
         return_tx record))) db = Inr (r, db')"
    unfolding BeginRollout_def run_tx_Inr begin_body_def
    by (auto simp del: case_option_tx_Inr split: sum.splits)
  let ?rid = "in_RolloutID canonical" and ?key = "Key_target (in_Target canonical)"
  show ?thesis
  proof (cases "find_rollout ?rid db")
    case (Some row)
    with body have "wrap_inner ''read rollout identity'' (scanRollout H row) = Inr r"
        "in_IntentHash (rec_Intent r) = in_IntentHash canonical" "db' = db"
      by auto
    moreover from this(1) have "scanRollout H row = Inr r" by (simp add: wrap_inner_def)
    ultimately show ?thesis using can lookup_row [OF ok Some] by auto
  next
    case None
    with body obtain x db1 where c: "\<not> known_good_stale canonical (current_snapshot ?key db)"
        "CalculateStateHash H (new_rollout canonical resources (cl_now c)) = Some x"
        "r = new_rollout canonical resources (cl_now c)\<lparr>rec_StateHash := x\<rparr>"
        and ins: "insert_rollout (new_row r) db = Some db1" "insert_event (event_row_of r) db1 = Some db'"
      by (auto simp: claim_target_def Let_def with_state_hash_Inr appendRolloutEvent_Inr)
    have "rec_Intent r = canonical" "rec_State r = Prepared" "rec_Version r = 1" "rec_TerminalAt r = None"
        "rec_SchemaVersion r = RolloutRecordVersion" "rec_Error r = None" "rec_Evidence r = None"
      using c(3) by (simp_all add: new_rollout_def)
    moreover have "CalculateStateHash H r = Some (rec_StateHash r)" using c(2,3) by simp
    ultimately have rec: "rec_Intent r = canonical" "rec_State r = Prepared" "rec_Version r = 1" "rec_TerminalAt r = None"
        "rec_SchemaVersion r = RolloutRecordVersion" "rec_Error r = None" "rec_Evidence r = None"
        "CalculateStateHash H r = Some (rec_StateHash r)" by simp_all
    have "Canonicalize_intent H canonical = Inr canonical" using can by (rule Canonicalize_intent_idem)
    then have scan: "scanRollout H (new_row r) = Inr r" and "record_ok H r"
      using rec by (auto intro: scan_new_row simp: record_ok_def rollout_states_def rollout_rank_def IsTerminalRolloutState_def)
    moreover have "rollouts_ok H db" "known_good_ok H db" using ok by (simp_all add: store_ok_def)
    ultimately have new: "rollouts_ok H db' \<and> rollout_of H ?rid db' = Some r
        \<and> (\<forall>other. other \<noteq> ?rid \<longrightarrow> rollout_of H other db' = rollout_of H other db)"
      using rollouts_ok_insert [OF _ scan _ _ _ _ ins] rec by simp
    have keeps: "db_snapshots db' = db_snapshots db" "db_current db' = db_current db"
      using insert_event_keeps [OF ins(2)] insert_rollout_keeps [OF ins(1)] by simp_all
    have "store_ok H db'" using new \<open>known_good_ok H db\<close> known_good_ok_cong [OF keeps] by (simp add: store_ok_def)
    moreover have "find_active ?key db = None" "rollout_of H ?rid db = None"
      using ins(1) rec None by (auto simp: insert_rollout_def rollout_of_def split: if_splits)
    ultimately show ?thesis using can c new current_of_cong [OF keeps] by auto
  qed
qed

end
