(* ===== verification/Rollout_Store_Properties.thy ===== *)
theory Rollout_Store_Properties
  imports Rollout_Store_Invariant
begin

text \<open>
  The rollout store over sequences of operations: every step keeps the invariant and moves a
  rollout at most along one allowed transition, an operation whose statements succeed returns a
  record, and the properties that follow.
\<close>

section \<open>Sequences of operations\<close>

lemma ClearCurrentKnownGood_ok:
  assumes ok: "store_ok H db" and run: "ClearCurrentKnownGood c ctx target db = (res, db')"
  shows "store_ok H db' \<and> (\<forall>rid. rollout_of H rid db' = rollout_of H rid db)"
proof (cases res)
  case (Inl e)
  then have "db' = db" using run by (auto simp: ClearCurrentKnownGood_def dest: run_tx_Inl)
  with ok show ?thesis by simp
next
  case (Inr u)
  then have db': "db' = db\<lparr>db_current := AList.delete (Key_target target) (db_current db)\<rparr>"
    using run by (auto simp: ClearCurrentKnownGood_def)
  have "known_good_ok H db'"
    using ok by (auto simp: store_ok_def known_good_ok_def known_good_base_def db' target_snapshots_def distinct_delete
        AList.delete_eq distinct_map_filter)
  then show ?thesis
    using ok store_ok_cong [of db' db H] rollout_of_cong [of db' db] by (simp add: store_ok_def db')
qed

lemma repair_one_ok:
  assumes "known_good_ok H db" "repair_one H c row db = Inr (u, db')"
  shows "known_good_ok H db' \<and> db_rollouts db' = db_rollouts db \<and> db_events db' = db_events db"
  using assms restoreCurrentKnownGood_Inr [of H db c]
  by (auto simp: repair_one_def split: column.splits sum.splits if_splits)

lemma repair_rows_ok:
  assumes "known_good_ok H db" "repair_rows H c rows db = Inr (u, db')"
  shows "known_good_ok H db' \<and> db_rollouts db' = db_rollouts db \<and> db_events db' = db_events db"
  using assms
proof (induction rows arbitrary: db)
  case (Cons row rows)
  then obtain db1 where "repair_one H c row db = Inr ((), db1)" "repair_rows H c rows db1 = Inr (u, db')" by auto
  with Cons repair_one_ok show ?case by metis
qed simp

lemma reconcileHistoricalRollbacks_ok:
  assumes ok: "store_ok H db" and run: "reconcileHistoricalRollbacks H c ctx db = (res, db')"
  shows "store_ok H db' \<and> (\<forall>rid. rollout_of H rid db' = rollout_of H rid db)"
proof (cases res)
  case (Inl e)
  then have "db' = db" using run by (auto simp: reconcileHistoricalRollbacks_def dest: run_tx_Inl)
  with ok show ?thesis by simp
next
  case (Inr u)
  then have "repair_rows H c (historical_rollbacks db) db = Inr ((), db')"
    using run by (auto simp: reconcileHistoricalRollbacks_def)
  with ok have t: "known_good_ok H db'" "db_rollouts db' = db_rollouts db" "db_events db' = db_events db"
    using repair_rows_ok by (auto simp: store_ok_def)
  with ok show ?thesis using store_ok_cong [OF t(2,3)] rollout_of_cong [OF t(2)] by (simp add: store_ok_def)
qed

text \<open>
  One operation of the store, whoever calls it, with any context, any statement failing and any
  clock after the Unix epoch (a terminal time of 0 means active in the table).
\<close>

inductive store_step :: "hashes \<Rightarrow> db \<Rightarrow> db \<Rightarrow> bool" for H where
  start: "BeginRollout H c ctx intent resources db = (res, db') \<Longrightarrow> 0 < cl_now c \<Longrightarrow> store_step H db db'"
| transition: "TransitionRollout H c ctx rid state failure resources evidence terminal db = (res, db')
    \<Longrightarrow> 0 < cl_now c \<Longrightarrow> store_step H db db'"
| commit: "CommitRolloutSuccess H c ctx rid snapshot resources evidence db = (res, db')
    \<Longrightarrow> 0 < cl_now c \<Longrightarrow> store_step H db db'"
| clear: "ClearCurrentKnownGood c ctx target db = (cleared, db') \<Longrightarrow> store_step H db db'"
| repair: "reconcileHistoricalRollbacks H c ctx db = (cleared, db') \<Longrightarrow> store_step H db db'"

inductive_cases store_stepE: "store_step H db db'"

text \<open>What a step can do to a stored rollout: nothing, or one allowed transition of an active one.\<close>

definition rollout_moves :: "RolloutRecord \<Rightarrow> RolloutRecord \<Rightarrow> bool" where
  "rollout_moves old r = (r = old \<or> rec_TerminalAt old = None \<and> rec_Intent r = rec_Intent old
     \<and> CanTransitionRollout (rec_State old) (rec_State r) \<and> rec_Version r = wrap_u64 (Suc (rec_Version old)))"

lemma rollout_moves_refl [simp]: "rollout_moves r r"
  by (simp add: rollout_moves_def)

definition rollouts_move :: "hashes \<Rightarrow> db \<Rightarrow> db \<Rightarrow> bool" where
  "rollouts_move H db db' = (\<forall>rid old. rollout_of H rid db = Some old \<longrightarrow>
     (\<exists>r. rollout_of H rid db' = Some r \<and> rollout_moves old r))"

lemma rollouts_move_refl [simp]: "rollouts_move H db db"
  by (simp add: rollouts_move_def)

lemma rollouts_move_one:
  assumes "rollout_of H rid db' = Some r" "\<And>old. rollout_of H rid db = Some old \<Longrightarrow> rollout_moves old r"
    "\<forall>other. other \<noteq> rid \<longrightarrow> rollout_of H other db' = rollout_of H other db"
  shows "rollouts_move H db db'"
  unfolding rollouts_move_def
proof (intro allI impI)
  fix x old assume "rollout_of H x db = Some old"
  then show "\<exists>r. rollout_of H x db' = Some r \<and> rollout_moves old r"
    using assms by (cases "x = rid") auto
qed

lemma BeginRollout_effect:
  assumes ok: "store_ok H db" and run: "BeginRollout H c ctx intent resources db = (res, db')"
  shows "store_ok H db' \<and> rollouts_move H db db'"
proof (cases res)
  case (Inl e)
  then have "db' = db" using run by (auto simp: BeginRollout_def dest: run_tx_Inl)
  with ok show ?thesis by simp
next
  case (Inr r)
  with run have run': "BeginRollout H c ctx intent resources db = (Inr r, db')" by simp
  from BeginRollout_Inr [OF ok run'] show ?thesis
  proof (elim exE conjE disjE)
    fix canonical x assume new: "store_ok H db'" "rollout_of H (in_RolloutID canonical) db = None"
        "rollout_of H (in_RolloutID canonical) db' = Some r"
        "\<forall>other. other \<noteq> in_RolloutID canonical \<longrightarrow> rollout_of H other db' = rollout_of H other db"
    have "rollouts_move H db db'"
      by (rule rollouts_move_one [OF new(3) _ new(4)]) (simp add: new(2))
    with new(1) show ?thesis by simp
  qed (use ok in simp)
qed

lemma transition_error_None:
  "transition_error record state resources terminal = None \<longleftrightarrow>
     rec_TerminalAt record = None \<and> CanTransitionRollout (rec_State record) state \<and> state \<noteq> Succeeded
     \<and> (terminal \<longrightarrow> state = Failed \<or> IsTerminalRolloutState state) \<and> length resources \<le> MaxRolloutResources"
  unfolding transition_error_def first_failure_None by auto

lemma TransitionRollout_effect:
  assumes ok: "store_ok H db" "0 < cl_now c"
    and run: "TransitionRollout H c ctx rid state failure resources evidence terminal db = (res, db')"
  shows "store_ok H db' \<and> rollouts_move H db db'"
proof (cases res)
  case (Inl e)
  then have "db' = db" using run by (auto simp: TransitionRollout_def dest: run_tx_Inl)
  with ok show ?thesis by simp
next
  case (Inr r)
  with run TransitionRollout_Inr [OF ok] obtain old x where t: "rollout_of H rid db = Some old"
      "transition_error old state resources terminal = None"
      "r = transitioned old state failure resources evidence terminal (cl_now c)\<lparr>rec_StateHash := x\<rparr>"
      "store_ok H db'" "rollout_of H rid db' = Some r"
      "\<forall>other. other \<noteq> rid \<longrightarrow> rollout_of H other db' = rollout_of H other db"
    by blast
  then have "rollout_moves old r" by (simp add: rollout_moves_def transition_error_None transitioned_def)
  with t show ?thesis by (auto intro: rollouts_move_one)
qed

lemma CommitRolloutSuccess_effect:
  assumes ok: "store_ok H db" "0 < cl_now c"
    and run: "CommitRolloutSuccess H c ctx rid snapshot resources evidence db = (res, db')"
  shows "store_ok H db' \<and> rollouts_move H db db'"
proof (cases res)
  case (Inl e)
  then have "db' = db" using run by (auto simp: CommitRolloutSuccess_def dest: run_tx_Inl)
  with ok show ?thesis by simp
next
  case (Inr r)
  with run CommitRolloutSuccess_Inr [OF ok] obtain old x where t: "rollout_of H rid db = Some old"
      "db' = db \<or> rec_State old = Waiting \<and> rec_TerminalAt old = None
        \<and> r = succeeded old resources evidence (cl_now c)\<lparr>rec_StateHash := x\<rparr>
        \<and> store_ok H db' \<and> rollout_of H rid db' = Some r
        \<and> (\<forall>other. other \<noteq> rid \<longrightarrow> rollout_of H other db' = rollout_of H other db)"
    by blast
  show ?thesis
  proof (cases "db' = db")
    case False
    with t(2) have "rollout_moves old r" by (simp add: rollout_moves_def succeeded_def)
    with t False show ?thesis by (auto intro: rollouts_move_one)
  qed (use ok in simp)
qed

lemma store_step_effect:
  assumes "store_step H db db'" "store_ok H db"
  shows "store_ok H db' \<and> rollouts_move H db db'"
  using assms
proof (induction rule: store_step.induct)
  case start
  then show ?case using BeginRollout_effect by blast
next
  case transition
  then show ?case using TransitionRollout_effect by blast
next
  case commit
  then show ?case using CommitRolloutSuccess_effect by blast
next
  case clear
  then show ?case using ClearCurrentKnownGood_ok unfolding rollouts_move_def by (metis rollout_moves_refl)
next
  case repair
  then show ?case using reconcileHistoricalRollbacks_ok unfolding rollouts_move_def by (metis rollout_moves_refl)
qed

lemma store_steps_ok: "(store_step H)\<^sup>*\<^sup>* db db' \<Longrightarrow> store_ok H db \<Longrightarrow> store_ok H db'"
  by (induction rule: rtranclp_induct) (auto dest: store_step_effect)

lemma empty_db_ok: "store_ok H empty_db"
  by (simp add: store_ok_def rollouts_ok_def unique_active_def known_good_ok_def known_good_base_def
      target_snapshots_def empty_db_def)

definition reachable_db :: "hashes \<Rightarrow> db \<Rightarrow> bool" where
  "reachable_db H = (store_step H)\<^sup>*\<^sup>* empty_db"

lemma reachable_ok: "reachable_db H db \<Longrightarrow> store_ok H db"
  using store_steps_ok empty_db_ok by (simp add: reachable_db_def)

lemma rollout_of_record_ok: "store_ok H db \<Longrightarrow> rollout_of H rid db = Some r \<Longrightarrow> record_ok H r"
  by (auto simp: rollout_of_def split: option.splits sum.splits elim!: lookup_row)

lemma rollout_moves_version:
  assumes "rollout_moves old r" "record_ok H old"
  shows "CanTransitionRollout\<^sup>*\<^sup>* (rec_State old) (rec_State r) \<and> rec_Version old \<le> rec_Version r"
proof -
  have "rec_Version old \<le> 6" using assms(2) by (simp add: record_ok_def)
  with assms(1) show ?thesis by (auto simp: rollout_moves_def wrap_u64_id)
qed

lemma rollout_history:
  assumes "(store_step H)\<^sup>*\<^sup>* db db'" "store_ok H db" "rollout_of H rid db = Some old"
  shows "\<exists>r. rollout_of H rid db' = Some r \<and> rec_Intent r = rec_Intent old
    \<and> CanTransitionRollout\<^sup>*\<^sup>* (rec_State old) (rec_State r) \<and> rec_Version old \<le> rec_Version r
    \<and> (rec_TerminalAt old \<noteq> None \<longrightarrow> r = old)"
  using assms(1)
proof (induction rule: rtranclp_induct)
  case base
  with assms(3) show ?case by simp
next
  case (step db1 db2)
  then obtain r where r: "rollout_of H rid db1 = Some r" "rec_Intent r = rec_Intent old"
      "CanTransitionRollout\<^sup>*\<^sup>* (rec_State old) (rec_State r)" "rec_Version old \<le> rec_Version r"
      "rec_TerminalAt old \<noteq> None \<longrightarrow> r = old" by blast
  have ok: "store_ok H db1" using step(1) assms(2) by (rule store_steps_ok)
  then obtain r' where r': "rollout_of H rid db2 = Some r'" "rollout_moves r r'"
    using store_step_effect [OF step(2)] r(1) by (auto simp: rollouts_move_def)
  have "rec_Intent r' = rec_Intent r" "rec_TerminalAt r \<noteq> None \<longrightarrow> r' = r" using r'(2) by (auto simp: rollout_moves_def)
  moreover note rollout_moves_version [OF r'(2) rollout_of_record_ok [OF ok r(1)]]
  ultimately show ?case using r r'(1) by (metis (no_types) le_trans rtranclp_trans)
qed

section \<open>Operations succeed when nothing fails\<close>

definition calm :: "call \<Rightarrow> ctx \<Rightarrow> bool" where
  "calm c ctx = ((\<forall>k. cl_failing c k = None) \<and> 0 < cl_now c \<and> \<not> ctx_done ctx (cl_now c))"

lemma unique_active_update:
  assumes "unique_active db" "\<And>row. row \<in> set (db_rollouts db) \<Longrightarrow> rw_RolloutID row = in_RolloutID (rec_Intent r) \<Longrightarrow> active row"
  shows "unique_active (update_rollout r db)"
proof -
  have "set (map rw_TargetKey (filter active (map (\<lambda>row. if rw_RolloutID row = rid then update_row r row else row) rows)))
        \<subseteq> set (map rw_TargetKey (filter active rows))
      \<and> distinct (map rw_TargetKey (filter active (map (\<lambda>row. if rw_RolloutID row = rid then update_row r row else row) rows)))"
    if "distinct (map rw_TargetKey (filter active rows))" "\<forall>row \<in> set rows. rw_RolloutID row = rid \<longrightarrow> active row" for rows rid
    using that by (induction rows) auto
  with assms show ?thesis by (simp add: unique_active_def update_rollout_def)
qed

lemma insert_event_next:
  assumes "log_ok db row" "rec_Version r = Suc (rw_Version row)" "in_RolloutID (rec_Intent r) = rw_RolloutID row"
    "db_events db1 = db_events db"
  shows "\<exists>db'. insert_event (event_row_of r) db1 = Some db'"
proof -
  have "er_Version e \<noteq> rec_Version r" if "e \<in> set (db_events db)" "er_RolloutID e = rw_RolloutID row" for e
  proof -
    have "er_Version e \<in> set (map er_Version (events_of (rw_RolloutID row) db))" using that by (simp add: events_of_def)
    moreover have "map er_Version (events_of (rw_RolloutID row) db) = [1..<Suc (rw_Version row)]"
      using assms(1) unfolding log_ok_def Let_def by blast
    ultimately have "er_Version e \<in> set [1..<Suc (rw_Version row)]" by (simp only:)
    then show ?thesis using assms(2) by auto
  qed
  then show ?thesis using assms(3,4) by (auto simp: insert_event_def list_ex_iff)
qed

lemma save_transition_total:
  assumes ok: "rollouts_ok H db" and found: "find_rollout rid db = Some row" "scanRollout H row = Inr old"
    and hash: "CalculateStateHash H r0 \<noteq> None" and c: "calm c ctx"
    and r0: "rec_TerminalAt old = None" "rec_Intent r0 = rec_Intent old" "rec_Version r0 = wrap_u64 (Suc (rec_Version old))"
  shows "\<exists>r db'. save_transition H c r0 db = Inr (r, db')"
proof -
  obtain x where x: "CalculateStateHash H r0 = Some x" using hash by auto
  let ?r = "r0\<lparr>rec_StateHash := x\<rparr>"
  from ok found obtain row: "record_ok H old" "rid = in_RolloutID (rec_Intent old)" "active row" "rw_RolloutID row = rid"
      "log_ok db row" "row \<in> set (db_rollouts db)"
    using r0(1) by (metis rollouts_ok_row Inr_inject)
  have "rec_Version old \<le> 6" using row(1) by (simp add: record_ok_def)
  moreover have "rw_Version row = rec_Version old" using found(2) by (auto simp: scanRollout_Inr row_record_def)
  ultimately have version: "rec_Version ?r = Suc (rw_Version row)" using r0(3) by (simp add: wrap_u64_id)
  have "distinct (map rw_RolloutID (db_rollouts db))" using ok by (simp add: rollouts_ok_def)
  then have only: "row' = row" if "row' \<in> set (db_rollouts db)" "rw_RolloutID row' = rid" for row'
    using that row(4,6) by (metis distinct_map inj_onD)
  have uniq: "unique_active (update_rollout ?r db)"
    by (rule unique_active_update) (use ok only row(2,3) r0(2) in \<open>auto simp: rollouts_ok_def\<close>)
  obtain db' where "insert_event (event_row_of ?r) (update_rollout ?r db) = Some db'"
    using insert_event_next [OF row(5) version, of "update_rollout ?r db"] row(2,4) r0(2) by (auto simp: update_rollout_def)
  with uniq x c have "save_transition H c r0 db = Inr (?r, db')"
    by (simp add: save_transition_def with_state_hash_Inr persistRolloutTransition_def appendRolloutEvent_Inr Let_def calm_def)
  then show ?thesis by blast
qed

lemma TransitionRollout_total:
  assumes ok: "store_ok H db" and found: "rollout_of H rid db = Some old" and c: "calm c ctx"
    and te: "transition_error old state resources terminal = None"
    and hash: "\<And>r. CalculateStateHash H r \<noteq> None"
    and rb: "state = RolledBack \<Longrightarrow> \<not> evidence_missing evidence \<and> in_PreviousKnownGoodID (rec_Intent old) \<noteq> []
      \<and> in_PreviousKnownGoodHash (rec_Intent old) \<noteq> []
      \<and> (\<exists>k. known_good_of (in_PreviousKnownGoodID (rec_Intent old)) db = Some k
           \<and> kg_SnapshotHash k = in_PreviousKnownGoodHash (rec_Intent old) \<and> kg_Target k = in_Target (rec_Intent old))"
  shows "\<exists>r db'. TransitionRollout H c ctx rid state failure resources evidence terminal db = (Inr r, db')"
proof -
  obtain row where row: "find_rollout rid db = Some row" "scanRollout H row = Inr old"
    using found by (auto simp: rollout_of_def split: option.splits sum.splits)
  have "\<exists>db1. (if state = RolledBack then bind_tx (guard_tx (evidence_missing evidence)
          (StoreError RolloutCodeReadinessFailed ''rolled_back requires verified readiness evidence''))
          (\<lambda>_. restoreCurrentKnownGood c (rec_Intent old)) else return_tx ()) db = Inr ((), db1)
      \<and> db_rollouts db1 = db_rollouts db \<and> db_events db1 = db_events db"
  proof (cases "state = RolledBack")
    case True
    with rb obtain k where k: "known_good_of (in_PreviousKnownGoodID (rec_Intent old)) db = Some k"
        "kg_SnapshotHash k = in_PreviousKnownGoodHash (rec_Intent old)" "kg_Target k = in_Target (rec_Intent old)" by auto
    have "snapshot_row_of k \<in> set (db_snapshots db)" "kg_ID k = in_PreviousKnownGoodID (rec_Intent old)"
      using known_good_of_Some [OF _ k(1)] ok by (auto simp: store_ok_def known_good_ok_def)
    then have "\<exists>s \<in> set (db_snapshots db). sw_ID s = in_PreviousKnownGoodID (rec_Intent old)
        \<and> sw_TargetKey s = Key_target (in_Target (rec_Intent old)) \<and> sw_Hash s = in_PreviousKnownGoodHash (rec_Intent old)"
      using k(2,3) by (intro bexI [of _ "snapshot_row_of k"]) auto
    then show ?thesis
      using rb [OF True] c True by (auto simp: restoreCurrentKnownGood_def list_ex_iff calm_def)
  qed auto
  then obtain db1 where mid: "(if state = RolledBack then bind_tx (guard_tx (evidence_missing evidence)
          (StoreError RolloutCodeReadinessFailed ''rolled_back requires verified readiness evidence''))
          (\<lambda>_. restoreCurrentKnownGood c (rec_Intent old)) else return_tx ()) db = Inr ((), db1)"
      and tables: "db_rollouts db1 = db_rollouts db" "db_events db1 = db_events db" by blast
  have "rollouts_ok H db1" "find_rollout rid db1 = Some row"
    using ok row(1) rollouts_ok_cong [OF tables] find_rollout_cong [OF tables(1)] by (simp_all add: store_ok_def)
  from save_transition_total [OF this row(2) hash c]
  obtain r db' where "save_transition H c (transitioned old state failure resources evidence terminal (cl_now c)) db1 = Inr (r, db')"
    using te unfolding transition_error_None transitioned_def by fastforce
  with row te mid c have "transition_body H c ctx rid state failure resources evidence terminal db = Inr (r, db')"
    unfolding transition_body_def by (simp del: if_tx_Inr add: calm_def)
  then show ?thesis by (auto simp: TransitionRollout_def)
qed

lemma CommitRolloutSuccess_total:
  assumes ok: "store_ok H db" and found: "rollout_of H rid db = Some old" and c: "calm c ctx"
    and w: "rec_State old = Waiting" "rec_TerminalAt old = None"
    and k: "Canonicalize_known_good H snapshot = Inr k" "Validate_evidence evidence True False = None"
      "Hash_evidence H evidence = Some (kg_EvidenceHash k)" "kg_Target k = in_Target (rec_Intent old)"
    and fresh: "\<forall>s \<in> set (db_snapshots db). sw_ID s \<noteq> kg_ID k \<and> sw_Hash s \<noteq> kg_SnapshotHash k"
    and hash: "\<And>r. CalculateStateHash H r \<noteq> None"
  shows "\<exists>r db'. CommitRolloutSuccess H c ctx rid snapshot resources evidence db = (Inr r, db')"
proof -
  obtain row where row: "find_rollout rid db = Some row" "scanRollout H row = Inr old"
    using found by (auto simp: rollout_of_def split: option.splits sum.splits)
  have "\<exists>db1. insert_snapshot (snapshot_row_of k) db = Some db1"
    using fresh by (auto simp: insert_snapshot_def list_ex_iff)
  moreover have "\<exists>db'. pruneKnownGood c key db2 = Inr ((), db')" for key db2
    using c by (auto simp: pruneKnownGood_def calm_def)
  ultimately obtain db1 where cm: "commit_known_good c k db = Inr ((), db1)"
    using c by (auto simp: commit_known_good_def Let_def calm_def) blast
  have kg: "known_good_ok H db" and ro: "rollouts_ok H db" using ok by (simp_all add: store_ok_def)
  note cm1 = commit_known_good_Inr [OF kg Canonicalize_known_good_idem [OF k(1)] cm]
  have tables: "db_rollouts db1 = db_rollouts db" "db_events db1 = db_events db" using cm1 by simp_all
  have "rollouts_ok H db1" "find_rollout rid db1 = Some row"
    using ro row(1) rollouts_ok_cong [OF tables] find_rollout_cong [OF tables(1)] by simp_all
  from save_transition_total [OF this row(2) hash c w(2)]
  obtain r db' where "save_transition H c (succeeded old resources evidence (cl_now c)) db1 = Inr (r, db')"
    unfolding succeeded_def by fastforce
  with row k w cm c have "commit_body H c ctx rid snapshot resources evidence db = Inr (r, db')"
    by (auto simp: commit_body_def commit_input_Inr calm_def)
  then show ?thesis by (auto simp: CommitRolloutSuccess_def)
qed

lemma BeginRollout_total:
  assumes ok: "store_ok H db" and can: "Canonicalize_intent H intent = Inr canonical" and c: "calm c ctx"
    and new: "rollout_of H (in_RolloutID canonical) db = None"
    and free: "find_active (Key_target (in_Target canonical)) db = None"
    and fresh: "\<not> known_good_stale canonical (current_snapshot (Key_target (in_Target canonical)) db)"
    and res: "length resources \<le> MaxRolloutResources" and hash: "\<And>r. CalculateStateHash H r \<noteq> None"
  shows "\<exists>r db'. BeginRollout H c ctx intent resources db = (Inr r, db')"
proof -
  have none: "find_rollout (in_RolloutID canonical) db = None"
  proof (cases "find_rollout (in_RolloutID canonical) db")
    case (Some row)
    with lookup_row [OF ok Some] new show ?thesis by auto
  qed
  obtain x where x: "CalculateStateHash H (new_rollout canonical resources (cl_now c)) = Some x" using hash by auto
  let ?r = "new_rollout canonical resources (cl_now c)\<lparr>rec_StateHash := x\<rparr>"
  have ins: "insert_rollout (new_row ?r) db = Some (db\<lparr>db_rollouts := db_rollouts db @ [new_row ?r]\<rparr>)"
    using none free by (simp add: insert_rollout_def new_rollout_def)
  have "in_RolloutID canonical \<notin> er_RolloutID ` set (db_events db)"
    using ok none by (auto simp: store_ok_def rollouts_ok_def find_rollout_None)
  then have "insert_event (event_row_of ?r) (db\<lparr>db_rollouts := db_rollouts db @ [new_row ?r]\<rparr>) \<noteq> None"
    by (auto simp: insert_event_def list_ex_iff new_rollout_def image_iff)
  then obtain db' where "insert_event (event_row_of ?r) (db\<lparr>db_rollouts := db_rollouts db @ [new_row ?r]\<rparr>) = Some db'"
    by blast
  with can none free fresh res x ins c have "begin_body H c ctx intent resources db = Inr (?r, db')"
    by (auto simp: begin_body_def claim_target_def Let_def with_state_hash_Inr appendRolloutEvent_Inr calm_def)
  then show ?thesis by (auto simp: BeginRollout_def)
qed

lemma BeginRollout_replay:
  assumes ok: "store_ok H db" and can: "Canonicalize_intent H intent = Inr canonical" and c: "calm c ctx"
    and old: "rollout_of H (in_RolloutID canonical) db = Some r" "in_IntentHash (rec_Intent r) = in_IntentHash canonical"
    and res: "length resources \<le> MaxRolloutResources"
  shows "BeginRollout H c ctx intent resources db = (Inr r, db)"
proof -
  obtain row where "find_rollout (in_RolloutID canonical) db = Some row" "scanRollout H row = Inr r"
    using old(1) by (auto simp: rollout_of_def split: option.splits sum.splits)
  with can old(2) res c have "begin_body H c ctx intent resources db = Inr (r, db)"
    by (auto simp: begin_body_def wrap_inner_def calm_def)
  then show ?thesis by (simp add: BeginRollout_def)
qed

text \<open>Only the success commit writes snapshots.\<close>

lemma save_transition_keeps:
  "save_transition H c r0 db = Inr (r, db') \<Longrightarrow> db_snapshots db' = db_snapshots db \<and> db_current db' = db_current db"
  by (auto simp: save_transition_def persistRolloutTransition_def appendRolloutEvent_Inr update_rollout_def Let_def
      dest!: insert_event_keeps split: if_splits)

lemma restoreCurrentKnownGood_keeps:
  "restoreCurrentKnownGood c intent db = Inr (u, db') \<Longrightarrow> db_snapshots db' = db_snapshots db"
  by (auto simp: restoreCurrentKnownGood_def)

lemma TransitionRollout_snapshots:
  "db_snapshots (snd (TransitionRollout H c ctx rid state failure resources evidence terminal db)) = db_snapshots db"
proof (cases "transition_body H c ctx rid state failure resources evidence terminal db")
  case (Inr p)
  obtain r db' where p: "p = (r, db')" by (cases p)
  have "db_snapshots db' = db_snapshots db"
    using Inr unfolding p transition_body_def
    by (auto dest!: save_transition_keeps restoreCurrentKnownGood_keeps split: option.splits if_splits)
  with Inr p show ?thesis by (simp add: TransitionRollout_def run_tx_def)
qed (simp add: TransitionRollout_def run_tx_def)

lemma BeginRollout_snapshots:
  "db_snapshots (snd (BeginRollout H c ctx intent resources db)) = db_snapshots db"
proof (cases "begin_body H c ctx intent resources db")
  case (Inr p)
  obtain r db' where p: "p = (r, db')" by (cases p)
  have "db_snapshots db' = db_snapshots db"
    using Inr unfolding p begin_body_def claim_target_def Let_def
    by (auto simp: appendRolloutEvent_Inr dest!: insert_event_keeps insert_rollout_keeps split: option.splits)
  with Inr p show ?thesis by (simp add: BeginRollout_def run_tx_def)
qed (simp add: BeginRollout_def run_tx_def)

section \<open>Properties\<close>

text \<open>A concrete run: a rollout begins, starts applying, waits, and fails for good.\<close>

definition sample_call :: "time \<Rightarrow> call" where
  "sample_call t = \<lparr>cl_now = t, cl_failing = (\<lambda>_. None), cl_conflict = ''conflict'', cl_done = ''done''\<rparr>"

definition sample_begun :: db where
  "sample_begun = snd (BeginRollout sample_hashes (sample_call 1) None sample_intent [] empty_db)"

definition sample_move :: "time \<Rightarrow> RolloutState \<Rightarrow> bool \<Rightarrow> db \<Rightarrow> db" where
  "sample_move t state terminal db =
     snd (TransitionRollout sample_hashes (sample_call t) None ''ro-1'' state None [] None terminal db)"

lemma sample_call_calm [simp]: "0 < t \<Longrightarrow> calm (sample_call t) None" "cl_now (sample_call t) = t"
  by (simp_all add: calm_def sample_call_def ctx_done_def)

lemma sample_state_hash [simp]: "CalculateStateHash sample_hashes r = Some sample_hex"
  by (simp add: CalculateStateHash_def sample_hashes_def)

lemma sample_reachable: "reachable_db sample_hashes sample_begun"
  "reachable_db sample_hashes db \<Longrightarrow> 0 < t \<Longrightarrow> reachable_db sample_hashes (sample_move t state terminal db)"
proof -
  have "store_step sample_hashes empty_db sample_begun"
    by (rule store_step.start [of _ "sample_call 1"]) (simp_all add: sample_begun_def prod_eq_iff)
  then show "reachable_db sample_hashes sample_begun" by (simp add: reachable_db_def)
  assume db: "reachable_db sample_hashes db" "0 < t"
  have "store_step sample_hashes db (sample_move t state terminal db)"
    by (rule store_step.transition [of _ "sample_call t"]) (use db in \<open>simp_all add: sample_move_def prod_eq_iff\<close>)
  with db(1) show "reachable_db sample_hashes (sample_move t state terminal db)"
    by (simp add: reachable_db_def)
qed

definition only_rollout :: "db \<Rightarrow> bool" where
  "only_rollout db = (\<forall>other. other \<noteq> ''ro-1'' \<longrightarrow> rollout_of sample_hashes other db = None)"

lemma sample_begun_rollout:
  "rollout_of sample_hashes ''ro-1'' sample_begun = Some (new_rollout sample_intent [] 1\<lparr>rec_StateHash := sample_hex\<rparr>)
     \<and> only_rollout sample_begun"
proof -
  have id: "in_RolloutID sample_intent = ''ro-1''" by (simp add: sample_intent_def)
  have "\<exists>r db'. BeginRollout sample_hashes (sample_call 1) None sample_intent [] empty_db = (Inr r, db')"
    by (rule BeginRollout_total [OF empty_db_ok sample_intent_canonical])
      (simp_all add: empty_db_def rollout_of_def find_rollout_def find_active_def current_snapshot_def
        known_good_stale_def expected_known_good_def sample_intent_def)
  then obtain r where run: "BeginRollout sample_hashes (sample_call 1) None sample_intent [] empty_db = (Inr r, sample_begun)"
    by (auto simp: sample_begun_def)
  have none: "rollout_of sample_hashes rid empty_db = None" for rid
    by (simp add: rollout_of_def find_rollout_def empty_db_def)
  with BeginRollout_Inr [OF empty_db_ok run] sample_intent_canonical id
  obtain x where r: "r = new_rollout sample_intent [] 1\<lparr>rec_StateHash := x\<rparr>" "rollout_of sample_hashes ''ro-1'' sample_begun = Some r"
      "only_rollout sample_begun"
    by (auto simp: only_rollout_def)
  have "store_ok sample_hashes sample_begun" using sample_reachable(1) by (rule reachable_ok)
  then have "CalculateStateHash sample_hashes r = Some (rec_StateHash r)"
    using r(2) by (auto simp: rollout_of_def scanRollout_Inr split: option.splits sum.splits)
  with r show ?thesis by simp
qed

lemma sample_move_rollout:
  assumes "reachable_db sample_hashes db" "rollout_of sample_hashes ''ro-1'' db = Some old" "0 < t"
    and "transition_error old state [] terminal = None" "state \<noteq> RolledBack" "only_rollout db"
  shows "\<exists>x. rollout_of sample_hashes ''ro-1'' (sample_move t state terminal db) =
    Some (transitioned old state None [] None terminal t\<lparr>rec_StateHash := x\<rparr>) \<and> only_rollout (sample_move t state terminal db)"
proof -
  have ok: "store_ok sample_hashes db" using assms(1) by (rule reachable_ok)
  have "\<exists>r db'. TransitionRollout sample_hashes (sample_call t) None ''ro-1'' state None [] None terminal db = (Inr r, db')"
    by (rule TransitionRollout_total [OF ok assms(2)]) (use assms in simp_all)
  then obtain r where run: "TransitionRollout sample_hashes (sample_call t) None ''ro-1'' state None [] None terminal db
      = (Inr r, sample_move t state terminal db)" by (auto simp: sample_move_def)
  from TransitionRollout_Inr [OF ok _ run] assms(2,3,6) show ?thesis by (auto simp: only_rollout_def)
qed

definition sample_waiting :: db where
  "sample_waiting = sample_move 3 Waiting False (sample_move 2 Applying False sample_begun)"

lemma sample_waiting_reachable: "reachable_db sample_hashes sample_waiting"
  by (simp add: sample_waiting_def sample_reachable)

lemma sample_waiting_rollout:
  "\<exists>r. rollout_of sample_hashes ''ro-1'' sample_waiting = Some r \<and> rec_State r = Waiting \<and> rec_TerminalAt r = None
     \<and> rec_Intent r = sample_intent \<and> rec_Resources r = [] \<and> only_rollout sample_waiting"
proof -
  note r = sample_reachable(1) sample_reachable(2) [OF sample_reachable(1), of 2 Applying False]
  obtain x where 1: "rollout_of sample_hashes ''ro-1'' (sample_move 2 Applying False sample_begun) = Some
     (transitioned (new_rollout sample_intent [] 1\<lparr>rec_StateHash := sample_hex\<rparr>) Applying None [] None False 2\<lparr>rec_StateHash := x\<rparr>)"
     "only_rollout (sample_move 2 Applying False sample_begun)"
    using sample_move_rollout [OF r(1) sample_begun_rollout [THEN conjunct1], of 2 Applying False] sample_begun_rollout
    by (auto simp: transition_error_None new_rollout_def)
  show ?thesis
    using sample_move_rollout [OF r(2) 1(1), of 3 Waiting False] 1(2)
    by (auto simp: sample_waiting_def transition_error_None transitioned_def new_rollout_def IsTerminalRolloutState_def)
qed

definition sample_failed :: db where
  "sample_failed = sample_move 4 Failed True sample_waiting"

lemma sample_failed_rollout:
  "\<exists>r. rollout_of sample_hashes ''ro-1'' sample_failed = Some r \<and> rec_TerminalAt r \<noteq> None \<and> rec_State r = Failed"
proof -
  obtain r where r: "rollout_of sample_hashes ''ro-1'' sample_waiting = Some r" "rec_State r = Waiting"
      "rec_TerminalAt r = None" "only_rollout sample_waiting" using sample_waiting_rollout by blast
  from sample_move_rollout [OF sample_waiting_reachable r(1), of 4 Failed True] r(2-4) show ?thesis
    by (auto simp: sample_failed_def transition_error_None transitioned_def)
qed






definition sample_evidence :: ReadinessEvidence where
  "sample_evidence = \<lparr>ed_SchemaVersion = ReadinessEvidenceVersion, ed_RuntimeReady = True, ed_LocalRoutingReady = True,
     ed_ExternalReady = False, ed_ApplicationImageID = ''img'', ed_AvailableReplicas = 2,
     ed_WorkloadEvidenceHash = sample_hex, ed_ServiceEvidenceHash = sample_hex, ed_ExposureEvidenceHash = sample_hex,
     ed_ApplicationImageIDHash = sample_hex, ed_LocalProbeEvidenceHash = sample_hex, ed_ExternalEvidenceHash = [],
     ed_ObservedAt = 3\<rparr>"

lemma sample_evidence_ok [simp]: "Validate_evidence sample_evidence True False = None"
  by (simp add: Validate_evidence_def sample_evidence_def IsZero_def zero_time_def ContainsAny_def)

lemma sample_waiting_ok: "store_ok sample_hashes sample_waiting"
  using sample_waiting_reachable by (rule reachable_ok)

lemma sample_waiting_no_snapshots: "db_snapshots sample_waiting = []"
  by (simp add: sample_waiting_def sample_move_def sample_begun_def TransitionRollout_snapshots
      BeginRollout_snapshots empty_db_def)

abbreviation sample_commit :: "(failure + RolloutRecord) \<times> db" where
  "sample_commit \<equiv> CommitRolloutSuccess sample_hashes (sample_call 5) None ''ro-1''
     (sample_known_good [sample_resource ''Deployment'']) [sample_resource ''Deployment''] sample_evidence sample_waiting"

lemma sample_commit_result:
  "\<exists>r db. sample_commit = (Inr r, db) \<and> db \<noteq> sample_waiting \<and> reachable_db sample_hashes db
     \<and> rollout_of sample_hashes ''ro-1'' db = Some r \<and> rec_Intent r = sample_intent \<and> rec_TerminalAt r \<noteq> None \<and> only_rollout db"
proof -
  obtain old where old: "rollout_of sample_hashes ''ro-1'' sample_waiting = Some old" "rec_State old = Waiting"
      "rec_TerminalAt old = None" "rec_Intent old = sample_intent" "only_rollout sample_waiting"
    using sample_waiting_rollout by blast
  note can = sample_known_good_canonical [OF refl, of "[''Deployment'']", simplified]
  have "\<exists>r db. sample_commit = (Inr r, db)"
    by (rule CommitRolloutSuccess_total [OF sample_waiting_ok old(1) _ old(2,3) can])
      (simp_all add: sample_waiting_no_snapshots sample_known_good_def old(4) sample_intent_def Hash_evidence_def
        sample_hashes_def [THEN arg_cong, of hx_evidence])
  then obtain r db where r: "sample_commit = (Inr r, db)" by blast
  have "rollout_of sample_hashes ''ro-1'' db = Some r \<and> rec_Intent r = sample_intent \<and> rec_State r = Succeeded
      \<and> rec_TerminalAt r \<noteq> None \<and> only_rollout db"
    using CommitRolloutSuccess_Inr [OF sample_waiting_ok _ r] old by (auto simp: succeeded_def only_rollout_def)
  moreover have "store_step sample_hashes sample_waiting db" by (rule store_step.commit [OF r]) simp
  then have "reachable_db sample_hashes db" using sample_waiting_reachable by (simp add: reachable_db_def)
  ultimately show ?thesis using r old by auto
qed


text \<open>
  C22: A rollout is recorded as rolled back only on verified readiness evidence, and then the
  current known-good snapshot of its target is the exact previous snapshot (id and hash) its
  intent names; every other target keeps its own.
\<close>

theorem rollback_restores_previous:
  assumes "reachable_db H db" "0 < cl_now c"
    and "TransitionRollout H c ctx rid RolledBack failure resources evidence terminal db = (Inr r, db')"
  shows "rec_State r = RolledBack \<and> rec_TerminalAt r \<noteq> None \<and> rollout_of H rid db' = Some r
    \<and> (\<exists>e. evidence = Some e \<and> Validate_evidence e True False = None)
    \<and> (\<exists>k. current_of (Key_target (in_Target (rec_Intent r))) db' = Some k
         \<and> kg_ID k = in_PreviousKnownGoodID (rec_Intent r) \<and> kg_SnapshotHash k = in_PreviousKnownGoodHash (rec_Intent r))
    \<and> (\<forall>key. key \<noteq> Key_target (in_Target (rec_Intent r)) \<longrightarrow> current_of key db' = current_of key db)"
proof -
  from TransitionRollout_Inr [OF reachable_ok [OF assms(1)] assms(2,3)] obtain old x where t:
      "r = transitioned old RolledBack failure resources evidence terminal (cl_now c)\<lparr>rec_StateHash := x\<rparr>"
      "rollout_of H rid db' = Some r" "\<not> evidence_missing evidence"
      "\<exists>k. current_of (Key_target (in_Target (rec_Intent old))) db' = Some k
              \<and> kg_ID k = in_PreviousKnownGoodID (rec_Intent old) \<and> kg_SnapshotHash k = in_PreviousKnownGoodHash (rec_Intent old)"
      "\<forall>key. key \<noteq> Key_target (in_Target (rec_Intent old)) \<longrightarrow> current_of key db' = current_of key db"
    by auto
  then have "rec_Intent r = rec_Intent old" "rec_State r = RolledBack" "rec_TerminalAt r \<noteq> None"
    by (simp_all add: transitioned_def IsTerminalRolloutState_def)
  with t show ?thesis by (auto simp: evidence_missing_def split: option.splits)
qed

text \<open>A second rollout of the run: an explicit rollback of the committed one to its snapshot.\<close>

definition sample_rollback_intent :: RolloutIntent where
  "sample_rollback_intent = sample_intent\<lparr>in_RolloutID := ''ro-2'', in_PreviousKnownGoodID := ''known-ro-1'',
     in_PreviousKnownGoodHash := sample_hex\<rparr>"

lemma sample_rollback_canonical: "Canonicalize_intent sample_hashes sample_rollback_intent = Inr sample_rollback_intent"
proof -
  have "intent_error sample_hashes sample_rollback_intent = None"
    by (simp add: intent_error_None intent_reference_error_None sample_intent_def known_operation_def sample_rollback_intent_def
        sample_snapshot_def [THEN arg_cong, of sn_Target] MaxRolloutAttempts_def IsZero_def zero_time_def
        opaqueID_def ident_def char_classes)
  moreover have "intent_hash sample_hashes sample_rollback_intent = Some sample_hex"
    by (simp add: intent_hash_def sample_hashes_def)
  ultimately show ?thesis
    by (auto simp: Canonicalize_intent_Inr sample_rollback_intent_def sample_intent_def opaqueID_def ident_def char_classes)
qed

lemma no_active_rollout:
  assumes "store_ok H db" "\<And>rid r. rollout_of H rid db = Some r \<Longrightarrow> rec_TerminalAt r \<noteq> None"
  shows "find_active key db = None"
proof (cases "find_active key db")
  case (Some row)
  then have row: "row \<in> set (db_rollouts db)" "active row" by (auto simp: find_active_def find_Some_iff)
  have "find_rollout (rw_RolloutID row) db = Some row"
    unfolding find_rollout_def using assms(1) row(1)
    by (intro find_unique) (auto simp: store_ok_def rollouts_ok_def)
  from lookup_row [OF assms(1) this] assms(2) row(2) show ?thesis by metis
qed

lemma sample_current:
  "\<exists>r db k. sample_commit = (Inr r, db) \<and> reachable_db sample_hashes db \<and> only_rollout db
     \<and> rollout_of sample_hashes ''ro-1'' db = Some r \<and> rec_TerminalAt r \<noteq> None
     \<and> known_good_of ''known-ro-1'' db = Some k \<and> kg_SnapshotHash k = sample_hex \<and> kg_Target k = sample_target
     \<and> current_snapshot (Key_target sample_target) db = Some (''known-ro-1'', sample_hex)"
proof -
  obtain r db where r: "sample_commit = (Inr r, db)" "db \<noteq> sample_waiting" "reachable_db sample_hashes db"
      "rollout_of sample_hashes ''ro-1'' db = Some r" "rec_Intent r = sample_intent" "rec_TerminalAt r \<noteq> None" "only_rollout db"
    using sample_commit_result by blast
  note can = sample_known_good_canonical [OF refl, of "[''Deployment'']", simplified]
  define k where "k = sample_known_good [sample_resource ''Deployment'']\<lparr>kg_SnapshotHash := sample_hex\<rparr>"
  have k: "kg_ID k = ''known-ro-1''" "kg_Target k = sample_target" "kg_SnapshotHash k = sample_hex"
    by (simp_all add: k_def sample_known_good_def)
  have ok: "known_good_base sample_hashes db" using reachable_ok [OF r(3)] by (simp add: store_ok_def known_good_ok_def)
  have cur: "current_of (Key_target sample_target) db = Some k"
    using CommitRolloutSuccess_Inr [OF sample_waiting_ok _ r(1)] r(2,5) can
    by (auto simp: k_def succeeded_def sample_intent_def)
  then obtain sid where sid: "map_of (db_current db) (Key_target sample_target) = Some sid" "known_good_of sid db = Some k"
    by (auto simp: current_of_def split: option.splits)
  then have "sid = ''known-ro-1''" using known_good_of_Some [OF ok sid(2)] k(1) by simp
  moreover obtain s where "find_snapshot sid db = Some s" "sw_Snapshot s = Stored k"
    using sid(2) by (auto simp: known_good_of_def split: option.splits column.splits)
  moreover from this ok have "sw_Hash s = sample_hex"
    using find_snapshot_in k(3) by (fastforce simp: known_good_base_def snapshot_ok_def snapshot_row_of_def)
  ultimately show ?thesis using r sid k by (auto simp: current_snapshot_def)
qed

lemma sample_rolled_back:
  "\<exists>db r db'. reachable_db sample_hashes db \<and> 
     TransitionRollout sample_hashes (sample_call 8) None ''ro-2'' RolledBack None [] (Some sample_evidence) True db = (Inr r, db')
     \<and> rec_Intent r = sample_rollback_intent"
proof -
  obtain r1 d1 k where d1: "reachable_db sample_hashes d1" "only_rollout d1" "rollout_of sample_hashes ''ro-1'' d1 = Some r1"
      "rec_TerminalAt r1 \<noteq> None" "known_good_of ''known-ro-1'' d1 = Some k" "kg_SnapshotHash k = sample_hex"
      "kg_Target k = sample_target" "current_snapshot (Key_target sample_target) d1 = Some (''known-ro-1'', sample_hex)"
    using sample_current by blast
  have ok1: "store_ok sample_hashes d1" using d1(1) by (rule reachable_ok)
  have intent: "in_RolloutID sample_rollback_intent = ''ro-2''" "in_Target sample_rollback_intent = sample_target"
    "in_PreviousKnownGoodID sample_rollback_intent = ''known-ro-1''" "in_PreviousKnownGoodHash sample_rollback_intent = sample_hex"
    "in_Operation sample_rollback_intent = OpApply"
    by (simp_all add: sample_rollback_intent_def sample_intent_def)
  have none: "rollout_of sample_hashes ''ro-2'' d1 = None" using d1(2) by (simp add: only_rollout_def)
  have "rec_TerminalAt r \<noteq> None" if "rollout_of sample_hashes rid d1 = Some r" for rid r
    using that d1(2,3,4) by (cases "rid = ''ro-1''") (auto simp: only_rollout_def)
  then have free: "find_active (Key_target sample_target) d1 = None" by (rule no_active_rollout [OF ok1])
  have "\<exists>r db'. BeginRollout sample_hashes (sample_call 6) None sample_rollback_intent [] d1 = (Inr r, db')"
    by (rule BeginRollout_total [OF ok1 sample_rollback_canonical])
      (simp_all add: intent none free d1(8) known_good_stale_def expected_known_good_def)
  then obtain r2 d2 where run2: "BeginRollout sample_hashes (sample_call 6) None sample_rollback_intent [] d1 = (Inr r2, d2)"
    by blast
  have "store_step sample_hashes d1 d2" by (rule store_step.start [OF run2]) simp
  then have re2: "reachable_db sample_hashes d2" using d1(1) by (simp add: reachable_db_def)
  have r2: "rollout_of sample_hashes ''ro-2'' d2 = Some r2" "rec_Intent r2 = sample_rollback_intent"
      "rec_State r2 = Prepared" "rec_TerminalAt r2 = None"
    using BeginRollout_Inr [OF ok1 run2] sample_rollback_canonical none intent(1) by (auto simp: new_rollout_def)
  have s2: "db_snapshots d2 = db_snapshots d1"
    using BeginRollout_snapshots [of sample_hashes "sample_call 6" None sample_rollback_intent "[]" d1] run2 by simp
  have "\<exists>r db'. TransitionRollout sample_hashes (sample_call 7) None ''ro-2'' RollingBack None [] None False d2 = (Inr r, db')"
    by (rule TransitionRollout_total [OF reachable_ok [OF re2] r2(1)]) (use r2 in \<open>simp_all add: transition_error_None\<close>)
  then obtain r3 d3 where run3: "TransitionRollout sample_hashes (sample_call 7) None ''ro-2'' RollingBack None [] None False d2 = (Inr r3, d3)"
    by blast
  have "store_step sample_hashes d2 d3" by (rule store_step.transition [OF run3]) simp
  then have re3: "reachable_db sample_hashes d3" using re2 by (simp add: reachable_db_def)
  have r3: "rollout_of sample_hashes ''ro-2'' d3 = Some r3" "rec_Intent r3 = sample_rollback_intent"
      "rec_State r3 = RollingBack" "rec_TerminalAt r3 = None"
    using TransitionRollout_Inr [OF reachable_ok [OF re2] _ run3] r2
    by (auto simp: transitioned_def IsTerminalRolloutState_def)
  have s3: "db_snapshots d3 = db_snapshots d1"
    using TransitionRollout_snapshots [of sample_hashes "sample_call 7" None "''ro-2''" RollingBack None "[]" None False d2] run3 s2 by simp
  then have k3: "known_good_of ''known-ro-1'' d3 = Some k" using d1(5) known_good_of_cong [OF s3] by simp
  have "\<exists>r db'. TransitionRollout sample_hashes (sample_call 8) None ''ro-2'' RolledBack None [] (Some sample_evidence) True d3 = (Inr r, db')"
    by (rule TransitionRollout_total [OF reachable_ok [OF re3] r3(1)])
      (use r3 k3 d1(6,7) intent in \<open>simp_all add: transition_error_None IsTerminalRolloutState_def evidence_missing_def\<close>)
  then obtain r4 d4 where run4: "TransitionRollout sample_hashes (sample_call 8) None ''ro-2'' RolledBack None []
      (Some sample_evidence) True d3 = (Inr r4, d4)" by blast
  have "rec_Intent r4 = sample_rollback_intent"
    using TransitionRollout_Inr [OF reachable_ok [OF re3] _ run4] r3 by (auto simp: transitioned_def)
  with run4 re3 show ?thesis by blast
qed

lemma rollback_restores_previous_witness:
  "\<exists>db r db' k. TransitionRollout sample_hashes (sample_call 8) None ''ro-2'' RolledBack None [] (Some sample_evidence) True db = (Inr r, db')
     \<and> current_of (Key_target sample_target) db' = Some k \<and> kg_ID k = ''known-ro-1''"
proof -
  obtain db r db' where run: "reachable_db sample_hashes db" "rec_Intent r = sample_rollback_intent"
     "TransitionRollout sample_hashes (sample_call 8) None ''ro-2'' RolledBack None [] (Some sample_evidence) True db = (Inr r, db')"
    using sample_rolled_back by blast
  from rollback_restores_previous [OF run(1) _ run(3)] run(2,3) show ?thesis
    by (fastforce simp: sample_rollback_intent_def sample_intent_def)
qed

text \<open>
  C23: BeginRollout either replays the stored rollout with the same id and intent hash, changing
  nothing, or claims the target for a new prepared rollout: then no rollout of the target is
  active and the known-good reference the intent expects is the current one, or there is none
  and it expects none.
\<close>

theorem begin_replays_or_claims:
  assumes "reachable_db H db" and "BeginRollout H c ctx intent resources db = (Inr r, db')"
  shows "\<exists>canonical. Canonicalize_intent H intent = Inr canonical \<and> rollout_of H (in_RolloutID canonical) db' = Some r
    \<and> in_IntentHash (rec_Intent r) = in_IntentHash canonical
    \<and> (rollout_of H (in_RolloutID canonical) db = Some r \<and> db' = db
       \<or> rollout_of H (in_RolloutID canonical) db = None \<and> rec_Intent r = canonical \<and> rec_State r = Prepared
         \<and> rec_TerminalAt r = None \<and> find_active (Key_target (in_Target canonical)) db = None
         \<and> (case current_snapshot (Key_target (in_Target canonical)) db of
              None \<Rightarrow> fst (expected_known_good canonical) = [] | Some current \<Rightarrow> current = expected_known_good canonical))"
proof -
  from BeginRollout_Inr [OF reachable_ok [OF assms(1)] assms(2)] obtain canonical x where can:
      "Canonicalize_intent H intent = Inr canonical"
      and alt: "rollout_of H (in_RolloutID canonical) db = Some r \<and> in_IntentHash (rec_Intent r) = in_IntentHash canonical \<and> db' = db
       \<or> rollout_of H (in_RolloutID canonical) db = None
         \<and> r = new_rollout canonical resources (cl_now c)\<lparr>rec_StateHash := x\<rparr>
         \<and> find_active (Key_target (in_Target canonical)) db = None
         \<and> \<not> known_good_stale canonical (current_snapshot (Key_target (in_Target canonical)) db)
         \<and> rollout_of H (in_RolloutID canonical) db' = Some r"
    by (elim exE conjE) blast
  from alt have "rollout_of H (in_RolloutID canonical) db' = Some r \<and> in_IntentHash (rec_Intent r) = in_IntentHash canonical
    \<and> (rollout_of H (in_RolloutID canonical) db = Some r \<and> db' = db
       \<or> rollout_of H (in_RolloutID canonical) db = None \<and> rec_Intent r = canonical \<and> rec_State r = Prepared
         \<and> rec_TerminalAt r = None \<and> find_active (Key_target (in_Target canonical)) db = None
         \<and> (case current_snapshot (Key_target (in_Target canonical)) db of
              None \<Rightarrow> fst (expected_known_good canonical) = [] | Some current \<Rightarrow> current = expected_known_good canonical))"
    by (elim disjE) (simp_all add: new_rollout_def known_good_stale_def split: option.splits)
  with can show ?thesis by blast
qed

lemma begin_replays_or_claims_witness:
  "\<exists>r. BeginRollout sample_hashes (sample_call 1) None sample_intent [] sample_waiting = (Inr r, sample_waiting)
     \<and> in_IntentHash (rec_Intent r) = in_IntentHash sample_intent"
proof -
  obtain old where old: "rollout_of sample_hashes ''ro-1'' sample_waiting = Some old" "rec_Intent old = sample_intent"
    using sample_waiting_rollout by blast
  have run: "BeginRollout sample_hashes (sample_call 1) None sample_intent [] sample_waiting = (Inr old, sample_waiting)"
    by (rule BeginRollout_replay [OF sample_waiting_ok sample_intent_canonical]) (use old in \<open>simp_all add: sample_intent_def\<close>)
  from begin_replays_or_claims [OF sample_waiting_reachable run] sample_intent_canonical
  have "in_IntentHash (rec_Intent old) = in_IntentHash sample_intent" by auto
  with run show ?thesis by blast
qed

text \<open>
  Known-good retention: whatever operations ran, a target keeps at most 33 snapshots (the
  32 newest and the current one), and a current pointer always resolves to a stored canonical
  snapshot of its own target: pruning never removes the snapshot a rollback would restore to.
\<close>

theorem known_good_retention:
  assumes "reachable_db H db"
  shows "length (target_snapshots key db) \<le> 33
    \<and> (\<forall>sid. map_of (db_current db) key = Some sid \<longrightarrow>
         (\<exists>k. current_of key db = Some k \<and> kg_ID k = sid \<and> Key_target (kg_Target k) = key
            \<and> Canonicalize_known_good H k = Inr k))"
proof -
  have ok: "known_good_ok H db" using reachable_ok [OF assms] by (simp add: store_ok_def)
  have "length (target_snapshots key db) \<le> 33"
    using ok by (auto simp: known_good_ok_def MaxKnownGoodSnapshots_def dest: spec [of _ key])
  moreover have "\<exists>k. current_of key db = Some k \<and> kg_ID k = sid \<and> Key_target (kg_Target k) = key
      \<and> Canonicalize_known_good H k = Inr k" if "map_of (db_current db) key = Some sid" for sid
    using current_entry [of H db key sid] ok that by (auto simp: known_good_ok_def current_of_def)
  ultimately show ?thesis by blast
qed

lemma known_good_retention_witness:
  "\<exists>r db. sample_commit = (Inr r, db) \<and> length (target_snapshots (Key_target sample_target) db) \<le> 33"
  using sample_commit_result known_good_retention by blast

end
