(* ===== verification/Rollout_Store_Contract.thy ===== *)
theory Rollout_Store_Contract
  imports Rollout_Engine Rollout_Store_Properties
begin

text \<open>
  The contract between the reconciler and its store: the locale states what the engine relies on,
  and the SQLite store of Rollout_Store is shown to keep it.
\<close>

section \<open>What the engine relies on\<close>

text \<open>
  The contract of the store, over views of its state: an invariant, the record of each rollout and
  the current known-good snapshot of each target.
\<close>

locale rollout_store =
  fixes ops :: "'s store_ops"
    and sound :: "'s \<Rightarrow> bool"
    and rollout :: "string \<Rightarrow> 's \<Rightarrow> RolloutRecord option"
    and current :: "string \<Rightarrow> 's \<Rightarrow> KnownGoodSnapshot option"
  assumes transition_Inr: "sound s \<Longrightarrow> 0 < cl_now c
      \<Longrightarrow> so_transition ops c ctx rid state failure resources evidence terminal s = (Inr r, s')
      \<Longrightarrow> \<exists>old. rollout rid s = Some old \<and> rec_TerminalAt old = None \<and> CanTransitionRollout (rec_State old) state
        \<and> state \<noteq> Succeeded \<and> rec_State r = state \<and> rec_Intent r = rec_Intent old
        \<and> (rec_TerminalAt r = None \<longleftrightarrow> \<not> terminal \<and> \<not> IsTerminalRolloutState state)
        \<and> sound s' \<and> rollout rid s' = Some r \<and> (\<forall>other. other \<noteq> rid \<longrightarrow> rollout other s' = rollout other s)
        \<and> (state = RolledBack \<longrightarrow> (\<exists>k. current (Key_target (in_Target (rec_Intent old))) s' = Some k
             \<and> kg_ID k = in_PreviousKnownGoodID (rec_Intent old) \<and> kg_SnapshotHash k = in_PreviousKnownGoodHash (rec_Intent old)))"
    and transition_Inl: "so_transition ops c ctx rid state failure resources evidence terminal s = (Inl err, s') \<Longrightarrow> s' = s"
    and commit_Inr: "sound s \<Longrightarrow> 0 < cl_now c \<Longrightarrow> rollout rid s = Some old \<Longrightarrow> rec_State old = Waiting
      \<Longrightarrow> so_commit ops c ctx rid snapshot resources ready s = (Inr r, s')
      \<Longrightarrow> rec_State r = Succeeded \<and> rec_Intent r = rec_Intent old \<and> rec_TerminalAt r \<noteq> None
        \<and> sound s' \<and> rollout rid s' = Some r \<and> (\<forall>other. other \<noteq> rid \<longrightarrow> rollout other s' = rollout other s)
        \<and> (\<exists>k. current (Key_target (in_Target (rec_Intent old))) s' = Some k \<and> kg_ID k = kg_ID snapshot
             \<and> kg_Target k = kg_Target snapshot \<and> kg_Runtime k = kg_Runtime snapshot)"
    and commit_Inl: "so_commit ops c ctx rid snapshot resources ready s = (Inl err, s') \<Longrightarrow> s' = s"
    and begin_Inr: "sound s \<Longrightarrow> 0 < cl_now c \<Longrightarrow> so_begin ops c ctx intent resources s = (Inr r, s')
      \<Longrightarrow> sound s' \<and> rollout (in_RolloutID intent) s' = Some r
        \<and> (in_IntentHash intent = [] \<or> in_IntentHash (rec_Intent r) = in_IntentHash intent)
        \<and> (rollout (in_RolloutID intent) s = None \<longrightarrow> rec_State r = Prepared)
        \<and> (\<forall>other. other \<noteq> in_RolloutID intent \<longrightarrow> rollout other s' = rollout other s)"
    and begin_Inl: "so_begin ops c ctx intent resources s = (Inl err, s') \<Longrightarrow> s' = s"
    and get_Inr: "sound s \<Longrightarrow> so_get ops c ctx rid s = Inr x \<Longrightarrow> x = rollout rid s"
    and list_Inr: "sound s \<Longrightarrow> so_list ops c ctx limit s = Inr rs
      \<Longrightarrow> distinct (map (in_RolloutID \<circ> rec_Intent) rs) \<and> length rs \<le> 64
        \<and> (\<forall>r \<in> set rs. rollout (in_RolloutID (rec_Intent r)) s = Some r \<and> rec_TerminalAt r = None)"
    and clear_keeps: "sound s \<Longrightarrow> so_clear ops c ctx target s = (res, s') \<Longrightarrow> sound s' \<and> (\<forall>rid. rollout rid s' = rollout rid s)"
    and rollout_id: "sound s \<Longrightarrow> rollout rid s = Some r \<Longrightarrow> in_RolloutID (rec_Intent r) = rid"

section \<open>The SQLite store keeps the contract\<close>

lemma scan_rows_Inr: "scan_rows H rows = Inr rs \<Longrightarrow> list_all2 (\<lambda>row r. scanRollout H row = Inr r) rows rs"
  by (induction rows arbitrary: rs) (auto simp: list_all2_Cons1 split: sum.splits)

lemma list_all2_in: "list_all2 P xs ys \<Longrightarrow> y \<in> set ys \<Longrightarrow> \<exists>x \<in> set xs. P x y"
  by (induction rule: list_all2_induct) auto

lemma stored_row:
  assumes "store_ok H db" "row \<in> set (db_rollouts db)" "scanRollout H row = Inr r"
  shows "rollout_of H (rw_RolloutID row) db = Some r \<and> in_RolloutID (rec_Intent r) = rw_RolloutID row"
proof -
  have "find_rollout (rw_RolloutID row) db = Some row"
    unfolding find_rollout_def using assms(1,2) by (intro find_unique) (auto simp: store_ok_def rollouts_ok_def)
  with assms show ?thesis by (metis Inr_inject lookup_row)
qed

lemma list_all2_ids:
  "list_all2 (\<lambda>row r. scanRollout H row = Inr r) rows rs \<Longrightarrow> store_ok H db \<Longrightarrow> set rows \<subseteq> set (db_rollouts db)
     \<Longrightarrow> map (in_RolloutID \<circ> rec_Intent) rs = map rw_RolloutID rows"
  by (induction rule: list_all2_induct) (auto dest: stored_row)

lemma ListNonTerminalRollouts_Inr:
  assumes ok: "store_ok H db" and run: "ListNonTerminalRollouts H c ctx limit db = Inr rs"
  shows "distinct (map (in_RolloutID \<circ> rec_Intent) rs) \<and> length rs \<le> 64
    \<and> (\<forall>r \<in> set rs. rollout_of H (in_RolloutID (rec_Intent r)) db = Some r \<and> rec_TerminalAt r = None)"
proof -
  define n where "n = nat (if limit \<le> 0 \<or> 64 < limit then 64 else limit)"
  define rows where "rows = take n (sort_key rw_UpdatedAt (sort_key rw_RolloutID (filter active (db_rollouts db))))"
  have rs: "list_all2 (\<lambda>row r. scanRollout H row = Inr r) rows rs"
    using run scan_rows_Inr unfolding ListNonTerminalRollouts_def Let_def rows_def n_def by (auto split: sum.splits)
  have rows: "set rows \<subseteq> {row \<in> set (db_rollouts db). active row}"
    unfolding rows_def by (rule order_trans [OF set_take_subset]) auto
  have "distinct (map rw_RolloutID (filter active (db_rollouts db)))"
    using ok by (simp add: store_ok_def rollouts_ok_def distinct_map_filter)
  then have "distinct (map rw_RolloutID (sort_key rw_UpdatedAt (sort_key rw_RolloutID (filter active (db_rollouts db)))))"
    by (metis (no_types, lifting) distinct_map distinct_sort set_sort)
  then have "distinct (map rw_RolloutID rows)" by (simp add: rows_def take_map [symmetric] distinct_take)
  moreover have "map (in_RolloutID \<circ> rec_Intent) rs = map rw_RolloutID rows"
    by (rule list_all2_ids [OF rs ok]) (use rows in auto)
  moreover have "n \<le> 64" by (auto simp: n_def)
  then have "length rs \<le> 64" using list_all2_lengthD [OF rs] by (simp add: rows_def)
  moreover have "rollout_of H (in_RolloutID (rec_Intent r)) db = Some r \<and> rec_TerminalAt r = None" if "r \<in> set rs" for r
  proof -
    obtain row where row: "row \<in> set rows" "scanRollout H row = Inr r"
      using list_all2_in [OF rs \<open>r \<in> set rs\<close>] by auto
    then have "row \<in> set (db_rollouts db)" "active row" using rows by auto
    with row(2) show ?thesis
      using stored_row [OF ok] ok by (auto simp: store_ok_def rollouts_ok_def row_ok_def split: sum.splits)
  qed
  ultimately show ?thesis by simp
qed

interpretation sqlite: rollout_store "sqlite_ops H" "store_ok H" "rollout_of H" current_of for H
proof (unfold_locales, goal_cases)
  case (1 s c ctx rid state failure resources evidence terminal r s')
  then have run: "TransitionRollout H c ctx rid state failure resources evidence terminal s = (Inr r, s')"
    by (simp add: sqlite_ops_def)
  from TransitionRollout_Inr [OF 1(1,2) run] show ?case
  proof (elim exE conjE)
    fix old x assume t: "rollout_of H rid s = Some old" "transition_error old state resources terminal = None"
      "r = transitioned old state failure resources evidence terminal (cl_now c)\<lparr>rec_StateHash := x\<rparr>" "store_ok H s'"
      "rollout_of H rid s' = Some r" "\<forall>other. other \<noteq> rid \<longrightarrow> rollout_of H other s' = rollout_of H other s"
      and cur: "if state = RolledBack
       then \<not> evidence_missing evidence
         \<and> (\<exists>k. current_of (Key_target (in_Target (rec_Intent old))) s' = Some k
              \<and> kg_ID k = in_PreviousKnownGoodID (rec_Intent old) \<and> kg_SnapshotHash k = in_PreviousKnownGoodHash (rec_Intent old))
         \<and> (\<forall>key. key \<noteq> Key_target (in_Target (rec_Intent old)) \<longrightarrow> current_of key s' = current_of key s)
       else \<forall>key. current_of key s' = current_of key s"
    from t(2) have e: "rec_TerminalAt old = None" "CanTransitionRollout (rec_State old) state" "state \<noteq> Succeeded"
      by (simp_all add: transition_error_None)
    have "rec_State r = state \<and> rec_Intent r = rec_Intent old
        \<and> (rec_TerminalAt r = None \<longleftrightarrow> \<not> terminal \<and> \<not> IsTerminalRolloutState state)"
      using t(3) e(1) by (simp add: transitioned_def)
    moreover have "state = RolledBack \<longrightarrow> (\<exists>k. current_of (Key_target (in_Target (rec_Intent old))) s' = Some k
        \<and> kg_ID k = in_PreviousKnownGoodID (rec_Intent old) \<and> kg_SnapshotHash k = in_PreviousKnownGoodHash (rec_Intent old))"
      using cur by simp
    ultimately show ?thesis using t(1,4-6) e by (intro exI [of _ old]) simp
  qed
next
  case (2 c ctx rid state failure resources evidence terminal s err s')
  then show ?case by (auto simp: sqlite_ops_def TransitionRollout_def dest: run_tx_Inl)
next
  case (3 s c rid old ctx snapshot resources ready r s')
  have "rec_State old \<noteq> Succeeded" using 3(4) by simp
  with CommitRolloutSuccess_Inr [OF 3(1,2), of ctx rid snapshot resources ready r s'] 3(3,5) obtain k x where
      "Canonicalize_known_good H snapshot = Inr k" "r = succeeded old resources ready (cl_now c)\<lparr>rec_StateHash := x\<rparr>"
      "store_ok H s'" "rollout_of H rid s' = Some r" "\<forall>other. other \<noteq> rid \<longrightarrow> rollout_of H other s' = rollout_of H other s"
      "current_of (Key_target (in_Target (rec_Intent old))) s' = Some k"
    by (auto simp: sqlite_ops_def)
  then show ?case by (auto simp: succeeded_def Canonicalize_known_good_Inr)
next
  case (4 c ctx rid snapshot resources ready s err s')
  then show ?case by (auto simp: sqlite_ops_def CommitRolloutSuccess_def dest: run_tx_Inl)
next
  case (5 s c ctx intent resources r s')
  then have run: "BeginRollout H c ctx intent resources s = (Inr r, s')" by (simp add: sqlite_ops_def)
  from BeginRollout_Inr [OF 5(1) run] show ?case
  proof (elim exE conjE disjE)
    fix canonical x assume a: "Canonicalize_intent H intent = Inr canonical" "rollout_of H (in_RolloutID canonical) s = Some r"
      "in_IntentHash (rec_Intent r) = in_IntentHash canonical" "s' = s"
    then show ?case using 5(1) by (auto simp: Canonicalize_intent_Inr split: if_splits)
  next
    fix canonical x assume "Canonicalize_intent H intent = Inr canonical"
      "r = new_rollout canonical resources (cl_now c)\<lparr>rec_StateHash := x\<rparr>" "store_ok H s'"
      "rollout_of H (in_RolloutID canonical) s' = Some r"
      "\<forall>other. other \<noteq> in_RolloutID canonical \<longrightarrow> rollout_of H other s' = rollout_of H other s"
    then show ?case by (auto simp: Canonicalize_intent_Inr new_rollout_def split: if_splits)
  qed
next
  case (6 c ctx intent resources s err s')
  then show ?case by (auto simp: sqlite_ops_def BeginRollout_def dest: run_tx_Inl)
next
  case (7 s c ctx rid x)
  then show ?case
    by (auto simp: sqlite_ops_def GetRollout_def rollout_of_def split: if_splits sum.splits option.splits)
next
  case (8 s c ctx limit rs)
  then show ?case using ListNonTerminalRollouts_Inr by (fastforce simp: sqlite_ops_def)
next
  case (9 s c ctx target res s')
  then show ?case using ClearCurrentKnownGood_ok by (fastforce simp: sqlite_ops_def)
next
  case (10 s rid r)
  then show ?case by (metis lookup_row option.inject option.simps(4) rollout_of_def not_None_eq)
qed

end
