(* ===== verification/Rollout_Engine_Runs.thy ===== *)
theory Rollout_Engine_Runs
  imports Rollout_Store_Contract
begin

text \<open>
  What the reconciler of Rollout_Engine achieves. The lemmas are proved once for any store that
  keeps the contract of Rollout_Store_Contract, and instantiated for the SQLite store.
\<close>

section \<open>Outcomes\<close>

text \<open>The pointer of the target after a run that ended in a given record.\<close>

definition pointer_set :: "(string \<Rightarrow> 's \<Rightarrow> KnownGoodSnapshot option) \<Rightarrow> RolloutRecord \<Rightarrow> 's \<Rightarrow> bool" where
  "pointer_set current r s =
     (let k = current (Key_target (in_Target (rec_Intent r))) s in
      case rec_State r of
        Succeeded \<Rightarrow> (case k of None \<Rightarrow> False | Some k \<Rightarrow>
          kg_ID k = in_RolloutID (rec_Intent r) \<and> kg_Target k = in_Target (rec_Intent r) \<and> kg_Runtime k = in_Desired (rec_Intent r))
      | RolledBack \<Rightarrow> (case k of None \<Rightarrow> False | Some k \<Rightarrow>
          kg_ID k = in_PreviousKnownGoodID (rec_Intent r) \<and> kg_SnapshotHash k = in_PreviousKnownGoodHash (rec_Intent r))
      | _ \<Rightarrow> True)"

text \<open>
  The record a run returns is the stored one: a later state of the same rollout; no other rollout
  has changed; without an error it is terminal; if the run brought it to succeeded or rolled_back,
  the known-good pointer of the target is the matching one.
\<close>

definition durable :: "('s \<Rightarrow> bool) \<Rightarrow> (string \<Rightarrow> 's \<Rightarrow> RolloutRecord option) \<Rightarrow> RolloutRecord \<Rightarrow> 's \<Rightarrow> bool" where
  "durable sound rollout r s = (sound s \<and> rollout (in_RolloutID (rec_Intent r)) s = Some r)"

definition others_kept :: "(string \<Rightarrow> 's \<Rightarrow> RolloutRecord option) \<Rightarrow> string \<Rightarrow> 's \<Rightarrow> 's \<Rightarrow> bool" where
  "others_kept rollout rid s s' = (\<forall>other. other \<noteq> rid \<longrightarrow> rollout other s' = rollout other s)"

definition advanced :: "RolloutRecord \<Rightarrow> RolloutRecord \<Rightarrow> bool" where
  "advanced old r = (rec_Intent r = rec_Intent old \<and> CanTransitionRollout\<^sup>*\<^sup>* (rec_State old) (rec_State r))"

definition settled :: "('s \<Rightarrow> bool) \<Rightarrow> (string \<Rightarrow> 's \<Rightarrow> RolloutRecord option) \<Rightarrow> (string \<Rightarrow> 's \<Rightarrow> KnownGoodSnapshot option)
    \<Rightarrow> 's \<Rightarrow> RolloutRecord \<Rightarrow> outcome \<times> ('s, 'k) world \<Rightarrow> bool" where
  "settled sound rollout current s old p = (case p of ((result, err), w) \<Rightarrow> case result of None \<Rightarrow> False | Some r \<Rightarrow>
     durable sound rollout r (w_store w) \<and> advanced old r
     \<and> others_kept rollout (in_RolloutID (rec_Intent old)) s (w_store w)
     \<and> (err = None \<longrightarrow> rec_TerminalAt r \<noteq> None)
     \<and> (rec_State r \<noteq> rec_State old \<longrightarrow> pointer_set current r (w_store w)))"

text \<open>The same for a run that is given an intent: it may end before the rollout is stored.\<close>

definition reconciled :: "('s \<Rightarrow> bool) \<Rightarrow> (string \<Rightarrow> 's \<Rightarrow> RolloutRecord option) \<Rightarrow> (string \<Rightarrow> 's \<Rightarrow> KnownGoodSnapshot option)
    \<Rightarrow> RolloutIntent \<Rightarrow> 's \<Rightarrow> outcome \<times> ('s, 'k) world \<Rightarrow> bool" where
  "reconciled sound rollout current intent s p = (case p of ((result, err), w) \<Rightarrow>
     sound (w_store w) \<and> others_kept rollout (in_RolloutID intent) s (w_store w)
     \<and> (case result of
          None \<Rightarrow> err \<noteq> None \<and> rollout (in_RolloutID intent) (w_store w) = rollout (in_RolloutID intent) s
        | Some r \<Rightarrow> rollout (in_RolloutID intent) (w_store w) = Some r
            \<and> in_IntentHash (rec_Intent r) = in_IntentHash intent \<and> (err = None \<longrightarrow> rec_TerminalAt r \<noteq> None)
            \<and> (case rollout (in_RolloutID intent) s of
                 None \<Rightarrow> pointer_set current r (w_store w)
               | Some old \<Rightarrow> advanced old r \<and> (rec_State r \<noteq> rec_State old \<longrightarrow> pointer_set current r (w_store w)))))"

text \<open>Every call of the engine goes to the store \<open>ops\<close>, on a machine whose clock is past 1970.\<close>

definition runs_on :: "'s store_ops \<Rightarrow> ('s, 'p, 'k) Engine \<Rightarrow> bool" where
  "runs_on ops e = (en_store e = ops \<and> (\<forall>n. 0 < cl_now (en_calls e n)))"

section \<open>Calls and stores\<close>

lemma emit_simps [simp]:
  "w_store (emitRolloutProgress e r phase message percent err w) = w_store w"
  "w_cluster (emitRolloutProgress e r phase message percent err w) = w_cluster w"
  "w_calls (emitRolloutProgress e r phase message percent err w) = w_calls w"
  by (simp_all add: emitRolloutProgress_def)

lemma fresh_ctx_store: "fresh_ctx e c w = (ctx', w') \<Longrightarrow> w_store w' = w_store w \<and> w_cluster w' = w_cluster w"
  by (auto simp: fresh_ctx_def)

lemma runtime_call_store: "runtime_call e f w = (x, w') \<Longrightarrow> w_store w' = w_store w"
  by (auto simp: runtime_call_def split: prod.splits)

lemma store_read_store: "store_read e f w = (x, w') \<Longrightarrow> w_store w' = w_store w \<and> w_cluster w' = w_cluster w
    \<and> x = f (next_call e w) (w_store w)"
  by (auto simp: store_read_def)

lemma store_call_eq: "store_call e f w = (x, w') \<Longrightarrow>
    f (next_call e w) (w_store w) = (x, w_store w') \<and> w_cluster w' = w_cluster w"
  by (auto simp: store_call_def split: prod.splits)

lemma advanced_refl [simp]: "advanced r r"
  by (simp add: advanced_def)

lemma advanced_step: "rec_Intent r = rec_Intent old \<Longrightarrow> CanTransitionRollout (rec_State old) (rec_State r) \<Longrightarrow> advanced old r"
  by (simp add: advanced_def)

lemma advanced_trans: "advanced old mid \<Longrightarrow> advanced mid r \<Longrightarrow> advanced old r"
  by (auto simp: advanced_def)

lemma advanced_intent: "advanced old r \<Longrightarrow> rec_Intent r = rec_Intent old"
  by (simp add: advanced_def)

lemma settled_same:
  "durable sound rollout old (w_store w) \<Longrightarrow> w_store w = s \<Longrightarrow> settled sound rollout current s old ((Some old, Some err), w)"
  by (simp add: settled_def others_kept_def)

lemma settled_terminal:
  "durable sound rollout old (w_store w) \<Longrightarrow> w_store w = s \<Longrightarrow> rec_TerminalAt old \<noteq> None
     \<Longrightarrow> settled sound rollout current s old ((Some old, None), w)"
  by (simp add: settled_def others_kept_def)

lemma settled_trans:
  assumes "settled sound rollout current s' mid p" "advanced old mid"
    "others_kept rollout (in_RolloutID (rec_Intent old)) s s'"
    "rec_State mid = rec_State old \<or> rec_State mid \<notin> {Succeeded, RolledBack}"
  shows "settled sound rollout current s old p"
proof -
  obtain result err w where p: "p = ((result, err), w)" by (metis prod.exhaust)
  obtain r where r: "result = Some r" using assms(1) p by (auto simp: settled_def split: option.splits)
  have "pointer_set current r (w_store w)" if "rec_State r \<noteq> rec_State old"
  proof (cases "rec_State r = rec_State mid")
    case True
    with that assms(4) show ?thesis by (auto simp: pointer_set_def split: RolloutState.splits)
  next
    case False
    then show ?thesis using assms(1) p r by (simp add: settled_def)
  qed
  then show ?thesis using assms p r by (auto simp: settled_def others_kept_def advanced_intent intro: advanced_trans)
qed

section \<open>Runs over a store that keeps the contract\<close>

context rollout_store
begin

lemma settled_transition:
  assumes run: "runs_on ops e" and w: "w_store w = s" and stored: "durable sound rollout record s" and st: "state \<noteq> RolledBack"
    and ok: "\<And>r w'. durable sound rollout r (w_store w') \<Longrightarrow> rec_State r = state \<Longrightarrow> rec_Intent r = rec_Intent record
      \<Longrightarrow> (rec_TerminalAt r = None \<longleftrightarrow> \<not> terminal \<and> \<not> IsTerminalRolloutState state)
      \<Longrightarrow> settled sound rollout current (w_store w') r (k r w')"
  shows "settled sound rollout current s record
    (on_result (transition e ctx record state failure resources evidence terminal w) (\<lambda>err w. ((Some record, Some err), w)) k)"
proof -
  obtain x w' where t: "transition e ctx record state failure resources evidence terminal w = (x, w')" by fastforce
  then have call: "so_transition ops (next_call e w) ctx (in_RolloutID (rec_Intent record)) state failure resources evidence terminal
      s = (x, w_store w')"
    using run w store_call_eq [of e _ w x w'] by (auto simp: transition_def runs_on_def)
  have clock: "0 < cl_now (next_call e w)" using run by (simp add: runs_on_def next_call_def)
  show ?thesis
  proof (cases x)
    case (Inl err)
    then have "w_store w' = s" using call transition_Inl by blast
    with stored show ?thesis by (simp add: t on_result_def Inl settled_same)
  next
    case (Inr r)
    note law = transition_Inr [OF _ clock call [unfolded Inr]]
    have r: "CanTransitionRollout (rec_State record) state" "rec_State r = state" "rec_Intent r = rec_Intent record"
        "rec_TerminalAt r = None \<longleftrightarrow> \<not> terminal \<and> \<not> IsTerminalRolloutState state" "state \<noteq> Succeeded"
        "durable sound rollout r (w_store w')" "others_kept rollout (in_RolloutID (rec_Intent record)) s (w_store w')"
      using law stored by (auto simp: durable_def others_kept_def)
    have "settled sound rollout current (w_store w') r (k r w')" using r by (intro ok) auto
    moreover have "advanced record r" using r(1-3) by (simp add: advanced_step)
    moreover have "rec_State r \<notin> {Succeeded, RolledBack}" using r(2,5) st by simp
    ultimately have "settled sound rollout current s record (k r w')" 
      by (intro settled_trans [OF _ _ r(7)]) auto
    then show ?thesis by (simp add: t on_result_def Inr)
  qed
qed

text \<open>A run that ends with the transition, rolled_back included.\<close>

lemma settled_last_transition:
  assumes run: "runs_on ops e" and w: "w_store w = s" and stored: "durable sound rollout record s"
    and fin: "terminal \<or> IsTerminalRolloutState state"
    and ok: "\<And>r w'. \<exists>err. fst (k r w') = (Some r, err) \<and> w_store (snd (k r w')) = w_store w'"
  shows "settled sound rollout current s record
    (on_result (transition e ctx record state failure resources evidence terminal w) (\<lambda>err w. ((Some record, Some err), w)) k)"
proof -
  obtain x w' where t: "transition e ctx record state failure resources evidence terminal w = (x, w')" by fastforce
  then have call: "so_transition ops (next_call e w) ctx (in_RolloutID (rec_Intent record)) state failure resources evidence terminal
      s = (x, w_store w')"
    using run w store_call_eq [of e _ w x w'] by (auto simp: transition_def runs_on_def)
  have clock: "0 < cl_now (next_call e w)" using run by (simp add: runs_on_def next_call_def)
  show ?thesis
  proof (cases x)
    case (Inl err)
    then have "w_store w' = s" using call transition_Inl by blast
    with stored show ?thesis by (simp add: t on_result_def Inl settled_same)
  next
    case (Inr r)
    note law = transition_Inr [OF _ clock call [unfolded Inr]]
    have r: "CanTransitionRollout (rec_State record) state" "rec_State r = state" "rec_Intent r = rec_Intent record"
        "rec_TerminalAt r \<noteq> None" "state \<noteq> Succeeded"
        "durable sound rollout r (w_store w')" "others_kept rollout (in_RolloutID (rec_Intent record)) s (w_store w')"
      using law stored fin by (auto simp: durable_def others_kept_def)
    have prev: "state = RolledBack \<longrightarrow> (\<exists>k. current (Key_target (in_Target (rec_Intent record))) (w_store w') = Some k
        \<and> kg_ID k = in_PreviousKnownGoodID (rec_Intent record) \<and> kg_SnapshotHash k = in_PreviousKnownGoodHash (rec_Intent record))"
      using law stored by (auto simp: durable_def)
    have "pointer_set current r (w_store w')"
      using prev r(2,3,5) by (cases state) (auto simp: pointer_set_def)
    obtain err w'' where "k r w' = ((Some r, err), w'')" "w_store w'' = w_store w'" using ok [of r w'] by (metis prod.collapse)
    moreover have "advanced record r" using r(1-3) by (simp add: advanced_step)
    ultimately show ?thesis using r \<open>pointer_set current r (w_store w')\<close> by (simp add: t on_result_def Inr settled_def)
  qed
qed

lemma settled_runtime_call:
  assumes w: "w_store w = s"
    and "\<And>err w'. w_store w' = s \<Longrightarrow> settled sound rollout current s record (fail err w')"
    and "\<And>x w'. w_store w' = s \<Longrightarrow> settled sound rollout current s record (k x w')"
  shows "settled sound rollout current s record (on_result (runtime_call e f w) fail k)"
proof -
  obtain x w' where c: "runtime_call e f w = (x, w')" by fastforce
  then have "w_store w' = s" using w runtime_call_store by metis
  with assms(2,3) show ?thesis by (cases x) (simp_all add: c on_result_def)
qed

lemma settled_with_plan:
  assumes "w_store w = s"
    and "\<And>err w'. w_store w' = s \<Longrightarrow> settled sound rollout current s record (fail err w')"
    and "\<And>x w'. w_store w' = s \<Longrightarrow> settled sound rollout current s record (k x w')"
  shows "settled sound rollout current s record (on_result (with_plan e ctx r plan w) fail k)"
  using assms settled_runtime_call [OF assms] by (cases plan) (auto simp: with_plan_def on_result_def)

lemma settled_rollbackFailed:
  assumes "runs_on ops e" "w_store w = s" "durable sound rollout record s"
  shows "settled sound rollout current s record (rollbackFailed e ctx record cause w)"
  unfolding rollbackFailed_def Let_def
  by (rule settled_last_transition [OF assms]) auto

lemma settled_finish_rollback:
  assumes "runs_on ops e" "w_store w = s" "durable sound rollout record s"
  shows "settled sound rollout current s record (finish_rollback e ctx record evidence resources w)"
  using assms unfolding finish_rollback_def
  by (auto intro!: settled_rollbackFailed settled_last_transition)

lemma settled_restore_runtime:
  assumes "runs_on ops e" "w_store w = s" "durable sound rollout record s"
  shows "settled sound rollout current s record (restore_runtime e ctx record runtime w)"
  unfolding restore_runtime_def
  by (intro settled_runtime_call)
    (use assms in \<open>auto intro!: settled_rollbackFailed settled_finish_rollback split: prod.splits\<close>)

lemma settled_resumeRollback:
  assumes "runs_on ops e" "w_store w = s" "durable sound rollout record s"
  shows "settled sound rollout current s record (resumeRollback e ctx record w)"
proof -
  obtain c w1 where f: "fresh_ctx e ctx w = (c, w1)" by fastforce
  obtain x w2 where g: "store_read e (\<lambda>ca. so_known_good (en_store e) ca c (in_PreviousKnownGoodID (rec_Intent record))) w1 = (x, w2)"
    by fastforce
  have "w_store w2 = s" using fresh_ctx_store [OF f] store_read_store [OF g] assms(2) by simp
  with assms show ?thesis
    by (auto simp: resumeRollback_def f g Let_def intro!: settled_rollbackFailed settled_restore_runtime
        split: sum.splits option.splits)
qed

lemma settled_rollback:
  assumes "runs_on ops e" "w_store w = s" "durable sound rollout record s"
  shows "settled sound rollout current s record (rollback e ctx record w)"
  unfolding rollback_def
  by (rule settled_transition [OF assms]) (use assms in \<open>auto intro!: settled_resumeRollback\<close>)

lemma settled_startExplicitRollback:
  assumes "runs_on ops e" "w_store w = s" "durable sound rollout record s"
  shows "settled sound rollout current s record (startExplicitRollback e ctx record w)"
  unfolding startExplicitRollback_def
  by (rule settled_transition [OF assms]) (use assms in \<open>auto intro!: settled_resumeRollback\<close>)

lemma settled_failAndRollback:
  assumes "runs_on ops e" "w_store w = s" "durable sound rollout record s"
  shows "settled sound rollout current s record (failAndRollback e ctx record cause w)"
proof -
  obtain c w1 where f: "fresh_ctx e ctx w = (c, w1)" by fastforce
  then have w1: "w_store w1 = s" using assms(2) by (simp add: fresh_ctx_store)
  show ?thesis
  proof (cases "in_PreviousKnownGoodID (rec_Intent record) = []")
    case True
    show ?thesis unfolding failAndRollback_def f Let_def prod.case
      by (rule settled_last_transition [OF assms(1) w1 assms(3)]) (use True in auto)
  next
    case False
    show ?thesis unfolding failAndRollback_def f Let_def prod.case
      by (rule settled_transition [OF assms(1) w1 assms(3)]) (use False assms in \<open>auto intro!: settled_rollback\<close>)
  qed
qed

lemma settled_commit_ready:
  assumes "runs_on ops e" "w_store w = s" "durable sound rollout record s" "rec_State record = Waiting"
  shows "settled sound rollout current s record (commit_ready e ctx record evidence resources w)"
proof (cases "Validate_evidence evidence True False = None")
  case True
  note valid = True
  show ?thesis
  proof (cases "Hash_evidence (en_hashes e) evidence")
    case None
    with assms valid show ?thesis by (simp add: commit_ready_def settled_same)
  next
    case (Some h)
    show ?thesis
    proof (cases "Canonicalize_known_good (en_hashes e) (snapshot_of record resources h evidence)")
      case (Inl err)
      with assms valid Some show ?thesis by (simp add: commit_ready_def settled_failAndRollback)
    next
      case (Inr k)
      obtain x w' where c: "store_call e (\<lambda>c. so_commit (en_store e) c ctx (in_RolloutID (rec_Intent record)) k
          (sort_key resource_key resources) evidence) w = (x, w')" by fastforce
      then have call: "so_commit ops (next_call e w) ctx (in_RolloutID (rec_Intent record)) k
          (sort_key resource_key resources) evidence s = (x, w_store w')"
        using assms(1,2) store_call_eq [OF c] by (simp add: runs_on_def)
      have clock: "0 < cl_now (next_call e w)" using assms(1) by (simp add: runs_on_def next_call_def)
      have k: "kg_ID k = in_RolloutID (rec_Intent record)" "kg_Target k = in_Target (rec_Intent record)"
          "kg_Runtime k = in_Desired (rec_Intent record)"
        using Inr by (auto simp: Canonicalize_known_good_Inr snapshot_of_def)
      have run: "commit_ready e ctx record evidence resources w = (case x of Inl err \<Rightarrow> ((Some record, Some err), w')
          | Inr r \<Rightarrow> ((Some r, None), emitRolloutProgress e r ''success'' ''runtime snapshot verified and committed as known-good'' 100 NoError w'))"
        using valid Some Inr by (simp add: commit_ready_def c on_result_def)
      show ?thesis
      proof (cases x)
        case (Inl err)
        then have "w_store w' = s" using call commit_Inl by blast
        with assms(3) show ?thesis by (simp add: run Inl settled_same)
      next
        case (Inr r)
        note law = commit_Inr [OF _ clock _ assms(4) call [unfolded Inr]]
        show ?thesis
          using law assms(3,4) k
          by (auto simp: run Inr settled_def durable_def others_kept_def advanced_def pointer_set_def intro!: r_into_rtranclp)
      qed
    qed
  qed
qed (use assms in \<open>auto simp: commit_ready_def intro: settled_failAndRollback\<close>)

lemma settled_resume_waiting:
  assumes "runs_on ops e" "w_store w = s" "durable sound rollout record s" "rec_State record = Waiting"
  shows "settled sound rollout current s record (resume_waiting e ctx record plan w)"
proof -
  obtain c w1 where f: "fresh_ctx e ctx w = (c, w1)" by fastforce
  then have w1: "w_store w1 = s" using assms(2) by (simp add: fresh_ctx_store)
  show ?thesis unfolding resume_waiting_def f Let_def prod.case
    by (intro settled_with_plan settled_runtime_call w1)
      (use assms in \<open>auto intro!: settled_failAndRollback settled_commit_ready split: prod.splits\<close>)
qed

lemma settled_resume_applying:
  assumes "runs_on ops e" "w_store w = s" "durable sound rollout record s"
  shows "settled sound rollout current s record (resume_applying e ctx record plan w)"
proof -
  obtain c w1 where f: "fresh_ctx e ctx w = (c, w1)" by fastforce
  then have w1: "w_store w1 = s" using assms(2) by (simp add: fresh_ctx_store)
  show ?thesis unfolding resume_applying_def f Let_def prod.case
    by (intro settled_with_plan settled_runtime_call settled_transition w1)
      (use assms in \<open>auto intro!: settled_failAndRollback settled_resume_waiting\<close>)
qed

lemma settled_resume_prepared:
  assumes "runs_on ops e" "w_store w = s" "durable sound rollout record s"
  shows "settled sound rollout current s record (resume_prepared e ctx record plan w)"
  unfolding resume_prepared_def Let_def
  using assms by (auto intro!: settled_same settled_transition settled_resume_applying)

lemma settled_resumeRollout:
  assumes "runs_on ops e" "w_store w = s" "durable sound rollout record s"
  shows "settled sound rollout current s record (resumeRollout e ctx record plan w)"
proof -
  have "settled sound rollout current s record
    (if rec_TerminalAt record \<noteq> None then ((Some record, None), w) else ((Some record, Some err), w))" for err
    using assms by (auto simp: settled_def others_kept_def)
  then show ?thesis
    using assms by (auto simp: resumeRollout_def intro!: settled_resume_prepared settled_resume_applying
        settled_resume_waiting settled_rollback settled_resumeRollback split: RolloutState.splits)
qed

lemma settled_resume_existing:
  assumes "runs_on ops e" "w_store w = s" "durable sound rollout record s"
  shows "settled sound rollout current s record (resume_existing e ctx record plan w)"
  using assms by (auto simp: resume_existing_def intro!: settled_startExplicitRollback settled_resumeRollout)

lemma settled_cleanup_waiting:
  assumes "runs_on ops e" "w_store w = s" "durable sound rollout record s"
  shows "settled sound rollout current s record (cleanup_waiting e ctx record w)"
  unfolding cleanup_waiting_def by (rule settled_last_transition [OF assms]) auto

lemma cleanup_call_store: "cleanup_call e ctx record = Inr run \<Longrightarrow> run w = (x, w') \<Longrightarrow> w_store w' = w_store w"
  by (auto simp: cleanup_call_def Let_def dest: runtime_call_store split: if_splits option.splits)

lemma settled_cleanup_applying:
  assumes "runs_on ops e" "w_store w = s" "durable sound rollout record s"
  shows "settled sound rollout current s record (cleanup_applying e ctx record w)"
proof (cases "cleanup_call e ctx record")
  case (Inl err)
  with assms show ?thesis by (simp add: cleanup_applying_def settled_same)
next
  case (Inr run)
  obtain x w' where x: "run w = (x, w')" by fastforce
  then have w': "w_store w' = s" using cleanup_call_store [OF Inr x] assms(2) by simp
  show ?thesis
  proof (cases x)
    case None
    with assms w' show ?thesis
      by (auto simp: cleanup_applying_def Inr x intro!: settled_transition settled_cleanup_waiting)
  next
    case (Some err)
    with assms w' show ?thesis
      by (auto simp: cleanup_applying_def Inr x intro!: settled_last_transition)
  qed
qed

lemma settled_resumeCleanup:
  assumes "runs_on ops e" "w_store w = s" "durable sound rollout record s"
  shows "settled sound rollout current s record (resumeCleanup e ctx record w)"
proof (cases "rec_TerminalAt record")
  case None
  with assms show ?thesis
    by (auto simp: resumeCleanup_def intro!: settled_same settled_transition settled_cleanup_applying settled_cleanup_waiting)
next
  case (Some t)
  with assms show ?thesis by (simp add: resumeCleanup_def settled_def others_kept_def)
qed

lemma reconciled_nothing:
  assumes "sound (w_store w)" "\<forall>rid. rollout rid (w_store w) = rollout rid s"
  shows "reconciled sound rollout current intent s ((None, Some err), w)"
  using assms by (simp add: reconciled_def others_kept_def)

lemma reconciled_existing:
  assumes "settled sound rollout current s old p" "rollout (in_RolloutID intent) s = Some old" "sound s"
    "in_IntentHash (rec_Intent old) = in_IntentHash intent"
  shows "reconciled sound rollout current intent s p"
  using assms rollout_id [OF assms(3,2)]
  by (auto simp: reconciled_def settled_def durable_def advanced_intent split: option.splits)

lemma reconciled_new:
  assumes "settled sound rollout current s' r p" "rollout (in_RolloutID intent) s = None" "durable sound rollout r s'"
    "rec_State r = Prepared" "in_RolloutID (rec_Intent r) = in_RolloutID intent"
    "in_IntentHash (rec_Intent r) = in_IntentHash intent" "others_kept rollout (in_RolloutID intent) s s'"
  shows "reconciled sound rollout current intent s p"
proof -
  obtain result err w where p: "p = ((result, err), w)" by (metis prod.exhaust)
  obtain r' where r': "result = Some r'" using assms(1) p by (auto simp: settled_def split: option.splits)
  have "pointer_set current r' (w_store w)"
    using assms(1,4) p r' by (cases "rec_State r' = Prepared") (auto simp: settled_def pointer_set_def)
  then show ?thesis
    using assms p r' by (auto simp: reconciled_def settled_def durable_def advanced_intent others_kept_def)
qed

lemma begin_new:
  assumes run: "runs_on ops e" and w: "sound (w_store w)" and new: "rollout (in_RolloutID intent) (w_store w) = None"
    and hash: "in_IntentHash intent \<noteq> []"
    and c: "store_call e (\<lambda>c. so_begin (en_store e) c ctx intent resources) w = (Inr r, w')"
  shows "durable sound rollout r (w_store w') \<and> rec_State r = Prepared \<and> in_RolloutID (rec_Intent r) = in_RolloutID intent
    \<and> in_IntentHash (rec_Intent r) = in_IntentHash intent \<and> others_kept rollout (in_RolloutID intent) (w_store w) (w_store w')"
proof -
  have "so_begin ops (next_call e w) ctx intent resources (w_store w) = (Inr r, w_store w')"
    using run store_call_eq [OF c] by (simp add: runs_on_def)
  moreover have "0 < cl_now (next_call e w)" using run by (simp add: runs_on_def next_call_def)
  ultimately have b: "sound (w_store w')" "rollout (in_RolloutID intent) (w_store w') = Some r"
      "in_IntentHash (rec_Intent r) = in_IntentHash intent" "rec_State r = Prepared"
      "\<forall>other. other \<noteq> in_RolloutID intent \<longrightarrow> rollout other (w_store w') = rollout other (w_store w)"
    using begin_Inr [OF w] new hash by blast+
  then show ?thesis using rollout_id [OF b(1,2)] by (simp add: durable_def others_kept_def)
qed

lemma begin_failed:
  assumes "runs_on ops e" "store_call e (\<lambda>c. so_begin (en_store e) c ctx intent resources) w = (Inl err, w')"
  shows "w_store w' = w_store w"
  using assms begin_Inl store_call_eq [OF assms(2)] unfolding runs_on_def by metis

lemma validate_keeps:
  assumes run: "runs_on ops e" and w: "sound (w_store w)" and v: "validatePreviousKnownGood e ctx intent w = (err, w')"
  shows "sound (w_store w') \<and> (\<forall>rid. rollout rid (w_store w') = rollout rid (w_store w))"
proof -
  obtain x w1 where c: "store_read e (\<lambda>c. so_current (en_store e) c ctx (in_Target intent)) w = (x, w1)" by fastforce
  note w1 = store_read_store [OF c]
  show ?thesis
  proof (cases "\<exists>k. x = Inr (Some k) \<and> fst (expected_known_good intent) = []")
    case False
    then have "w' = w1" using v by (auto simp: validatePreviousKnownGood_def c on_result_def Let_def split: sum.splits option.splits if_splits)
    then show ?thesis using w w1 by simp
  next
    case True
    then obtain k where k: "x = Inr (Some k)" "fst (expected_known_good intent) = []" by blast
    obtain y w2 where g: "store_read e (\<lambda>c. so_get (en_store e) c ctx (kg_ID k)) w1 = (y, w2)" by fastforce
    obtain z w3 where h: "store_call e (\<lambda>c. so_clear (en_store e) c ctx (in_Target intent)) w2 = (z, w3)" by fastforce
    have w2: "w_store w2 = w_store w" using store_read_store [OF g] w1 by simp
    have "so_clear ops (next_call e w2) ctx (in_Target intent) (w_store w) = (z, w_store w3)"
      using run store_call_eq [OF h] w2 by (simp add: runs_on_def)
    note w3 = clear_keeps [OF w this]
    have "w' = w2 \<or> w' = w3"
      using v by (auto simp: validatePreviousKnownGood_def c k g h on_result_def Let_def split: sum.splits if_splits)
    then show ?thesis using w w2 w3 by auto
  qed
qed

lemma reconciled_start_rollout:
  assumes run: "runs_on ops e" and w: "sound (w_store w)" and new: "rollout (in_RolloutID intent) (w_store w) = None"
    and hash: "in_IntentHash intent \<noteq> []"
  shows "reconciled sound rollout current intent (w_store w) (start_rollout e ctx intent w)"
proof -
  obtain v w1 where v: "validatePreviousKnownGood e ctx intent w = (v, w1)" by fastforce
  note w1 = validate_keeps [OF run w v]
  obtain x w2 where x: "runtime_call e (\<lambda>c. rt_prepare (en_runtime e) c ctx (in_Desired intent)) w1 = (x, w2)" by fastforce
  have w2: "w_store w2 = w_store w1" by (rule runtime_call_store [OF x])
  show ?thesis
  proof (cases "v = None \<and> (\<exists>plan. x = Inr plan)")
    case False
    then have "\<exists>err w'. start_rollout e ctx intent w = ((None, Some err), w') \<and> w_store w' = w_store w1"
      using w2 by (cases v; cases x) (auto simp: start_rollout_def v x on_result_def)
    then obtain err w' where "start_rollout e ctx intent w = ((None, Some err), w')" "w_store w' = w_store w1" by blast
    then show ?thesis using w1 by (simp add: reconciled_nothing)
  next
    case True
    then obtain plan where plan: "v = None" "x = Inr plan" by blast
    obtain y w3 where y: "store_call e (\<lambda>c. so_begin (en_store e) c ctx intent (planObservedIdentities (en_runtime e) plan)) w2 = (y, w3)"
      by fastforce
    show ?thesis
    proof (cases y)
      case (Inl err)
      have "w_store w3 = w_store w1" using begin_failed [OF run y [unfolded Inl]] w2 by simp
      then show ?thesis using w1 by (simp add: start_rollout_def v x plan y Inl on_result_def reconciled_nothing)
    next
      case (Inr r)
      have r: "durable sound rollout r (w_store w3)" "rec_State r = Prepared" "in_RolloutID (rec_Intent r) = in_RolloutID intent"
          "in_IntentHash (rec_Intent r) = in_IntentHash intent" "others_kept rollout (in_RolloutID intent) (w_store w2) (w_store w3)"
        using begin_new [OF run _ _ hash y [unfolded Inr]] w1 w2 new by simp_all
      have "settled sound rollout current (w_store w3) r (start_rollout e ctx intent w)"
        using run r(1) by (auto simp: start_rollout_def v x plan y Inr on_result_def
            intro!: settled_resume_existing settled_terminal)
      then show ?thesis
        by (rule reconciled_new) (use r w1 w2 new in \<open>simp_all add: others_kept_def\<close>)
    qed
  qed
qed

lemma reconciled_reconcileCleanup:
  assumes run: "runs_on ops e" and w: "sound (w_store w)" and hash: "in_IntentHash intent \<noteq> []"
  shows "reconciled sound rollout current intent (w_store w) (reconcileCleanup e ctx intent w)"
proof -
  obtain x w1 where x: "store_read e (\<lambda>c. so_get (en_store e) c ctx (in_RolloutID intent)) w = (x, w1)" by fastforce
  note read = store_read_store [OF x]
  then have w1: "w_store w1 = w_store w" by simp
  show ?thesis
  proof (cases x)
    case (Inl err)
    then show ?thesis using w w1 by (simp add: reconcileCleanup_def x on_result_def reconciled_nothing)
  next
    case (Inr found)
    have found: "found = rollout (in_RolloutID intent) (w_store w)"
      using run read Inr get_Inr [OF w] by (simp add: runs_on_def)
    show ?thesis
    proof (cases found)
      case (Some r)
      have d: "durable sound rollout r (w_store w)" using w found Some rollout_id [OF w] by (simp add: durable_def)
      show ?thesis
      proof (cases "in_IntentHash (rec_Intent r) = in_IntentHash intent")
        case True
        have "reconcileCleanup e ctx intent w = resumeCleanup e ctx r w1"
          using True by (simp add: reconcileCleanup_def x on_result_def Inr Some)
        moreover have "settled sound rollout current (w_store w) r (resumeCleanup e ctx r w1)"
          by (rule settled_resumeCleanup) (use run w1 d in auto)
        ultimately show ?thesis using reconciled_existing [OF _ _ w True] found Some by simp
      qed (use w w1 in \<open>simp add: reconcileCleanup_def x on_result_def Inr Some reconciled_nothing\<close>)
    next
      case None
      obtain y w2 where y: "store_call e (\<lambda>c. so_begin (en_store e) c ctx intent []) w1 = (y, w2)" by fastforce
      show ?thesis
      proof (cases "cleanup_authority_bad (en_hashes e) intent")
        case True
        then show ?thesis using w w1 by (simp add: reconcileCleanup_def x on_result_def Inr None reconciled_nothing)
      next
        case False
        note unfolded = reconcileCleanup_def x on_result_def Inr None False y
        show ?thesis
        proof (cases y)
          case (Inl err)
          have "w_store w2 = w_store w" using begin_failed [OF run y [unfolded Inl]] w1 by simp
          then show ?thesis using w by (simp add: unfolded Inl reconciled_nothing)
        next
          case (Inr r)
          note r = begin_new [OF run _ _ hash y [unfolded Inr]]
          have "settled sound rollout current (w_store w2) r (resumeCleanup e ctx r w2)"
            by (rule settled_resumeCleanup) (use run r w w1 found None in auto)
          then have "reconciled sound rollout current intent (w_store w) (resumeCleanup e ctx r w2)"
            by (rule reconciled_new) (use r w w1 found None in auto)
          then show ?thesis by (simp add: unfolded Inr)
        qed
      qed
    qed
  qed
qed

lemma reconciled_ReconcileRollout:
  assumes run: "runs_on ops e" and w: "sound (w_store w)" and can: "Canonicalize_intent (en_hashes e) intent = Inr canonical"
    and hash: "in_IntentHash canonical \<noteq> []"
  shows "reconciled sound rollout current canonical (w_store w) (ReconcileRollout e ctx intent w)"
proof -
  obtain x w1 where x: "store_read e (\<lambda>c. so_get (en_store e) c ctx (in_RolloutID canonical)) w = (x, w1)" by fastforce
  note read = store_read_store [OF x]
  then have w1: "w_store w1 = w_store w" by simp
  note start = ReconcileRollout_def can sum.case
  consider (off) "\<not> en_configured e" | (cleanup) "en_configured e" "cleanupOperation (in_Operation canonical)"
    | (error) err where "en_configured e" "\<not> cleanupOperation (in_Operation canonical)" "x = Inl err"
    | (found) found where "en_configured e" "\<not> cleanupOperation (in_Operation canonical)" "x = Inr found"
    by (cases x) auto
  then show ?thesis
  proof cases
    case found
    have f: "found = rollout (in_RolloutID canonical) (w_store w)"
      using run read found(3) get_Inr [OF w] by (simp add: runs_on_def)
    note step = start x on_result_def found(3) prod.case
    show ?thesis
    proof (cases found)
      case None
      then show ?thesis using found(1,2) reconciled_start_rollout [OF run, of w1] w w1 f hash
        by (simp add: step)
    next
      case (Some r)
      have d: "durable sound rollout r (w_store w)" using w f Some rollout_id [OF w] by (simp add: durable_def)
      show ?thesis
      proof (cases "in_IntentHash (rec_Intent r) = in_IntentHash canonical")
        case True
        have "settled sound rollout current (w_store w) r (ReconcileRollout e ctx intent w)"
          using found(1,2) Some True run w1 d
          by (auto simp: step intro!: settled_resumeCleanup settled_resume_existing settled_terminal)
        then show ?thesis using reconciled_existing [OF _ _ w True] f Some by simp
      qed (use w w1 found(1,2) Some in \<open>simp add: step reconciled_nothing\<close>)
    qed
  qed (use w w1 hash in \<open>auto simp: start x on_result_def intro!: reconciled_nothing reconciled_reconcileCleanup [OF run]\<close>)
qed

text \<open>The loop over the pending rollouts: results line up with the first records of the list.\<close>

lemma pending_loop_settled:
  assumes run: "runs_on ops e"
  shows "pending_loop e ctx records w = ((results, err), w') \<Longrightarrow> sound (w_store w)
    \<Longrightarrow> distinct (map (in_RolloutID \<circ> rec_Intent) records)
    \<Longrightarrow> \<forall>r \<in> set records. rollout (in_RolloutID (rec_Intent r)) (w_store w) = Some r
    \<Longrightarrow> sound (w_store w') \<and> length results \<le> length records \<and> (err = None \<longrightarrow> length results = length records)
      \<and> list_all2 (\<lambda>old result. \<exists>r. result = Some r \<and> advanced old r
           \<and> rollout (in_RolloutID (rec_Intent old)) (w_store w') = Some r \<and> (err = None \<longrightarrow> rec_TerminalAt r \<noteq> None))
         (take (length results) records) results
      \<and> (\<forall>rid. rid \<notin> (in_RolloutID \<circ> rec_Intent) ` set (take (length results) records)
           \<longrightarrow> rollout rid (w_store w') = rollout rid (w_store w))"
proof (induction records arbitrary: w results err w')
  case Nil
  then show ?case by auto
next
  case (Cons first records)
  define p where "p = (if cleanupOperation (in_Operation (rec_Intent first)) then resumeCleanup e ctx first w
                        else resume_existing e ctx first None w)"
  have "settled sound rollout current (w_store w) first p"
    using Cons.prems run by (auto simp: p_def durable_def intro!: settled_resumeCleanup settled_resume_existing)
  then obtain r err1 w1 where p: "p = ((Some r, err1), w1)" and r: "durable sound rollout r (w_store w1)" "advanced first r"
      "others_kept rollout (in_RolloutID (rec_Intent first)) (w_store w) (w_store w1)"
      "err1 = None \<longrightarrow> rec_TerminalAt r \<noteq> None"
    by (auto simp: settled_def split: prod.splits option.splits)
  have rid: "in_RolloutID (rec_Intent r) = in_RolloutID (rec_Intent first)" using r(2) by (simp add: advanced_def)
  show ?case
  proof (cases err1)
    case (Some failure)
    then have "results = [Some r]" "err = Some failure" "w' = w1"
      using Cons.prems(1) p by (auto simp: p_def [symmetric])
    then show ?thesis using r rid by (auto simp: durable_def others_kept_def)
  next
    case None
    obtain results' where rest: "pending_loop e ctx records w1 = ((results', err), w')" "results = Some r # results'"
      using Cons.prems(1) p None by (auto simp: p_def [symmetric] split: prod.splits)
    have "\<forall>x \<in> set records. rollout (in_RolloutID (rec_Intent x)) (w_store w1) = Some x"
    proof
      fix x assume x: "x \<in> set records"
      then have "in_RolloutID (rec_Intent x) \<noteq> in_RolloutID (rec_Intent first)" using Cons.prems(3) by (force simp: image_iff)
      then show "rollout (in_RolloutID (rec_Intent x)) (w_store w1) = Some x"
        using x Cons.prems(4) r(3) by (simp add: others_kept_def)
    qed
    note IH = Cons.IH [OF rest(1) _ _ this]
    have "in_RolloutID (rec_Intent first) \<notin> (in_RolloutID \<circ> rec_Intent) ` set (take (length results') records)"
      using Cons.prems(3) by (auto dest: in_set_takeD)
    then have "rollout (in_RolloutID (rec_Intent first)) (w_store w') = Some r"
      using IH Cons.prems(3) r(1) rid by (simp add: durable_def)
    then show ?thesis using IH Cons.prems(3) r rest(2) None by (auto simp: durable_def others_kept_def)
  qed
qed

end

end
