(* ===== verification/Rollout_Engine_Liveness.thy ===== *)
theory Rollout_Engine_Liveness
  imports Rollout_Engine_Runs
begin

text \<open>
  When a run of the reconciler ends with a terminal record. The contract of the store is extended
  by what a working store (no statement fails, the context of the call is not done) lets happen;
  the SQLite store keeps the extended contract too.
\<close>

section \<open>A store that works\<close>

text \<open>
  \<open>unused\<close> says that no snapshot of a rollout is stored yet, \<open>working\<close> that a call cannot fail for
  reasons outside the code.
\<close>

locale live_rollout_store = rollout_store ops sound rollout current
  for ops :: "'s store_ops" and sound rollout current +
  fixes hashes :: hashes
    and working :: "call \<Rightarrow> ctx \<Rightarrow> bool"
    and unused :: "string \<Rightarrow> 's \<Rightarrow> bool"
  assumes transition_live: "sound s \<Longrightarrow> rollout rid s = Some old \<Longrightarrow> working c ctx \<Longrightarrow> rec_TerminalAt old = None
      \<Longrightarrow> CanTransitionRollout (rec_State old) state \<Longrightarrow> state \<notin> {Succeeded, RolledBack}
      \<Longrightarrow> \<not> terminal \<or> state = Failed \<or> IsTerminalRolloutState state \<Longrightarrow> length resources \<le> MaxRolloutResources
      \<Longrightarrow> \<exists>r s'. so_transition ops c ctx rid state failure resources evidence terminal s = (Inr r, s')"
    and transition_resources: "so_transition ops c ctx rid state failure resources evidence terminal s = (Inr r, s')
      \<Longrightarrow> rec_Resources r = resources \<and> (unused id' s \<longrightarrow> unused id' s')"
    and rollback_live: "sound s \<Longrightarrow> rollout rid s = Some old \<Longrightarrow> working c ctx \<Longrightarrow> rec_TerminalAt old = None
      \<Longrightarrow> rec_State old = RollingBack
      \<Longrightarrow> so_known_good ops c' ctx' (in_PreviousKnownGoodID (rec_Intent old)) s = Inr (Some k) \<Longrightarrow> previous_matches old k
      \<Longrightarrow> Validate_evidence ready True False = None \<Longrightarrow> length resources \<le> MaxRolloutResources
      \<Longrightarrow> \<exists>r s'. so_transition ops c ctx rid RolledBack failure resources (Some ready) True s = (Inr r, s')"
    and commit_live: "sound s \<Longrightarrow> rollout rid s = Some old \<Longrightarrow> working c ctx \<Longrightarrow> rec_TerminalAt old = None
      \<Longrightarrow> rec_State old = Waiting \<Longrightarrow> Canonicalize_known_good hashes snapshot = Inr k
      \<Longrightarrow> Validate_evidence ready True False = None \<Longrightarrow> Hash_evidence hashes ready = Some (kg_EvidenceHash k)
      \<Longrightarrow> kg_Target k = in_Target (rec_Intent old) \<Longrightarrow> kg_ID k = rid \<Longrightarrow> unused rid s
      \<Longrightarrow> \<exists>r s'. so_commit ops c ctx rid k resources ready s = (Inr r, s')"

text \<open>The machine of the SQLite store works: the calls are calm, json.Marshal of a record does not fail,
  and no hash is the empty string.\<close>

definition sqlite_working :: "hashes \<Rightarrow> call \<Rightarrow> ctx \<Rightarrow> bool" where
  "sqlite_working H c ctx = (calm c ctx \<and> (\<forall>r. CalculateStateHash H r \<noteq> None) \<and> (\<forall>k. known_good_hash H k \<noteq> Some []))"

definition snapshot_unused :: "hashes \<Rightarrow> string \<Rightarrow> db \<Rightarrow> bool" where
  "snapshot_unused H rid db = (\<forall>k row. Canonicalize_known_good H k = Inr k \<longrightarrow> kg_ID k = rid \<longrightarrow> row \<in> set (db_snapshots db)
     \<longrightarrow> sw_ID row \<noteq> rid \<and> sw_Hash row \<noteq> kg_SnapshotHash k)"

lemma GetKnownGood_Inr:
  assumes "GetKnownGood H c ctx sid db = Inr (Some k)"
  shows "\<exists>k'. known_good_of sid db = Some k' \<and> kg_SnapshotHash k = kg_SnapshotHash k' \<and> kg_Target k = kg_Target k'"
  using assms by (auto simp: GetKnownGood_def known_good_of_def split: sum.splits option.splits column.splits if_splits)

lemma kg_SnapshotHash_update: "kg_SnapshotHash (k\<lparr>kg_SnapshotHash := h\<rparr>) = h"
  by simp

interpretation sqlite_live: live_rollout_store "sqlite_ops H" "store_ok H" "rollout_of H" current_of H
  "sqlite_working H" "snapshot_unused H" for H
proof (unfold_locales, goal_cases)
  case (1 s rid old c ctx state terminal resources failure evidence)
  then show ?case
    using TransitionRollout_total [of H s rid old c ctx state resources terminal evidence failure]
    by (auto simp: sqlite_ops_def sqlite_working_def transition_error_None)
next
  case (2 c ctx rid state failure resources evidence terminal s r s' id')
  then have run: "TransitionRollout H c ctx rid state failure resources evidence terminal s = (Inr r, s')"
    by (simp add: sqlite_ops_def)
  then have "db_snapshots s' = db_snapshots s"
    using TransitionRollout_snapshots [of H c ctx rid state failure resources evidence terminal s] by simp
  moreover have "rec_Resources r = resources"
    using run unfolding TransitionRollout_def run_tx_Inr transition_body_def save_transition_def
    by (auto simp: with_state_hash_def transitioned_def simp del: if_tx_Inr split: option.splits)
  ultimately show ?case by (simp add: snapshot_unused_def)
next
  case (3 s rid old c ctx c' ctx' k evidence resources failure)
  then obtain k' where k': "known_good_of (in_PreviousKnownGoodID (rec_Intent old)) s = Some k'"
      "kg_SnapshotHash k = kg_SnapshotHash k'" "kg_Target k = kg_Target k'"
    using GetKnownGood_Inr by (fastforce simp: sqlite_ops_def)
  have can: "kg_ID k' = in_PreviousKnownGoodID (rec_Intent old)" "Canonicalize_known_good H k' = Inr k'"
    using known_good_of_Some [OF _ k'(1)] 3(1) by (auto simp: store_ok_def known_good_ok_def)
  have "kg_ID k' \<noteq> []" using can(2) by (auto simp: Canonicalize_known_good_Inr opaqueID_def ident_def)
  moreover obtain x where "known_good_hash H x = Some (kg_SnapshotHash k')"
    using can(2) unfolding Canonicalize_known_good_Inr by (metis kg_SnapshotHash_update)
  then have "kg_SnapshotHash k' \<noteq> []" using 3(3) by (auto simp: sqlite_working_def)
  ultimately have "kg_ID k' \<noteq> [] \<and> kg_SnapshotHash k' \<noteq> []" ..
  then show ?case
    using 3 k' can TransitionRollout_total [of H s rid old c ctx RolledBack resources True "Some evidence" failure]
    by (auto simp: sqlite_ops_def sqlite_working_def transition_error_None evidence_missing_def previous_matches_def IsTerminalRolloutState_def)
next
  case (4 s rid old c ctx snapshot k evidence resources)
  have idem: "Canonicalize_known_good H k = Inr k" using 4(6) by (rule Canonicalize_known_good_idem)
  show ?case
    using 4 idem CommitRolloutSuccess_total [of H s rid old c ctx k k evidence resources]
    by (auto simp: sqlite_ops_def sqlite_working_def snapshot_unused_def)
qed

section \<open>Runs that end\<close>

text \<open>
  The calls of a run happen in time: a context made by the run is not done at any of its calls, nor
  is the context of the caller, and what the runtime returns is bounded.
\<close>

definition in_time :: "(call \<Rightarrow> ctx \<Rightarrow> bool) \<Rightarrow> ('s, 'p, 'k) Engine \<Rightarrow> bool" where
  "in_time working e = (\<forall>m n. working (en_calls e n) (Some (cl_now (en_calls e m) + en_RolloutTimeout e))
     \<and> working (en_calls e n) None)"

definition bounded_runtime :: "('p, 'k) runtime_ops \<Rightarrow> bool" where
  "bounded_runtime rt = ((\<forall>c ctx plan k resources k'. rt_apply rt c ctx plan k = (Inr resources, k')
       \<longrightarrow> length resources \<le> MaxRolloutResources)
     \<and> (\<forall>c ctx plan k evidence resources k'. rt_observe rt c ctx plan k = (Inr (evidence, resources), k')
       \<longrightarrow> length resources \<le> MaxRolloutResources))"

lemma bounded_runtimeD:
  "bounded_runtime rt \<Longrightarrow> rt_apply rt c ctx plan k = (Inr resources, k') \<Longrightarrow> length resources \<le> MaxRolloutResources"
  "bounded_runtime rt \<Longrightarrow> rt_observe rt c ctx plan k = (Inr (evidence, resources), k') \<Longrightarrow> length resources \<le> MaxRolloutResources"
  unfolding bounded_runtime_def by blast+

definition finished :: "outcome \<times> ('s, 'k) world \<Rightarrow> bool" where
  "finished p = (case fst (fst p) of None \<Rightarrow> False | Some r \<Rightarrow> rec_TerminalAt r \<noteq> None)"

text \<open>What the lemmas below have in common: a stored rollout that is not terminal, in a machine that works.\<close>

definition pending :: "('s \<Rightarrow> bool) \<Rightarrow> (string \<Rightarrow> 's \<Rightarrow> RolloutRecord option) \<Rightarrow> (string \<Rightarrow> 's \<Rightarrow> bool) \<Rightarrow> RolloutRecord \<Rightarrow> 's \<Rightarrow> bool" where
  "pending sound rollout unused r s = (durable sound rollout r s \<and> rec_TerminalAt r = None
     \<and> length (rec_Resources r) \<le> MaxRolloutResources \<and> unused (in_RolloutID (rec_Intent r)) s)"

definition works :: "(call \<Rightarrow> ctx \<Rightarrow> bool) \<Rightarrow> ('s, 'p, 'k) Engine \<Rightarrow> ctx \<Rightarrow> bool" where
  "works working e ctx = (\<forall>n. working (en_calls e n) ctx)"

lemma fresh_ctx_works:
  assumes "in_time working e" "fresh_ctx e ctx w = (c, w1)"
  shows "works working e c \<and> w_store w1 = w_store w"
  using assms by (auto simp: fresh_ctx_def works_def in_time_def WithTimeout_def WithoutCancel_def next_call_def)

context live_rollout_store
begin

lemma finished_transition:
  assumes run: "runs_on ops e" "works working e ctx" and w: "w_store w = s" and stored: "pending sound rollout unused record s"
    and st: "CanTransitionRollout (rec_State record) state" "state \<notin> {Succeeded, RolledBack}"
      "\<not> terminal \<or> state = Failed \<or> IsTerminalRolloutState state" "length resources \<le> MaxRolloutResources"
    and last: "\<And>r w'. terminal \<or> IsTerminalRolloutState state \<Longrightarrow> \<exists>err. fst (k r w') = (Some r, err)"
    and ok: "\<And>r w'. \<not> terminal \<Longrightarrow> \<not> IsTerminalRolloutState state \<Longrightarrow> pending sound rollout unused r (w_store w')
      \<Longrightarrow> rec_State r = state \<Longrightarrow> rec_Intent r = rec_Intent record \<Longrightarrow> finished (k r w')"
  shows "finished (on_result (transition e ctx record state failure resources evidence terminal w) fail k)"
proof -
  obtain x w' where t: "transition e ctx record state failure resources evidence terminal w = (x, w')" by fastforce
  then have call: "so_transition ops (next_call e w) ctx (in_RolloutID (rec_Intent record)) state failure resources evidence terminal
      s = (x, w_store w')"
    using run w store_call_eq [of e _ w x w'] by (auto simp: transition_def runs_on_def)
  have clock: "0 < cl_now (next_call e w)" using run by (simp add: runs_on_def next_call_def)
  have work: "working (next_call e w) ctx" using run(2) by (simp add: works_def next_call_def)
  note p = stored [unfolded pending_def durable_def]
  obtain r where x: "x = Inr r"
    using transition_live [OF _ _ work _ st, of s "in_RolloutID (rec_Intent record)" failure evidence] p call by auto
  note law = transition_Inr [OF _ clock call [unfolded x]] and res = transition_resources [OF call [unfolded x]]
  have r: "rec_State r = state" "rec_Intent r = rec_Intent record" "sound (w_store w')"
      "rollout (in_RolloutID (rec_Intent record)) (w_store w') = Some r"
      "rec_TerminalAt r = None \<longleftrightarrow> \<not> terminal \<and> \<not> IsTerminalRolloutState state"
    using law p by auto
  show ?thesis
  proof (cases "terminal \<or> IsTerminalRolloutState state")
    case True
    then obtain err where "fst (k r w') = (Some r, err)" using last by blast
    then show ?thesis using True r(5) by (auto simp: t on_result_def x finished_def)
  next
    case False
    then have "pending sound rollout unused r (w_store w')"
      using r p res st(4) by (simp add: pending_def durable_def)
    then have "finished (k r w')" using False r(1,2) ok by blast
    then show ?thesis by (simp add: t on_result_def x)
  qed
qed

lemma finished_runtime_call:
  assumes w: "w_store w = s"
    and "\<And>err w'. w_store w' = s \<Longrightarrow> finished (fail err w')"
    and "\<And>x w'. w_store w' = s \<Longrightarrow> f (next_call e w) (w_cluster w) = (Inr x, w_cluster w') \<Longrightarrow> finished (k x w')"
  shows "finished (on_result (runtime_call e f w) fail k)"
proof -
  obtain x w' where c: "runtime_call e f w = (x, w')" by fastforce
  then have "w_store w' = s" "f (next_call e w) (w_cluster w) = (x, w_cluster w')"
    using w by (auto simp: runtime_call_def split: prod.splits)
  with assms(2,3) show ?thesis by (cases x) (simp_all add: c on_result_def)
qed

lemma finished_with_plan:
  assumes "w_store w = s" "\<And>err w'. w_store w' = s \<Longrightarrow> finished (fail err w')"
    and "\<And>x w'. w_store w' = s \<Longrightarrow> finished (k x w')"
  shows "finished (on_result (with_plan e ctx r plan w) fail k)"
proof (cases plan)
  case None
  show ?thesis unfolding with_plan_def None option.case by (rule finished_runtime_call [OF assms])
qed (use assms in \<open>simp add: with_plan_def on_result_def\<close>)

lemma finished_rollbackFailed:
  assumes "runs_on ops e" "works working e ctx" "w_store w = s" "pending sound rollout unused record s" "rec_State record = RollingBack"
  shows "finished (rollbackFailed e ctx record cause w)"
  unfolding rollbackFailed_def Let_def
  by (rule finished_transition [OF assms(1-4)])
    (use assms in \<open>auto simp: pending_def IsTerminalRolloutState_def\<close>)

lemma finished_finish_rollback:
  assumes "runs_on ops e" "works working e ctx" "w_store w = s" "pending sound rollout unused record s" "rec_State record = RollingBack"
    and known: "so_known_good ops c' ctx' (in_PreviousKnownGoodID (rec_Intent record)) s = Inr (Some k)" "previous_matches record k"
    and res: "length resources \<le> MaxRolloutResources"
  shows "finished (finish_rollback e ctx record evidence resources w)"
proof (cases "Validate_evidence evidence True False = None")
  case True
  obtain x w' where t: "transition e ctx record RolledBack (rec_Error record) resources (Some evidence) True w = (x, w')" by fastforce
  then have call: "so_transition ops (next_call e w) ctx (in_RolloutID (rec_Intent record)) RolledBack (rec_Error record) resources
      (Some evidence) True s = (x, w_store w')"
    using assms(1,3) store_call_eq [of e _ w x w'] by (auto simp: transition_def runs_on_def)
  have clock: "0 < cl_now (next_call e w)" using assms(1) by (simp add: runs_on_def next_call_def)
  have work: "working (next_call e w) ctx" using assms(2) by (simp add: works_def next_call_def)
  note p = assms(4) [unfolded pending_def durable_def]
  obtain r where x: "x = Inr r"
    using rollback_live [OF _ _ work _ assms(5) known True res, of "in_RolloutID (rec_Intent record)" "rec_Error record"] p call by auto
  have "rec_TerminalAt r \<noteq> None" using transition_Inr [OF _ clock call [unfolded x]] p by auto
  then show ?thesis using True by (simp add: finish_rollback_def t x on_result_def finished_def)
qed (use assms in \<open>auto simp: finish_rollback_def intro: finished_rollbackFailed\<close>)

lemma finished_resumeRollback:
  assumes run: "runs_on ops e" "in_time working e" "bounded_runtime (en_runtime e)" and w: "w_store w = s"
    and p: "pending sound rollout unused record s" "rec_State record = RollingBack"
  shows "finished (resumeRollback e ctx record w)"
proof -
  obtain c w1 where f: "fresh_ctx e ctx w = (c, w1)" by fastforce
  note c = fresh_ctx_works [OF run(2) f]
  obtain x w2 where g: "store_read e (\<lambda>ca. so_known_good (en_store e) ca c (in_PreviousKnownGoodID (rec_Intent record))) w1 = (x, w2)"
    by fastforce
  then have w2: "w_store w2 = s" "x = so_known_good ops (next_call e w1) c (in_PreviousKnownGoodID (rec_Intent record)) s"
    using c w run(1) store_read_store [OF g] by (auto simp: runs_on_def)
  have failed: "finished (rollbackFailed e c record cause w')" if "w_store w' = s" for cause w'
    using run(1) c that p by (blast intro: finished_rollbackFailed)
  have "finished (restore_runtime e c record (kg_Runtime k) w2)" if k: "x = Inr (Some k)" "previous_matches record k" for k
  proof -
    have "finished (finish_rollback e c record evidence resources w')"
      if "w_store w' = s" "length resources \<le> MaxRolloutResources" for evidence resources w'
      using run(1) c that p k w2 by (intro finished_finish_rollback [of _ _ _ s]) auto
    then show ?thesis
      unfolding restore_runtime_def
      by (intro finished_runtime_call [of _ s] w2(1) failed)
        (auto split: prod.splits dest: bounded_runtimeD [OF run(3)])
  qed
  with failed w2 show ?thesis
    by (auto simp: resumeRollback_def f g Let_def split: sum.splits option.splits)
qed

lemma finished_rollback:
  assumes "runs_on ops e" "in_time working e" "bounded_runtime (en_runtime e)" "works working e ctx" "w_store w = s"
    and "pending sound rollout unused record s" "rec_State record = Failed"
  shows "finished (rollback e ctx record w)"
  unfolding rollback_def
  by (rule finished_transition [OF assms(1,4,5,6)])
    (use assms in \<open>auto simp: pending_def IsTerminalRolloutState_def intro!: finished_resumeRollback\<close>)

lemma finished_failAndRollback:
  assumes "runs_on ops e" "in_time working e" "bounded_runtime (en_runtime e)" "w_store w = s"
    and "pending sound rollout unused record s" "rec_State record \<in> {Applying, Waiting}"
  shows "finished (failAndRollback e ctx record cause w)"
proof -
  obtain c w1 where f: "fresh_ctx e ctx w = (c, w1)" by fastforce
  have w1: "w_store w1 = s" "works working e c" using assms(4) fresh_ctx_works [OF assms(2) f] by simp_all
  show ?thesis
    unfolding failAndRollback_def f Let_def prod.case
    by (rule finished_transition [OF assms(1) w1(2,1) assms(5)])
      (use assms w1 in \<open>auto simp: pending_def IsTerminalRolloutState_def intro!: finished_rollback\<close>)
qed

lemma finished_commit_ready:
  assumes "runs_on ops e" "in_time working e" "bounded_runtime (en_runtime e)" "works working e ctx" "w_store w = s"
    and "pending sound rollout unused record s" "rec_State record = Waiting"
    and "en_hashes e = hashes" "\<forall>ready. Hash_evidence hashes ready \<noteq> None"
  shows "finished (commit_ready e ctx record evidence resources w)"
proof (cases "Validate_evidence evidence True False = None")
  case True
  note valid = True
  obtain h where h: "Hash_evidence hashes evidence = Some h" using assms(9) by auto
  show ?thesis
  proof (cases "Canonicalize_known_good hashes (snapshot_of record resources h evidence)")
    case (Inl err)
    with assms valid h show ?thesis by (simp add: commit_ready_def finished_failAndRollback)
  next
    case (Inr k)
    have k: "kg_ID k = in_RolloutID (rec_Intent record)" "kg_Target k = in_Target (rec_Intent record)"
        "kg_EvidenceHash k = h"
      using Inr by (auto simp: Canonicalize_known_good_Inr snapshot_of_def)
    obtain x w' where c: "store_call e (\<lambda>c. so_commit (en_store e) c ctx (in_RolloutID (rec_Intent record)) k
        (sort_key resource_key resources) evidence) w = (x, w')" by fastforce
    then have call: "so_commit ops (next_call e w) ctx (in_RolloutID (rec_Intent record)) k
        (sort_key resource_key resources) evidence s = (x, w_store w')"
      using assms(1,5) store_call_eq [OF c] by (simp add: runs_on_def)
    have clock: "0 < cl_now (next_call e w)" using assms(1) by (simp add: runs_on_def next_call_def)
    have work: "working (next_call e w) ctx" using assms(4) by (simp add: works_def next_call_def)
    note p = assms(6) [unfolded pending_def durable_def]
    obtain r where x: "x = Inr r"
      using commit_live [OF _ _ work _ assms(7) Inr valid, of s "in_RolloutID (rec_Intent record)" "sort_key resource_key resources"]
        p h k call by auto
    have "rec_TerminalAt r \<noteq> None" using commit_Inr [OF _ clock _ assms(7) call [unfolded x]] p by auto
    then show ?thesis using valid h Inr assms(8) by (simp add: commit_ready_def c x on_result_def finished_def)
  qed
qed (use assms in \<open>auto simp: commit_ready_def intro: finished_failAndRollback\<close>)

lemma finished_resume_waiting:
  assumes "runs_on ops e" "in_time working e" "bounded_runtime (en_runtime e)" "w_store w = s"
    and "pending sound rollout unused record s" "rec_State record = Waiting"
    and "en_hashes e = hashes" "\<forall>ready. Hash_evidence hashes ready \<noteq> None"
  shows "finished (resume_waiting e ctx record plan w)"
proof -
  obtain c w1 where f: "fresh_ctx e ctx w = (c, w1)" by fastforce
  have w1: "w_store w1 = s" "works working e c" using assms(4) fresh_ctx_works [OF assms(2) f] by simp_all
  show ?thesis unfolding resume_waiting_def f Let_def prod.case
    by (intro finished_with_plan [of _ s] finished_runtime_call [of _ s] w1(1))
      (use assms w1 in \<open>auto intro!: finished_failAndRollback finished_commit_ready split: prod.splits\<close>)
qed

lemma finished_resume_applying:
  assumes "runs_on ops e" "in_time working e" "bounded_runtime (en_runtime e)" "w_store w = s"
    and "pending sound rollout unused record s" "rec_State record = Applying"
    and "en_hashes e = hashes" "\<forall>ready. Hash_evidence hashes ready \<noteq> None"
  shows "finished (resume_applying e ctx record plan w)"
proof -
  obtain c w1 where f: "fresh_ctx e ctx w = (c, w1)" by fastforce
  have w1: "w_store w1 = s" "works working e c" using assms(4) fresh_ctx_works [OF assms(2) f] by simp_all
  have fail: "finished (failAndRollback e c record cause w')" if "w_store w' = s" for cause w'
    using assms that by (intro finished_failAndRollback) auto
  have waiting: "finished (on_result (transition e c record Waiting None resources None False w') (\<lambda>err w. ((Some record, Some err), w)) k)"
    if "w_store w' = s" "length resources \<le> MaxRolloutResources"
      "\<And>r w'. pending sound rollout unused r (w_store w') \<Longrightarrow> rec_State r = Waiting \<Longrightarrow> finished (k r w')" for resources w' k
    by (rule finished_transition [OF assms(1) w1(2) that(1) assms(5)])
      (use assms that in \<open>auto simp: IsTerminalRolloutState_def\<close>)
  then show ?thesis unfolding resume_applying_def f Let_def prod.case
    by (intro finished_with_plan [of _ s] finished_runtime_call [of _ s] w1(1) fail waiting)
      (use assms in \<open>auto dest: bounded_runtimeD [OF assms(3)] intro!: finished_resume_waiting\<close>)
qed

lemma finished_resumeRollout:
  assumes "runs_on ops e" "in_time working e" "bounded_runtime (en_runtime e)" "works working e ctx" "w_store w = s"
    and "pending sound rollout unused record s" "rec_State record \<in> set rollout_states"
    and "en_hashes e = hashes" "\<forall>ready. Hash_evidence hashes ready \<noteq> None" "IsTerminalRolloutState (rec_State record) \<longrightarrow> rec_TerminalAt record \<noteq> None"
  shows "finished (resumeRollout e ctx record plan w)"
proof -
  have none: "works working e (WithoutCancel c)" for c
    using assms(2) by (simp add: works_def in_time_def WithoutCancel_def)
  have "finished (resume_prepared e ctx record plan w)" if "rec_State record = Prepared"
    unfolding resume_prepared_def Let_def
    using that assms none by (auto simp: pending_def IsTerminalRolloutState_def [of Applying]
        intro!: finished_transition [of _ _ _ s "record"] finished_resume_applying)
  then show ?thesis
    using assms none by (auto simp: resumeRollout_def pending_def rollout_states_def IsTerminalRolloutState_def
        intro: finished_resume_applying finished_resume_waiting finished_rollback finished_resumeRollback split: RolloutState.splits)
qed

end

end
