(* ===== verification/Rollout_Engine_Properties.thy ===== *)
theory Rollout_Engine_Properties
  imports Rollout_Engine_Liveness
begin

text \<open>
  The properties of the reconciler over the SQLite store: what its result means, that the rollout is
  journalled before the cluster changes, that a run in time ends, and what an expired deadline does
  to a rollback.
\<close>

section \<open>The journal comes first\<close>

text \<open>The cluster is unchanged, or the run returns a record past the state prepared.\<close>

definition journalled :: "'k \<Rightarrow> outcome \<times> ('s, 'k) world \<Rightarrow> bool" where
  "journalled k p = (w_cluster (snd p) = k \<or> (case fst (fst p) of None \<Rightarrow> False | Some r \<Rightarrow> rec_State r \<noteq> Prepared))"

lemma journalled_nothing: "w_cluster w = k \<Longrightarrow> journalled k ((None, err), w)"
  by (simp add: journalled_def)

lemma CanTransition_not_Prepared: "CanTransitionRollout\<^sup>*\<^sup>* from to \<Longrightarrow> from \<noteq> Prepared \<Longrightarrow> to \<noteq> Prepared"
  by (induction rule: rtranclp_induct) (auto elim: CanTransitionRollout.elims)

lemma journalled_settled:
  assumes "settled sound rollout current s old p" "rec_State old \<noteq> Prepared"
  shows "journalled k p"
  using assms CanTransition_not_Prepared
  by (auto simp: journalled_def settled_def advanced_def split: prod.splits option.splits)

context rollout_store
begin

lemma journalled_transition:
  assumes run: "runs_on ops e" and w: "durable sound rollout record (w_store w)" "w_cluster w = k" and st: "state \<noteq> Prepared"
    and ok: "\<And>r w'. durable sound rollout r (w_store w') \<Longrightarrow> settled sound rollout current (w_store w') r (f r w')"
  shows "journalled k (on_result (transition e ctx record state failure resources evidence terminal w)
    (\<lambda>err w. ((Some record, Some err), w)) f)"
proof -
  obtain x w' where t: "transition e ctx record state failure resources evidence terminal w = (x, w')" by fastforce
  then have call: "so_transition ops (next_call e w) ctx (in_RolloutID (rec_Intent record)) state failure resources evidence terminal
      (w_store w) = (x, w_store w')" "w_cluster w' = w_cluster w"
    using run store_call_eq [of e _ w x w'] by (auto simp: transition_def runs_on_def)
  have clock: "0 < cl_now (next_call e w)" using run by (simp add: runs_on_def next_call_def)
  show ?thesis
  proof (cases x)
    case (Inl err)
    with call w(2) show ?thesis by (simp add: t on_result_def journalled_def)
  next
    case (Inr r)
    have "rec_State r = state" "durable sound rollout r (w_store w')"
      using transition_Inr [OF _ clock call(1) [unfolded Inr]] w(1) by (auto simp: durable_def)
    then show ?thesis using journalled_settled [OF ok [of r w']] st by (simp add: t on_result_def Inr)
  qed
qed

lemma journalled_resume_existing:
  assumes "runs_on ops e" "durable sound rollout record (w_store w)" "w_cluster w = k"
  shows "journalled k (resume_existing e ctx record plan w)"
proof (cases "rec_State record = Prepared")
  case False
  with settled_resume_existing [OF assms(1) refl assms(2)] show ?thesis by (rule journalled_settled)
next
  case True
  have "journalled k (startExplicitRollback e c record w)" for c
    unfolding startExplicitRollback_def
    by (rule journalled_transition [OF assms]) (auto intro!: settled_resumeRollback [OF assms(1)])
  moreover have "journalled k (resume_prepared e ctx record plan w)"
    unfolding resume_prepared_def Let_def
    using assms by (auto intro!: journalled_transition settled_same settled_resume_applying)
  ultimately show ?thesis using True by (simp add: resume_existing_def resumeRollout_def)
qed

lemma journalled_resumeCleanup:
  assumes "runs_on ops e" "durable sound rollout record (w_store w)" "w_cluster w = k"
  shows "journalled k (resumeCleanup e ctx record w)"
proof (cases "rec_State record = Prepared")
  case False
  with settled_resumeCleanup [OF assms(1) refl assms(2)] show ?thesis by (rule journalled_settled)
next
  case True
  with assms show ?thesis
    by (auto simp: resumeCleanup_def journalled_def [of _ "(_, w)"] intro!: journalled_transition settled_cleanup_applying)
qed

lemma validate_cluster: "validatePreviousKnownGood e ctx intent w = (err, w') \<Longrightarrow> w_cluster w' = w_cluster w"
  by (auto simp: validatePreviousKnownGood_def on_result_def Let_def
      dest!: store_read_store store_call_eq split: prod.splits sum.splits option.splits if_splits)

lemma journalled_begin:
  assumes "runs_on ops e" "sound (w_store w)" "in_IntentHash intent \<noteq> []" "rollout (in_RolloutID intent) (w_store w) = None"
    and "w_cluster w = k" "\<And>r w'. durable sound rollout r (w_store w') \<Longrightarrow> w_cluster w' = k \<Longrightarrow> journalled k (f r w')"
  shows "journalled k (on_result (store_call e (\<lambda>c. so_begin (en_store e) c ctx intent resources) w)
    (\<lambda>err w. ((None, Some (g err)), w)) f)"
proof -
  obtain y w' where y: "store_call e (\<lambda>c. so_begin (en_store e) c ctx intent resources) w = (y, w')" by fastforce
  then have w': "w_cluster w' = k" using assms(5) store_call_eq [OF y] by simp
  show ?thesis
  proof (cases y)
    case (Inr r)
    then show ?thesis using begin_new [OF assms(1,2,4,3) y [unfolded Inr]] w' assms(6) by (simp add: y on_result_def)
  qed (simp add: y on_result_def journalled_def w')
qed

lemma journalled_ReconcileRollout:
  assumes run: "runs_on ops e" and w: "sound (w_store w)" and can: "Canonicalize_intent (en_hashes e) intent = Inr canonical"
    and hash: "in_IntentHash canonical \<noteq> []" and reads: "\<And>c ctx d k. snd (rt_prepare (en_runtime e) c ctx d k) = k"
  shows "journalled (w_cluster w) (ReconcileRollout e ctx intent w)"
proof -
  obtain x w1 where x: "store_read e (\<lambda>c. so_get (en_store e) c ctx (in_RolloutID canonical)) w = (x, w1)" by fastforce
  note read = store_read_store [OF x]
  then have w1: "w_store w1 = w_store w" "w_cluster w1 = w_cluster w" by simp_all
  show ?thesis
  proof (cases x)
    case (Inl err)
    then show ?thesis using w1 by (auto simp: ReconcileRollout_def reconcileCleanup_def can x on_result_def journalled_def)
  next
    case (Inr found)
    have f: "found = rollout (in_RolloutID canonical) (w_store w)"
      using run read Inr get_Inr [OF w] by (simp add: runs_on_def)
    show ?thesis
    proof (cases found)
      case (Some r)
      have d: "durable sound rollout r (w_store w1)" using w w1 f Some rollout_id [OF w] by (simp add: durable_def)
      have "journalled (w_cluster w) (resumeCleanup e ctx r w1)" "journalled (w_cluster w) (resume_existing e ctx r plan w1)" for plan
        using run d w1 by (auto intro: journalled_resumeCleanup journalled_resume_existing)
      then show ?thesis
        using w1 by (auto simp: ReconcileRollout_def reconcileCleanup_def can x Inr Some on_result_def journalled_def)
    next
      case None
      have new: "rollout (in_RolloutID canonical) (w_store w1) = None" using f None w1 by simp
      have "journalled (w_cluster w) (start_rollout e ctx canonical w1)"
      proof -
        obtain v w2 where v: "validatePreviousKnownGood e ctx canonical w1 = (v, w2)" by fastforce
        obtain y w3 where y: "runtime_call e (\<lambda>c. rt_prepare (en_runtime e) c ctx (in_Desired canonical)) w2 = (y, w3)" by fastforce
        have "w_cluster w3 = w_cluster w2" using y reads by (auto simp: runtime_call_def split: prod.splits dest: arg_cong [of _ _ snd])
        then have w3: "w_cluster w3 = w_cluster w" "w_cluster w2 = w_cluster w" using validate_cluster [OF v] w1 by simp_all
        have s3: "sound (w_store w3)" "rollout (in_RolloutID canonical) (w_store w3) = None"
          using runtime_call_store [OF y] validate_keeps [OF run _ v] w w1 new by simp_all
        have "journalled (w_cluster w) (if rec_TerminalAt r \<noteq> None then ((Some r, None), w')
            else resume_existing e ctx r plan (emitRolloutProgress e r a b c d w'))"
          if "durable sound rollout r (w_store w')" "w_cluster w' = w_cluster w" for r plan a b c d w'
          using that by (auto simp: journalled_def [of _ "((Some r, None), w')"] intro!: journalled_resume_existing run)
        note begun = journalled_begin [OF run s3(1) hash s3(2) w3(1) this]
        show ?thesis
          unfolding start_rollout_def v prod.case y
          by (cases v; cases y) (use w3 begun in \<open>auto simp: on_result_def [of "(_, w3)"] journalled_nothing\<close>)
      qed
      moreover have "journalled (w_cluster w) (reconcileCleanup e ctx canonical w)"
        using w1 run hash w new by (auto simp: reconcileCleanup_def x Inr None on_result_def [of "(Inr _, w1)"] journalled_nothing
            intro!: journalled_begin journalled_resumeCleanup)
      ultimately show ?thesis
        using w1 by (auto simp: ReconcileRollout_def can x Inr None on_result_def journalled_nothing)
    qed
  qed
qed

end

section \<open>Properties\<close>

lemma canonical_hash: "Canonicalize_intent H intent = Inr canonical \<Longrightarrow> in_IntentHash intent \<noteq> [] \<Longrightarrow> in_IntentHash canonical \<noteq> []"
  by (auto simp: Canonicalize_intent_Inr split: if_splits)

text \<open>A concrete engine: every call succeeds, the deployed service becomes ready at once.\<close>

definition sample_runtime :: "(unit, nat) runtime_ops" where
  "sample_runtime = \<lparr>rt_prepare = (\<lambda>c ctx d k. (Inr (), k)), rt_observed = (\<lambda>_. []),
     rt_apply = (\<lambda>c ctx plan k. (Inr [sample_resource ''Deployment''], Suc k)),
     rt_observe = (\<lambda>c ctx plan k. (Inr (sample_evidence, [sample_resource ''Deployment'']), k)),
     rt_cleanup_preview = None, rt_cleanup_first = None\<rparr>"

definition sample_engine :: "(db, unit, nat) Engine" where
  "sample_engine = \<lparr>en_configured = True, en_store = sqlite_ops sample_hashes, en_runtime = sample_runtime,
     en_RolloutTimeout = 1000, en_hashes = sample_hashes, en_redact = id, en_progress = True,
     en_calls = (\<lambda>n. sample_call (min (10 + int n) 500))\<rparr>"

definition sample_world :: "(db, nat) world" where
  "sample_world = \<lparr>w_store = sample_begun, w_cluster = 0, w_calls = 0, w_progress = []\<rparr>"

lemma sample_world_reachable: "reachable_db sample_hashes (w_store sample_world)"
  by (simp add: sample_world_def sample_reachable)

lemma sample_engine_simps [simp]:
  "en_configured sample_engine" "en_store sample_engine = sqlite_ops sample_hashes" "en_runtime sample_engine = sample_runtime"
  "en_hashes sample_engine = sample_hashes" "en_calls sample_engine n = sample_call (min (10 + int n) 500)"
  "en_RolloutTimeout sample_engine = 1000"
  by (simp_all add: sample_engine_def)

lemma sample_engine_runs: "runs_on (sqlite_ops sample_hashes) sample_engine"
  by (simp add: runs_on_def sample_engine_def)

lemma sample_engine_canonical: "Canonicalize_intent (en_hashes sample_engine) sample_intent = Inr sample_intent"
    "in_IntentHash sample_intent \<noteq> []"
  using sample_intent_canonical by (simp_all add: sample_engine_def sample_intent_def sample_hex_def)

text \<open>Its run on the rollout of sample_begun: prepared, applying, waiting, succeeded.\<close>

lemma sample_engine_works:
  assumes "ctx = None \<or> (\<exists>m. ctx = Some (cl_now (en_calls sample_engine m) + en_RolloutTimeout sample_engine))"
  shows "sqlite_working sample_hashes (en_calls sample_engine n) ctx"
  using assms by (auto simp: sqlite_working_def calm_def sample_engine_def sample_call_def ctx_done_def
      known_good_hash_def sample_hashes_def sample_hex_def CalculateStateHash_def)

lemma sample_step:
  assumes r: "durable (store_ok sample_hashes) (rollout_of sample_hashes) r (w_store w)" "rec_TerminalAt r = None"
    and st: "CanTransitionRollout (rec_State r) state" "state \<in> {Applying, Waiting}" "length resources \<le> MaxRolloutResources"
    and ctx: "sqlite_working sample_hashes (next_call sample_engine w) ctx"
  shows "\<exists>r' w'. transition sample_engine ctx r state None resources None False w = (Inr r', w')
    \<and> durable (store_ok sample_hashes) (rollout_of sample_hashes) r' (w_store w') \<and> rec_State r' = state
    \<and> rec_Intent r' = rec_Intent r \<and> rec_TerminalAt r' = None \<and> w_cluster w' = w_cluster w
    \<and> db_snapshots (w_store w') = db_snapshots (w_store w)"
proof -
  let ?rid = "in_RolloutID (rec_Intent r)"
  note d = r(1) [unfolded durable_def]
  obtain r' s' where t: "so_transition (sqlite_ops sample_hashes) (next_call sample_engine w) ctx ?rid state None resources None False
      (w_store w) = (Inr r', s')"
    using sqlite_live.transition_live [of sample_hashes "w_store w" ?rid r "next_call sample_engine w" ctx state False
        resources None None] d r(2) st ctx by auto
  have run: "transition sample_engine ctx r state None resources None False w = (Inr r', w\<lparr>w_store := s', w_calls := Suc (w_calls w)\<rparr>)"
    using t by (simp add: transition_def store_call_def sample_engine_def next_call_def)
  have "0 < cl_now (next_call sample_engine w)" using ctx by (simp add: sqlite_working_def calm_def)
  note law = sqlite.transition_Inr [OF _ this t]
  have "\<not> IsTerminalRolloutState state" using st(2) by (auto simp: IsTerminalRolloutState_def)
  then have "durable (store_ok sample_hashes) (rollout_of sample_hashes) r' s'"
      "rec_State r' = state" "rec_Intent r' = rec_Intent r" "rec_TerminalAt r' = None"
    using law d by (auto simp: durable_def)
  moreover have "db_snapshots s' = db_snapshots (w_store w)"
    using t TransitionRollout_snapshots [of sample_hashes "next_call sample_engine w" ctx ?rid state None resources None False "w_store w"]
    by (simp add: sqlite_ops_def)
  ultimately show ?thesis using run by auto
qed

lemma sample_snapshot_canonical:
  assumes "rec_Intent r = sample_intent"
  shows "Canonicalize_known_good sample_hashes (snapshot_of r [sample_resource ''Deployment''] sample_hex sample_evidence) =
    Inr (snapshot_of r [sample_resource ''Deployment''] sample_hex sample_evidence\<lparr>kg_SnapshotHash := sample_hex\<rparr>)"
proof -
  have s: "snapshot_of r [sample_resource ''Deployment''] sample_hex sample_evidence
      = sample_known_good [sample_resource ''Deployment'']\<lparr>kg_ID := ''ro-1'', kg_VerifiedAt := 3\<rparr>"
    using assms by (simp add: snapshot_of_def sample_known_good_def sample_intent_def sample_evidence_def)
  show ?thesis
    unfolding s using sample_snapshot_valid
    by (auto simp: Canonicalize_known_good_Inr sample_known_good_def opaqueID_def ident_def char_classes IsZero_def
      zero_time_def MaxRolloutResources_def resource_ok_def sample_resource_def known_good_hash_def sample_hashes_def
      sample_snapshot_def [THEN arg_cong, of sn_Target])
qed

lemma sample_commit_step:
  assumes r: "durable (store_ok sample_hashes) (rollout_of sample_hashes) r (w_store w)" "rec_TerminalAt r = None"
      "rec_State r = Waiting" "rec_Intent r = sample_intent"
    and empty: "db_snapshots (w_store w) = []" and ctx: "sqlite_working sample_hashes (next_call sample_engine w) ctx"
  shows "\<exists>r' w'. commit_ready sample_engine ctx r sample_evidence [sample_resource ''Deployment''] w = ((Some r', None), w')
    \<and> rec_State r' = Succeeded \<and> w_cluster w' = w_cluster w"
proof -
  let ?k = "snapshot_of r [sample_resource ''Deployment''] sample_hex sample_evidence\<lparr>kg_SnapshotHash := sample_hex\<rparr>"
  let ?rid = "in_RolloutID (rec_Intent r)"
  note d = r(1) [unfolded durable_def]
  have h: "Hash_evidence sample_hashes sample_evidence = Some sample_hex" by (simp add: Hash_evidence_def sample_hashes_def)
  obtain r' s' where t: "so_commit (sqlite_ops sample_hashes) (next_call sample_engine w) ctx ?rid ?k
      [sample_resource ''Deployment''] sample_evidence (w_store w) = (Inr r', s')"
    using sqlite_live.commit_live [OF _ _ ctx r(2,3) sample_snapshot_canonical [OF r(4)] sample_evidence_ok,
        of "w_store w" ?rid "[sample_resource ''Deployment'']"] d h empty
    by (auto simp: snapshot_of_def snapshot_unused_def)
  have "0 < cl_now (next_call sample_engine w)" using ctx by (simp add: sqlite_working_def calm_def)
  from sqlite.commit_Inr [OF _ this _ r(3) t] d have "rec_State r' = Succeeded" by simp
  moreover have "commit_ready sample_engine ctx r sample_evidence [sample_resource ''Deployment''] w =
      ((Some r', None), emitRolloutProgress sample_engine r' ''success''
        ''runtime snapshot verified and committed as known-good'' 100 NoError (w\<lparr>w_store := s', w_calls := Suc (w_calls w)\<rparr>))"
    using t h sample_snapshot_canonical [OF r(4)]
    by (simp add: commit_ready_def store_call_def on_result_def sample_engine_def next_call_def)
  ultimately show ?thesis by simp
qed

definition sample_record :: RolloutRecord where
  "sample_record = new_rollout sample_intent [] 1\<lparr>rec_StateHash := sample_hex\<rparr>"

lemma sample_record_stored:
  "durable (store_ok sample_hashes) (rollout_of sample_hashes) sample_record (w_store sample_world)"
  "rec_State sample_record = Prepared" "rec_TerminalAt sample_record = None" "rec_Intent sample_record = sample_intent"
  "rec_Resources sample_record = []" "in_RolloutID (rec_Intent sample_record) = ''ro-1''" "db_snapshots (w_store sample_world) = []"
  using sample_begun_rollout reachable_ok [OF sample_reachable(1)]
    BeginRollout_snapshots [of sample_hashes "sample_call 1" None sample_intent "[]" empty_db]
  by (simp_all add: durable_def sample_world_def sample_record_def new_rollout_def sample_intent_def sample_begun_def empty_db_def)

lemma sample_waiting_run:
  assumes r: "durable (store_ok sample_hashes) (rollout_of sample_hashes) r (w_store w)" "rec_TerminalAt r = None"
      "rec_State r = Waiting" "rec_Intent r = sample_intent" and empty: "db_snapshots (w_store w) = []"
  shows "\<exists>r' w'. resume_waiting sample_engine ctx r (Some ()) w = ((Some r', None), w')
    \<and> rec_State r' = Succeeded \<and> w_cluster w' = w_cluster w"
proof -
  obtain c w1 where f: "fresh_ctx sample_engine ctx w = (c, w1)" by fastforce
  let ?w2 = "w1\<lparr>w_calls := Suc (w_calls w1)\<rparr>"
  have w1: "w_store w1 = w_store w" "w_cluster w1 = w_cluster w" using fresh_ctx_store [OF f] by simp_all
  have "sqlite_working sample_hashes (next_call sample_engine ?w2) c"
    unfolding next_call_def using f by (intro sample_engine_works) (auto simp: fresh_ctx_def WithTimeout_def WithoutCancel_def next_call_def)
  then obtain r' w' where "commit_ready sample_engine c r sample_evidence [sample_resource ''Deployment''] ?w2 = ((Some r', None), w')"
      "rec_State r' = Succeeded" "w_cluster w' = w_cluster w"
    using sample_commit_step [of r ?w2 c] r empty w1 by auto
  moreover have "resume_waiting sample_engine ctx r (Some ()) w = commit_ready sample_engine c r sample_evidence
      [sample_resource ''Deployment''] ?w2"
    by (simp add: resume_waiting_def f with_plan_def on_result_def runtime_call_def sample_runtime_def)
  ultimately show ?thesis by simp
qed

lemma sample_applying_run:
  assumes r: "durable (store_ok sample_hashes) (rollout_of sample_hashes) r (w_store w)" "rec_TerminalAt r = None"
      "rec_State r = Applying" "rec_Intent r = sample_intent" and empty: "db_snapshots (w_store w) = []"
  shows "\<exists>r' w'. resume_applying sample_engine ctx r None w = ((Some r', None), w')
    \<and> rec_State r' = Succeeded \<and> w_cluster w' = Suc (w_cluster w)"
proof -
  obtain c w1 where f: "fresh_ctx sample_engine ctx w = (c, w1)" by fastforce
  let ?w3 = "w1\<lparr>w_cluster := Suc (w_cluster w1), w_calls := Suc (Suc (w_calls w1))\<rparr>"
  have w1: "w_store w1 = w_store w" "w_cluster w1 = w_cluster w" using fresh_ctx_store [OF f] by simp_all
  have "sqlite_working sample_hashes (next_call sample_engine ?w3) c"
    unfolding next_call_def using f by (intro sample_engine_works) (auto simp: fresh_ctx_def WithTimeout_def WithoutCancel_def next_call_def)
  then obtain r1 w4 where t: "transition sample_engine c r Waiting None [sample_resource ''Deployment''] None False ?w3 = (Inr r1, w4)"
      "durable (store_ok sample_hashes) (rollout_of sample_hashes) r1 (w_store w4)" "rec_State r1 = Waiting"
      "rec_Intent r1 = sample_intent" "rec_TerminalAt r1 = None" "w_cluster w4 = Suc (w_cluster w)" "db_snapshots (w_store w4) = []"
    using sample_step [of r ?w3 Waiting "[sample_resource ''Deployment'']" c] r empty w1 by (auto simp: MaxRolloutResources_def)
  have "resume_applying sample_engine ctx r None w = resume_waiting sample_engine ctx r1 (Some ())
      (emitRolloutProgress sample_engine r1 ''watching'' ''waiting for factual workload and local routing readiness'' 70 NoError w4)"
    using t(1) by (simp add: resume_applying_def f with_plan_def on_result_def runtime_call_def sample_runtime_def)
  then show ?thesis
    using sample_waiting_run [of r1 "emitRolloutProgress sample_engine r1 ''watching''
      ''waiting for factual workload and local routing readiness'' 70 NoError w4" ctx] t by simp
qed

lemma sample_run:
  "\<exists>r w'. ReconcileRollout sample_engine None sample_intent sample_world = ((Some r, None), w')
     \<and> rec_State r = Succeeded \<and> w_cluster w' = 1"
proof -
  let ?w2 = "sample_world\<lparr>w_calls := Suc (Suc 0)\<rparr>"
  have "sqlite_working sample_hashes (next_call sample_engine ?w2) None"
    unfolding next_call_def by (intro sample_engine_works) simp
  then obtain r1 w3 where t: "transition sample_engine None sample_record Applying None [] None False ?w2 = (Inr r1, w3)"
      "durable (store_ok sample_hashes) (rollout_of sample_hashes) r1 (w_store w3)" "rec_State r1 = Applying"
      "rec_Intent r1 = sample_intent" "rec_TerminalAt r1 = None" "w_cluster w3 = 0" "db_snapshots (w_store w3) = []"
    using sample_step [of sample_record ?w2 Applying "[]" None] sample_record_stored by (auto simp: sample_world_def)
  obtain row where row: "find_rollout ''ro-1'' sample_begun = Some row" "scanRollout sample_hashes row = Inr sample_record"
    using sample_record_stored(1,6) by (auto simp: durable_def rollout_of_def sample_world_def split: option.splits sum.splits)
  have get: "GetRollout sample_hashes (sample_call 10) None ''ro-1'' sample_begun = Inr (Some sample_record)"
    using row by (simp add: GetRollout_def checked_def guard_tx_def ctx_done_def bind_tx_def return_tx_def statement_def sample_call_def)
  have first: "store_read sample_engine (\<lambda>c. so_get (en_store sample_engine) c None ''ro-1'') sample_world
      = (Inr (Some sample_record), sample_world\<lparr>w_calls := Suc 0\<rparr>)"
    using get by (simp add: store_read_def next_call_def sample_engine_def sqlite_ops_def sample_world_def)
  have "ReconcileRollout sample_engine None sample_intent sample_world = resume_prepared sample_engine None sample_record None
      (sample_world\<lparr>w_calls := Suc 0\<rparr>)"
    using sample_record_stored(2-4) first sample_engine_canonical(1)
    by (simp add: ReconcileRollout_def on_result_def resume_existing_def resumeRollout_def cleanupOperation_def
        sample_intent_def [THEN arg_cong, of in_RolloutID] sample_intent_def [THEN arg_cong, of in_Operation])
  also have "\<dots> = resume_applying sample_engine None r1 None (emitRolloutProgress sample_engine r1 ''applying''
      ''applying authoritative runtime snapshot'' 40 NoError w3)"
    using t(1) sample_record_stored(5) by (simp add: resume_prepared_def on_result_def ctx_done_def)
  finally show ?thesis
    using sample_applying_run [OF _ t(5,3,4), of "emitRolloutProgress sample_engine r1 ''applying''
      ''applying authoritative runtime snapshot'' 40 NoError w3" None] t(2,6,7) by auto
qed



text \<open>
  C2: When ReconcileRollout brings a rollout to succeeded, the known-good pointer of its target
  names this rollout's desired runtime; when it brings it to rolled_back, the pointer is the exact
  previous snapshot of the intent. Resuming only moves a stored rollout along allowed transitions.
\<close>

theorem reconcile_sets_pointer:
  assumes "reachable_db H (w_store w)" "runs_on (sqlite_ops H) e"
    and "Canonicalize_intent (en_hashes e) intent = Inr canonical" "in_IntentHash canonical \<noteq> []"
    and "ReconcileRollout e ctx intent w = ((Some r, err), w')"
    and "case rollout_of H (in_RolloutID canonical) (w_store w) of None \<Rightarrow> True | Some old \<Rightarrow> rec_State old \<noteq> rec_State r"
    and "current_of (Key_target (in_Target (rec_Intent r))) (w_store w') = current"
  shows "(rec_State r = Succeeded \<longrightarrow> (\<exists>k. current = Some k \<and> kg_ID k = in_RolloutID (rec_Intent r)
           \<and> kg_Target k = in_Target (rec_Intent r) \<and> kg_Runtime k = in_Desired (rec_Intent r)))
    \<and> (rec_State r = RolledBack \<longrightarrow> (\<exists>k. current = Some k \<and> kg_ID k = in_PreviousKnownGoodID (rec_Intent r)
           \<and> kg_SnapshotHash k = in_PreviousKnownGoodHash (rec_Intent r)))
    \<and> (\<forall>old. rollout_of H (in_RolloutID canonical) (w_store w) = Some old
         \<longrightarrow> rec_Intent r = rec_Intent old \<and> CanTransitionRollout\<^sup>*\<^sup>* (rec_State old) (rec_State r))"
  using sqlite.reconciled_ReconcileRollout [OF assms(2) reachable_ok [OF assms(1)] assms(3,4), of ctx] assms(5-7)
  by (auto simp: reconciled_def pointer_set_def advanced_def split: option.splits)

lemma reconcile_sets_pointer_witness:
  "\<exists>k. current_of (Key_target sample_target) (w_store (snd (ReconcileRollout sample_engine None sample_intent sample_world))) = Some k
     \<and> kg_Runtime k = sample_snapshot"
proof -
  obtain r w' where run: "ReconcileRollout sample_engine None sample_intent sample_world = ((Some r, None), w')"
      "rec_State r = Succeeded" using sample_run by blast
  have "rollout_of sample_hashes (in_RolloutID sample_intent) (w_store sample_world) = Some sample_record"
    using sample_record_stored(1,4) by (simp add: durable_def)
  with reconcile_sets_pointer [OF sample_world_reachable sample_engine_runs sample_engine_canonical run(1) _ refl] run
    sample_record_stored(2,4) show ?thesis
    by (auto simp: sample_intent_def)
qed








text \<open>The rollback of a run whose readiness wait returns only after its deadline.\<close>

definition sample_late_engine :: "(db, unit, nat) Engine" where
  "sample_late_engine = sample_engine\<lparr>en_runtime := sample_runtime\<lparr>rt_observe := (\<lambda>c ctx plan k. (Inl (PlainError ''not ready''), k))\<rparr>,
     en_calls := (\<lambda>n. sample_call (if n < 5 then 10 else 2000))\<rparr>"

definition sample_rolling :: RolloutRecord where
  "sample_rolling = sample_record\<lparr>rec_Intent := sample_rollback_intent, rec_State := RollingBack\<rparr>"

definition sample_kept :: KnownGoodSnapshot where
  "sample_kept = sample_known_good [sample_resource ''Deployment'']\<lparr>kg_SnapshotHash := sample_hex\<rparr>"

definition sample_rolling_world :: "(db, nat) world" where
  "sample_rolling_world = sample_world\<lparr>w_store := empty_db\<lparr>db_snapshots := [snapshot_row_of sample_kept]\<rparr>\<rparr>"


end
