(* ===== verification/Replay.thy ===== *)
theory Replay
  imports Prelude
begin

text \<open>
  Two contracts that the stores of the control plane share, as locales: a mutation under an
  idempotency key is performed once and replayed afterwards, and a mutation of a versioned record
  is a compare-and-swap on its revision and state hash. The lemmas here are about any sequence of
  atomic operations of the store, which is what concurrent requests are, since every operation runs
  under the mutex of the store.
\<close>

lemma mod_add_neq:
  fixes r m N :: nat
  assumes "r < N" "0 < m" "m < N"
  shows "(r + m) mod N \<noteq> r"
proof (cases "r + m < N")
  case False
  then have "(r + m) mod N = r + m - N" using assms by (simp add: mod_if)
  then show ?thesis using assms False by simp
qed (use assms in simp)

section \<open>Replays\<close>

text \<open>
  \<open>replay s k\<close> is the payload hash and the response recorded for the key \<open>k\<close>; \<open>step\<close> relates the
  states before and after one atomic operation; \<open>apply k h q\<close> performs the request \<open>q\<close> with payload
  hash \<open>h\<close> under \<open>k\<close> and returns the response and whether it was replayed.
\<close>

locale replay_store =
  fixes sound :: "'s \<Rightarrow> bool"
    and step :: "'s \<Rightarrow> 's \<Rightarrow> bool"
    and replay :: "'s \<Rightarrow> 'k \<Rightarrow> (string \<times> 'r) option"
    and apply_op :: "'k \<Rightarrow> string \<Rightarrow> 'q \<Rightarrow> 's \<Rightarrow> ('e + 'r \<times> bool) \<times> 's"
    and conflict :: 'e
  assumes step_sound: "sound s \<Longrightarrow> step s s' \<Longrightarrow> sound s'"
    and step_replay: "sound s \<Longrightarrow> step s s' \<Longrightarrow> replay s k = Some x \<Longrightarrow> replay s' k = Some x"
    and apply_step: "sound s \<Longrightarrow> apply_op k h q s = (res, s') \<Longrightarrow> step s s'"
    and replayed: "sound s \<Longrightarrow> replay s k = Some (h, r) \<Longrightarrow> apply_op k h q s = (Inr (r, True), s)"
    and conflicting: "sound s \<Longrightarrow> replay s k = Some (h', r) \<Longrightarrow> h' \<noteq> h \<Longrightarrow> apply_op k h q s = (Inl conflict, s)"
    and recorded: "sound s \<Longrightarrow> replay s k = None \<Longrightarrow> apply_op k h q s = (Inr (r, b), s') \<Longrightarrow> \<not> b \<and> replay s' k = Some (h, r)"
    and failed: "sound s \<Longrightarrow> apply_op k h q s = (Inl e, s') \<Longrightarrow> s' = s"
begin

lemma steps_sound: "step\<^sup>*\<^sup>* s s' \<Longrightarrow> sound s \<Longrightarrow> sound s'"
  by (induction rule: rtranclp_induct) (auto intro: step_sound)

lemma steps_replay: "step\<^sup>*\<^sup>* s s' \<Longrightarrow> sound s \<Longrightarrow> replay s k = Some x \<Longrightarrow> replay s' k = Some x"
  by (induction rule: rtranclp_induct) (auto intro: step_replay steps_sound)

lemma apply_sound: "sound s \<Longrightarrow> apply_op k h q s = (res, s') \<Longrightarrow> sound s'"
  by (meson apply_step step_sound)

lemma apply_cases:
  assumes "sound s" "apply_op k h q s = (res, s')"
  obtains (fresh) r where "replay s k = None" "res = Inr (r, False)" "replay s' k = Some (h, r)"
  | (again) r where "replay s k = Some (h, r)" "res = Inr (r, True)" "s' = s"
  | (error) e where "res = Inl e" "s' = s"
proof (cases res)
  case (Inl e)
  with assms show thesis by (auto intro: error dest: failed)
next
  case (Inr x)
  obtain r b where x: "x = (r, b)" by (cases x)
  show thesis
  proof (cases "replay s k")
    case None
    with assms Inr x recorded [of s k h q r b s'] show thesis by (auto intro: fresh)
  next
    case (Some y)
    obtain h' r' where "y = (h', r')" by (cases y)
    with assms Inr x Some replayed [of s k h r' q] conflicting [of s k h' r' h q] show thesis
      by (cases "h' = h") (auto intro: again)
  qed
qed

lemma success_recorded:
  assumes "sound s" "apply_op k h q s = (Inr (r, b), s')"
  shows "replay s' k = Some (h, r)"
  using assms by (cases rule: apply_cases) auto

text \<open>A retry after a success, however many operations later, returns the same response and changes nothing.\<close>

lemma retry:
  assumes "sound s" "apply_op k h q s = (Inr (r, b), s1)" "step\<^sup>*\<^sup>* s1 s2"
  shows "apply_op k h q' s2 = (Inr (r, True), s2)"
  using assms success_recorded apply_sound steps_replay steps_sound replayed by metis

text \<open>The key is bound to its payload.\<close>

lemma key_bound:
  assumes "sound s" "apply_op k h q s = (Inr (r, b), s1)" "step\<^sup>*\<^sup>* s1 s2" "h' \<noteq> h"
  shows "apply_op k h' q' s2 = (Inl conflict, s2)"
  using assms success_recorded apply_sound steps_replay steps_sound conflicting by metis

text \<open>At most one execution of a key has an effect.\<close>

lemma effect_once:
  assumes "sound s" "apply_op k h q s = (Inr (r, b), s1)" "step\<^sup>*\<^sup>* s1 s2"
  shows "snd (apply_op k h' q' s2) = s2"
  using retry [OF assms, of q'] key_bound [OF assms, of h' q'] by (cases "h' = h") auto

end

section \<open>Versions\<close>

text \<open>
  \<open>version s i\<close> is the revision and the state hash of the record \<open>i\<close>, \<open>slot k q\<close> the record that \<open>q\<close>
  updates (None: it creates one), \<open>expected q\<close> what \<open>q\<close> takes its version to be. \<open>tick\<close> are the steps
  that move versions on; a step that is none is one in which a new identity collides with an old one.
\<close>

locale versioned_store = replay_store +
  fixes tick :: "'s \<Rightarrow> 's \<Rightarrow> bool"
    and version :: "'s \<Rightarrow> 'i \<Rightarrow> nat \<times> string"
    and slot :: "'k \<Rightarrow> 'q \<Rightarrow> 'i option"
    and expected :: "'q \<Rightarrow> nat \<times> string"
  assumes tick_step: "tick s s' \<Longrightarrow> step s s'"
    and version_bound: "sound s \<Longrightarrow> fst (version s i) < 2 ^ 64"
    and tick_version: "sound s \<Longrightarrow> tick s s' \<Longrightarrow> version s' i \<noteq> version s i \<Longrightarrow> fst (version s' i) = wrap_u64 (Suc (fst (version s i)))"
    and swapped: "sound s \<Longrightarrow> slot k q = Some i \<Longrightarrow> apply_op k h q s = (Inr (r, False), s')
      \<Longrightarrow> version s i = expected q \<and> fst (version s' i) = wrap_u64 (Suc (fst (version s i)))"
begin

lemma ticks_steps: "(tick ^^ n) s s' \<Longrightarrow> step\<^sup>*\<^sup>* s s'"
  by (induction n arbitrary: s') (auto dest!: tick_step intro: rtranclp.rtrancl_into_rtrancl)

lemma ticks_version:
  "(tick ^^ n) s s' \<Longrightarrow> sound s \<Longrightarrow> \<exists>m \<le> n. fst (version s' i) = wrap_u64 (fst (version s i) + m)"
proof (induction n arbitrary: s')
  case 0
  then have "s' = s" by simp
  then show ?case using version_bound [OF 0(2), of i] by (intro exI [of _ 0]) (simp add: wrap_u64_id)
next
  case (Suc n)
  then obtain s1 where s1: "(tick ^^ n) s s1" "tick s1 s'" by auto
  then obtain m where m: "m \<le> n" "fst (version s1 i) = wrap_u64 (fst (version s i) + m)" using Suc by blast
  have "sound s1" using ticks_steps [OF s1(1)] Suc.prems(2) by (rule steps_sound)
  then have "version s' i = version s1 i \<or> fst (version s' i) = wrap_u64 (Suc (fst (version s1 i)))"
    using s1(2) tick_version by blast
  then show ?case
  proof
    assume "version s' i = version s1 i"
    with m show ?thesis by (auto intro: exI [of _ m])
  next
    assume "fst (version s' i) = wrap_u64 (Suc (fst (version s1 i)))"
    also have "\<dots> = wrap_u64 (fst (version s i) + Suc m)"
      unfolding m(2) by (simp add: wrap_u64_def mod_Suc_eq)
    finally show ?thesis using m(1) by (auto intro!: exI [of _ "Suc m"])
  qed
qed

text \<open>After a write the version that the writer expected does not come back before the counter goes round.\<close>

lemma moved_on:
  assumes "sound s" "slot k q = Some i" "apply_op k h q s = (Inr (r, False), s1)" "(tick ^^ n) s1 s2" "n < 2 ^ 64 - 1"
  shows "sound s2" "version s2 i \<noteq> expected q"
proof -
  have s1: "sound s1" using assms(1,3) by (rule apply_sound)
  then show "sound s2" using ticks_steps [OF assms(4)] steps_sound by blast
  have v: "version s i = expected q" "fst (version s1 i) = wrap_u64 (Suc (fst (version s i)))"
    using swapped [OF assms(1-3)] by auto
  obtain m where m: "m \<le> n" "fst (version s2 i) = wrap_u64 (fst (version s1 i) + m)"
    using ticks_version [OF assms(4) s1] by blast
  have "fst (version s2 i) = (fst (version s i) + Suc m) mod 2 ^ 64"
    unfolding m(2) v(2) by (simp add: wrap_u64_def mod_add_left_eq mod_Suc_eq)
  also have "\<dots> \<noteq> fst (version s i)"
    using m(1) assms(5) by (intro mod_add_neq version_bound assms(1)) simp_all
  finally show "version s2 i \<noteq> expected q" using v(1) by auto
qed

text \<open>
  No lost update: a second writer that saw the same version does not write, as long as the counter
  has not gone round.
\<close>

lemma no_lost_update:
  assumes "sound s" "slot k q = Some i" "apply_op k h q s = (Inr (r, False), s1)" "(tick ^^ n) s1 s2" "n < 2 ^ 64 - 1"
    and "slot k2 q2 = Some i" "expected q2 = expected q"
  shows "apply_op k2 h2 q2 s2 \<noteq> (Inr (r2, False), s3)"
proof
  assume "apply_op k2 h2 q2 s2 = (Inr (r2, False), s3)"
  then have "version s2 i = expected q" using swapped [OF moved_on(1) [OF assms(1-5)] assms(6)] assms(7) by simp
  then show False using moved_on(2) [OF assms(1-5)] by simp
qed

end

end
