(* ===== verification/Topology.thy ===== *)
theory Topology
  imports Prelude
begin

text \<open>
  Manual placement: the contract of contracts/go/topologyv1/types.go and the normalisation and the
  diff of cloud/internal/topology/service.go. A draft assigns services to runtimes; normalizeDraft
  checks and canonicalises it, diff compares it with the plan in force.

  Fields of type int64 and int32 are \<open>int\<close>; sums and products that can leave the range wrap with
  \<open>wrap_s64\<close>. The SHA-256 of the JSON of a value is a parameter.
\<close>

section \<open>Errors\<close>

datatype topology_error = TopologyError (te_Code: string) (te_Status: int) (te_Message: string) | ErrNotFound | StoreFailure string
  | TypeAssertionPanic \<comment> \<open>the panic of a failed x.(T)\<close>

definition invalid :: "string \<Rightarrow> string \<Rightarrow> topology_error" where
  "invalid code message = TopologyError code 400 message"

definition unavailable :: topology_error where
  "unavailable = TopologyError ''TOPOLOGY_UNAVAILABLE'' 503 ''topology service is unavailable''"

section \<open>The contract\<close>

definition TopologySchemaVersion :: string where "TopologySchemaVersion = ''opsi.topology_plan/v1''"

record Assignment =
  as_ServiceKey :: string
  as_EnvironmentID :: string
  as_RuntimeID :: string
  as_Replicas :: int
  as_CPURequestMillicores :: int
  as_MemoryRequestBytes :: int
  as_CPULimitMillicores :: int
  as_MemoryLimitBytes :: int
  as_ExposureMode :: string
  as_RationaleSummary :: string

record Draft =
  dr_SchemaVersion :: string
  dr_ProjectID :: string
  dr_Assignments :: "Assignment list"

record Plan =
  pl_SchemaVersion :: string
  pl_ID :: string
  pl_ProjectID :: string
  pl_Revision :: nat
  pl_StateHash :: string
  pl_PlanHash :: string
  pl_Assignments :: "Assignment list"
  pl_CreatedBy :: string
  pl_AppliedBy :: string
  pl_CreatedAt :: time
  pl_AppliedAt :: time

definition zero_plan :: Plan where
  "zero_plan = \<lparr>pl_SchemaVersion = [], pl_ID = [], pl_ProjectID = [], pl_Revision = 0, pl_StateHash = [], pl_PlanHash = [],
     pl_Assignments = [], pl_CreatedBy = [], pl_AppliedBy = [], pl_CreatedAt = zero_time, pl_AppliedAt = zero_time\<rparr>"

record Preview =
  pv_Draft :: Draft
  pv_PlanHash :: string
  pv_StateHash :: string

record DiffEntry =
  de_ServiceKey :: string
  de_Change :: string
  de_Before :: "Assignment option"
  de_After :: "Assignment option"

record Diff =
  df_ProjectID :: string
  df_CurrentRevision :: nat
  df_CurrentHash :: string
  df_ProposedHash :: string
  df_Changes :: "DiffEntry list"

section \<open>Normalisation\<close>

definition maxAssignments :: nat where "maxAssignments = 100"
definition maxReplicas :: int where "maxReplicas = 100"
definition maxCPUMillicores :: int where "maxCPUMillicores = 1000000"
definition maxMemoryBytes :: int where "maxMemoryBytes = 2 ^ 50"
definition maxRationaleBytes :: nat where "maxRationaleBytes = 2048"
definition MaxInt64 :: int where "MaxInt64 = 2 ^ 63 - 1"

lemmas topology_limits = maxAssignments_def maxReplicas_def maxCPUMillicores_def maxMemoryBytes_def maxRationaleBytes_def

text \<open>One assignment: its strings trimmed, and after the checks of identity its limits defaulted.\<close>

definition trim_assignment :: "Assignment \<Rightarrow> Assignment" where
  "trim_assignment a = a\<lparr>as_ServiceKey := TrimSpace (as_ServiceKey a), as_EnvironmentID := TrimSpace (as_EnvironmentID a),
     as_RuntimeID := TrimSpace (as_RuntimeID a), as_ExposureMode := TrimSpace (as_ExposureMode a),
     as_RationaleSummary := TrimSpace (as_RationaleSummary a)\<rparr>"

definition default_limits :: "Assignment \<Rightarrow> Assignment" where
  "default_limits a =
     a\<lparr>as_CPULimitMillicores := (if as_CPULimitMillicores a = 0 then as_CPURequestMillicores a else as_CPULimitMillicores a),
       as_MemoryLimitBytes := (if as_MemoryLimitBytes a = 0 then as_MemoryRequestBytes a else as_MemoryLimitBytes a)\<rparr>"

text \<open>The checks on a trimmed and defaulted assignment, with the service keys seen before it.\<close>

definition assignment_error :: "string list \<Rightarrow> Assignment \<Rightarrow> topology_error option" where
  "assignment_error seen a = first_failure
     [(as_ServiceKey a = [] \<or> as_EnvironmentID a = [] \<or> as_RuntimeID a = [] \<or> as_ServiceKey a \<in> set seen,
        invalid ''TOPOLOGY_ASSIGNMENT_INVALID'' ''service, environment, and runtime must be non-empty and service keys unique''),
      (as_Replicas a < 1 \<or> maxReplicas < as_Replicas a \<or> as_CPURequestMillicores a < 1
         \<or> maxCPUMillicores < as_CPURequestMillicores a \<or> as_MemoryRequestBytes a < 1 \<or> maxMemoryBytes < as_MemoryRequestBytes a,
        invalid ''TOPOLOGY_RESOURCES_INVALID'' ''replica, CPU, and memory requests are outside bounded values''),
      (as_CPULimitMillicores a < as_CPURequestMillicores a \<or> maxCPUMillicores < as_CPULimitMillicores a
         \<or> as_MemoryLimitBytes a < as_MemoryRequestBytes a \<or> maxMemoryBytes < as_MemoryLimitBytes a,
        invalid ''TOPOLOGY_RESOURCES_INVALID'' ''resource limits must be greater than or equal to resource requests and bounded''),
      (MaxInt64 div as_Replicas a < as_CPURequestMillicores a \<or> MaxInt64 div as_Replicas a < as_MemoryRequestBytes a
         \<or> MaxInt64 div as_Replicas a < as_CPULimitMillicores a \<or> MaxInt64 div as_Replicas a < as_MemoryLimitBytes a,
        invalid ''TOPOLOGY_RESOURCES_INVALID'' ''resource request overflow''),
      (as_ExposureMode a \<notin> {''none'', ''internal'', ''public''},
        invalid ''TOPOLOGY_EXPOSURE_INVALID'' ''exposure mode must be none, internal, or public''),
      (maxRationaleBytes < length (as_RationaleSummary a),
        invalid ''TOPOLOGY_RATIONALE_INVALID'' ''rationale is too large'')]"

fun normalize_loop :: "string list \<Rightarrow> Assignment list \<Rightarrow> topology_error + Assignment list" where
  "normalize_loop seen [] = Inr []"
| "normalize_loop seen (a # as) =
     (let a = default_limits (trim_assignment a) in
      case assignment_error seen a of Some e \<Rightarrow> Inl e
      | None \<Rightarrow> (case normalize_loop (as_ServiceKey a # seen) as of Inl e \<Rightarrow> Inl e | Inr as \<Rightarrow> Inr (a # as)))"

record topology_hashes =
  th_draft :: "Draft \<Rightarrow> string option"
  th_assignment :: "Assignment \<Rightarrow> string option"
  th_state :: "string \<times> nat \<times> string \<Rightarrow> string option"

definition hashMust :: "('a \<Rightarrow> string option) \<Rightarrow> 'a \<Rightarrow> string" where
  "hashMust h x = (case h x of None \<Rightarrow> [] | Some s \<Rightarrow> s)"

definition stateHash :: "topology_hashes \<Rightarrow> string \<Rightarrow> nat \<Rightarrow> string \<Rightarrow> string" where
  "stateHash H pid revision payload = hashMust (th_state H) (pid, revision, payload)"

definition draft_error :: "string \<Rightarrow> Draft \<Rightarrow> topology_error option" where
  "draft_error projectID draft = first_failure
     [(dr_SchemaVersion draft \<noteq> TopologySchemaVersion \<or> dr_ProjectID draft \<noteq> projectID \<or> projectID = [],
        TopologyError ''TOPOLOGY_CONTRACT_INVALID'' 400 ''schema version and project identity must match the request path''),
      (dr_Assignments draft = [] \<or> maxAssignments < length (dr_Assignments draft),
        TopologyError ''TOPOLOGY_ASSIGNMENTS_INVALID'' 400 ''assignments must contain between 1 and 100 services'')]"

text \<open>A failing json.Marshal is the error StoreFailure with its text.\<close>

definition normalizeDraft :: "topology_hashes \<Rightarrow> string \<Rightarrow> Draft \<Rightarrow> topology_error + Draft \<times> string" where
  "normalizeDraft H projectID draft =
     (case draft_error projectID draft of Some e \<Rightarrow> Inl e | None \<Rightarrow>
      case normalize_loop [] (dr_Assignments draft) of Inl e \<Rightarrow> Inl e | Inr as \<Rightarrow>
      let draft = draft\<lparr>dr_Assignments := sort_key as_ServiceKey as\<rparr> in
      case th_draft H draft of None \<Rightarrow> Inl (StoreFailure ''json: marshal error'') | Some h \<Rightarrow> Inr (draft, h))"

section \<open>Diff\<close>

text \<open>The maps of the code, by service key; a later assignment with the same key wins.\<close>

definition by_service :: "Assignment list \<Rightarrow> string \<Rightarrow> Assignment option" where
  "by_service as = map_of (map (\<lambda>a. (as_ServiceKey a, a)) (rev as))"

definition diff_keys :: "Assignment list \<Rightarrow> Assignment list \<Rightarrow> string list" where
  "diff_keys before after = sort (remdups (map as_ServiceKey before @ map as_ServiceKey after))"

definition diff_entry :: "topology_hashes \<Rightarrow> Assignment option \<Rightarrow> Assignment option \<Rightarrow> string \<Rightarrow> DiffEntry option" where
  "diff_entry H b a key =
     (if b \<noteq> None \<and> a \<noteq> None \<and> hashMust (th_assignment H) (the b) = hashMust (th_assignment H) (the a) then None
      else Some \<lparr>de_ServiceKey = key,
        de_Change = (if a = None then ''removed'' else if b = None then ''added'' else ''updated''),
        de_Before = b, de_After = a\<rparr>)"

definition diff_changes :: "topology_hashes \<Rightarrow> Assignment list \<Rightarrow> Assignment list \<Rightarrow> DiffEntry list" where
  "diff_changes H before after =
     List.map_filter (\<lambda>key. diff_entry H (by_service before key) (by_service after key) key) (diff_keys before after)"

definition diff :: "topology_hashes \<Rightarrow> Plan \<Rightarrow> Draft \<Rightarrow> string \<Rightarrow> Diff" where
  "diff H current proposed proposedHash =
     \<lparr>df_ProjectID = dr_ProjectID proposed, df_CurrentRevision = pl_Revision current, df_CurrentHash = pl_StateHash current,
      df_ProposedHash = proposedHash, df_Changes = diff_changes H (pl_Assignments current) (dr_Assignments proposed)\<rparr>"

section \<open>Idempotency keys\<close>

text \<open>The characters are checked rune by rune; a byte of a longer rune is none of those allowed.\<close>

definition validateIdempotencyKey :: "string \<Rightarrow> topology_error option" where
  "validateIdempotencyKey value = (let value = TrimSpace value in first_failure
     [(length value < 8 \<or> 128 < length value,
        invalid ''IDEMPOTENCY_KEY_INVALID'' ''idempotency key must be between 8 and 128 characters''),
      (\<not> list_all (\<lambda>c. c \<in> set ''-_.'' \<or> is_alnum c) value,
        invalid ''IDEMPOTENCY_KEY_INVALID'' ''idempotency key contains unsupported characters'')])"

end
