(* ===== verification/Topology_Validation.thy ===== *)
theory Topology_Validation
  imports Topology
begin

text \<open>
  The deterministic validation of a placement draft against the facts of the project:
  validateRuntime and validate of cloud/internal/topology/service.go, with the heartbeat, capacity
  and scoped-override rules. The time now and the lookup of the operator-declared capacity are
  arguments; int64 sums and products wrap.
\<close>

section \<open>Facts\<close>

record EnvironmentFact =
  ef_ID :: string
  ef_ProjectID :: string
  ef_Name :: string
  ef_Type :: string
  ef_Status :: string

record RuntimeFact =
  rf_ID :: string
  rf_ProjectID :: string
  rf_EnvironmentID :: string
  rf_Name :: string
  rf_Type :: string
  rf_Status :: string

record NodeFact =
  nf_ID :: string
  nf_ProjectID :: string
  nf_RuntimeID :: string
  nf_Status :: string
  nf_CPUCores :: int
  nf_MemoryMB :: int
  nf_LastSeenAt :: "time option"

text \<open>A value of type any, as far as the code looks at it: a bool or something else.\<close>

datatype any_value = AnyBool bool | AnyOther

record AgentFact =
  af_ID :: string
  af_ProjectID :: string
  af_RuntimeID :: string
  af_NodeID :: string
  af_Status :: string
  af_Capabilities :: "(string \<times> any_value) list" \<comment> \<open>a nil map is the empty one\<close>
  af_LastSeenAt :: "time option"

record ServiceFact =
  sf_ID :: string
  sf_ProjectID :: string
  sf_Key :: string

record ResourceFact =
  rs_ID :: string
  rs_ProjectID :: string
  rs_EnvironmentID :: string
  rs_Name :: string
  rs_Kind :: string
  rs_Type :: string
  rs_Lifecycle :: string
  rs_RuntimeID :: string
  rs_Version :: string
  rs_Replicas :: int
  rs_CPUMillicores :: int
  rs_MemoryBytes :: int

record PlacementFacts =
  pf_ProjectID :: string
  pf_Environments :: "EnvironmentFact list"
  pf_Runtimes :: "RuntimeFact list"
  pf_Nodes :: "NodeFact list"
  pf_Agents :: "AgentFact list"
  pf_Services :: "ServiceFact list"
  pf_Resources :: "ResourceFact list"

text \<open>The maps that validate builds: a later fact with the same key wins.\<close>

definition index_by :: "('a \<Rightarrow> string) \<Rightarrow> 'a list \<Rightarrow> string \<Rightarrow> 'a option" where
  "index_by key xs = map_of (map (\<lambda>x. (key x, x)) (rev xs))"

definition zero_environment :: EnvironmentFact where
  "zero_environment = \<lparr>ef_ID = [], ef_ProjectID = [], ef_Name = [], ef_Type = [], ef_Status = []\<rparr>"

definition environment :: "PlacementFacts \<Rightarrow> string \<Rightarrow> EnvironmentFact" where
  "environment facts eid = (case index_by ef_ID (pf_Environments facts) eid of None \<Rightarrow> zero_environment | Some e \<Rightarrow> e)"

section \<open>Results\<close>

record Issue =
  is_Code :: string
  is_Message :: string
  is_ServiceKey :: string
  is_RuntimeID :: string
  is_Severity :: string

record Capacity =
  cp_RuntimeID :: string
  cp_NodeID :: string
  cp_AgentID :: string
  cp_Source :: string
  cp_SourceRevision :: nat
  cp_ObservedAt :: "time option"
  cp_HeartbeatAgeSeconds :: int
  cp_HeartbeatFresh :: bool
  cp_CPUCapacityMillicores :: int
  cp_MemoryCapacityBytes :: int
  cp_ReservedCPUMillicores :: int
  cp_ReservedMemoryBytes :: int
  cp_AssignedCPUMillicores :: int
  cp_AssignedMemoryBytes :: int
  cp_RequestedCPUMillicores :: int
  cp_RequestedMemoryBytes :: int
  cp_AvailableCPUMillicores :: int
  cp_AvailableMemoryBytes :: int
  cp_UnknownCapacity :: bool
  cp_UnknownCapacityPolicyOverride :: bool
  cp_Oversubscribed :: bool

definition zero_capacity :: Capacity where
  "zero_capacity = \<lparr>cp_RuntimeID = [], cp_NodeID = [], cp_AgentID = [], cp_Source = [], cp_SourceRevision = 0, cp_ObservedAt = None,
     cp_HeartbeatAgeSeconds = 0, cp_HeartbeatFresh = False, cp_CPUCapacityMillicores = 0, cp_MemoryCapacityBytes = 0,
     cp_ReservedCPUMillicores = 0, cp_ReservedMemoryBytes = 0, cp_AssignedCPUMillicores = 0, cp_AssignedMemoryBytes = 0,
     cp_RequestedCPUMillicores = 0, cp_RequestedMemoryBytes = 0, cp_AvailableCPUMillicores = 0, cp_AvailableMemoryBytes = 0,
     cp_UnknownCapacity = False, cp_UnknownCapacityPolicyOverride = False, cp_Oversubscribed = False\<rparr>"

record RuntimeValidation =
  rv_RuntimeID :: string
  rv_Eligible :: bool
  rv_Capacity :: Capacity
  rv_Issues :: "Issue list"

record ValidationResult =
  vr_SchemaVersion :: string
  vr_ProjectID :: string
  vr_PlanHash :: string
  vr_Valid :: bool
  vr_Runtimes :: "RuntimeValidation list"
  vr_Issues :: "Issue list"
  vr_ValidatedAt :: time

record OperatorCapacity =
  oc_ID :: string
  oc_ProjectID :: string
  oc_RuntimeID :: string
  oc_Revision :: nat
  oc_Source :: string
  oc_CPUMillicores :: int
  oc_MemoryBytes :: int
  oc_ReservedCPUMillicores :: int
  oc_ReservedMemoryBytes :: int
  oc_DeclaredBy :: string
  oc_DeclaredAt :: time
  oc_StateHash :: string

text \<open>The limits of a Service.\<close>

record limits =
  lm_HeartbeatTTL :: int
  lm_ReservedCPU :: int
  lm_ReservedMemory :: int

definition heartbeatTTL :: "limits \<Rightarrow> int" where
  "heartbeatTTL s = (if 30 * Second \<le> lm_HeartbeatTTL s \<and> lm_HeartbeatTTL s \<le> 30 * Minute then lm_HeartbeatTTL s else 2 * Minute)"

definition reservedCPU :: "limits \<Rightarrow> int" where
  "reservedCPU s = (if 0 \<le> lm_ReservedCPU s \<and> lm_ReservedCPU s \<le> maxCPUMillicores then lm_ReservedCPU s else 250)"

definition reservedMemory :: "limits \<Rightarrow> int" where
  "reservedMemory s = (if 0 \<le> lm_ReservedMemory s \<and> lm_ReservedMemory s \<le> maxMemoryBytes then lm_ReservedMemory s else 256 * 2 ^ 20)"

section \<open>One runtime\<close>

definition nodeParticipatesInRuntime :: "string \<Rightarrow> bool" where
  "nodeParticipatesInRuntime status = (status \<in> {''agent_connecting'', ''healthy'', ''draining''})"

definition capabilityEnabled :: "(string \<times> any_value) list \<Rightarrow> string \<Rightarrow> bool" where
  "capabilityEnabled values key = (case map_of values key of Some (AnyBool b) \<Rightarrow> b | _ \<Rightarrow> False)"

definition heartbeatFresh :: "time option \<Rightarrow> time \<Rightarrow> int \<Rightarrow> bool" where
  "heartbeatFresh lastSeen now ttl = (case lastSeen of None \<Rightarrow> False | Some seen \<Rightarrow> seen \<le> now \<and> now - seen \<le> ttl)"

definition runtime_nodes :: "PlacementFacts \<Rightarrow> RuntimeFact \<Rightarrow> NodeFact list" where
  "runtime_nodes facts rt = filter (\<lambda>n. nf_ProjectID n = rf_ProjectID rt \<and> nf_RuntimeID n = rf_ID rt
     \<and> nodeParticipatesInRuntime (nf_Status n)) (pf_Nodes facts)"

definition deploy_agent :: "RuntimeFact \<Rightarrow> NodeFact \<Rightarrow> AgentFact \<Rightarrow> bool" where
  "deploy_agent rt node agent = (af_ProjectID agent = rf_ProjectID rt \<and> af_RuntimeID agent = rf_ID rt
     \<and> af_NodeID agent = nf_ID node \<and> af_Status agent = ''active'' \<and> capabilityEnabled (af_Capabilities agent) ''deploy'')"

text \<open>The loop over the nodes: the eligible pairs, and whether a stale heartbeat was met.\<close>

definition eligible_pairs :: "limits \<Rightarrow> time \<Rightarrow> PlacementFacts \<Rightarrow> RuntimeFact \<Rightarrow> (NodeFact \<times> AgentFact) list" where
  "eligible_pairs s now facts rt = concat (map (\<lambda>node. map (Pair node)
       (filter (\<lambda>agent. deploy_agent rt node agent \<and> heartbeatFresh (af_LastSeenAt agent) now (heartbeatTTL s)) (pf_Agents facts)))
     (filter (\<lambda>node. nf_Status node = ''healthy'' \<and> heartbeatFresh (nf_LastSeenAt node) now (heartbeatTTL s)) (runtime_nodes facts rt)))"

definition stale_heartbeat :: "limits \<Rightarrow> time \<Rightarrow> PlacementFacts \<Rightarrow> RuntimeFact \<Rightarrow> bool" where
  "stale_heartbeat s now facts rt = list_ex (\<lambda>node. nf_Status node = ''healthy''
     \<and> (\<not> heartbeatFresh (nf_LastSeenAt node) now (heartbeatTTL s)
        \<or> list_ex (\<lambda>agent. deploy_agent rt node agent \<and> \<not> heartbeatFresh (af_LastSeenAt agent) now (heartbeatTTL s)) (pf_Agents facts)))
     (runtime_nodes facts rt)"

definition reject :: "string \<Rightarrow> string \<Rightarrow> RuntimeValidation \<Rightarrow> RuntimeValidation" where
  "reject code message rv = rv\<lparr>rv_Eligible := False, rv_Issues := rv_Issues rv @
     [\<lparr>is_Code = code, is_Message = message, is_ServiceKey = [], is_RuntimeID = rv_RuntimeID rv, is_Severity = ''error''\<rparr>]\<rparr>"

definition with_capacity :: "(Capacity \<Rightarrow> Capacity) \<Rightarrow> RuntimeValidation \<Rightarrow> RuntimeValidation" where
  "with_capacity f rv = rv\<lparr>rv_Capacity := f (rv_Capacity rv)\<rparr>"

text \<open>
  The age of the heartbeat: int64 of Duration.Seconds, which is positive and at most the TTL when
  the pair is eligible, so truncation is \<open>div\<close>.
\<close>

definition check_agents :: "limits \<Rightarrow> time \<Rightarrow> PlacementFacts \<Rightarrow> RuntimeFact \<Rightarrow> RuntimeValidation \<Rightarrow> RuntimeValidation" where
  "check_agents s now facts rt rv = (case eligible_pairs s now facts rt of
     [] \<Rightarrow> if stale_heartbeat s now facts rt
           then reject ''TOPOLOGY_HEARTBEAT_STALE'' ''runtime node or deploy Agent heartbeat is stale'' rv
           else reject ''TOPOLOGY_AGENT_MISSING'' ''runtime has no fresh healthy deploy Agent'' rv
   | [(node, agent)] \<Rightarrow> with_capacity (\<lambda>c. c\<lparr>cp_NodeID := nf_ID node, cp_AgentID := af_ID agent,
       cp_ObservedAt := nf_LastSeenAt node,
       cp_HeartbeatAgeSeconds := (case nf_LastSeenAt node of None \<Rightarrow> 0 | Some seen \<Rightarrow> (now - seen) div Second),
       cp_HeartbeatFresh := True\<rparr>) rv
   | _ \<Rightarrow> reject ''TOPOLOGY_AGENT_AMBIGUOUS'' ''runtime has more than one eligible deploy Agent'' rv)"

type_synonym capacity_lookup = "string \<Rightarrow> string \<Rightarrow> topology_error + OperatorCapacity"

text \<open>The capacity of a runtime: declared by the operator, observed on its one eligible node, or unknown.\<close>

definition capacity_source :: "limits \<Rightarrow> time \<Rightarrow> PlacementFacts \<Rightarrow> RuntimeFact \<Rightarrow> capacity_lookup \<Rightarrow> Capacity \<Rightarrow> Capacity option" where
  "capacity_source s now facts rt getcap c = (case getcap (rf_ProjectID rt) (rf_ID rt) of
     Inr oc \<Rightarrow> Some (c\<lparr>cp_Source := oc_Source oc, cp_SourceRevision := oc_Revision oc,
       cp_CPUCapacityMillicores := oc_CPUMillicores oc, cp_MemoryCapacityBytes := oc_MemoryBytes oc,
       cp_ReservedCPUMillicores := oc_ReservedCPUMillicores oc, cp_ReservedMemoryBytes := oc_ReservedMemoryBytes oc\<rparr>)
   | Inl _ \<Rightarrow> (case eligible_pairs s now facts rt of
       [(node, agent)] \<Rightarrow> if 0 < nf_CPUCores node \<and> 0 < nf_MemoryMB node
         then Some (c\<lparr>cp_Source := ''agent_observed'', cp_CPUCapacityMillicores := wrap_s64 (nf_CPUCores node * 1000),
           cp_MemoryCapacityBytes := wrap_s64 (nf_MemoryMB node * 2 ^ 20), cp_ReservedCPUMillicores := reservedCPU s,
           cp_ReservedMemoryBytes := reservedMemory s\<rparr>)
         else None
     | _ \<Rightarrow> None))"

type_synonym resourcePair = "int \<times> int" \<comment> \<open>cpu and memory\<close>

definition check_capacity :: "resourcePair \<Rightarrow> RuntimeValidation \<Rightarrow> RuntimeValidation" where
  "check_capacity requested rv =
     (let rv = with_capacity (\<lambda>c. c\<lparr>cp_AvailableCPUMillicores := wrap_s64 (cp_CPUCapacityMillicores c - cp_ReservedCPUMillicores c),
             cp_AvailableMemoryBytes := wrap_s64 (cp_MemoryCapacityBytes c - cp_ReservedMemoryBytes c)\<rparr>) rv in
      if cp_AvailableCPUMillicores (rv_Capacity rv) < fst requested \<or> cp_AvailableMemoryBytes (rv_Capacity rv) < snd requested
      then reject ''TOPOLOGY_CAPACITY_EXCEEDED'' ''requested resources exceed capacity after reserved headroom''
             (with_capacity (\<lambda>c. c\<lparr>cp_Oversubscribed := True\<rparr>) rv)
      else rv)"

definition validateRuntime :: "limits \<Rightarrow> PlacementFacts \<Rightarrow> RuntimeFact \<Rightarrow> resourcePair \<Rightarrow> resourcePair \<Rightarrow> bool \<Rightarrow> time
    \<Rightarrow> capacity_lookup \<Rightarrow> RuntimeValidation" where
  "validateRuntime s facts rt assigned requested allowUnknown now getcap =
     (let rv = \<lparr>rv_RuntimeID = rf_ID rt, rv_Eligible = True, rv_Capacity = zero_capacity, rv_Issues = []\<rparr>;
          rv = (if 1 < length (runtime_nodes facts rt)
                then reject ''TOPOLOGY_RUNTIME_MULTI_NODE_UNSUPPORTED'' ''R5-009 supports exactly one node per K3s runtime'' rv else rv);
          rv = check_agents s now facts rt rv;
          rv = with_capacity (\<lambda>c. c\<lparr>cp_RuntimeID := rf_ID rt, cp_AssignedCPUMillicores := fst assigned,
                 cp_AssignedMemoryBytes := snd assigned, cp_RequestedCPUMillicores := fst requested,
                 cp_RequestedMemoryBytes := snd requested\<rparr>) rv in
      case capacity_source s now facts rt getcap (rv_Capacity rv) of
        Some c \<Rightarrow> check_capacity requested (rv\<lparr>rv_Capacity := c\<rparr>)
      | None \<Rightarrow>
          let rv = with_capacity (\<lambda>c. c\<lparr>cp_Source := ''unknown'', cp_UnknownCapacity := True,
                cp_UnknownCapacityPolicyOverride := allowUnknown\<rparr>) rv in
          if allowUnknown then rv
          else reject ''TOPOLOGY_CAPACITY_UNKNOWN'' ''runtime capacity is unknown and policy does not allow an override'' rv)"

section \<open>The whole draft\<close>

text \<open>Requests by runtime: the sums of int64 products, both wrapping.\<close>

definition requestedByRuntime :: "Assignment list \<Rightarrow> string \<Rightarrow> resourcePair" where
  "requestedByRuntime as = fold (\<lambda>a m. m(as_RuntimeID a :=
     (wrap_s64 (fst (m (as_RuntimeID a)) + wrap_s64 (as_CPURequestMillicores a * as_Replicas a)),
      wrap_s64 (snd (m (as_RuntimeID a)) + wrap_s64 (as_MemoryRequestBytes a * as_Replicas a))))) as (\<lambda>_. (0, 0))"

record CapacityOverride =
  co_Allowed :: bool
  co_EnvironmentID :: string
  co_ServiceKeys :: "string list"
  co_RuntimeIDs :: "string list"

definition override_allows :: "CapacityOverride \<Rightarrow> Assignment \<Rightarrow> bool" where
  "override_allows co a = (co_Allowed co \<and> \<not> (co_EnvironmentID co \<noteq> [] \<and> co_EnvironmentID co \<noteq> as_EnvironmentID a)
     \<and> \<not> (co_ServiceKeys co \<noteq> [] \<and> as_ServiceKey a \<notin> set (co_ServiceKeys co))
     \<and> \<not> (co_RuntimeIDs co \<noteq> [] \<and> as_RuntimeID a \<notin> set (co_RuntimeIDs co)))"

text \<open>The map of the code; a runtime that it lacks reads as false.\<close>

definition scopedAssignmentOverrides :: "Assignment list \<Rightarrow> CapacityOverride \<Rightarrow> string \<Rightarrow> bool option" where
  "scopedAssignmentOverrides as co = fold (\<lambda>a m.
     if \<not> override_allows co a then m(as_RuntimeID a := Some False)
     else if m (as_RuntimeID a) = None then m(as_RuntimeID a := Some True) else m) as (\<lambda>_. None)"

definition addIssue :: "string \<Rightarrow> string \<Rightarrow> Assignment \<Rightarrow> ValidationResult \<Rightarrow> ValidationResult" where
  "addIssue code message a r = r\<lparr>vr_Issues := vr_Issues r @ [\<lparr>is_Code = code, is_Message = message,
     is_ServiceKey = as_ServiceKey a, is_RuntimeID = as_RuntimeID a, is_Severity = ''error''\<rparr>], vr_Valid := False\<rparr>"

definition issue_if :: "bool \<Rightarrow> string \<Rightarrow> string \<Rightarrow> Assignment \<Rightarrow> ValidationResult \<Rightarrow> ValidationResult" where
  "issue_if bad code message a r = (if bad then addIssue code message a r else r)"

definition has_managed_kafka :: "PlacementFacts \<Rightarrow> string \<Rightarrow> Assignment \<Rightarrow> bool" where
  "has_managed_kafka facts projectID a = list_ex (\<lambda>agent. af_ProjectID agent = projectID \<and> af_RuntimeID agent = as_RuntimeID a
     \<and> af_Status agent = ''active'' \<and> capabilityEnabled (af_Capabilities agent) ''managed_resources''
     \<and> capabilityEnabled (af_Capabilities agent) ''managed_kafka'') (pf_Agents facts)"

text \<open>The checks before the runtime is looked up.\<close>

definition check_service :: "PlacementFacts \<Rightarrow> string \<Rightarrow> Assignment \<Rightarrow> ValidationResult \<Rightarrow> ValidationResult" where
  "check_service facts projectID a r =
     (let resource = index_by rs_ID (pf_Resources facts) (as_ServiceKey a);
          r = issue_if (index_by sf_Key (pf_Services facts) (as_ServiceKey a) = None \<and> resource = None)
                ''TOPOLOGY_SERVICE_NOT_FOUND'' ''service is not active in this project'' a r in
      case resource of None \<Rightarrow> r
      | Some rs \<Rightarrow>
          issue_if (rs_Type rs = ''kafka'' \<and> \<not> has_managed_kafka facts projectID a) ''TOPOLOGY_AGENT_CAPABILITY_MISSING''
            ''Agent requires upgrade: managed_kafka capability is required for managed Kafka. Next action: upgrade the Agent.'' a
          (issue_if (rs_Kind rs \<noteq> ''managed_service'' \<or> rs_EnvironmentID rs \<noteq> as_EnvironmentID a \<or> rs_ProjectID rs \<noteq> projectID)
            ''MANAGED_RESOURCE_ASSIGNMENT_INVALID'' ''managed resource assignment does not match its canonical scope'' a r))"

definition check_environment :: "PlacementFacts \<Rightarrow> string \<Rightarrow> RuntimeFact \<Rightarrow> Assignment \<Rightarrow> ValidationResult \<Rightarrow> ValidationResult" where
  "check_environment facts projectID rt a r =
     issue_if (rf_Status rt \<noteq> ''ready'' \<or> rf_Type rt \<noteq> ''k3s'' \<or> ef_Status (environment facts (as_EnvironmentID a)) \<noteq> ''active'')
       ''TOPOLOGY_RUNTIME_INACTIVE'' ''runtime and environment must be active and ready'' a
     (issue_if (rf_EnvironmentID rt \<noteq> as_EnvironmentID a \<or> ef_ProjectID (environment facts (as_EnvironmentID a)) \<noteq> projectID)
       ''TOPOLOGY_ENVIRONMENT_MISMATCH'' ''runtime does not belong to the requested environment'' a r)"

definition add_runtime :: "RuntimeValidation \<Rightarrow> ValidationResult \<Rightarrow> ValidationResult" where
  "add_runtime rv r = r\<lparr>vr_Runtimes := vr_Runtimes r @ [rv], vr_Issues := vr_Issues r @ rv_Issues rv,
     vr_Valid := (vr_Valid r \<and> rv_Issues rv = [])\<rparr>"

text \<open>The loop over the assignments; \<open>check\<close> is validateRuntime on a runtime of the map.\<close>

fun validate_loop :: "PlacementFacts \<Rightarrow> string \<Rightarrow> (RuntimeFact \<Rightarrow> string \<Rightarrow> RuntimeValidation) \<Rightarrow> string list
    \<Rightarrow> Assignment list \<Rightarrow> ValidationResult \<Rightarrow> ValidationResult" where
  "validate_loop facts projectID check seen [] r = r"
| "validate_loop facts projectID check seen (a # as) r =
     (let r = check_service facts projectID a r in
      case index_by rf_ID (pf_Runtimes facts) (as_RuntimeID a) of
        None \<Rightarrow> validate_loop facts projectID check seen as
          (addIssue ''TOPOLOGY_RUNTIME_NOT_FOUND'' ''runtime is not available in this project'' a r)
      | Some rt \<Rightarrow>
          if rf_ProjectID rt \<noteq> projectID
          then validate_loop facts projectID check seen as
            (addIssue ''TOPOLOGY_RUNTIME_NOT_FOUND'' ''runtime is not available in this project'' a r)
          else let r = check_environment facts projectID rt a r in
            if as_RuntimeID a \<in> set seen then validate_loop facts projectID check seen as r
            else validate_loop facts projectID check (as_RuntimeID a # seen) as (add_runtime (check rt (as_RuntimeID a)) r))"

definition validate :: "limits \<Rightarrow> time \<Rightarrow> capacity_lookup \<Rightarrow> PlacementFacts \<Rightarrow> Plan \<Rightarrow> Draft \<Rightarrow> string \<Rightarrow> CapacityOverride
    \<Rightarrow> ValidationResult" where
  "validate s now getcap facts current draft planHash co =
     (let requested = requestedByRuntime (dr_Assignments draft);
          assigned = requestedByRuntime (pl_Assignments current);
          allowed = scopedAssignmentOverrides (dr_Assignments draft) co;
          r = validate_loop facts (dr_ProjectID draft)
            (\<lambda>rt rid. validateRuntime s facts rt (assigned rid) (requested rid) (allowed rid = Some True) now getcap) []
            (dr_Assignments draft)
            \<lparr>vr_SchemaVersion = TopologySchemaVersion, vr_ProjectID = dr_ProjectID draft, vr_PlanHash = planHash,
             vr_Valid = True, vr_Runtimes = [], vr_Issues = [], vr_ValidatedAt = now\<rparr> in
      r\<lparr>vr_Runtimes := sort_key rv_RuntimeID (vr_Runtimes r), vr_Valid := (vr_Valid r \<and> vr_Issues r = [])\<rparr>)"

definition validation_failure :: "ValidationResult \<Rightarrow> topology_error" where
  "validation_failure r = TopologyError ''TOPOLOGY_VALIDATION_FAILED'' 409 (case vr_Issues r of
     [] \<Rightarrow> ''topology plan has deterministic validation errors''
   | issue # _ \<Rightarrow> is_Code issue @ '': '' @ is_Message issue)"

end
