(* ===== verification/Topology_Service.thy ===== *)
theory Topology_Service
  imports Topology_Validation
begin

text \<open>
  The topology service (cloud/internal/topology/service.go) over the operations of its Store, and
  the in-memory store of cloud/internal/topology/memory.go. Every operation of the store runs under
  its mutex and is one function of the state. The random bytes of newID, the clock and the placement
  facts are arguments; crypto/rand is taken not to fail.
\<close>

section \<open>Requests\<close>

record ApplyRequest =
  ar_Draft :: Draft
  ar_ExpectedRevision :: nat
  ar_ExpectedStateHash :: string
  ar_PolicyID :: string

record ApplyResult =
  res_Plan :: Plan
  res_Reused :: bool

record OperatorCapacityDraft =
  cd_RuntimeID :: string
  cd_CPUMillicores :: int
  cd_MemoryBytes :: int
  cd_ReservedCPUMillicores :: int
  cd_ReservedMemoryBytes :: int

record OperatorCapacityApplyRequest =
  cr_Draft :: OperatorCapacityDraft
  cr_ExpectedRevision :: nat
  cr_ExpectedStateHash :: string

record OperatorCapacityApplyResult =
  cres_Capacity :: OperatorCapacity
  cres_Reused :: bool

record service_hashes =
  sh_topology :: topology_hashes
  sh_apply :: "ApplyRequest \<Rightarrow> string option"
  sh_capacity :: "OperatorCapacityApplyRequest \<Rightarrow> string option"
  sh_capacity_draft :: "OperatorCapacityDraft \<Rightarrow> string option"

definition newID :: "string \<Rightarrow> string \<Rightarrow> string" where
  "newID pre random = pre @ ''-'' @ random"

section \<open>The store in memory\<close>

datatype any_response = PlanResponse Plan | CapacityResponse OperatorCapacity

record memory_store =
  ms_plans :: "string \<Rightarrow> Plan option"
  ms_capacities :: "string \<Rightarrow> OperatorCapacity option"
  ms_replays :: "string \<Rightarrow> (string \<times> any_response) option"

definition NewMemoryStore :: memory_store where
  "NewMemoryStore = \<lparr>ms_plans = \<lambda>_. None, ms_capacities = \<lambda>_. None, ms_replays = \<lambda>_. None\<rparr>"

definition zero_operator_capacity :: OperatorCapacity where
  "zero_operator_capacity = \<lparr>oc_ID = [], oc_ProjectID = [], oc_RuntimeID = [], oc_Revision = 0, oc_Source = [], oc_CPUMillicores = 0,
     oc_MemoryBytes = 0, oc_ReservedCPUMillicores = 0, oc_ReservedMemoryBytes = 0, oc_DeclaredBy = [], oc_DeclaredAt = zero_time,
     oc_StateHash = []\<rparr>"

definition idempotency_conflict :: topology_error where
  "idempotency_conflict = TopologyError ''IDEMPOTENCY_CONFLICT'' 409 ''idempotency key was already used with a different payload''"

definition plan_conflict :: topology_error where
  "plan_conflict = TopologyError ''TOPOLOGY_STATE_CONFLICT'' 409 ''topology state changed; refresh diff and retry''"

definition capacity_conflict :: topology_error where
  "capacity_conflict = TopologyError ''TOPOLOGY_CAPACITY_STATE_CONFLICT'' 409 ''capacity state changed; refresh and retry''"

text \<open>The type assertions on the recorded response.\<close>

primrec as_plan :: "any_response \<Rightarrow> Plan option" where
  "as_plan (PlanResponse p) = Some p"
| "as_plan (CapacityResponse c) = None"

primrec as_capacity :: "any_response \<Rightarrow> OperatorCapacity option" where
  "as_capacity (PlanResponse p) = None"
| "as_capacity (CapacityResponse c) = Some c"

definition replay_lookup :: "(any_response \<Rightarrow> 'r option) \<Rightarrow> string \<Rightarrow> string \<Rightarrow> memory_store \<Rightarrow> topology_error + 'r option" where
  "replay_lookup as_type replayKey payloadHash s = (case ms_replays s replayKey of None \<Rightarrow> Inr None
     | Some (h, response) \<Rightarrow> if h \<noteq> payloadHash then Inl idempotency_conflict
         else case as_type response of None \<Rightarrow> Inl TypeAssertionPanic | Some r \<Rightarrow> Inr (Some r))"

definition plan_replay_key :: "string \<Rightarrow> string \<Rightarrow> string" where
  "plan_replay_key projectID key = ''plan:'' @ projectID @ '':'' @ key"

definition capacity_replay_key :: "string \<Rightarrow> string \<Rightarrow> string" where
  "capacity_replay_key projectID key = ''capacity:'' @ projectID @ '':'' @ key"

definition memory_Get :: "string \<Rightarrow> memory_store \<Rightarrow> topology_error + Plan" where
  "memory_Get projectID s = (case ms_plans s projectID of None \<Rightarrow> Inl ErrNotFound | Some plan \<Rightarrow> Inr plan)"

definition memory_ReplayPlan :: "string \<Rightarrow> string \<Rightarrow> string \<Rightarrow> memory_store \<Rightarrow> topology_error + Plan option" where
  "memory_ReplayPlan projectID key payloadHash = replay_lookup as_plan (plan_replay_key projectID key) payloadHash"

text \<open>The plan that replaces \<open>current\<close>.\<close>

definition next_plan :: "topology_hashes \<Rightarrow> string \<Rightarrow> Plan \<Rightarrow> Plan \<Rightarrow> Plan" where
  "next_plan H random current plan =
     (let plan = (if pl_ID current = [] then plan\<lparr>pl_ID := newID ''topo'' random\<rparr>
                  else plan\<lparr>pl_ID := pl_ID current, pl_CreatedAt := pl_CreatedAt current, pl_CreatedBy := pl_CreatedBy current\<rparr>);
          plan = plan\<lparr>pl_Revision := wrap_u64 (Suc (pl_Revision current))\<rparr> in
      plan\<lparr>pl_StateHash := stateHash H (pl_ID plan) (pl_Revision plan) (pl_PlanHash plan)\<rparr>)"

definition current_plan :: "memory_store \<Rightarrow> string \<Rightarrow> Plan" where
  "current_plan s projectID = (case ms_plans s projectID of None \<Rightarrow> zero_plan | Some p \<Rightarrow> p)"

definition memory_Apply :: "topology_hashes \<Rightarrow> string \<Rightarrow> string \<Rightarrow> string \<Rightarrow> ApplyRequest \<Rightarrow> Plan \<Rightarrow> memory_store
    \<Rightarrow> (topology_error + Plan \<times> bool) \<times> memory_store" where
  "memory_Apply H random key payloadHash request plan s =
     (let replayKey = plan_replay_key (pl_ProjectID plan) key in
      case replay_lookup as_plan replayKey payloadHash s of
        Inl e \<Rightarrow> (Inl e, s)
      | Inr (Some response) \<Rightarrow> (Inr (response, True), s)
      | Inr None \<Rightarrow>
          let current = current_plan s (pl_ProjectID plan) in
          if pl_Revision current \<noteq> ar_ExpectedRevision request \<or> pl_StateHash current \<noteq> ar_ExpectedStateHash request
          then (Inl plan_conflict, s)
          else let plan = next_plan H random current plan in
            (Inr (plan, False), s\<lparr>ms_plans := (ms_plans s)(pl_ProjectID plan \<mapsto> plan),
               ms_replays := (ms_replays s)(replayKey \<mapsto> (payloadHash, PlanResponse plan))\<rparr>))"

definition capacity_key :: "string \<Rightarrow> string \<Rightarrow> string" where
  "capacity_key projectID runtimeID = projectID @ '':'' @ runtimeID"

definition memory_GetOperatorCapacity :: "string \<Rightarrow> string \<Rightarrow> memory_store \<Rightarrow> topology_error + OperatorCapacity" where
  "memory_GetOperatorCapacity projectID runtimeID s =
     (case ms_capacities s (capacity_key projectID runtimeID) of None \<Rightarrow> Inl ErrNotFound | Some capacity \<Rightarrow> Inr capacity)"

definition memory_ReplayOperatorCapacity :: "string \<Rightarrow> string \<Rightarrow> string \<Rightarrow> memory_store \<Rightarrow> topology_error + OperatorCapacity option" where
  "memory_ReplayOperatorCapacity projectID key payloadHash = replay_lookup as_capacity (capacity_replay_key projectID key) payloadHash"

definition current_capacity :: "memory_store \<Rightarrow> string \<Rightarrow> OperatorCapacity" where
  "current_capacity s mapKey = (case ms_capacities s mapKey of None \<Rightarrow> zero_operator_capacity | Some c \<Rightarrow> c)"

definition next_capacity :: "service_hashes \<Rightarrow> string \<Rightarrow> OperatorCapacityDraft \<Rightarrow> OperatorCapacity \<Rightarrow> OperatorCapacity \<Rightarrow> OperatorCapacity" where
  "next_capacity H random draft current capacity =
     (let capacity = capacity\<lparr>oc_ID := (if oc_ID current = [] then newID ''cap'' random else oc_ID current),
            oc_Revision := wrap_u64 (Suc (oc_Revision current))\<rparr> in
      capacity\<lparr>oc_StateHash := stateHash (sh_topology H) (oc_ID capacity) (oc_Revision capacity) (hashMust (sh_capacity_draft H) draft)\<rparr>)"

definition memory_ApplyOperatorCapacity :: "service_hashes \<Rightarrow> string \<Rightarrow> string \<Rightarrow> string \<Rightarrow> OperatorCapacityApplyRequest
    \<Rightarrow> OperatorCapacity \<Rightarrow> memory_store \<Rightarrow> (topology_error + OperatorCapacity \<times> bool) \<times> memory_store" where
  "memory_ApplyOperatorCapacity H random key payloadHash request capacity s =
     (let replayKey = capacity_replay_key (oc_ProjectID capacity) key in
      case replay_lookup as_capacity replayKey payloadHash s of
        Inl e \<Rightarrow> (Inl e, s)
      | Inr (Some response) \<Rightarrow> (Inr (response, True), s)
      | Inr None \<Rightarrow>
          let mapKey = capacity_key (oc_ProjectID capacity) (oc_RuntimeID capacity); current = current_capacity s mapKey in
          if oc_Revision current \<noteq> cr_ExpectedRevision request \<or> oc_StateHash current \<noteq> cr_ExpectedStateHash request
          then (Inl capacity_conflict, s)
          else let capacity = next_capacity H random (cr_Draft request) current capacity in
            (Inr (capacity, False), s\<lparr>ms_capacities := (ms_capacities s)(mapKey \<mapsto> capacity),
               ms_replays := (ms_replays s)(replayKey \<mapsto> (payloadHash, CapacityResponse capacity))\<rparr>))"

section \<open>The interface Store\<close>

record 's topology_store =
  ts_Get :: "string \<Rightarrow> 's \<Rightarrow> topology_error + Plan"
  ts_ReplayPlan :: "string \<Rightarrow> string \<Rightarrow> string \<Rightarrow> 's \<Rightarrow> topology_error + Plan option"
  ts_Apply :: "string \<Rightarrow> string \<Rightarrow> string \<Rightarrow> ApplyRequest \<Rightarrow> Plan \<Rightarrow> 's \<Rightarrow> (topology_error + Plan \<times> bool) \<times> 's"
  ts_GetOperatorCapacity :: "string \<Rightarrow> string \<Rightarrow> 's \<Rightarrow> topology_error + OperatorCapacity"
  ts_ReplayOperatorCapacity :: "string \<Rightarrow> string \<Rightarrow> string \<Rightarrow> 's \<Rightarrow> topology_error + OperatorCapacity option"
  ts_ApplyOperatorCapacity :: "string \<Rightarrow> string \<Rightarrow> string \<Rightarrow> OperatorCapacityApplyRequest \<Rightarrow> OperatorCapacity \<Rightarrow> 's
     \<Rightarrow> (topology_error + OperatorCapacity \<times> bool) \<times> 's"

definition memory_ops :: "service_hashes \<Rightarrow> memory_store topology_store" where
  "memory_ops H = \<lparr>ts_Get = memory_Get, ts_ReplayPlan = memory_ReplayPlan, ts_Apply = memory_Apply (sh_topology H),
     ts_GetOperatorCapacity = memory_GetOperatorCapacity, ts_ReplayOperatorCapacity = memory_ReplayOperatorCapacity,
     ts_ApplyOperatorCapacity = memory_ApplyOperatorCapacity H\<rparr>"

section \<open>The service\<close>

text \<open>
  A Service: its Store and its FactSource may be nil; the error of a FactSource is only compared with
  nil. A call reads the clock in validate and once more before it writes.
\<close>

record 's topology_service =
  tv_Store :: "'s topology_store option"
  tv_Facts :: "(string \<Rightarrow> PlacementFacts option) option"
  tv_Limits :: limits
  tv_Hashes :: service_hashes

record topology_call =
  tc_ValidatedAt :: time
  tc_Now :: time
  tc_Random :: string

definition current :: "'s topology_service \<Rightarrow> string \<Rightarrow> 's \<Rightarrow> topology_error + Plan" where
  "current v projectID s = (case tv_Store v of None \<Rightarrow> Inl unavailable
     | Some store \<Rightarrow> (case ts_Get store projectID s of
         Inl e \<Rightarrow> if e = ErrNotFound then Inr (zero_plan\<lparr>pl_ProjectID := projectID\<rparr>) else Inl e
       | Inr plan \<Rightarrow> Inr plan))"

definition PreviewDraft :: "'s topology_service \<Rightarrow> string \<Rightarrow> Draft \<Rightarrow> 's \<Rightarrow> topology_error + Preview" where
  "PreviewDraft v projectID draft s =
     (case normalizeDraft (sh_topology (tv_Hashes v)) projectID draft of Inl e \<Rightarrow> Inl e | Inr (normalized, planHash) \<Rightarrow>
      case current v projectID s of Inl e \<Rightarrow> Inl e | Inr plan \<Rightarrow>
      Inr \<lparr>pv_Draft = normalized, pv_PlanHash = planHash, pv_StateHash = pl_StateHash plan\<rparr>)"

definition DiffDraft :: "'s topology_service \<Rightarrow> string \<Rightarrow> Draft \<Rightarrow> 's \<Rightarrow> topology_error + Diff" where
  "DiffDraft v projectID draft s =
     (case PreviewDraft v projectID draft s of Inl e \<Rightarrow> Inl e | Inr preview \<Rightarrow>
      case current v projectID s of Inl e \<Rightarrow> Inl e | Inr plan \<Rightarrow>
      Inr (diff (sh_topology (tv_Hashes v)) plan (pv_Draft preview) (pv_PlanHash preview)))"

definition project_not_found :: topology_error where
  "project_not_found = TopologyError ''TOPOLOGY_PROJECT_NOT_FOUND'' 404 ''project placement facts are unavailable''"

definition ValidateScoped :: "'s topology_service \<Rightarrow> topology_call \<Rightarrow> string \<Rightarrow> Draft \<Rightarrow> CapacityOverride \<Rightarrow> 's
    \<Rightarrow> topology_error + ValidationResult" where
  "ValidateScoped v c projectID draft override s =
     (case PreviewDraft v projectID draft s of Inl e \<Rightarrow> Inl e | Inr preview \<Rightarrow>
      case tv_Facts v of None \<Rightarrow> Inl unavailable | Some source \<Rightarrow>
      case source projectID of None \<Rightarrow> Inl project_not_found | Some facts \<Rightarrow>
      if pf_ProjectID facts \<noteq> projectID then Inl project_not_found else
      case current v projectID s of Inl e \<Rightarrow> Inl e | Inr plan \<Rightarrow>
      Inr (validate (tv_Limits v) (tc_ValidatedAt c)
        (\<lambda>pid rid. case tv_Store v of None \<Rightarrow> Inl unavailable | Some store \<Rightarrow> ts_GetOperatorCapacity store pid rid s)
        facts plan (pv_Draft preview) (pv_PlanHash preview) override))"

definition any_override :: "bool \<Rightarrow> CapacityOverride" where
  "any_override allowUnknown = \<lparr>co_Allowed = allowUnknown, co_EnvironmentID = [], co_ServiceKeys = [], co_RuntimeIDs = []\<rparr>"

definition ValidateDraft :: "'s topology_service \<Rightarrow> topology_call \<Rightarrow> string \<Rightarrow> Draft \<Rightarrow> bool \<Rightarrow> 's \<Rightarrow> topology_error + ValidationResult" where
  "ValidateDraft v c projectID draft allowUnknown = ValidateScoped v c projectID draft (any_override allowUnknown)"

definition new_plan :: "topology_call \<Rightarrow> string \<Rightarrow> string \<Rightarrow> string \<Rightarrow> Draft \<Rightarrow> Plan" where
  "new_plan c projectID actor planHash normalized =
     \<lparr>pl_SchemaVersion = TopologySchemaVersion, pl_ID = [], pl_ProjectID = projectID, pl_Revision = 0, pl_StateHash = [],
      pl_PlanHash = planHash, pl_Assignments = dr_Assignments normalized, pl_CreatedBy = actor, pl_AppliedBy = actor,
      pl_CreatedAt = tc_Now c, pl_AppliedAt = tc_Now c\<rparr>"

definition apply_result :: "(topology_error + Plan \<times> bool) \<Rightarrow> topology_error + ApplyResult" where
  "apply_result r = (case r of Inl e \<Rightarrow> Inl e | Inr (plan, reused) \<Rightarrow> Inr \<lparr>res_Plan = plan, res_Reused = reused\<rparr>)"

definition ApplyScoped :: "'s topology_service \<Rightarrow> topology_call \<Rightarrow> string \<Rightarrow> string \<Rightarrow> string \<Rightarrow> ApplyRequest \<Rightarrow> CapacityOverride \<Rightarrow> 's
    \<Rightarrow> (topology_error + ApplyResult) \<times> 's" where
  "ApplyScoped v c projectID actor key request override s =
     (case tv_Store v of None \<Rightarrow> (Inl unavailable, s) | Some store \<Rightarrow>
      if TrimSpace actor = [] then (Inl unavailable, s) else
      case validateIdempotencyKey key of Some e \<Rightarrow> (Inl e, s) | None \<Rightarrow>
      case normalizeDraft (sh_topology (tv_Hashes v)) projectID (ar_Draft request) of Inl e \<Rightarrow> (Inl e, s) | Inr (normalized, planHash) \<Rightarrow>
      let request = request\<lparr>ar_Draft := normalized\<rparr> in
      case sh_apply (tv_Hashes v) request of None \<Rightarrow> (Inl unavailable, s) | Some payloadHash \<Rightarrow>
      case ts_ReplayPlan store projectID key payloadHash s of
        Inl e \<Rightarrow> (Inl e, s)
      | Inr (Some plan) \<Rightarrow> (Inr \<lparr>res_Plan = plan, res_Reused = True\<rparr>, s)
      | Inr None \<Rightarrow>
      case ValidateScoped v c projectID normalized override s of Inl e \<Rightarrow> (Inl e, s) | Inr validation \<Rightarrow>
      if \<not> vr_Valid validation then (Inl (validation_failure validation), s) else
      (case ts_Apply store (tc_Random c) key payloadHash request (new_plan c projectID actor planHash normalized) s of
        (r, s') \<Rightarrow> (apply_result r, s')))"

definition ApplyDraft :: "'s topology_service \<Rightarrow> topology_call \<Rightarrow> string \<Rightarrow> string \<Rightarrow> string \<Rightarrow> ApplyRequest \<Rightarrow> bool \<Rightarrow> 's
    \<Rightarrow> (topology_error + ApplyResult) \<times> 's" where
  "ApplyDraft v c projectID actor key request allowUnknown = ApplyScoped v c projectID actor key request (any_override allowUnknown)"

definition GetPlan :: "'s topology_service \<Rightarrow> string \<Rightarrow> 's \<Rightarrow> topology_error + Plan" where
  "GetPlan v projectID s = (case tv_Store v of None \<Rightarrow> Inl unavailable | Some store \<Rightarrow> ts_Get store projectID s)"

definition validateCapacityDraft :: "OperatorCapacityDraft \<Rightarrow> topology_error option" where
  "validateCapacityDraft d = first_failure
     [(TrimSpace (cd_RuntimeID d) = [] \<or> cd_CPUMillicores d < 1 \<or> maxCPUMillicores < cd_CPUMillicores d
         \<or> cd_MemoryBytes d < 1 \<or> maxMemoryBytes < cd_MemoryBytes d
         \<or> cd_ReservedCPUMillicores d < 0 \<or> cd_CPUMillicores d \<le> cd_ReservedCPUMillicores d
         \<or> cd_ReservedMemoryBytes d < 0 \<or> cd_MemoryBytes d \<le> cd_ReservedMemoryBytes d,
        invalid ''TOPOLOGY_CAPACITY_INVALID'' ''operator-declared capacity is outside bounded values'')]"

definition runtimeOwned :: "PlacementFacts \<Rightarrow> string \<Rightarrow> bool" where
  "runtimeOwned facts runtimeID = list_ex (\<lambda>rt. rf_ID rt = runtimeID \<and> rf_ProjectID rt = pf_ProjectID facts) (pf_Runtimes facts)"

definition new_capacity :: "topology_call \<Rightarrow> string \<Rightarrow> string \<Rightarrow> OperatorCapacityDraft \<Rightarrow> OperatorCapacity" where
  "new_capacity c projectID actor d =
     \<lparr>oc_ID = [], oc_ProjectID = projectID, oc_RuntimeID = cd_RuntimeID d, oc_Revision = 0, oc_Source = ''operator_declared'',
      oc_CPUMillicores = cd_CPUMillicores d, oc_MemoryBytes = cd_MemoryBytes d, oc_ReservedCPUMillicores = cd_ReservedCPUMillicores d,
      oc_ReservedMemoryBytes = cd_ReservedMemoryBytes d, oc_DeclaredBy = actor, oc_DeclaredAt = tc_Now c, oc_StateHash = []\<rparr>"

definition runtime_not_found :: topology_error where
  "runtime_not_found = TopologyError ''TOPOLOGY_RUNTIME_NOT_FOUND'' 404 ''runtime is not available in this project''"

definition capacity_result :: "(topology_error + OperatorCapacity \<times> bool) \<Rightarrow> topology_error + OperatorCapacityApplyResult" where
  "capacity_result r = (case r of Inl e \<Rightarrow> Inl e | Inr (c, reused) \<Rightarrow> Inr \<lparr>cres_Capacity = c, cres_Reused = reused\<rparr>)"

definition ApplyOperatorCapacity :: "'s topology_service \<Rightarrow> topology_call \<Rightarrow> string \<Rightarrow> string \<Rightarrow> string \<Rightarrow> OperatorCapacityApplyRequest
    \<Rightarrow> 's \<Rightarrow> (topology_error + OperatorCapacityApplyResult) \<times> 's" where
  "ApplyOperatorCapacity v c projectID actor key request s =
     (case tv_Store v of None \<Rightarrow> (Inl unavailable, s) | Some store \<Rightarrow>
      case tv_Facts v of None \<Rightarrow> (Inl unavailable, s) | Some source \<Rightarrow>
      if TrimSpace actor = [] then (Inl unavailable, s) else
      case validateIdempotencyKey key of Some e \<Rightarrow> (Inl e, s) | None \<Rightarrow>
      case validateCapacityDraft (cr_Draft request) of Some e \<Rightarrow> (Inl e, s) | None \<Rightarrow>
      case sh_capacity (tv_Hashes v) request of None \<Rightarrow> (Inl unavailable, s) | Some payloadHash \<Rightarrow>
      case ts_ReplayOperatorCapacity store projectID key payloadHash s of
        Inl e \<Rightarrow> (Inl e, s)
      | Inr (Some capacity) \<Rightarrow> (Inr \<lparr>cres_Capacity = capacity, cres_Reused = True\<rparr>, s)
      | Inr None \<Rightarrow>
      case source projectID of None \<Rightarrow> (Inl runtime_not_found, s) | Some facts \<Rightarrow>
      if \<not> runtimeOwned facts (cd_RuntimeID (cr_Draft request)) then (Inl runtime_not_found, s) else
      (case ts_ApplyOperatorCapacity store (tc_Random c) key payloadHash request
          (new_capacity c projectID actor (cr_Draft request)) s of
        (r, s') \<Rightarrow> (capacity_result r, s')))"

definition GetOperatorCapacity :: "'s topology_service \<Rightarrow> string \<Rightarrow> string \<Rightarrow> 's \<Rightarrow> topology_error + OperatorCapacity" where
  "GetOperatorCapacity v projectID runtimeID s =
     (case tv_Store v of None \<Rightarrow> Inl unavailable | Some store \<Rightarrow> ts_GetOperatorCapacity store projectID runtimeID s)"

end
