(* ===== verification/Topology_Contract.thy ===== *)
theory Topology_Contract
  imports Replay Topology_Service
begin

text \<open>
  The contract between the topology service and its Store: plans and operator capacities are
  versioned records under idempotency keys. What the service promises is proved from the contract,
  and the store in memory is shown to keep it.
\<close>

section \<open>What the service relies on\<close>

type_synonym plan_request = "string \<times> ApplyRequest \<times> Plan"
type_synonym capacity_request = "string \<times> OperatorCapacityApplyRequest \<times> OperatorCapacity"

definition store_apply :: "'s topology_store \<Rightarrow> string \<times> string \<Rightarrow> string \<Rightarrow> plan_request \<Rightarrow> 's \<Rightarrow> (topology_error + Plan \<times> bool) \<times> 's" where
  "store_apply store k h q = (case q of (random, request, plan) \<Rightarrow> ts_Apply store random (snd k) h request (plan\<lparr>pl_ProjectID := fst k\<rparr>))"

definition plan_slot :: "string \<times> string \<Rightarrow> plan_request \<Rightarrow> string option" where
  "plan_slot k q = Some (fst k)"

definition plan_expected :: "plan_request \<Rightarrow> nat \<times> string" where
  "plan_expected q = (case q of (random, request, plan) \<Rightarrow> (ar_ExpectedRevision request, ar_ExpectedStateHash request))"

definition store_apply_capacity :: "'s topology_store \<Rightarrow> string \<times> string \<Rightarrow> string \<Rightarrow> capacity_request \<Rightarrow> 's
    \<Rightarrow> (topology_error + OperatorCapacity \<times> bool) \<times> 's" where
  "store_apply_capacity store k h q = (case q of (random, request, c) \<Rightarrow>
     ts_ApplyOperatorCapacity store random (snd k) h request (c\<lparr>oc_ProjectID := fst k\<rparr>))"

definition capacity_slot :: "string \<times> string \<Rightarrow> capacity_request \<Rightarrow> string option" where
  "capacity_slot k q = (case q of (random, request, c) \<Rightarrow> Some (capacity_key (fst k) (oc_RuntimeID c)))"

definition capacity_expected :: "capacity_request \<Rightarrow> nat \<times> string" where
  "capacity_expected q = (case q of (random, request, c) \<Rightarrow> (cr_ExpectedRevision request, cr_ExpectedStateHash request))"

definition found :: "(string \<times> 'r) option \<Rightarrow> string \<Rightarrow> topology_error + 'r option" where
  "found x h = (case x of None \<Rightarrow> Inr None | Some (h', r) \<Rightarrow> if h' \<noteq> h then Inl idempotency_conflict else Inr (Some r))"

locale topology_plans =
  versioned_store sound step replay "store_apply store" idempotency_conflict step version plan_slot plan_expected
  for store :: "'s topology_store" and sound :: "'s \<Rightarrow> bool" and step :: "'s \<Rightarrow> 's \<Rightarrow> bool"
    and replay :: "'s \<Rightarrow> string \<times> string \<Rightarrow> (string \<times> Plan) option" and version :: "'s \<Rightarrow> string \<Rightarrow> nat \<times> string" +
  assumes lookup: "sound s \<Longrightarrow> ts_ReplayPlan store projectID key h s = found (replay s (projectID, key)) h"
begin

lemma lookup_apply:
  assumes "sound s" "ts_ReplayPlan store projectID key h s = Inr (Some r)"
  shows "replay s (projectID, key) = Some (h, r)"
  using assms by (auto simp: lookup found_def split: option.splits if_splits)

lemma new_plan_project [simp]: "new_plan c projectID actor h n\<lparr>pl_ProjectID := projectID\<rparr> = new_plan c projectID actor h n"
  by (simp add: new_plan_def)

text \<open>The ways ApplyScoped ends: an error that changes nothing, a replay, or a write by the store.\<close>

lemma ApplyScoped_cases:
  assumes "sound s" "tv_Store v = Some store" "ApplyScoped v c projectID actor key request override s = (res, s')"
  obtains (error) e where "res = Inl e" "s' = s"
  | (applied) n planHash payloadHash validation plan reused where
      "TrimSpace actor \<noteq> []" "validateIdempotencyKey key = None"
      "normalizeDraft (sh_topology (tv_Hashes v)) projectID (ar_Draft request) = Inr (n, planHash)"
      "sh_apply (tv_Hashes v) (request\<lparr>ar_Draft := n\<rparr>) = Some payloadHash"
      "store_apply store (projectID, key) payloadHash (tc_Random c, request\<lparr>ar_Draft := n\<rparr>, new_plan c projectID actor planHash n) s
        = (Inr (plan, reused), s')"
      "res = Inr \<lparr>res_Plan = plan, res_Reused = reused\<rparr>"
      "\<not> reused \<Longrightarrow> ValidateScoped v c projectID n override s = Inr validation \<and> vr_Valid validation"
proof (cases res)
  case (Inl e)
  have "s' = s"
    using assms(2,3) failed [OF assms(1)] unfolding Inl ApplyScoped_def Let_def
    by (auto simp: apply_result_def store_apply_def split: option.splits sum.splits if_splits prod.splits)
       (metis fst_conv new_plan_project snd_conv)+
  with Inl error show thesis by blast
next
  case (Inr x)
  note run = assms(3) [unfolded Inr]
  have actor: "TrimSpace actor \<noteq> []"
    using run by (auto simp: ApplyScoped_def assms(2) split: if_splits)
  with run have key: "validateIdempotencyKey key = None"
    by (cases "validateIdempotencyKey key") (auto simp: ApplyScoped_def assms(2))
  with run actor obtain n planHash where norm:
      "normalizeDraft (sh_topology (tv_Hashes v)) projectID (ar_Draft request) = Inr (n, planHash)"
    by (cases "normalizeDraft (sh_topology (tv_Hashes v)) projectID (ar_Draft request)") (auto simp: ApplyScoped_def assms(2))
  let ?request = "request\<lparr>ar_Draft := n\<rparr>"
  from run actor key norm obtain payloadHash where payload: "sh_apply (tv_Hashes v) ?request = Some payloadHash"
    by (cases "sh_apply (tv_Hashes v) ?request") (auto simp: ApplyScoped_def assms(2))
  have eval: "(case ts_ReplayPlan store projectID key payloadHash s of
        Inl e \<Rightarrow> (Inl e, s)
      | Inr (Some plan) \<Rightarrow> (Inr \<lparr>res_Plan = plan, res_Reused = True\<rparr>, s)
      | Inr None \<Rightarrow>
      case ValidateScoped v c projectID n override s of Inl e \<Rightarrow> (Inl e, s) | Inr validation \<Rightarrow>
      if \<not> vr_Valid validation then (Inl (validation_failure validation), s) else
      (case ts_Apply store (tc_Random c) key payloadHash ?request (new_plan c projectID actor planHash n) s of
        (r, s') \<Rightarrow> (apply_result r, s'))) = (Inr x, s')"
    using run unfolding ApplyScoped_def assms(2) Let_def option.case norm sum.case prod.case key payload
    using actor by simp
  consider (found) plan where "ts_ReplayPlan store projectID key payloadHash s = Inr (Some plan)"
    | (fresh) "ts_ReplayPlan store projectID key payloadHash s = Inr None"
    | (conflict) e where "ts_ReplayPlan store projectID key payloadHash s = Inl e"
    by (metis not_None_eq sumE)
  then show thesis
  proof cases
    case found
    then have "replay s (projectID, key) = Some (payloadHash, plan)" by (rule lookup_apply [OF assms(1)])
    from replayed [OF assms(1) this] show thesis
      using eval found Inr by (intro applied [OF actor key norm payload]) auto
  next
    case fresh
    then obtain validation where validation: "ValidateScoped v c projectID n override s = Inr validation" "vr_Valid validation"
      using eval by (cases "ValidateScoped v c projectID n override s") (auto split: if_splits)
    obtain r s2 where stored: "ts_Apply store (tc_Random c) key payloadHash ?request (new_plan c projectID actor planHash n) s = (r, s2)"
      by fastforce
    then have r: "apply_result r = Inr x" "s2 = s'" using eval fresh validation by auto
    then obtain plan reused where "r = Inr (plan, reused)" "x = \<lparr>res_Plan = plan, res_Reused = reused\<rparr>"
      by (auto simp: apply_result_def split: sum.splits)
    with stored r Inr validation show thesis
      by (intro applied [OF actor key norm payload]) (auto simp: store_apply_def)
  next
    case conflict
    then show thesis using eval by auto
  qed
qed

lemma ApplyScoped_error:
  "sound s \<Longrightarrow> tv_Store v = Some store \<Longrightarrow> ApplyScoped v c projectID actor key request override s = (Inl e, s') \<Longrightarrow> s' = s"
  by (erule (2) ApplyScoped_cases) auto

text \<open>A retry, by whomever and with whatever override, after any number of operations.\<close>

lemma ApplyScoped_retry:
  assumes "sound s" "tv_Store v = Some store" "ApplyScoped v c projectID actor key request override s = (Inr res, s1)"
    and "step\<^sup>*\<^sup>* s1 s2" "tv_Store v' = Some store" "tv_Hashes v' = tv_Hashes v" "TrimSpace actor' \<noteq> []"
  shows "ApplyScoped v' c' projectID actor' key request override' s2 = (Inr (res\<lparr>res_Reused := True\<rparr>), s2)"
  using assms(1-3)
proof (cases rule: ApplyScoped_cases)
  case (applied n planHash payloadHash validation plan reused)
  have "sound s1" using assms(1) applied(5) by (rule apply_sound)
  moreover have "replay s1 (projectID, key) = Some (payloadHash, plan)" using assms(1) applied(5) by (rule success_recorded)
  ultimately have "replay s2 (projectID, key) = Some (payloadHash, plan)" "sound s2"
    using assms(4) steps_replay steps_sound by blast+
  then have "ts_ReplayPlan store projectID key payloadHash s2 = Inr (Some plan)"
    by (simp add: lookup found_def)
  with applied assms(5-7) show ?thesis by (simp add: ApplyScoped_def)
qed simp

text \<open>Of two writers that saw the same version, the second writes nothing.\<close>

lemma ApplyScoped_no_lost_update:
  assumes "sound s" "tv_Store v = Some store" "ApplyScoped v c projectID actor key request override s = (Inr res, s1)" "\<not> res_Reused res"
    and "(step ^^ n) s1 s2" "n < 2 ^ 64 - 1" "tv_Store v2 = Some store"
    and same: "ar_ExpectedRevision request2 = ar_ExpectedRevision request" "ar_ExpectedStateHash request2 = ar_ExpectedStateHash request"
    and second: "ApplyScoped v2 c2 projectID actor2 key2 request2 override2 s2 = (res2, s3)"
  shows "s3 = s2 \<and> (\<forall>x. res2 = Inr x \<longrightarrow> res_Reused x)"
  using assms(1-3)
proof (cases rule: ApplyScoped_cases)
  case (applied n1 planHash payloadHash validation plan reused)
  have "\<not> reused" using applied(6) assms(4) by simp
  then have first: "store_apply store (projectID, key) payloadHash (tc_Random c, request\<lparr>ar_Draft := n1\<rparr>,
      new_plan c projectID actor planHash n1) s = (Inr (plan, False), s1)" using applied(5) by simp
  have s2: "sound s2" using apply_sound [OF assms(1) first] assms(5) steps_sound relpowp_imp_rtranclp by metis
  show ?thesis using s2 assms(7) second
  proof (cases rule: ApplyScoped_cases)
    case (applied n2 planHash2 payloadHash2 validation2 plan2 reused2)
    from s2 this(5) show ?thesis
    proof (cases rule: apply_cases)
      case (fresh r)
      with no_lost_update [OF assms(1) _ first assms(5,6), of projectID] applied(5) same show ?thesis
        by (simp add: plan_slot_def plan_expected_def)
    qed (use applied in auto)
  qed simp
qed (use assms(4) in simp)

end

locale topology_capacities =
  versioned_store sound step replay "store_apply_capacity store" idempotency_conflict step version capacity_slot capacity_expected
  for store :: "'s topology_store" and sound :: "'s \<Rightarrow> bool" and step :: "'s \<Rightarrow> 's \<Rightarrow> bool"
    and replay :: "'s \<Rightarrow> string \<times> string \<Rightarrow> (string \<times> OperatorCapacity) option" and version :: "'s \<Rightarrow> string \<Rightarrow> nat \<times> string" +
  assumes lookup: "sound s \<Longrightarrow> ts_ReplayOperatorCapacity store projectID key h s = found (replay s (projectID, key)) h"
begin

lemma new_capacity_project [simp]: "new_capacity c projectID actor d\<lparr>oc_ProjectID := projectID\<rparr> = new_capacity c projectID actor d"
  by (simp add: new_capacity_def)

lemma ApplyOperatorCapacity_cases:
  assumes "sound s" "tv_Store v = Some store" "ApplyOperatorCapacity v c projectID actor key request s = (res, s')"
  obtains (error) e where "res = Inl e" "s' = s"
  | (applied) payloadHash capacity reused source where
      "tv_Facts v = Some source" "TrimSpace actor \<noteq> []" "validateIdempotencyKey key = None"
      "validateCapacityDraft (cr_Draft request) = None" "sh_capacity (tv_Hashes v) request = Some payloadHash"
      "store_apply_capacity store (projectID, key) payloadHash (tc_Random c, request, new_capacity c projectID actor (cr_Draft request)) s
        = (Inr (capacity, reused), s')"
      "res = Inr \<lparr>cres_Capacity = capacity, cres_Reused = reused\<rparr>"
proof (cases res)
  case (Inl e)
  have "s' = s"
    using assms(2,3) failed [OF assms(1)] unfolding Inl ApplyOperatorCapacity_def
    by (auto simp: capacity_result_def store_apply_capacity_def split: option.splits sum.splits if_splits prod.splits)
       (metis fst_conv new_capacity_project snd_conv)+
  with Inl error show thesis by blast
next
  case (Inr x)
  note run = assms(3) [unfolded Inr]
  from run obtain source where source: "tv_Facts v = Some source"
    by (cases "tv_Facts v") (auto simp: ApplyOperatorCapacity_def assms(2))
  with run have actor: "TrimSpace actor \<noteq> []"
    by (auto simp: ApplyOperatorCapacity_def assms(2) split: if_splits)
  with run source have key: "validateIdempotencyKey key = None"
    by (cases "validateIdempotencyKey key") (auto simp: ApplyOperatorCapacity_def assms(2))
  with run source actor have draft: "validateCapacityDraft (cr_Draft request) = None"
    by (cases "validateCapacityDraft (cr_Draft request)") (auto simp: ApplyOperatorCapacity_def assms(2))
  from run source actor key draft obtain payloadHash where payload: "sh_capacity (tv_Hashes v) request = Some payloadHash"
    by (cases "sh_capacity (tv_Hashes v) request") (auto simp: ApplyOperatorCapacity_def assms(2))
  note finish = applied [OF source actor key draft payload]
  consider (found) capacity where "ts_ReplayOperatorCapacity store projectID key payloadHash s = Inr (Some capacity)"
    | (fresh) "ts_ReplayOperatorCapacity store projectID key payloadHash s = Inr None"
    | (conflict) e where "ts_ReplayOperatorCapacity store projectID key payloadHash s = Inl e"
    by (metis not_None_eq sumE)
  then show thesis
  proof cases
    case found
    then have "replay s (projectID, key) = Some (payloadHash, capacity)"
      by (auto simp: lookup [OF assms(1)] found_def split: option.splits if_splits)
    from replayed [OF assms(1) this] show thesis
      using run source actor key draft payload found Inr by (intro finish) (auto simp: ApplyOperatorCapacity_def assms(2))
  next
    case fresh
    obtain r s2 where stored: "ts_ApplyOperatorCapacity store (tc_Random c) key payloadHash request
        (new_capacity c projectID actor (cr_Draft request)) s = (r, s2)" by fastforce
    then have r: "capacity_result r = Inr x" "s2 = s'"
      using run source actor key draft payload fresh by (auto simp: ApplyOperatorCapacity_def assms(2) split: option.splits if_splits)
    then obtain capacity reused where "r = Inr (capacity, reused)" "x = \<lparr>cres_Capacity = capacity, cres_Reused = reused\<rparr>"
      by (auto simp: capacity_result_def split: sum.splits)
    with stored r Inr show thesis by (intro finish) (auto simp: store_apply_capacity_def)
  next
    case conflict
    then show thesis using run source actor key draft payload by (auto simp: ApplyOperatorCapacity_def assms(2))
  qed
qed

lemma ApplyOperatorCapacity_error:
  "sound s \<Longrightarrow> tv_Store v = Some store \<Longrightarrow> ApplyOperatorCapacity v c projectID actor key request s = (Inl e, s') \<Longrightarrow> s' = s"
  by (erule (2) ApplyOperatorCapacity_cases) auto

lemma ApplyOperatorCapacity_retry:
  assumes "sound s" "tv_Store v = Some store" "ApplyOperatorCapacity v c projectID actor key request s = (Inr res, s1)"
    and "step\<^sup>*\<^sup>* s1 s2" "tv_Store v' = Some store" "tv_Hashes v' = tv_Hashes v" "tv_Facts v' \<noteq> None" "TrimSpace actor' \<noteq> []"
  shows "ApplyOperatorCapacity v' c' projectID actor' key request s2 = (Inr (res\<lparr>cres_Reused := True\<rparr>), s2)"
  using assms(1-3)
proof (cases rule: ApplyOperatorCapacity_cases)
  case (applied payloadHash capacity reused source)
  have "sound s1" using assms(1) applied(6) by (rule apply_sound)
  moreover have "replay s1 (projectID, key) = Some (payloadHash, capacity)" using assms(1) applied(6) by (rule success_recorded)
  ultimately have "replay s2 (projectID, key) = Some (payloadHash, capacity)" "sound s2"
    using assms(4) steps_replay steps_sound by blast+
  then have "ts_ReplayOperatorCapacity store projectID key payloadHash s2 = Inr (Some capacity)"
    by (simp add: lookup found_def)
  with applied assms(5-8) show ?thesis by (auto simp: ApplyOperatorCapacity_def)
qed simp

end

end
