(* ===== verification/Topology_Memory.thy ===== *)
theory Topology_Memory
  imports Topology_Contract
begin

text \<open>
  The store in memory keeps the contract of Topology_Contract: its operations as a step relation,
  the invariant that every recorded response has the type its key promises, and the interpretation
  of the two locales on it.
\<close>

section \<open>The operations of the store\<close>

inductive memory_step :: "service_hashes \<Rightarrow> memory_store \<Rightarrow> memory_store \<Rightarrow> bool" for H where
  apply_plan: "memory_Apply (sh_topology H) random key h request plan s = (res, s') \<Longrightarrow> memory_step H s s'"
| apply_capacity: "memory_ApplyOperatorCapacity H random key h request capacity s = (res, s') \<Longrightarrow> memory_step H s s'"

definition memory_ok :: "memory_store \<Rightarrow> bool" where
  "memory_ok s \<longleftrightarrow> (\<forall>pid key h x. ms_replays s (plan_replay_key pid key) = Some (h, x) \<longrightarrow> as_plan x \<noteq> None)
     \<and> (\<forall>pid key h x. ms_replays s (capacity_replay_key pid key) = Some (h, x) \<longrightarrow> as_capacity x \<noteq> None)
     \<and> (\<forall>pid p. ms_plans s pid = Some p \<longrightarrow> pl_Revision p < 2 ^ 64 \<and> pl_ProjectID p = pid \<and> pl_ID p \<noteq> [])
     \<and> (\<forall>k c. ms_capacities s k = Some c \<longrightarrow> oc_Revision c < 2 ^ 64 \<and> oc_ID c \<noteq> [])"

definition plan_replay :: "memory_store \<Rightarrow> string \<times> string \<Rightarrow> (string \<times> Plan) option" where
  "plan_replay s k = (case ms_replays s (plan_replay_key (fst k) (snd k)) of None \<Rightarrow> None | Some (h, x) \<Rightarrow> map_option (Pair h) (as_plan x))"

definition capacity_replay :: "memory_store \<Rightarrow> string \<times> string \<Rightarrow> (string \<times> OperatorCapacity) option" where
  "capacity_replay s k = (case ms_replays s (capacity_replay_key (fst k) (snd k)) of None \<Rightarrow> None
     | Some (h, x) \<Rightarrow> map_option (Pair h) (as_capacity x))"

definition plan_version :: "memory_store \<Rightarrow> string \<Rightarrow> nat \<times> string" where
  "plan_version s pid = (pl_Revision (current_plan s pid), pl_StateHash (current_plan s pid))"

definition capacity_version :: "memory_store \<Rightarrow> string \<Rightarrow> nat \<times> string" where
  "capacity_version s k = (oc_Revision (current_capacity s k), oc_StateHash (current_capacity s k))"

lemma replay_keys_differ [simp]:
  "plan_replay_key pid key \<noteq> capacity_replay_key pid' key'" "capacity_replay_key pid key \<noteq> plan_replay_key pid' key'"
  by (simp_all add: plan_replay_key_def capacity_replay_key_def)

lemma next_plan_simps [simp]:
  "pl_Revision (next_plan H random cur p) = wrap_u64 (Suc (pl_Revision cur))" "pl_ProjectID (next_plan H random cur p) = pl_ProjectID p"
  "pl_ID (next_plan H random cur p) \<noteq> []" "pl_Assignments (next_plan H random cur p) = pl_Assignments p"
  "pl_PlanHash (next_plan H random cur p) = pl_PlanHash p" "pl_AppliedBy (next_plan H random cur p) = pl_AppliedBy p"
  "pl_StateHash (next_plan H random cur p) = stateHash H (pl_ID (next_plan H random cur p)) (wrap_u64 (Suc (pl_Revision cur))) (pl_PlanHash p)"
  by (simp_all add: next_plan_def Let_def newID_def)

lemma next_capacity_simps [simp]:
  "oc_Revision (next_capacity H random d cur c) = wrap_u64 (Suc (oc_Revision cur))" "oc_ID (next_capacity H random d cur c) \<noteq> []"
  "oc_ProjectID (next_capacity H random d cur c) = oc_ProjectID c" "oc_RuntimeID (next_capacity H random d cur c) = oc_RuntimeID c"
  "oc_CPUMillicores (next_capacity H random d cur c) = oc_CPUMillicores c" "oc_MemoryBytes (next_capacity H random d cur c) = oc_MemoryBytes c"
  "oc_ReservedCPUMillicores (next_capacity H random d cur c) = oc_ReservedCPUMillicores c"
  "oc_ReservedMemoryBytes (next_capacity H random d cur c) = oc_ReservedMemoryBytes c"
  by (simp_all add: next_capacity_def Let_def newID_def)

text \<open>The ways an operation ends.\<close>

lemma memory_Apply_cases:
  assumes "memory_Apply H random key h request plan s = (res, s')"
  obtains (error) e where "replay_lookup as_plan (plan_replay_key (pl_ProjectID plan) key) h s = Inl e" "res = Inl e" "s' = s"
  | (again) r where "replay_lookup as_plan (plan_replay_key (pl_ProjectID plan) key) h s = Inr (Some r)" "res = Inr (r, True)" "s' = s"
  | (stale) "ms_replays s (plan_replay_key (pl_ProjectID plan) key) = None" "res = Inl plan_conflict" "s' = s"
      "plan_version s (pl_ProjectID plan) \<noteq> (ar_ExpectedRevision request, ar_ExpectedStateHash request)"
  | (fresh) p where "ms_replays s (plan_replay_key (pl_ProjectID plan) key) = None" "res = Inr (p, False)"
      "plan_version s (pl_ProjectID plan) = (ar_ExpectedRevision request, ar_ExpectedStateHash request)"
      "p = next_plan H random (current_plan s (pl_ProjectID plan)) plan"
      "s' = s\<lparr>ms_plans := (ms_plans s)(pl_ProjectID plan \<mapsto> p),
         ms_replays := (ms_replays s)(plan_replay_key (pl_ProjectID plan) key \<mapsto> (h, PlanResponse p))\<rparr>"
proof -
  have None: "replay_lookup as_type k h s = Inr None \<longleftrightarrow> ms_replays s k = None" for as_type :: "any_response \<Rightarrow> 'z option" and k
    by (auto simp: replay_lookup_def split: option.splits)
  show thesis
    using assms None [of as_plan] by (auto simp: memory_Apply_def Let_def plan_version_def
        intro: error again stale fresh split: sum.splits option.splits if_splits)
qed

lemma memory_ApplyOperatorCapacity_cases:
  assumes "memory_ApplyOperatorCapacity H random key h request c s = (res, s')"
  obtains (error) e where "replay_lookup as_capacity (capacity_replay_key (oc_ProjectID c) key) h s = Inl e" "res = Inl e" "s' = s"
  | (again) r where "replay_lookup as_capacity (capacity_replay_key (oc_ProjectID c) key) h s = Inr (Some r)" "res = Inr (r, True)" "s' = s"
  | (stale) "ms_replays s (capacity_replay_key (oc_ProjectID c) key) = None" "res = Inl capacity_conflict" "s' = s"
      "capacity_version s (capacity_key (oc_ProjectID c) (oc_RuntimeID c)) \<noteq> (cr_ExpectedRevision request, cr_ExpectedStateHash request)"
  | (fresh) x where "ms_replays s (capacity_replay_key (oc_ProjectID c) key) = None" "res = Inr (x, False)"
      "capacity_version s (capacity_key (oc_ProjectID c) (oc_RuntimeID c)) = (cr_ExpectedRevision request, cr_ExpectedStateHash request)"
      "x = next_capacity H random (cr_Draft request) (current_capacity s (capacity_key (oc_ProjectID c) (oc_RuntimeID c))) c"
      "s' = s\<lparr>ms_capacities := (ms_capacities s)(capacity_key (oc_ProjectID c) (oc_RuntimeID c) \<mapsto> x),
         ms_replays := (ms_replays s)(capacity_replay_key (oc_ProjectID c) key \<mapsto> (h, CapacityResponse x))\<rparr>"
proof -
  have None: "replay_lookup as_type k h s = Inr None \<longleftrightarrow> ms_replays s k = None" for as_type :: "any_response \<Rightarrow> 'z option" and k
    by (auto simp: replay_lookup_def split: option.splits)
  show thesis
    using assms None [of as_capacity] by (auto simp: memory_ApplyOperatorCapacity_def Let_def capacity_version_def
        intro: error again stale fresh split: sum.splits option.splits if_splits)
qed

text \<open>A write in terms of the views: the case of a plan, the case of a capacity, or no change.\<close>

lemma memory_step_cases:
  assumes "memory_step H s s'"
  obtains (same) "s' = s"
  | (write_plan) pid key h request p cur random where "ms_replays s (plan_replay_key pid key) = None" "cur = current_plan s pid"
      "p = next_plan (sh_topology H) random cur request" "pl_ProjectID request = pid"
      "s' = s\<lparr>ms_plans := (ms_plans s)(pid \<mapsto> p), ms_replays := (ms_replays s)(plan_replay_key pid key \<mapsto> (h, PlanResponse p))\<rparr>"
  | (write_capacity) k pid key h d request x random where "ms_replays s (capacity_replay_key pid key) = None"
      "x = next_capacity H random d (current_capacity s k) request"
      "s' = s\<lparr>ms_capacities := (ms_capacities s)(k \<mapsto> x), ms_replays := (ms_replays s)(capacity_replay_key pid key \<mapsto> (h, CapacityResponse x))\<rparr>"
  using assms
proof cases
  case (apply_plan random key h request plan res)
  then show thesis by (cases rule: memory_Apply_cases) (auto intro: same write_plan)
next
  case (apply_capacity random key h request c res)
  then show thesis by (cases rule: memory_ApplyOperatorCapacity_cases) (auto intro: same write_capacity)
qed

section \<open>The invariant\<close>

lemma NewMemoryStore_ok: "memory_ok NewMemoryStore"
  by (simp add: memory_ok_def NewMemoryStore_def)

lemma memory_ok_step: "memory_ok s \<Longrightarrow> memory_step H s s' \<Longrightarrow> memory_ok s'"
  by (erule memory_step_cases) (auto simp: memory_ok_def)

section \<open>The contract\<close>

lemma plan_replay_lookup:
  "memory_ok s \<Longrightarrow> replay_lookup as_plan (plan_replay_key pid key) h s = found (plan_replay s (pid, key)) h"
  by (auto simp: replay_lookup_def found_def plan_replay_def memory_ok_def split: option.splits)

lemma capacity_replay_lookup:
  "memory_ok s \<Longrightarrow> replay_lookup as_capacity (capacity_replay_key pid key) h s = found (capacity_replay s (pid, key)) h"
  by (auto simp: replay_lookup_def found_def capacity_replay_def memory_ok_def split: option.splits)

lemma memory_step_replay:
  assumes "memory_step H s s'"
  shows "plan_replay s (pid, key) = Some x \<Longrightarrow> plan_replay s' (pid, key) = Some x"
    and "capacity_replay s (pid, key) = Some y \<Longrightarrow> capacity_replay s' (pid, key) = Some y"
  using assms by (auto elim!: memory_step_cases simp: plan_replay_def capacity_replay_def)

lemma memory_step_version:
  assumes "memory_step H s s'"
  shows "plan_version s' pid \<noteq> plan_version s pid \<Longrightarrow> fst (plan_version s' pid) = wrap_u64 (Suc (fst (plan_version s pid)))"
    and "capacity_version s' k \<noteq> capacity_version s k \<Longrightarrow> fst (capacity_version s' k) = wrap_u64 (Suc (fst (capacity_version s k)))"
  using assms by (auto elim!: memory_step_cases simp: plan_version_def capacity_version_def current_plan_def current_capacity_def split: if_splits)

lemma version_bounds: "memory_ok s \<Longrightarrow> fst (plan_version s pid) < 2 ^ 64" "memory_ok s \<Longrightarrow> fst (capacity_version s k) < 2 ^ 64"
  by (auto simp: memory_ok_def plan_version_def capacity_version_def current_plan_def current_capacity_def zero_plan_def
      zero_operator_capacity_def split: option.splits)

interpretation memory_plans: topology_plans "memory_ops H" memory_ok "memory_step H" plan_replay plan_version for H
proof (unfold_locales, goal_cases)
  case (1 s s')
  then show ?case by (rule memory_ok_step)
next
  case (2 s s' k x)
  then show ?case using memory_step_replay(1) [of H s s' "fst k" "snd k"] by simp
next
  case (3 s k h q res s')
  then show ?case by (cases q) (auto simp: store_apply_def memory_ops_def intro: memory_step.apply_plan)
next
  case (4 s k h r q)
  then show ?case
    by (cases k; cases q) (simp add: store_apply_def memory_ops_def memory_Apply_def Let_def plan_replay_lookup found_def)
next
  case (5 s k h' r h q)
  then show ?case
    by (cases k; cases q) (simp add: store_apply_def memory_ops_def memory_Apply_def Let_def plan_replay_lookup found_def)
next
  case (6 s k h q r b s')
  then show ?case
    by (cases k; cases q) (auto simp: store_apply_def memory_ops_def plan_replay_lookup found_def plan_replay_def [of s'] elim!: memory_Apply_cases)
next
  case (7 s k h q e s')
  then show ?case by (cases q) (auto simp: store_apply_def memory_ops_def elim!: memory_Apply_cases)
next
  case (8 s s')
  then show ?case .
next
  case (9 s i)
  then show ?case by (rule version_bounds)
next
  case (10 s s' i)
  then show ?case using memory_step_version(1) by simp
next
  case (11 s k q i h r s')
  then show ?case
    by (cases k; cases q) (auto simp: store_apply_def memory_ops_def plan_slot_def plan_expected_def plan_version_def current_plan_def
        elim!: memory_Apply_cases)
next
  case (12 s projectID key h)
  then show ?case by (simp add: memory_ops_def memory_ReplayPlan_def plan_replay_lookup)
qed

interpretation memory_capacities: topology_capacities "memory_ops H" memory_ok "memory_step H" capacity_replay capacity_version for H
proof (unfold_locales, goal_cases)
  case (1 s s')
  then show ?case by (rule memory_ok_step)
next
  case (2 s s' k x)
  then show ?case using memory_step_replay(2) [of H s s' "fst k" "snd k"] by simp
next
  case (3 s k h q res s')
  then show ?case by (cases q) (auto simp: store_apply_capacity_def memory_ops_def intro: memory_step.apply_capacity)
next
  case (4 s k h r q)
  then show ?case
    by (cases k; cases q) (simp add: store_apply_capacity_def memory_ops_def memory_ApplyOperatorCapacity_def Let_def
        capacity_replay_lookup found_def)
next
  case (5 s k h' r h q)
  then show ?case
    by (cases k; cases q) (simp add: store_apply_capacity_def memory_ops_def memory_ApplyOperatorCapacity_def Let_def
        capacity_replay_lookup found_def)
next
  case (6 s k h q r b s')
  then show ?case
    by (cases k; cases q) (auto simp: store_apply_capacity_def memory_ops_def capacity_replay_lookup found_def
        capacity_replay_def [of s'] elim!: memory_ApplyOperatorCapacity_cases)
next
  case (7 s k h q e s')
  then show ?case by (cases q) (auto simp: store_apply_capacity_def memory_ops_def elim!: memory_ApplyOperatorCapacity_cases)
next
  case (8 s s')
  then show ?case .
next
  case (9 s i)
  then show ?case by (rule version_bounds)
next
  case (10 s s' i)
  then show ?case using memory_step_version(2) by simp
next
  case (11 s k q i h r s')
  then show ?case
    by (cases k; cases q) (auto simp: store_apply_capacity_def memory_ops_def capacity_slot_def capacity_expected_def capacity_version_def
        current_capacity_def elim!: memory_ApplyOperatorCapacity_cases)
next
  case (12 s projectID key h)
  then show ?case by (simp add: memory_ops_def memory_ReplayOperatorCapacity_def capacity_replay_lookup)
qed

end
