(* ===== verification/Topology_Properties.thy ===== *)
theory Topology_Properties
  imports Topology
begin

text \<open>
  What normalizeDraft and diff of Topology achieve: a normalised draft is canonical (bounded,
  sorted, a fixed point, independent of the order of the request), and the diff of two plans is
  exactly what turns one into the other.
\<close>

section \<open>Normalisation\<close>

definition assignment_ok :: "Assignment \<Rightarrow> bool" where
  "assignment_ok a = (assignment_error [] a = None)"

lemma no_product_overflow: "1 \<le> r \<Longrightarrow> r \<le> 100 \<Longrightarrow> x \<le> 2 ^ 50 \<Longrightarrow> \<not> MaxInt64 div r < x"
proof -
  assume r: "1 \<le> r" "r \<le> 100" "x \<le> 2 ^ 50"
  then have "MaxInt64 div 100 \<le> MaxInt64 div r" by (intro zdiv_mono2) (auto simp: MaxInt64_def)
  moreover have "(2::int) ^ 50 \<le> MaxInt64 div 100" by (simp add: MaxInt64_def)
  ultimately show ?thesis using r by linarith
qed

lemma assignment_ok_iff:
  "assignment_ok a \<longleftrightarrow> as_ServiceKey a \<noteq> [] \<and> as_EnvironmentID a \<noteq> [] \<and> as_RuntimeID a \<noteq> []
     \<and> 1 \<le> as_Replicas a \<and> as_Replicas a \<le> 100
     \<and> 1 \<le> as_CPURequestMillicores a \<and> as_CPURequestMillicores a \<le> as_CPULimitMillicores a \<and> as_CPULimitMillicores a \<le> 1000000
     \<and> 1 \<le> as_MemoryRequestBytes a \<and> as_MemoryRequestBytes a \<le> as_MemoryLimitBytes a \<and> as_MemoryLimitBytes a \<le> 2 ^ 50
     \<and> as_ExposureMode a \<in> {''none'', ''internal'', ''public''} \<and> length (as_RationaleSummary a) \<le> 2048"
  (is "_ \<longleftrightarrow> ?r")
proof -
  define free where "free = (\<not> (MaxInt64 div as_Replicas a < as_CPURequestMillicores a \<or> MaxInt64 div as_Replicas a < as_MemoryRequestBytes a
         \<or> MaxInt64 div as_Replicas a < as_CPULimitMillicores a \<or> MaxInt64 div as_Replicas a < as_MemoryLimitBytes a))"
  have "assignment_ok a \<longleftrightarrow> as_ServiceKey a \<noteq> [] \<and> as_EnvironmentID a \<noteq> [] \<and> as_RuntimeID a \<noteq> []
     \<and> \<not> as_Replicas a < 1 \<and> \<not> 100 < as_Replicas a \<and> \<not> as_CPURequestMillicores a < 1 \<and> \<not> 1000000 < as_CPURequestMillicores a
     \<and> \<not> as_MemoryRequestBytes a < 1 \<and> \<not> 2 ^ 50 < as_MemoryRequestBytes a
     \<and> \<not> as_CPULimitMillicores a < as_CPURequestMillicores a \<and> \<not> 1000000 < as_CPULimitMillicores a
     \<and> \<not> as_MemoryLimitBytes a < as_MemoryRequestBytes a \<and> \<not> 2 ^ 50 < as_MemoryLimitBytes a \<and> free
     \<and> as_ExposureMode a \<in> {''none'', ''internal'', ''public''} \<and> length (as_RationaleSummary a) \<le> 2048"
    unfolding assignment_ok_def assignment_error_def free_def first_failure_None topology_limits by (simp add: not_less)
  note ok = this
  show ?thesis
  proof
    assume "assignment_ok a"
    then show ?r unfolding ok not_less by blast
  next
    assume r: ?r
    then have bounds: "as_CPURequestMillicores a \<le> 1000000" "as_MemoryRequestBytes a \<le> 2 ^ 50" "1 \<le> as_Replicas a"
        "as_Replicas a \<le> 100" "as_CPULimitMillicores a \<le> 1000000" "as_MemoryLimitBytes a \<le> 2 ^ 50"
      by (elim conjE, linarith)+
    have "x \<le> 1000000 \<Longrightarrow> x \<le> 2 ^ 50" for x :: int by simp
    then have free unfolding free_def de_Morgan_disj using bounds by (intro conjI no_product_overflow) blast+
    with r bounds show "assignment_ok a" unfolding ok not_less by blast
  qed
qed

lemma first_failure_seen:
  "\<not> q0 \<Longrightarrow> first_failure ((p1 \<or> p2 \<or> p3 \<or> q, e) # fs) = None \<longleftrightarrow> first_failure ((p1 \<or> p2 \<or> p3 \<or> q0, e) # fs) = None \<and> \<not> q"
  by simp

lemma assignment_error_seen: "assignment_error seen a = None \<longleftrightarrow> assignment_ok a \<and> as_ServiceKey a \<notin> set seen"
  unfolding assignment_ok_def assignment_error_def by (rule first_failure_seen) simp

definition canonical_assignment :: "Assignment \<Rightarrow> Assignment" where
  "canonical_assignment a = default_limits (trim_assignment a)"

lemma canonical_assignment_idem [simp]: "canonical_assignment (canonical_assignment a) = canonical_assignment a"
  by (simp add: canonical_assignment_def default_limits_def trim_assignment_def)

lemma one_point_cons:
  "(A \<and> K) \<and> (\<exists>cs. (cs = X \<and> L cs \<and> D cs \<and> I cs) \<and> bs = c # cs)
     \<longleftrightarrow> bs = c # X \<and> A \<and> K \<and> L X \<and> D X \<and> I X"
  by blast

lemma normalize_loop_Inr:
  "normalize_loop seen as = Inr bs \<longleftrightarrow> bs = map canonical_assignment as \<and> list_all assignment_ok bs
     \<and> distinct (map as_ServiceKey bs) \<and> set (map as_ServiceKey bs) \<inter> set seen = {}"
proof (induction as arbitrary: seen bs)
  case (Cons a as)
  let ?c = "canonical_assignment a"
  have "normalize_loop seen (a # as) = Inr bs \<longleftrightarrow> assignment_error seen ?c = None
      \<and> (\<exists>cs. normalize_loop (as_ServiceKey ?c # seen) as = Inr cs \<and> bs = ?c # cs)"
    unfolding normalize_loop.simps Let_def canonical_assignment_def [symmetric]
    by (cases "assignment_error seen ?c"; cases "normalize_loop (as_ServiceKey ?c # seen) as") auto
  also have "\<dots> \<longleftrightarrow> bs = map canonical_assignment (a # as) \<and> assignment_ok ?c \<and> as_ServiceKey ?c \<notin> set seen
      \<and> list_all assignment_ok (map canonical_assignment as) \<and> distinct (map as_ServiceKey (map canonical_assignment as))
      \<and> set (map as_ServiceKey (map canonical_assignment as)) \<inter> set (as_ServiceKey ?c # seen) = {}"
    unfolding Cons.IH assignment_error_seen list.map by (rule one_point_cons)
  also have "\<dots> \<longleftrightarrow> bs = map canonical_assignment (a # as) \<and> list_all assignment_ok bs \<and> distinct (map as_ServiceKey bs)
      \<and> set (map as_ServiceKey bs) \<inter> set seen = {}"
    by (cases "bs = map canonical_assignment (a # as)") auto
  finally show ?case .
qed auto

lemma draft_error_None:
  "draft_error pid d = None \<longleftrightarrow> dr_SchemaVersion d = TopologySchemaVersion \<and> dr_ProjectID d = pid \<and> pid \<noteq> []
     \<and> dr_Assignments d \<noteq> [] \<and> length (dr_Assignments d) \<le> 100"
  unfolding draft_error_def first_failure_None by (auto simp: maxAssignments_def not_less)

lemma normalizeDraft_Inr:
  "normalizeDraft H pid d = Inr (n, h) \<longleftrightarrow> draft_error pid d = None
     \<and> n = d\<lparr>dr_Assignments := sort_key as_ServiceKey (map canonical_assignment (dr_Assignments d))\<rparr>
     \<and> list_all assignment_ok (map canonical_assignment (dr_Assignments d))
     \<and> distinct (map as_ServiceKey (map canonical_assignment (dr_Assignments d))) \<and> th_draft H n = Some h"
proof -
  have "normalizeDraft H pid d = Inr (n, h) \<longleftrightarrow> draft_error pid d = None
    \<and> (\<exists>bs. normalize_loop [] (dr_Assignments d) = Inr bs \<and> n = d\<lparr>dr_Assignments := sort_key as_ServiceKey bs\<rparr> \<and> th_draft H n = Some h)"
    by (auto simp: normalizeDraft_def Let_def split: option.splits sum.splits)
  moreover have "normalize_loop [] as = Inr bs \<longleftrightarrow> bs = map canonical_assignment as \<and> list_all assignment_ok bs
     \<and> distinct (map as_ServiceKey bs)" for as bs
    by (simp add: normalize_loop_Inr)
  ultimately show ?thesis by (simp only: simp_thms) blast
qed

lemma normalizeDraft_idem:
  assumes "normalizeDraft H pid d = Inr (n, h)"
  shows "normalizeDraft H pid n = Inr (n, h)"
proof -
  let ?as = "map canonical_assignment (dr_Assignments d)"
  have ids: "map canonical_assignment (sort_key as_ServiceKey ?as) = sort_key as_ServiceKey ?as"
    by (rule map_idI) auto
  from assms have "n = d\<lparr>dr_Assignments := sort_key as_ServiceKey ?as\<rparr>" "th_draft H n = Some h" "draft_error pid d = None"
      "list_all assignment_ok ?as" "distinct (map as_ServiceKey ?as)"
    unfolding normalizeDraft_Inr by blast+
  with ids show ?thesis unfolding normalizeDraft_Inr
    by (simp add: draft_error_None sort_key_idem list_all_iff)
qed


definition sample_assignment :: "string \<Rightarrow> string \<Rightarrow> Assignment" where
  "sample_assignment service runtime = \<lparr>as_ServiceKey = service, as_EnvironmentID = ''env'', as_RuntimeID = runtime, as_Replicas = 2,
     as_CPURequestMillicores = 500, as_MemoryRequestBytes = 1024, as_CPULimitMillicores = 0, as_MemoryLimitBytes = 0,
     as_ExposureMode = ''none'', as_RationaleSummary = []\<rparr>"

definition sample_draft :: "Assignment list \<Rightarrow> Draft" where
  "sample_draft as = \<lparr>dr_SchemaVersion = TopologySchemaVersion, dr_ProjectID = ''p1'', dr_Assignments = as\<rparr>"

definition sample_topology_hashes :: topology_hashes where
  "sample_topology_hashes = \<lparr>th_draft = (\<lambda>d. Some ''d''), th_assignment = (\<lambda>a. Some (as_ServiceKey a @ '':'' @ as_RuntimeID a)),
     th_state = (\<lambda>(pid, revision, payload). Some (pid @ '':'' @ dec revision))\<rparr>"

lemma sample_canonical_assignment:
  assumes "list_all (in_range 0x21 0x7E) s" "list_all (in_range 0x21 0x7E) r"
  shows "canonical_assignment (sample_assignment s r) = sample_assignment s r\<lparr>as_CPULimitMillicores := 500, as_MemoryLimitBytes := 1024\<rparr>"
  using assms by (simp add: canonical_assignment_def trim_assignment_def default_limits_def sample_assignment_def string_eval)

lemma sample_normalized:
  "normalizeDraft sample_topology_hashes ''p1'' (sample_draft [sample_assignment ''web'' ''r1'', sample_assignment ''api'' ''r1'']) =
     Inr (sample_draft (map canonical_assignment [sample_assignment ''api'' ''r1'', sample_assignment ''web'' ''r1'']), ''d'')"
proof -
  have c: "canonical_assignment (sample_assignment s ''r1'') = sample_assignment s ''r1''\<lparr>as_CPULimitMillicores := 500, as_MemoryLimitBytes := 1024\<rparr>"
    if "s = ''api'' \<or> s = ''web''" for s
    using that by (intro sample_canonical_assignment) (auto simp: in_range_def)
  have "sort_key as_ServiceKey (map canonical_assignment [sample_assignment ''web'' ''r1'', sample_assignment ''api'' ''r1'']) =
      map canonical_assignment [sample_assignment ''api'' ''r1'', sample_assignment ''web'' ''r1'']"
    by (simp add: c) (simp add: sample_assignment_def)
  then show ?thesis
    unfolding normalizeDraft_Inr
    by (simp add: draft_error_None sample_draft_def c assignment_ok_iff sample_topology_hashes_def)
      (simp add: sample_assignment_def)
qed


section \<open>Diff\<close>

text \<open>What a reader of a diff does: each entry replaces the assignment of its service.\<close>

definition apply_changes :: "DiffEntry list \<Rightarrow> (string \<Rightarrow> Assignment option) \<Rightarrow> string \<Rightarrow> Assignment option" where
  "apply_changes changes m = fold (\<lambda>e m. m(de_ServiceKey e := de_After e)) changes m"

lemma diff_entry_Some:
  "diff_entry H b a key = Some e \<Longrightarrow> de_ServiceKey e = key \<and> de_Before e = b \<and> de_After e = a"
  by (auto simp: diff_entry_def split: if_splits)

lemma apply_changes_filter:
  assumes "distinct keys"
  shows "apply_changes (List.map_filter (\<lambda>key. diff_entry H (B key) (A key) key) keys) m key =
    (if key \<in> set keys \<and> diff_entry H (B key) (A key) key \<noteq> None then A key else m key)"
  using assms
proof (induction keys arbitrary: m)
  case Nil
  then show ?case by (simp add: apply_changes_def List.map_filter_simps)
next
  case (Cons k keys)
  show ?case
  proof (cases "diff_entry H (B k) (A k) k")
    case None
    with Cons show ?thesis by (auto simp: List.map_filter_simps)
  next
    case (Some e)
    have "apply_changes (List.map_filter (\<lambda>key. diff_entry H (B key) (A key) key) (k # keys)) m =
        apply_changes (List.map_filter (\<lambda>key. diff_entry H (B key) (A key) key) keys) (m(k := A k))"
      using diff_entry_Some [OF Some] by (simp add: List.map_filter_simps Some apply_changes_def)
    with Cons Some show ?thesis by auto
  qed
qed

lemma map_filter_keys:
  assumes "\<And>k e. f k = Some e \<Longrightarrow> g e = k"
  shows "map g (List.map_filter f keys) = filter (\<lambda>k. f k \<noteq> None) keys"
  using assms by (induction keys) (auto simp: List.map_filter_simps split: option.splits)

lemma by_service_None: "by_service as key = None \<longleftrightarrow> key \<notin> as_ServiceKey ` set as"
  by (auto simp: by_service_def map_of_eq_None_iff image_image)

lemma by_service_Some: "by_service as key = Some a \<Longrightarrow> a \<in> set as \<and> as_ServiceKey a = key"
  by (auto simp: by_service_def dest!: map_of_SomeD)

text \<open>
  C37: The diff of a plan and a draft is sound and complete: its entries are sorted by service, one
  per service whose assignment differs, each with the assignments before and after; applying them to
  the plan's assignments gives the draft's (hashes of different assignments being different).
\<close>

theorem diff_applies:
  assumes "changes = df_Changes (diff H current proposed proposedHash)"
    and "before = by_service (pl_Assignments current)" "after = by_service (dr_Assignments proposed)"
    and "inj_on (hashMust (th_assignment H)) (set (pl_Assignments current) \<union> set (dr_Assignments proposed))"
  shows "apply_changes changes before = after
    \<and> sorted (map de_ServiceKey changes) \<and> distinct (map de_ServiceKey changes)
    \<and> set (map de_ServiceKey changes) = {key. before key \<noteq> after key}
    \<and> (\<forall>e \<in> set changes. de_Before e = before (de_ServiceKey e) \<and> de_After e = after (de_ServiceKey e)
         \<and> de_Change e = (if de_After e = None then ''removed'' else if de_Before e = None then ''added'' else ''updated''))"
proof -
  let ?f = "\<lambda>key. diff_entry H (before key) (after key) key"
  define keys where "keys = diff_keys (pl_Assignments current) (dr_Assignments proposed)"
  have changes: "changes = List.map_filter ?f keys"
    by (simp add: assms(1-3) diff_def diff_changes_def keys_def)
  have keys: "distinct keys" "sorted keys" "set keys = {key. before key \<noteq> None \<or> after key \<noteq> None}"
    by (auto simp: keys_def diff_keys_def assms(2,3) by_service_None)
  have entry: "?f key = None \<longleftrightarrow> before key = after key" if "key \<in> set keys" for key
  proof -
    have "b = a" if "before key = Some b" "after key = Some a"
        "hashMust (th_assignment H) b = hashMust (th_assignment H) a" for a b
      using that by_service_Some assms(2-4) by (metis UnCI inj_onD)
    then show ?thesis using that keys(3) by (auto simp: diff_entry_def)
  qed
  have outside: "before key = None \<and> after key = None" if "key \<notin> set keys" for key using that keys(3) by auto
  have ks: "map de_ServiceKey changes = filter (\<lambda>key. ?f key \<noteq> None) keys"
    unfolding changes by (rule map_filter_keys) (simp add: diff_entry_Some)
  have "apply_changes changes before = after"
    using entry outside by (auto simp: changes apply_changes_filter [OF keys(1)] fun_eq_iff)
  moreover have "set (map de_ServiceKey changes) = {key. before key \<noteq> after key}"
  proof (rule set_eqI)
    fix key
    have "key \<in> set keys \<and> ?f key \<noteq> None \<longleftrightarrow> before key \<noteq> after key"
      using entry [of key] outside [of key] by (cases "key \<in> set keys") simp_all
    then show "key \<in> set (map de_ServiceKey changes) \<longleftrightarrow> key \<in> {key. before key \<noteq> after key}" unfolding ks by simp
  qed
  moreover have "\<forall>e \<in> set changes. de_Before e = before (de_ServiceKey e) \<and> de_After e = after (de_ServiceKey e)
         \<and> de_Change e = (if de_After e = None then ''removed'' else if de_Before e = None then ''added'' else ''updated'')"
    by (auto simp: changes List.map_filter_def diff_entry_def split: if_splits)
  ultimately show ?thesis using ks keys(1,2) by (simp add: sorted_wrt_filter distinct_filter)
qed

lemma diff_applies_witness:
  "set (map de_ServiceKey (df_Changes (diff sample_topology_hashes
       (zero_plan\<lparr>pl_Assignments := [sample_assignment ''api'' ''r1'', sample_assignment ''web'' ''r1'']\<rparr>)
       (sample_draft [sample_assignment ''web'' ''r2'', sample_assignment ''api'' ''r1'']) ''d''))) = {''web''}"
proof -
  let ?b = "[sample_assignment ''api'' ''r1'', sample_assignment ''web'' ''r1'']"
  let ?a = "[sample_assignment ''web'' ''r2'', sample_assignment ''api'' ''r1'']"
  have "inj_on (hashMust (th_assignment sample_topology_hashes)) (set ?b \<union> set ?a)"
    by (simp add: hashMust_def sample_topology_hashes_def sample_assignment_def inj_on_def)
  then have "set (map de_ServiceKey (df_Changes (diff sample_topology_hashes (zero_plan\<lparr>pl_Assignments := ?b\<rparr>) (sample_draft ?a) ''d'')))
      = {key. by_service ?b key \<noteq> by_service ?a key}"
    using diff_applies [OF refl refl refl, of sample_topology_hashes "zero_plan\<lparr>pl_Assignments := ?b\<rparr>" "sample_draft ?a" "''d''"]
    by (simp add: sample_draft_def)
  also have "\<dots> = {''web''}"
    by (auto simp: by_service_def sample_assignment_def)
  finally show ?thesis .
qed

end
