(* ===== verification/Topology_Validation_Properties.thy ===== *)
theory Topology_Validation_Properties
  imports Topology_Validation Topology_Properties
begin

text \<open>
  What validate of Topology_Validation decides: acceptance is equivalent to a declarative
  condition on the facts, and what that means for the capacity of a runtime, with and without the
  wrap-around of the int64 sums.
\<close>

section \<open>Requests and overrides by runtime\<close>

definition on_runtime :: "string \<Rightarrow> Assignment list \<Rightarrow> Assignment list" where
  "on_runtime rid as = filter (\<lambda>a. as_RuntimeID a = rid) as"

definition requested_cpu :: "Assignment list \<Rightarrow> string \<Rightarrow> int" where
  "requested_cpu as rid = sum_list (map (\<lambda>a. as_CPURequestMillicores a * as_Replicas a) (on_runtime rid as))"

definition requested_memory :: "Assignment list \<Rightarrow> string \<Rightarrow> int" where
  "requested_memory as rid = sum_list (map (\<lambda>a. as_MemoryRequestBytes a * as_Replicas a) (on_runtime rid as))"

lemma requestedByRuntime_wraps:
  "requestedByRuntime as rid = (wrap_s64 (requested_cpu as rid), wrap_s64 (requested_memory as rid))"
proof (induction as arbitrary: rid rule: rev_induct)
  case (snoc a as)
  have "requestedByRuntime (as @ [a]) = (requestedByRuntime as)(as_RuntimeID a :=
     (wrap_s64 (fst (requestedByRuntime as (as_RuntimeID a)) + wrap_s64 (as_CPURequestMillicores a * as_Replicas a)),
      wrap_s64 (snd (requestedByRuntime as (as_RuntimeID a)) + wrap_s64 (as_MemoryRequestBytes a * as_Replicas a))))"
    by (simp add: requestedByRuntime_def)
  then show ?case by (simp add: snoc.IH requested_cpu_def requested_memory_def on_runtime_def)
qed (simp add: requestedByRuntime_def requested_cpu_def requested_memory_def on_runtime_def wrap_s64_id)

lemma scopedAssignmentOverrides_value:
  "scopedAssignmentOverrides as co rid = (if on_runtime rid as = [] then None else Some (\<forall>a \<in> set (on_runtime rid as). override_allows co a))"
proof (induction as rule: rev_induct)
  case (snoc a as)
  have "scopedAssignmentOverrides (as @ [a]) co =
    (if \<not> override_allows co a then (scopedAssignmentOverrides as co)(as_RuntimeID a := Some False)
     else if scopedAssignmentOverrides as co (as_RuntimeID a) = None then (scopedAssignmentOverrides as co)(as_RuntimeID a := Some True)
     else scopedAssignmentOverrides as co)"
    by (simp add: scopedAssignmentOverrides_def)
  then show ?case using snoc.IH by (cases "as_RuntimeID a = rid") (auto simp: on_runtime_def filter_empty_conv split: if_splits)
qed (simp add: scopedAssignmentOverrides_def on_runtime_def)

lemma scopedAssignmentOverrides_True:
  "scopedAssignmentOverrides as co rid = Some True \<longleftrightarrow> on_runtime rid as \<noteq> [] \<and> (\<forall>a \<in> set (on_runtime rid as). override_allows co a)"
  by (simp add: scopedAssignmentOverrides_value)

section \<open>One runtime\<close>

text \<open>The capacity left after the reserve, when it is known.\<close>

definition available_capacity :: "limits \<Rightarrow> time \<Rightarrow> PlacementFacts \<Rightarrow> RuntimeFact \<Rightarrow> capacity_lookup \<Rightarrow> resourcePair option" where
  "available_capacity s now facts rt getcap = (case getcap (rf_ProjectID rt) (rf_ID rt) of
     Inr oc \<Rightarrow> Some (wrap_s64 (oc_CPUMillicores oc - oc_ReservedCPUMillicores oc), wrap_s64 (oc_MemoryBytes oc - oc_ReservedMemoryBytes oc))
   | Inl _ \<Rightarrow> (case eligible_pairs s now facts rt of
       [(node, agent)] \<Rightarrow> if 0 < nf_CPUCores node \<and> 0 < nf_MemoryMB node
         then Some (wrap_s64 (nf_CPUCores node * 1000 - reservedCPU s), wrap_s64 (nf_MemoryMB node * 2 ^ 20 - reservedMemory s))
         else None
     | _ \<Rightarrow> None))"

definition runtime_ok :: "limits \<Rightarrow> time \<Rightarrow> PlacementFacts \<Rightarrow> RuntimeFact \<Rightarrow> capacity_lookup \<Rightarrow> resourcePair \<Rightarrow> bool \<Rightarrow> bool" where
  "runtime_ok s now facts rt getcap requested allowed \<longleftrightarrow>
     length (runtime_nodes facts rt) \<le> 1 \<and> length (eligible_pairs s now facts rt) = 1
     \<and> (case available_capacity s now facts rt getcap of None \<Rightarrow> allowed
        | Some available \<Rightarrow> fst requested \<le> fst available \<and> snd requested \<le> snd available)"

lemma reject_simps [simp]:
  "rv_Issues (reject code message rv) \<noteq> []" "\<not> rv_Eligible (reject code message rv)"
  "rv_RuntimeID (reject code message rv) = rv_RuntimeID rv" "rv_Capacity (reject code message rv) = rv_Capacity rv"
  "rv_Issues (with_capacity f rv) = rv_Issues rv" "rv_Eligible (with_capacity f rv) = rv_Eligible rv"
  "rv_RuntimeID (with_capacity f rv) = rv_RuntimeID rv" "rv_Capacity (with_capacity f rv) = f (rv_Capacity rv)"
  by (simp_all add: reject_def with_capacity_def)

lemma check_agents_issues:
  "rv_Issues (check_agents s now facts rt rv) = [] \<longleftrightarrow> rv_Issues rv = [] \<and> length (eligible_pairs s now facts rt) = 1"
  "rv_Eligible (check_agents s now facts rt rv) \<longleftrightarrow> rv_Eligible rv \<and> length (eligible_pairs s now facts rt) = 1"
  by (auto simp: check_agents_def length_Suc_conv split: list.splits)

lemma capacity_source_available:
  "map_option (\<lambda>c. (wrap_s64 (cp_CPUCapacityMillicores c - cp_ReservedCPUMillicores c),
      wrap_s64 (cp_MemoryCapacityBytes c - cp_ReservedMemoryBytes c))) (capacity_source s now facts rt getcap c0)
    = available_capacity s now facts rt getcap"
proof -
  have "wrap_s64 (wrap_s64 x - y) = wrap_s64 (x - y)" for x y
    using wrap_s64_add_left [of x "- y"] by simp
  then show ?thesis
    by (auto simp: capacity_source_def available_capacity_def split: sum.splits list.splits)
qed

lemma check_capacity_issues:
  "rv_Issues (check_capacity requested rv) = [] \<longleftrightarrow> rv_Issues rv = []
     \<and> fst requested \<le> wrap_s64 (cp_CPUCapacityMillicores (rv_Capacity rv) - cp_ReservedCPUMillicores (rv_Capacity rv))
     \<and> snd requested \<le> wrap_s64 (cp_MemoryCapacityBytes (rv_Capacity rv) - cp_ReservedMemoryBytes (rv_Capacity rv))"
  "rv_Eligible (check_capacity requested rv) \<longleftrightarrow> rv_Eligible rv
     \<and> fst requested \<le> wrap_s64 (cp_CPUCapacityMillicores (rv_Capacity rv) - cp_ReservedCPUMillicores (rv_Capacity rv))
     \<and> snd requested \<le> wrap_s64 (cp_MemoryCapacityBytes (rv_Capacity rv) - cp_ReservedMemoryBytes (rv_Capacity rv))"
  by (auto simp: check_capacity_def Let_def not_less)

lemma validateRuntime_issues:
  "rv_Issues (validateRuntime s facts rt assigned requested allowed now getcap) = []
     \<longleftrightarrow> runtime_ok s now facts rt getcap requested allowed"
  "rv_Eligible (validateRuntime s facts rt assigned requested allowed now getcap)
     \<longleftrightarrow> runtime_ok s now facts rt getcap requested allowed"
proof -
  define rv0 where "rv0 = \<lparr>rv_RuntimeID = rf_ID rt, rv_Eligible = True, rv_Capacity = zero_capacity, rv_Issues = []\<rparr>"
  define rv1 where "rv1 = (if 1 < length (runtime_nodes facts rt)
    then reject ''TOPOLOGY_RUNTIME_MULTI_NODE_UNSUPPORTED'' ''R5-009 supports exactly one node per K3s runtime'' rv0 else rv0)"
  define rv3 where "rv3 = with_capacity (\<lambda>c. c\<lparr>cp_RuntimeID := rf_ID rt, cp_AssignedCPUMillicores := fst assigned,
                 cp_AssignedMemoryBytes := snd assigned, cp_RequestedCPUMillicores := fst requested,
                 cp_RequestedMemoryBytes := snd requested\<rparr>) (check_agents s now facts rt rv1)"
  have rv3: "rv_Issues rv3 = [] \<longleftrightarrow> length (runtime_nodes facts rt) \<le> 1 \<and> length (eligible_pairs s now facts rt) = 1"
      "rv_Eligible rv3 \<longleftrightarrow> length (runtime_nodes facts rt) \<le> 1 \<and> length (eligible_pairs s now facts rt) = 1"
    by (auto simp: rv3_def check_agents_issues rv1_def rv0_def)
  note avail = capacity_source_available [of s now facts rt getcap "rv_Capacity rv3", symmetric]
  have run: "validateRuntime s facts rt assigned requested allowed now getcap =
     (case capacity_source s now facts rt getcap (rv_Capacity rv3) of
        Some c \<Rightarrow> check_capacity requested (rv3\<lparr>rv_Capacity := c\<rparr>)
      | None \<Rightarrow>
          let rv = with_capacity (\<lambda>c. c\<lparr>cp_Source := ''unknown'', cp_UnknownCapacity := True,
                cp_UnknownCapacityPolicyOverride := allowed\<rparr>) rv3 in
          if allowed then rv
          else reject ''TOPOLOGY_CAPACITY_UNKNOWN'' ''runtime capacity is unknown and policy does not allow an override'' rv)"
    unfolding validateRuntime_def rv3_def rv1_def rv0_def Let_def by (rule refl)
  show "rv_Issues (validateRuntime s facts rt assigned requested allowed now getcap) = []
     \<longleftrightarrow> runtime_ok s now facts rt getcap requested allowed"
    "rv_Eligible (validateRuntime s facts rt assigned requested allowed now getcap)
     \<longleftrightarrow> runtime_ok s now facts rt getcap requested allowed"
    unfolding run runtime_ok_def avail using rv3
    by (cases "capacity_source s now facts rt getcap (rv_Capacity rv3)"; auto simp: check_capacity_issues Let_def)+
qed

section \<open>The whole draft\<close>

definition service_ok :: "PlacementFacts \<Rightarrow> string \<Rightarrow> Assignment \<Rightarrow> bool" where
  "service_ok facts projectID a = (case index_by rs_ID (pf_Resources facts) (as_ServiceKey a) of
     None \<Rightarrow> index_by sf_Key (pf_Services facts) (as_ServiceKey a) \<noteq> None
   | Some rs \<Rightarrow> rs_Kind rs = ''managed_service'' \<and> rs_EnvironmentID rs = as_EnvironmentID a \<and> rs_ProjectID rs = projectID
       \<and> (rs_Type rs = ''kafka'' \<longrightarrow> has_managed_kafka facts projectID a))"

definition placement_ok :: "PlacementFacts \<Rightarrow> string \<Rightarrow> RuntimeFact \<Rightarrow> Assignment \<Rightarrow> bool" where
  "placement_ok facts projectID rt a = (rf_ProjectID rt = projectID \<and> rf_EnvironmentID rt = as_EnvironmentID a
     \<and> ef_ProjectID (environment facts (as_EnvironmentID a)) = projectID
     \<and> rf_Status rt = ''ready'' \<and> rf_Type rt = ''k3s'' \<and> ef_Status (environment facts (as_EnvironmentID a)) = ''active'')"

definition clean :: "ValidationResult \<Rightarrow> bool" where
  "clean r = (vr_Valid r \<and> vr_Issues r = [])"

lemma clean_simps [simp]:
  "\<not> clean (addIssue code message a r)" "clean (issue_if bad code message a r) \<longleftrightarrow> \<not> bad \<and> clean r"
  "clean (add_runtime rv r) \<longleftrightarrow> rv_Issues rv = [] \<and> clean r"
  by (auto simp: clean_def addIssue_def issue_if_def add_runtime_def)

lemma check_service_clean [simp]: "clean (check_service facts projectID a r) \<longleftrightarrow> service_ok facts projectID a \<and> clean r"
  by (auto simp: check_service_def service_ok_def Let_def split: option.splits)

lemma check_environment_clean:
  "rf_ProjectID rt = projectID \<Longrightarrow> clean (check_environment facts projectID rt a r) \<longleftrightarrow> placement_ok facts projectID rt a \<and> clean r"
  by (auto simp: check_environment_def placement_ok_def)

lemma validate_loop_clean:
  "clean (validate_loop facts projectID check seen as r) \<longleftrightarrow> clean r \<and> (\<forall>a \<in> set as. service_ok facts projectID a
     \<and> (\<exists>rt. index_by rf_ID (pf_Runtimes facts) (as_RuntimeID a) = Some rt \<and> placement_ok facts projectID rt a
          \<and> (as_RuntimeID a \<notin> set seen \<longrightarrow> rv_Issues (check rt (as_RuntimeID a)) = [])))"
proof (induction as arbitrary: seen r)
  case (Cons a as)
  let ?r = "check_service facts projectID a r"
  show ?case
  proof (cases "\<exists>rt. index_by rf_ID (pf_Runtimes facts) (as_RuntimeID a) = Some rt \<and> rf_ProjectID rt = projectID")
    case False
    then have "\<not> clean (validate_loop facts projectID check seen (a # as) r)"
      by (auto simp: Let_def Cons.IH split: option.splits)
    moreover have "\<not> (\<exists>rt. index_by rf_ID (pf_Runtimes facts) (as_RuntimeID a) = Some rt \<and> placement_ok facts projectID rt a)"
      using False by (auto simp: placement_ok_def)
    ultimately show ?thesis by auto
  next
    case True
    then obtain rt where rt: "index_by rf_ID (pf_Runtimes facts) (as_RuntimeID a) = Some rt" "rf_ProjectID rt = projectID" by blast
    show ?thesis
    proof (cases "as_RuntimeID a \<in> set seen")
      case True
      then show ?thesis using rt by (auto simp: Let_def Cons.IH check_environment_clean)
    next
      case False
      have "clean (validate_loop facts projectID check seen (a # as) r) \<longleftrightarrow>
        clean (validate_loop facts projectID check (as_RuntimeID a # seen) as
          (add_runtime (check rt (as_RuntimeID a)) (check_environment facts projectID rt a ?r)))"
        using rt False by (simp add: Let_def)
      then show ?thesis unfolding Cons.IH using rt False by (auto simp: check_environment_clean)
    qed
  qed
qed simp

lemma accepted_iff:
  "vr_Valid (validate s now getcap facts current draft planHash co) \<longleftrightarrow>
     (\<forall>a \<in> set (dr_Assignments draft). service_ok facts (dr_ProjectID draft) a
        \<and> (\<exists>rt. index_by rf_ID (pf_Runtimes facts) (as_RuntimeID a) = Some rt \<and> placement_ok facts (dr_ProjectID draft) rt a
             \<and> runtime_ok s now facts rt getcap (requestedByRuntime (dr_Assignments draft) (as_RuntimeID a))
                 (\<forall>b \<in> set (dr_Assignments draft). as_RuntimeID b = as_RuntimeID a \<longrightarrow> override_allows co b)))"
proof -
  let ?as = "dr_Assignments draft"
  have allowed: "scopedAssignmentOverrides ?as co (as_RuntimeID a) = Some True
      \<longleftrightarrow> (\<forall>b \<in> set ?as. as_RuntimeID b = as_RuntimeID a \<longrightarrow> override_allows co b)" if "a \<in> set ?as" for a
    using that by (auto simp: scopedAssignmentOverrides_True on_runtime_def filter_empty_conv)
  have "vr_Valid (validate s now getcap facts current draft planHash co) \<longleftrightarrow>
      clean (validate_loop facts (dr_ProjectID draft)
            (\<lambda>rt rid. validateRuntime s facts rt (requestedByRuntime (pl_Assignments current) rid) (requestedByRuntime ?as rid)
               (scopedAssignmentOverrides ?as co rid = Some True) now getcap) [] ?as
            \<lparr>vr_SchemaVersion = TopologySchemaVersion, vr_ProjectID = dr_ProjectID draft, vr_PlanHash = planHash,
             vr_Valid = True, vr_Runtimes = [], vr_Issues = [], vr_ValidatedAt = now\<rparr>)"
    by (simp add: validate_def Let_def clean_def)
  also have "\<dots> \<longleftrightarrow> (\<forall>a \<in> set ?as. service_ok facts (dr_ProjectID draft) a
     \<and> (\<exists>rt. index_by rf_ID (pf_Runtimes facts) (as_RuntimeID a) = Some rt \<and> placement_ok facts (dr_ProjectID draft) rt a
          \<and> runtime_ok s now facts rt getcap (requestedByRuntime ?as (as_RuntimeID a))
              (scopedAssignmentOverrides ?as co (as_RuntimeID a) = Some True)))"
    unfolding validate_loop_clean validateRuntime_issues by (simp add: clean_def)
  finally show ?thesis using allowed by (simp cong: ball_cong)
qed

lemma eligible_iff_no_issues:
  "rv_Eligible (validateRuntime s facts rt assigned requested allowed now getcap)
     \<longleftrightarrow> rv_Issues (validateRuntime s facts rt assigned requested allowed now getcap) = []"
  by (simp add: validateRuntime_issues)

definition consistent :: "ValidationResult \<Rightarrow> bool" where
  "consistent r = ((vr_Valid r \<longleftrightarrow> vr_Issues r = []) \<and> (\<forall>rv \<in> set (vr_Runtimes r). rv_Eligible rv \<longleftrightarrow> rv_Issues rv = []))"

lemma consistent_simps [simp]:
  "consistent r \<Longrightarrow> consistent (addIssue code message a r)" "consistent r \<Longrightarrow> consistent (issue_if bad code message a r)"
  "consistent r \<Longrightarrow> rv_Eligible rv = (rv_Issues rv = []) \<Longrightarrow> consistent (add_runtime rv r)"
  by (auto simp: consistent_def addIssue_def issue_if_def add_runtime_def)

lemma consistent_validate_loop:
  assumes "\<And>rt rid. rv_Eligible (check rt rid) \<longleftrightarrow> rv_Issues (check rt rid) = []"
  shows "consistent r \<Longrightarrow> consistent (validate_loop facts projectID check seen as r)"
proof (induction as arbitrary: seen r)
  case (Cons a as)
  have "consistent (check_service facts projectID a r)"
    using Cons.prems by (auto simp: check_service_def Let_def split: option.split)
  with assms Cons.IH show ?case
    by (auto simp: Let_def check_environment_def split: option.split)
qed simp


text \<open>Concrete facts: one ready runtime with a fresh node and deploy agent, of a declared 1 GiB.\<close>

definition sample_facts :: "string list \<Rightarrow> PlacementFacts" where
  "sample_facts services = \<lparr>pf_ProjectID = ''p1'',
     pf_Environments = [\<lparr>ef_ID = ''env'', ef_ProjectID = ''p1'', ef_Name = ''prod'', ef_Type = ''production'', ef_Status = ''active''\<rparr>],
     pf_Runtimes = [\<lparr>rf_ID = ''r1'', rf_ProjectID = ''p1'', rf_EnvironmentID = ''env'', rf_Name = ''r'', rf_Type = ''k3s'', rf_Status = ''ready''\<rparr>],
     pf_Nodes = [\<lparr>nf_ID = ''n1'', nf_ProjectID = ''p1'', nf_RuntimeID = ''r1'', nf_Status = ''healthy'', nf_CPUCores = 4, nf_MemoryMB = 1024,
       nf_LastSeenAt = Some 0\<rparr>],
     pf_Agents = [\<lparr>af_ID = ''a1'', af_ProjectID = ''p1'', af_RuntimeID = ''r1'', af_NodeID = ''n1'', af_Status = ''active'',
       af_Capabilities = [(''deploy'', AnyBool True)], af_LastSeenAt = Some 0\<rparr>],
     pf_Services = map (\<lambda>key. \<lparr>sf_ID = key, sf_ProjectID = ''p1'', sf_Key = key\<rparr>) services, pf_Resources = []\<rparr>"

definition sample_limits :: limits where
  "sample_limits = \<lparr>lm_HeartbeatTTL = 0, lm_ReservedCPU = - 1, lm_ReservedMemory = - 1\<rparr>"

definition sample_capacity :: capacity_lookup where
  "sample_capacity pid rid = Inr \<lparr>oc_ID = ''c1'', oc_ProjectID = pid, oc_RuntimeID = rid, oc_Revision = 1, oc_Source = ''operator_declared'',
     oc_CPUMillicores = 1000000, oc_MemoryBytes = 2 ^ 30, oc_ReservedCPUMillicores = 0, oc_ReservedMemoryBytes = 0,
     oc_DeclaredBy = ''u'', oc_DeclaredAt = 0, oc_StateHash = ''h''\<rparr>"

definition no_override :: CapacityOverride where
  "no_override = \<lparr>co_Allowed = False, co_EnvironmentID = [], co_ServiceKeys = [], co_RuntimeIDs = []\<rparr>"

lemma index_by_None: "index_by key xs k = None \<longleftrightarrow> k \<notin> key ` set xs"
  by (auto simp: index_by_def map_of_eq_None_iff image_image)

lemma sample_facts_valid:
  assumes "\<And>a. a \<in> set as \<Longrightarrow> as_EnvironmentID a = ''env'' \<and> as_RuntimeID a = ''r1'' \<and> as_ServiceKey a \<in> set services"
    and "available_capacity sample_limits 0 (sample_facts services) (hd (pf_Runtimes (sample_facts services))) getcap = Some (cpu, memory)"
    and "wrap_s64 (requested_cpu as ''r1'') \<le> cpu" "wrap_s64 (requested_memory as ''r1'') \<le> memory"
  shows "vr_Valid (validate sample_limits 0 getcap (sample_facts services) current (sample_draft as) h no_override)"
    and "index_by rf_ID (pf_Runtimes (sample_facts services)) ''r1'' = Some (hd (pf_Runtimes (sample_facts services)))"
proof -
  let ?f = "sample_facts services" let ?rt = "hd (pf_Runtimes ?f)"
  show rt: "index_by rf_ID (pf_Runtimes ?f) ''r1'' = Some ?rt"
    by (simp add: index_by_def sample_facts_def)
  have env: "environment ?f ''env'' = hd (pf_Environments ?f)"
    by (simp add: environment_def index_by_def sample_facts_def)
  have "length (runtime_nodes ?f ?rt) = 1" "length (eligible_pairs sample_limits 0 ?f ?rt) = 1"
    by (simp_all add: runtime_nodes_def sample_facts_def nodeParticipatesInRuntime_def eligible_pairs_def heartbeatFresh_def
        heartbeatTTL_def sample_limits_def deploy_agent_def capabilityEnabled_def Second_def Minute_def)
  then have ok: "runtime_ok sample_limits 0 ?f ?rt getcap (requestedByRuntime as ''r1'') allowed" for allowed
    using assms(2-4) by (simp add: runtime_ok_def requestedByRuntime_wraps)
  have "service_ok ?f ''p1'' a \<and> placement_ok ?f ''p1'' ?rt a" if "a \<in> set as" for a
    using assms(1) [OF that] env
    by (auto simp: service_ok_def placement_ok_def sample_facts_def index_by_None image_image index_by_def [of rs_ID])
  then show "vr_Valid (validate sample_limits 0 getcap ?f current (sample_draft as) h no_override)"
    unfolding accepted_iff [unfolded sample_draft_def] using assms(1) rt ok by (simp add: sample_draft_def)
qed

lemma sample_facts_accept:
  assumes "\<And>a. a \<in> set as \<Longrightarrow> as_EnvironmentID a = ''env'' \<and> as_RuntimeID a = ''r1'' \<and> as_ServiceKey a \<in> set services"
    and "wrap_s64 (requested_cpu as ''r1'') \<le> 1000000" "wrap_s64 (requested_memory as ''r1'') \<le> 2 ^ 30"
  shows "vr_Valid (validate sample_limits 0 sample_capacity (sample_facts services) current (sample_draft as) h no_override)"
    and "available_capacity sample_limits 0 (sample_facts services) (hd (pf_Runtimes (sample_facts services))) sample_capacity
      = Some (1000000, 2 ^ 30)"
    and "index_by rf_ID (pf_Runtimes (sample_facts services)) ''r1'' = Some (hd (pf_Runtimes (sample_facts services)))"
proof -
  show avail: "available_capacity sample_limits 0 (sample_facts services) (hd (pf_Runtimes (sample_facts services))) sample_capacity
      = Some (1000000, 2 ^ 30)"
    by (simp add: available_capacity_def sample_capacity_def wrap_s64_id)
  show "vr_Valid (validate sample_limits 0 sample_capacity (sample_facts services) current (sample_draft as) h no_override)"
    using assms by (intro sample_facts_valid [OF _ avail]) simp_all
  show "index_by rf_ID (pf_Runtimes (sample_facts services)) ''r1'' = Some (hd (pf_Runtimes (sample_facts services)))"
    by (simp add: index_by_def sample_facts_def)
qed



definition greedy :: "nat \<Rightarrow> Assignment" where
  "greedy i = sample_assignment (replicate (Suc i) (CHR ''s'')) ''r1''\<lparr>as_Replicas := 100, as_CPURequestMillicores := 1,
     as_MemoryRequestBytes := 2 ^ 50, as_CPULimitMillicores := 1, as_MemoryLimitBytes := 2 ^ 50\<rparr>"

text \<open>
  C40: The int64 sums of requestedByRuntime can wrap: a draft of 82 assignments, each within the
  bounds of normalizeDraft, asks for more than 2^63 bytes on a runtime of 1 GiB and is accepted.
\<close>

theorem overflowing_requests_accepted:
  "let d = sample_draft (map greedy [0..<82]) in \<exists>n rt memory. normalizeDraft sample_topology_hashes ''p1'' d = Inr (n, ''d'')
    \<and> vr_Valid (validate sample_limits 0 sample_capacity (sample_facts (map as_ServiceKey (dr_Assignments d))) zero_plan n ''d'' no_override)
    \<and> index_by rf_ID (pf_Runtimes (sample_facts (map as_ServiceKey (dr_Assignments d)))) ''r1'' = Some rt
    \<and> available_capacity sample_limits 0 (sample_facts (map as_ServiceKey (dr_Assignments d))) rt sample_capacity = Some (1000000, memory)
    \<and> memory < requested_memory (dr_Assignments n) ''r1''"
proof -
  let ?gs = "map greedy [0..<82]"
  define d where "d = sample_draft ?gs"
  define gs where "gs = sort_key as_ServiceKey ?gs"
  have canon: "canonical_assignment (greedy i) = greedy i" for i
    by (simp add: canonical_assignment_def trim_assignment_def default_limits_def greedy_def sample_assignment_def
        TrimSpace_printable in_range_def list_all_iff)
  have gs_canon: "map canonical_assignment ?gs = ?gs" by (simp add: canon)
  have "assignment_ok (greedy i)" for i
    by (simp add: assignment_ok_iff greedy_def sample_assignment_def)
  moreover have "distinct (map as_ServiceKey ?gs)"
    by (simp add: distinct_map inj_on_def greedy_def sample_assignment_def)
  ultimately have norm: "normalizeDraft sample_topology_hashes ''p1'' d = Inr (sample_draft gs, ''d'')"
    unfolding normalizeDraft_Inr d_def
    by (simp add: draft_error_None sample_draft_def sample_topology_hashes_def gs_def list_all_iff gs_canon
        del: upt_rec_numeral map_map)
  have all: "on_runtime ''r1'' gs = gs"
    by (auto simp: on_runtime_def filter_id_conv gs_def greedy_def sample_assignment_def)
  have "sum_list (map f gs) = sum_list (map f ?gs)" for f :: "Assignment \<Rightarrow> int"
    unfolding gs_def by (metis mset_map mset_sort sum_mset_sum_list)
  then have req: "requested_cpu gs ''r1'' = 8200" "requested_memory gs ''r1'' = 82 * (2 ^ 50 * 100)"
    unfolding requested_cpu_def requested_memory_def all
    by (simp_all add: comp_def greedy_def sample_assignment_def sum_list_triv del: upt_rec_numeral)
  have keys: "a \<in> set gs \<Longrightarrow> as_EnvironmentID a = ''env'' \<and> as_RuntimeID a = ''r1'' \<and> as_ServiceKey a \<in> set (map as_ServiceKey (dr_Assignments d))" for a
    by (auto simp: gs_def d_def sample_draft_def greedy_def sample_assignment_def)
  have wraps: "wrap_s64 (requested_cpu gs ''r1'') \<le> 1000000" "wrap_s64 (requested_memory gs ''r1'') \<le> 2 ^ 30"
    unfolding req by (simp_all add: wrap_s64_def)
  show ?thesis
    using norm sample_facts_accept [OF keys wraps] req(2) unfolding Let_def d_def [symmetric]
    by (intro exI conjI) (auto simp: sample_draft_def)
qed

end
