(* ===== verification/Topology_Store_Properties.thy ===== *)
theory Topology_Store_Properties
  imports Topology_Memory Topology_Validation_Properties
begin

text \<open>
  What the topology service does on the store in memory: its writes, their replays, the refusal of
  outdated writers, and the invariants of the states that its requests reach. The lemmas come from
  the contract of Topology_Contract through the interpretations of Topology_Memory.
\<close>

section \<open>Requests of the service\<close>

text \<open>A service over the store in memory; its facts, limits and clock may differ from request to request.\<close>

definition memory_service :: "service_hashes \<Rightarrow> memory_store topology_service \<Rightarrow> bool" where
  "memory_service H v \<longleftrightarrow> tv_Store v = Some (memory_ops H) \<and> tv_Hashes v = H"

inductive service_reachable :: "service_hashes \<Rightarrow> memory_store \<Rightarrow> bool" for H where
  init: "service_reachable H NewMemoryStore"
| plan: "service_reachable H s \<Longrightarrow> memory_service H v \<Longrightarrow> ApplyScoped v c projectID actor key request override s = (res, s')
    \<Longrightarrow> service_reachable H s'"
| capacity: "service_reachable H s \<Longrightarrow> memory_service H v \<Longrightarrow> ApplyOperatorCapacity v c projectID actor key creq s = (cres, s')
    \<Longrightarrow> service_reachable H s'"

definition memory_reachable :: "service_hashes \<Rightarrow> memory_store \<Rightarrow> bool" where
  "memory_reachable H s \<longleftrightarrow> (memory_step H)\<^sup>*\<^sup>* NewMemoryStore s"

lemma memory_reachable_ok: "memory_reachable H s \<Longrightarrow> memory_ok s"
  unfolding memory_reachable_def using memory_plans.steps_sound NewMemoryStore_ok by blast

text \<open>What a write stores: a fresh request under \<open>store_apply\<close> on the store in memory.\<close>

lemma memory_fresh_plan:
  assumes "store_apply (memory_ops H) (projectID, key) h (random, request, new_plan c projectID actor planHash n) s = (Inr (p, False), s')"
  shows "p = next_plan (sh_topology H) random (current_plan s projectID) (new_plan c projectID actor planHash n)
    \<and> ms_plans s' = (ms_plans s)(projectID \<mapsto> p) \<and> ms_capacities s' = ms_capacities s
    \<and> plan_version s projectID = (ar_ExpectedRevision request, ar_ExpectedStateHash request)"
  using assms by (auto simp: store_apply_def memory_ops_def new_plan_def elim!: memory_Apply_cases)

lemma memory_fresh_capacity:
  assumes "store_apply_capacity (memory_ops H) (projectID, key) h (random, request, new_capacity c projectID actor d) s = (Inr (x, False), s')"
  shows "\<exists>cur. x = next_capacity H random (cr_Draft request) cur (new_capacity c projectID actor d)
    \<and> ms_capacities s' = (ms_capacities s)(capacity_key projectID (cd_RuntimeID d) \<mapsto> x) \<and> ms_plans s' = ms_plans s"
  using assms by (auto simp: store_apply_capacity_def memory_ops_def new_capacity_def elim!: memory_ApplyOperatorCapacity_cases)

lemma memory_replayed:
  assumes "memory_ok s" "store_apply (memory_ops H) k h q s = (Inr (p, True), s')"
  shows "s' = s"
  using assms(2) by (rule memory_plans.apply_cases [OF assms(1)]) auto

lemma memory_replayed_capacity:
  assumes "memory_ok s" "store_apply_capacity (memory_ops H) k h q s = (Inr (p, True), s')"
  shows "s' = s"
  using assms(2) by (rule memory_capacities.apply_cases [OF assms(1)]) auto

section \<open>Well-formed plans and capacities\<close>

definition plan_draft :: "Plan \<Rightarrow> Draft" where
  "plan_draft p = \<lparr>dr_SchemaVersion = TopologySchemaVersion, dr_ProjectID = pl_ProjectID p, dr_Assignments = pl_Assignments p\<rparr>"

definition plan_ok :: "service_hashes \<Rightarrow> Plan \<Rightarrow> bool" where
  "plan_ok H p \<longleftrightarrow> normalizeDraft (sh_topology H) (pl_ProjectID p) (plan_draft p) = Inr (plan_draft p, pl_PlanHash p)
     \<and> pl_StateHash p = stateHash (sh_topology H) (pl_ID p) (pl_Revision p) (pl_PlanHash p) \<and> pl_ID p \<noteq> []
     \<and> TrimSpace (pl_AppliedBy p) \<noteq> []"

definition capacity_ok :: "OperatorCapacity \<Rightarrow> bool" where
  "capacity_ok c \<longleftrightarrow> oc_CPUMillicores c \<le> 1000000 \<and> 0 \<le> oc_ReservedCPUMillicores c \<and> oc_ReservedCPUMillicores c < oc_CPUMillicores c
     \<and> oc_MemoryBytes c \<le> 2 ^ 50 \<and> 0 \<le> oc_ReservedMemoryBytes c \<and> oc_ReservedMemoryBytes c < oc_MemoryBytes c \<and> oc_ID c \<noteq> []"

definition service_ok_state :: "service_hashes \<Rightarrow> memory_store \<Rightarrow> bool" where
  "service_ok_state H s \<longleftrightarrow> memory_ok s \<and> (\<forall>pid p. ms_plans s pid = Some p \<longrightarrow> pl_ProjectID p = pid \<and> plan_ok H p)
     \<and> (\<forall>k c. ms_capacities s k = Some c \<longrightarrow> capacity_ok c)"

lemma capacity_exact:
  assumes "capacity_ok c"
  shows "0 < oc_CPUMillicores c - oc_ReservedCPUMillicores c" "oc_CPUMillicores c \<le> 1000000"
    "0 < oc_MemoryBytes c - oc_ReservedMemoryBytes c" "oc_MemoryBytes c \<le> 2 ^ 50"
    "wrap_s64 (oc_CPUMillicores c - oc_ReservedCPUMillicores c) = oc_CPUMillicores c - oc_ReservedCPUMillicores c"
    "wrap_s64 (oc_MemoryBytes c - oc_ReservedMemoryBytes c) = oc_MemoryBytes c - oc_ReservedMemoryBytes c"
  using assms by (auto simp: capacity_ok_def intro!: wrap_s64_id)

lemma normalized_project: "normalizeDraft H pid d = Inr (n, h) \<Longrightarrow> dr_SchemaVersion n = TopologySchemaVersion \<and> dr_ProjectID n = pid"
  unfolding normalizeDraft_Inr by (auto simp: draft_error_None)

lemma next_plan_ok:
  assumes "normalizeDraft (sh_topology H) pid d = Inr (n, h)" "TrimSpace actor \<noteq> []"
  shows "plan_ok H (next_plan (sh_topology H) random cur (new_plan c pid actor h n))"
proof -
  have "n = plan_draft (next_plan (sh_topology H) random cur (new_plan c pid actor h n))"
    using normalized_project [OF assms(1)] by (simp add: plan_draft_def new_plan_def)
  then show ?thesis
    using normalizeDraft_idem [OF assms(1)] assms(2) unfolding plan_ok_def by (simp add: new_plan_def)
qed

lemma next_capacity_ok:
  "validateCapacityDraft d = None \<Longrightarrow> capacity_ok (next_capacity H random d' cur (new_capacity c pid actor d))"
  by (auto simp: capacity_ok_def validateCapacityDraft_def new_capacity_def maxCPUMillicores_def maxMemoryBytes_def
      split: if_splits)

lemma service_reachable_ok: "service_reachable H s \<Longrightarrow> service_ok_state H s"
proof (induction rule: service_reachable.induct)
  case init
  show ?case by (simp add: service_ok_state_def NewMemoryStore_ok) (simp add: NewMemoryStore_def)
next
  case (plan s v c projectID actor key request override res s')
  then have s: "memory_ok s" and v: "tv_Store v = Some (memory_ops H)" "tv_Hashes v = H"
    by (auto simp: service_ok_state_def memory_service_def)
  show ?case using s v(1) plan.hyps(3)
  proof (cases rule: memory_plans.ApplyScoped_cases)
    case (applied n planHash payloadHash validation p reused)
    have "memory_ok s'" using s applied(5) by (rule memory_plans.apply_sound)
    show ?thesis
    proof (cases reused)
      case True
      then have "s' = s" using memory_replayed [OF s] applied(5) by metis
      then show ?thesis using plan.IH by simp
    next
      case False
      with applied(5) have "store_apply (memory_ops H) (projectID, key) payloadHash
          (tc_Random c, request\<lparr>ar_Draft := n\<rparr>, new_plan c projectID actor planHash n) s = (Inr (p, False), s')" by simp
      note stored = memory_fresh_plan [OF this]
      have "plan_ok H p" using next_plan_ok [OF applied(3) [unfolded v(2)] applied(1)] stored by metis
      moreover have "pl_ProjectID p = projectID" using stored by (simp add: new_plan_def)
      ultimately show ?thesis using plan.IH \<open>memory_ok s'\<close> stored unfolding service_ok_state_def by simp
    qed
  qed (use plan.IH in simp)
next
  case (capacity s v c projectID actor key creq cres s')
  then have s: "memory_ok s" and v: "tv_Store v = Some (memory_ops H)" "tv_Hashes v = H"
    by (auto simp: service_ok_state_def memory_service_def)
  show ?case using s v(1) capacity.hyps(3)
  proof (cases rule: memory_capacities.ApplyOperatorCapacity_cases)
    case (applied payloadHash x reused source)
    have "memory_ok s'" using s applied(6) by (rule memory_capacities.apply_sound)
    show ?thesis
    proof (cases reused)
      case True
      then have "s' = s" using memory_replayed_capacity [OF s] applied(6) by metis
      then show ?thesis using capacity.IH by simp
    next
      case False
      with applied(6) have "store_apply_capacity (memory_ops H) (projectID, key) payloadHash
          (tc_Random c, creq, new_capacity c projectID actor (cr_Draft creq)) s = (Inr (x, False), s')" by simp
      note stored = memory_fresh_capacity [OF this]
      have "capacity_ok x" using next_capacity_ok [OF applied(4)] stored by metis
      with stored capacity.IH \<open>memory_ok s'\<close> show ?thesis unfolding service_ok_state_def by auto
    qed
  qed (use capacity.IH in simp)
qed

lemma ApplyScoped_memory:
  assumes "memory_ok s" "memory_service H v" "ApplyScoped v c projectID actor key request override s = (Inr r, s')" "\<not> res_Reused r"
  shows "\<exists>n h validation. normalizeDraft (sh_topology H) projectID (ar_Draft request) = Inr (n, h)
    \<and> ValidateScoped v c projectID n override s = Inr validation \<and> vr_Valid validation
    \<and> plan_version s projectID = (ar_ExpectedRevision request, ar_ExpectedStateHash request)
    \<and> res_Plan r = next_plan (sh_topology H) (tc_Random c) (current_plan s projectID) (new_plan c projectID actor h n)
    \<and> ms_plans s' = (ms_plans s)(projectID \<mapsto> res_Plan r) \<and> ms_capacities s' = ms_capacities s"
proof -
  have v: "tv_Store v = Some (memory_ops H)" "tv_Hashes v = H" using assms(2) by (auto simp: memory_service_def)
  show ?thesis using assms(1) v(1) assms(3)
  proof (cases rule: memory_plans.ApplyScoped_cases)
    case (applied n planHash payloadHash validation p reused)
    have "\<not> reused" "res_Plan r = p" using applied(6) assms(4) by auto
    then show ?thesis
      using applied(3,7) memory_fresh_plan [of H projectID key payloadHash] applied(5) v(2) by auto
  qed simp
qed

section \<open>A concrete service\<close>

definition sample_hashes :: service_hashes where
  "sample_hashes = \<lparr>sh_topology = sample_topology_hashes, sh_apply = (\<lambda>r. Some (ar_PolicyID r @ '':'' @ dec (ar_ExpectedRevision r))),
     sh_capacity = (\<lambda>r. Some (cd_RuntimeID (cr_Draft r))), sh_capacity_draft = (\<lambda>d. Some (cd_RuntimeID d))\<rparr>"

definition sample_service :: "memory_store topology_service" where
  "sample_service = \<lparr>tv_Store = Some (memory_ops sample_hashes), tv_Facts = Some (\<lambda>_. Some (sample_facts [''api'', ''web''])),
     tv_Limits = sample_limits, tv_Hashes = sample_hashes\<rparr>"

definition sample_topology_call :: topology_call where
  "sample_topology_call = \<lparr>tc_ValidatedAt = 0, tc_Now = 0, tc_Random = ''00''\<rparr>"

definition sample_apply_request :: "string \<Rightarrow> ApplyRequest" where
  "sample_apply_request policy = \<lparr>ar_Draft = sample_draft [sample_assignment ''web'' ''r1'', sample_assignment ''api'' ''r1''],
     ar_ExpectedRevision = 0, ar_ExpectedStateHash = [], ar_PolicyID = policy\<rparr>"

definition sample_state :: memory_store where
  "sample_state = snd (ApplyScoped sample_service sample_topology_call ''p1'' ''alice'' ''apply-key-1''
     (sample_apply_request ''one'') no_override NewMemoryStore)"

definition sample_answer :: ApplyResult where
  "sample_answer = projr (fst (ApplyScoped sample_service sample_topology_call ''p1'' ''alice'' ''apply-key-1''
     (sample_apply_request ''one'') no_override NewMemoryStore))"

lemma sample_service_memory: "memory_service sample_hashes sample_service"
  by (simp add: memory_service_def sample_service_def sample_hashes_def)

lemma sample_initial: "memory_reachable H NewMemoryStore"
  by (simp add: memory_reachable_def)

lemma sample_keys_valid: "validateIdempotencyKey ''apply-key-1'' = None" "validateIdempotencyKey ''apply-key-2'' = None" "TrimSpace ''alice'' = ''alice''"
  by (simp_all add: validateIdempotencyKey_def TrimSpace_printable in_range_def Let_def is_alnum_def is_digit_def is_lower_def is_upper_def)

lemma sample_apply:
  "ApplyScoped sample_service sample_topology_call ''p1'' ''alice'' ''apply-key-1'' (sample_apply_request ''one'') no_override NewMemoryStore
     = (Inr sample_answer, sample_state)" (is ?run)
  "\<not> res_Reused sample_answer"
proof -
  define as where "as = map canonical_assignment [sample_assignment ''api'' ''r1'', sample_assignment ''web'' ''r1'']"
  let ?d = "sample_draft [sample_assignment ''web'' ''r1'', sample_assignment ''api'' ''r1'']"
  have norm: "normalizeDraft sample_topology_hashes ''p1'' ?d = Inr (sample_draft as, ''d'')"
    unfolding as_def by (rule sample_normalized)
  have as: "as = [sample_assignment ''api'' ''r1''\<lparr>as_CPULimitMillicores := 500, as_MemoryLimitBytes := 1024\<rparr>,
      sample_assignment ''web'' ''r1''\<lparr>as_CPULimitMillicores := 500, as_MemoryLimitBytes := 1024\<rparr>]"
    unfolding as_def by (simp add: sample_canonical_assignment in_range_def)
  have on: "on_runtime ''r1'' as = as" by (simp add: as on_runtime_def sample_assignment_def)
  have fits: "wrap_s64 (requested_cpu as ''r1'') \<le> 3750" "wrap_s64 (requested_memory as ''r1'') \<le> 768 * 2 ^ 20"
    by (simp_all add: requested_cpu_def requested_memory_def on, simp_all add: as sample_assignment_def wrap_s64_id)
  have inside: "a \<in> set as \<Longrightarrow> as_EnvironmentID a = ''env'' \<and> as_RuntimeID a = ''r1'' \<and> as_ServiceKey a \<in> set [''api'', ''web'']" for a
    by (auto simp: as sample_assignment_def)
  let ?getcap = "\<lambda>pid rid. memory_GetOperatorCapacity pid rid NewMemoryStore"
  let ?f = "sample_facts [''api'', ''web'']"
  have "available_capacity sample_limits 0 ?f (hd (pf_Runtimes ?f)) ?getcap = Some (3750, 768 * 2 ^ 20)"
    by (simp add: available_capacity_def memory_GetOperatorCapacity_def NewMemoryStore_def sample_facts_def eligible_pairs_def runtime_nodes_def
        nodeParticipatesInRuntime_def heartbeatFresh_def heartbeatTTL_def sample_limits_def deploy_agent_def capabilityEnabled_def
        Second_def Minute_def reservedCPU_def reservedMemory_def wrap_s64_id)
  then have valid: "vr_Valid (validate sample_limits 0 ?getcap ?f current (sample_draft as) ''d'' no_override)" for current
    using fits by (intro sample_facts_valid(1) inside) simp_all
  have project: "pf_ProjectID ?f = ''p1''" by (simp add: sample_facts_def)
  have "\<exists>validation. ValidateScoped sample_service sample_topology_call ''p1'' (sample_draft as) no_override NewMemoryStore = Inr validation
      \<and> vr_Valid validation"
    using normalizeDraft_idem [OF norm] valid project
    by (simp add: ValidateScoped_def PreviewDraft_def current_def sample_service_def sample_hashes_def memory_ops_def memory_Get_def
        sample_topology_call_def NewMemoryStore_def)
  then have "\<exists>r s'. ApplyScoped sample_service sample_topology_call ''p1'' ''alice'' ''apply-key-1'' (sample_apply_request ''one'')
      no_override NewMemoryStore = (Inr r, s') \<and> \<not> res_Reused r"
    using norm by (auto simp: ApplyScoped_def sample_keys_valid sample_service_def sample_hashes_def sample_apply_request_def memory_ops_def
        memory_ReplayPlan_def replay_lookup_def memory_Apply_def Let_def apply_result_def new_plan_def current_plan_def zero_plan_def
        NewMemoryStore_def)
  then show ?run "\<not> res_Reused sample_answer"
    unfolding sample_answer_def sample_state_def by auto
qed

section \<open>Properties\<close>

text \<open>
  C32: A placement request of the service either fails and changes nothing, replays an earlier answer
  and changes nothing, or writes one plan: the draft is normalised and was accepted by validate in
  the state that the request saw, that state had the revision and hash the request expects, the plan
  in force of this project becomes the answer, at the next revision and with the identity and author
  of the plan it replaces, and nothing else changes: no other project's plan, no capacity.
\<close>

theorem applied_plan_effect:
  assumes "memory_reachable H s" "memory_service H v" "ApplyScoped v c projectID actor key request override s = (res, s')"
  shows "case res of Inl e \<Rightarrow> s' = s | Inr r \<Rightarrow> let p = res_Plan r; old = current_plan s projectID in
    if res_Reused r then s' = s
    else \<exists>n h validation. normalizeDraft (sh_topology H) projectID (ar_Draft request) = Inr (n, h)
      \<and> ValidateScoped v c projectID n override s = Inr validation \<and> vr_Valid validation
      \<and> pl_Revision old = ar_ExpectedRevision request \<and> pl_StateHash old = ar_ExpectedStateHash request
      \<and> pl_Revision p = wrap_u64 (Suc (ar_ExpectedRevision request)) \<and> pl_Assignments p = dr_Assignments n \<and> pl_PlanHash p = h
      \<and> pl_AppliedBy p = actor \<and> (pl_ID old \<noteq> [] \<longrightarrow> pl_ID p = pl_ID old \<and> pl_CreatedBy p = pl_CreatedBy old)
      \<and> ms_plans s' = (ms_plans s)(projectID \<mapsto> p) \<and> ms_capacities s' = ms_capacities s"
proof (cases res)
  case (Inl e)
  have "s' = s"
    using assms(2,3) memory_plans.ApplyScoped_error [OF memory_reachable_ok [OF assms(1)]] unfolding Inl memory_service_def by blast
  with Inl show ?thesis by simp
next
  case (Inr r)
  note ok = memory_reachable_ok [OF assms(1)] and run = assms(3) [unfolded Inr]
  show ?thesis
  proof (cases "res_Reused r")
    case True
    have "tv_Store v = Some (memory_ops H)" using assms(2) by (simp add: memory_service_def)
    from ok this run have "s' = s"
      by (cases rule: memory_plans.ApplyScoped_cases) (use True memory_replayed [OF ok] in auto)
    with Inr True show ?thesis by simp
  next
    case False
    from ApplyScoped_memory [OF ok assms(2) run this] show ?thesis
      unfolding Inr Let_def using False by (auto simp: plan_version_def new_plan_def next_plan_def Let_def)
  qed
qed

lemma applied_plan_effect_witness:
  "memory_Get ''p1'' sample_state = Inr (res_Plan sample_answer) \<and> pl_Revision (res_Plan sample_answer) = 1
    \<and> pl_AppliedBy (res_Plan sample_answer) = ''alice'' \<and> ms_plans sample_state ''p2'' = None"
  using applied_plan_effect [OF sample_initial sample_service_memory sample_apply(1)] sample_apply(2)
  by (auto simp: memory_Get_def sample_apply_request_def NewMemoryStore_def wrap_u64_def Let_def)

text \<open>
  Idempotency of placement requests: once a request has been answered, the same request under
  the same key gets the same plan back, marked as reused, and writes nothing, whatever operations
  the store has performed since, whoever sends it, and whatever the facts or overrides are by then.
\<close>

theorem applied_plan_replayed:
  assumes "memory_reachable H s" "memory_service H v" "ApplyScoped v c projectID actor key request override s = (Inr res, s1)"
    and "(memory_step H)\<^sup>*\<^sup>* s1 s2" "memory_service H v'" "TrimSpace actor' \<noteq> []"
  shows "ApplyScoped v' c' projectID actor' key request override' s2 = (Inr (res\<lparr>res_Reused := True\<rparr>), s2)"
  using assms(2,5) memory_plans.ApplyScoped_retry [OF memory_reachable_ok [OF assms(1)] _ assms(3,4) _ _ assms(6)]
  by (simp add: memory_service_def)

lemma applied_plan_replayed_witness:
  "ApplyScoped sample_service sample_topology_call ''p1'' ''bob'' ''apply-key-1'' (sample_apply_request ''one'') (any_override True) sample_state
     = (Inr (sample_answer\<lparr>res_Reused := True\<rparr>), sample_state)"
  by (rule applied_plan_replayed [OF sample_initial sample_service_memory sample_apply(1) rtranclp.rtrancl_refl sample_service_memory])
    (simp add: TrimSpace_printable in_range_def)

text \<open>
  C33: No lost update: when a placement request has written, a second request of the project that
  expects the same revision and hash writes nothing and is not answered with a new plan, at any
  time before 2^64 - 1 more operations of the store have gone by.
\<close>

theorem no_lost_plan_update:
  assumes "memory_reachable H s" "memory_service H v"
    and "ApplyScoped v c projectID actor key request override s = (Inr res, s1)" "\<not> res_Reused res"
    and "(memory_step H ^^ n) s1 s2" "n < 2 ^ 64 - 1" "memory_service H v2"
    and "ar_ExpectedRevision request2 = ar_ExpectedRevision request" "ar_ExpectedStateHash request2 = ar_ExpectedStateHash request"
    and "ApplyScoped v2 c2 projectID actor2 key2 request2 override2 s2 = (res2, s3)"
  shows "s3 = s2 \<and> (case res2 of Inl e \<Rightarrow> True | Inr x \<Rightarrow> res_Reused x)"
  using assms memory_plans.ApplyScoped_no_lost_update [OF memory_reachable_ok [OF assms(1)] _ assms(3-6) _ assms(8-10)]
  by (auto simp: memory_service_def split: sum.split)

lemma no_lost_plan_update_witness:
  "let (r, s) = ApplyScoped sample_service sample_topology_call ''p1'' ''bob'' ''apply-key-2'' (sample_apply_request ''two'') no_override sample_state
   in s = sample_state \<and> (case r of Inl e \<Rightarrow> True | Inr x \<Rightarrow> res_Reused x)"
proof -
  obtain r s where run: "ApplyScoped sample_service sample_topology_call ''p1'' ''bob'' ''apply-key-2'' (sample_apply_request ''two'')
      no_override sample_state = (r, s)" by fastforce
  have "(memory_step sample_hashes ^^ 0) sample_state sample_state" by simp
  from no_lost_plan_update [OF sample_initial sample_service_memory sample_apply this _ sample_service_memory _ _ run]
  show ?thesis unfolding run by (simp add: sample_apply_request_def)
qed

text \<open>
  C35: In every state that the store reaches, each recorded response has the type that the assertion
  on it expects: no operation of the store ends in the panic of a failed type assertion, and the
  plan of a project carries that project and an identity.
\<close>

theorem recorded_responses_typed:
  assumes "memory_reachable H s"
  shows "memory_ReplayPlan pid key h s \<noteq> Inl TypeAssertionPanic \<and> memory_ReplayOperatorCapacity pid key h s \<noteq> Inl TypeAssertionPanic
    \<and> fst (memory_Apply T random key h request plan s) \<noteq> Inl TypeAssertionPanic
    \<and> fst (memory_ApplyOperatorCapacity H' random key h crequest capacity s) \<noteq> Inl TypeAssertionPanic
    \<and> (case memory_Get pid s of Inl e \<Rightarrow> e = ErrNotFound | Inr p \<Rightarrow> pl_ProjectID p = pid \<and> pl_ID p \<noteq> [])"
proof -
  have ok: "memory_ok s" using assms by (rule memory_reachable_ok)
  have "found x h' \<noteq> Inl TypeAssertionPanic" for x :: "(string \<times> 'z) option" and h'
    by (auto simp: found_def idempotency_conflict_def split: option.split)
  then have "replay_lookup as_plan (plan_replay_key p k) h s \<noteq> Inl TypeAssertionPanic"
      "replay_lookup as_capacity (capacity_replay_key p k) h s \<noteq> Inl TypeAssertionPanic" for p k
    by (simp_all add: plan_replay_lookup [OF ok] capacity_replay_lookup [OF ok])
  moreover have "case memory_Get pid s of Inl e \<Rightarrow> e = ErrNotFound | Inr p \<Rightarrow> pl_ProjectID p = pid \<and> pl_ID p \<noteq> []"
    using ok by (auto simp: memory_Get_def memory_ok_def split: option.split)
  ultimately show ?thesis
    by (auto simp: memory_ReplayPlan_def memory_ReplayOperatorCapacity_def memory_Apply_def memory_ApplyOperatorCapacity_def Let_def
        plan_conflict_def capacity_conflict_def split: sum.splits option.splits)
qed

lemma recorded_responses_typed_witness:
  "memory_ReplayPlan ''p1'' ''apply-key-1'' ''h'' NewMemoryStore \<noteq> Inl TypeAssertionPanic"
  using recorded_responses_typed [OF sample_initial] by blast

text \<open>
  C34: Every state that the requests of the service reach: the plan in force of a project is a
  normalised draft, its plan hash is the hash of that draft and its state hash that of its identity,
  revision and plan hash; a declared capacity is within bounds and exceeds its reserve, so that what
  is left is positive and the subtraction in validateRuntime does not wrap.
\<close>

theorem service_state_invariant:
  assumes "service_reachable H s"
  shows "(case memory_Get pid s of Inl e \<Rightarrow> e = ErrNotFound
      | Inr p \<Rightarrow> normalizeDraft (sh_topology H) pid (plan_draft p) = Inr (plan_draft p, pl_PlanHash p)
         \<and> pl_StateHash p = stateHash (sh_topology H) (pl_ID p) (pl_Revision p) (pl_PlanHash p))
    \<and> (case memory_GetOperatorCapacity pid rid s of Inl e \<Rightarrow> e = ErrNotFound
      | Inr c \<Rightarrow> 0 < oc_CPUMillicores c - oc_ReservedCPUMillicores c \<and> oc_CPUMillicores c \<le> 1000000
         \<and> wrap_s64 (oc_CPUMillicores c - oc_ReservedCPUMillicores c) = oc_CPUMillicores c - oc_ReservedCPUMillicores c
         \<and> 0 < oc_MemoryBytes c - oc_ReservedMemoryBytes c \<and> oc_MemoryBytes c \<le> 2 ^ 50
         \<and> wrap_s64 (oc_MemoryBytes c - oc_ReservedMemoryBytes c) = oc_MemoryBytes c - oc_ReservedMemoryBytes c)"
  using service_reachable_ok [OF assms]
  by (auto simp: service_ok_state_def memory_Get_def memory_GetOperatorCapacity_def plan_ok_def capacity_exact [simplified] split: option.split)

lemma service_state_invariant_witness:
  "normalizeDraft sample_topology_hashes ''p1'' (plan_draft (res_Plan sample_answer))
     = Inr (plan_draft (res_Plan sample_answer), pl_PlanHash (res_Plan sample_answer))"
proof -
  have "service_reachable sample_hashes sample_state"
    by (rule service_reachable.plan [OF service_reachable.init sample_service_memory sample_apply(1)])
  from service_state_invariant [OF this, of "''p1''"] show ?thesis
    using ApplyScoped_memory [OF NewMemoryStore_ok sample_service_memory sample_apply] by (auto simp: memory_Get_def sample_hashes_def)
qed

end
