(* ===== verification/Deployment_Policy.thy ===== *)
theory Deployment_Policy
  imports Exposure Workload Topology
begin

text \<open>
  Deployment policies: the contracts contracts/go/deploymentpolicyv1/types.go and
  contracts/go/buildrecordv1/types.go, and of cloud/internal/deploymentpolicy/service.go the
  normalisation of a draft, the binary search that its lookups use and the rules that match a
  policy with a build record. The SHA-256 of the JSON of a value is a parameter.
\<close>

section \<open>Errors\<close>

datatype policy_error = PolicyError (pe_Code: string) (pe_Status: int) (pe_Message: string) | PolicyNotFound | PolicyMarshal
  | PolicyTopology topology_error

definition invalid_policy :: "string \<Rightarrow> string \<Rightarrow> policy_error" where
  "invalid_policy code message = PolicyError code 400 message"

definition policy_unavailable :: policy_error where
  "policy_unavailable = PolicyError ''DEPLOYMENT_POLICY_UNAVAILABLE'' 503 ''deployment policy service is unavailable''"

section \<open>The contract\<close>

definition PolicySchemaVersion :: string where "PolicySchemaVersion = ''opsi.deployment_policy/v1''"

record PreviewPolicy =
  pp_Enabled :: bool
  pp_HostnameSuffix :: string
  pp_TTLSeconds :: int
  pp_MaxReplicas :: int
  pp_CPU :: string
  pp_Memory :: string

record PolicyDraft =
  pd_SchemaVersion :: string
  pd_ProjectID :: string
  pd_RepositoryID :: nat
  pd_ServiceKeys :: "string list"
  pd_WorkflowRefs :: "string list"
  pd_JobWorkflowRefs :: "string list"
  pd_AllowedEvents :: "string list"
  pd_AllowedGitRefs :: "string list"
  pd_EnvironmentID :: string
  pd_AllowedRuntimeIDs :: "string list"
  pd_AllowedOCIRepositories :: "string list"
  pd_AllowedOCIPrefixes :: "string list"
  pd_AllowedPlatforms :: "string list"
  pd_AllowedConfigHashes :: "string list"
  pd_AllowedBuildPlanHashes :: "string list"
  pd_AllowUnknownCapacity :: bool
  pd_Enabled :: bool
  pd_AutomaticMain :: bool
  pd_Preview :: PreviewPolicy

record Policy =
  po_SchemaVersion :: string
  po_ID :: string
  po_Revision :: nat
  po_StateHash :: string
  po_PolicyHash :: string
  po_Draft :: PolicyDraft
  po_CreatedBy :: string
  po_AppliedBy :: string
  po_CreatedAt :: time
  po_AppliedAt :: time

record PolicyPreview =
  ppv_Draft :: PolicyDraft
  ppv_PolicyHash :: string
  ppv_StateHash :: string

text \<open>The only field that Diff reports is the whole policy; a missing value is None.\<close>

record PolicyDiffEntry =
  pde_Field :: string
  pde_Before :: "PolicyDraft option"
  pde_After :: "PolicyDraft option"

record PolicyDiff =
  pdf_PolicyID :: string
  pdf_CurrentRevision :: nat
  pdf_CurrentHash :: string
  pdf_ProposedHash :: string
  pdf_Changes :: "PolicyDiffEntry list"

record PolicyApplyRequest =
  par_PolicyID :: string
  par_Draft :: PolicyDraft
  par_ExpectedRevision :: nat
  par_ExpectedStateHash :: string

record PolicyApplyResult =
  pres_Policy :: Policy
  pres_Reused :: bool

record DisableRequest =
  dis_ExpectedRevision :: nat
  dis_ExpectedStateHash :: string

record RoutingRequest =
  rq_BuildRecordID :: string
  rq_EnvironmentID :: string
  rq_Automatic :: bool

record RoutingDecision =
  rd_SchemaVersion :: string
  rd_ProjectID :: string
  rd_BuildRecordID :: string
  rd_ServiceKey :: string
  rd_EnvironmentID :: string
  rd_RuntimeID :: string
  rd_NodeID :: string
  rd_AgentID :: string
  rd_TopologyPlanID :: string
  rd_TopologyRevision :: nat
  rd_DeploymentPolicyID :: string
  rd_DeploymentPolicyRevision :: nat
  rd_Eligible :: bool
  rd_DecisionCode :: string
  rd_Message :: string
  rd_DecisionHash :: string
  rd_UnknownCapacityOverride :: bool
  rd_DecidedAt :: time

subsection \<open>Build records\<close>

definition BuildRecordSchemaVersion :: string where "BuildRecordSchemaVersion = ''opsi.build_record/v1''"

record WorkloadIdentity =
  wi_Issuer :: string
  wi_Subject :: string
  wi_RepositoryID :: nat
  wi_RepositoryOwnerID :: nat
  wi_Ref :: string
  wi_SHA :: string
  wi_EventName :: string
  wi_Workflow :: string
  wi_WorkflowRef :: string
  wi_JobWorkflowRef :: string
  wi_RunID :: nat
  wi_RunAttempt :: nat

record Buildpack =
  bp_ID :: string
  bp_Version :: string

record Process =
  pc_Type :: string
  pc_Command :: "string list"
  pc_Arguments :: "string list"
  pc_Direct :: bool
  pc_Default :: bool

record BuilderMetadata =
  bm_PackVersion :: string
  bm_BuilderImage :: string
  bm_BuilderImageDigest :: string
  bm_RunImage :: string
  bm_RunImageDigest :: string
  bm_LifecycleVersion :: string
  bm_Buildpacks :: "Buildpack list"
  bm_Processes :: "Process list"

record BuildMetadata =
  bd_ConfigHash :: string
  bd_PlanHash :: string
  bd_Platform :: string
  bd_OCIRepository :: string
  bd_OCIDigest :: string
  bd_ProvenanceDigest :: string
  bd_BuildJobID :: string
  bd_BuildStrategy :: string
  bd_BuilderIdentity :: string
  bd_BuilderVersion :: string
  bd_Builder :: BuilderMetadata
  bd_MediaType :: string
  bd_Status :: string

record BuildRecord =
  br_SchemaVersion :: string
  br_ID :: string
  br_ProjectID :: string
  br_RepositoryID :: nat
  br_RepositoryOwnerID :: nat
  br_ActiveBindingID :: string
  br_ServiceID :: string
  br_ServiceKey :: string
  br_CreatedAt :: time
  br_Workload :: WorkloadIdentity
  br_Build :: BuildMetadata

section \<open>Patterns\<close>

definition maxListItems :: nat where "maxListItems = 50"

text \<open>\<open>^[a-z][a-z0-9_-]{0,63}$\<close>\<close>

definition policyEvent :: "string \<Rightarrow> bool" where
  "policyEvent = ident is_lower (\<lambda>c. is_lower c \<or> is_digit c \<or> c \<in> set ''_-'') 63"

text \<open>\<open>^refs/(heads|tags|pull)/[A-Za-z0-9._/@-]+$\<close>\<close>

definition policyRef :: "string \<Rightarrow> bool" where
  "policyRef s = list_ex (\<lambda>p. HasPrefix s p \<and> length p < length s
     \<and> list_all (\<lambda>c. is_alnum c \<or> c \<in> set ''._/@-'') (drop (length p) s)) [''refs/heads/'', ''refs/tags/'', ''refs/pull/'']"

text \<open>\<open>^[A-Za-z0-9._@:/-]{1,512}$\<close>\<close>

definition policyWorkflow :: "string \<Rightarrow> bool" where
  "policyWorkflow s = (1 \<le> length s \<and> length s \<le> 512 \<and> list_all (\<lambda>c. is_alnum c \<or> c \<in> set ''._@:/-'') s)"

text \<open>\<open>^[a-z0-9]+/[a-z0-9_]+(?:/[a-z0-9_.-]+)?$\<close>: no class holds the slash.\<close>

definition some_of :: "(char \<Rightarrow> bool) \<Rightarrow> string \<Rightarrow> bool" where
  "some_of p s = (s \<noteq> [] \<and> list_all p s)"

definition policyPlatform :: "string \<Rightarrow> bool" where
  "policyPlatform s = (case Split (CHR ''/'') s of
     [a, b] \<Rightarrow> some_of lower_alnum a \<and> some_of (\<lambda>c. lower_alnum c \<or> c = CHR ''_'') b
   | [a, b, c] \<Rightarrow> some_of lower_alnum a \<and> some_of (\<lambda>c. lower_alnum c \<or> c = CHR ''_'') b
       \<and> some_of (\<lambda>c. lower_alnum c \<or> c \<in> set ''_.-'') c
   | _ \<Rightarrow> False)"

text \<open>The kinds of validPolicyValue; the remaining patterns are those of the workload contract.\<close>

definition validPolicyValue :: "string \<Rightarrow> string \<Rightarrow> bool" where
  "validPolicyValue kind value =
     (if kind = ''service'' then serviceKeyPattern value
      else if kind = ''workflow'' then policyWorkflow value
      else if kind = ''event'' then policyEvent value
      else if kind = ''ref'' then policyRef value
      else if kind = ''opaque'' then opaqueID value
      else if kind = ''oci'' \<or> kind = ''oci_prefix'' then repositoryPattern (TrimSuffix value ''/'')
      else if kind = ''platform'' then policyPlatform value
      else if kind = ''hash'' then hash64 value
      else False)"

definition validatePolicyResource :: "string \<Rightarrow> string \<Rightarrow> string option" where
  "validatePolicyResource cpu memory =
     (if \<not> cpuQuantityPattern cpu \<or> \<not> memoryQuantityPattern memory then Some ''preview CPU and memory quotas are invalid'' else None)"

section \<open>Lookups\<close>

text \<open>The binary search of sort.Search over \<open>[i, j)\<close>, for the first index whose value is not below the target.\<close>

function search :: "string list \<Rightarrow> string \<Rightarrow> nat \<Rightarrow> nat \<Rightarrow> nat" where
  "search values target i j =
     (if i < j then let h = (i + j) div 2 in
        if values ! h < target then search values target (Suc h) j else search values target i h
      else i)"
  by pat_completeness auto
termination by (relation "measure (\<lambda>(values, target, i, j). j - i)") auto

declare search.simps [simp del]

definition SearchStrings :: "string list \<Rightarrow> string \<Rightarrow> nat" where
  "SearchStrings values target = search values target 0 (length values)"

definition contains :: "string list \<Rightarrow> string \<Rightarrow> bool" where
  "contains values target = (let i = SearchStrings values target in i < length values \<and> values ! i = target)"

section \<open>Normalisation\<close>

definition value_bytes :: string where
  "value_bytes = [CHR 0x0D, CHR 0x0A, CHR 0x00] @ ''*?[]{}()|'' @ [CHR 0x5C] @ ''$;'' @ [CHR 0x60] @ ''<>&''"

definition bad_value :: "string \<Rightarrow> string \<Rightarrow> bool" where
  "bad_value kind value = (value = [] \<or> 512 < length value \<or> ContainsAny value value_bytes \<or> \<not> validPolicyValue kind value)"

fun list_loop :: "string \<Rightarrow> string list \<Rightarrow> string list \<Rightarrow> policy_error + string list" where
  "list_loop kind seen [] = Inr []"
| "list_loop kind seen (value # values) =
     (let value = TrimSpace value in
      if bad_value kind value
      then Inl (invalid_policy ''DEPLOYMENT_POLICY_VALUE_INVALID'' ''policy values must be non-empty bounded single-line strings'')
      else if value \<in> set seen then list_loop kind seen values
      else (case list_loop kind (value # seen) values of Inl e \<Rightarrow> Inl e | Inr result \<Rightarrow> Inr (value # result)))"

definition normalizeList :: "string list \<Rightarrow> string \<Rightarrow> policy_error + string list" where
  "normalizeList values kind =
     (if maxListItems < length values
      then Inl (invalid_policy ''DEPLOYMENT_POLICY_LIST_INVALID'' ''policy lists are bounded to 50 exact values'')
      else case list_loop kind [] values of Inl e \<Rightarrow> Inl e | Inr result \<Rightarrow> Inr (sort result))"

text \<open>The lists of a draft with their kinds: how to read and to replace each, in the order of the code.\<close>

definition policy_lists :: "((PolicyDraft \<Rightarrow> string list) \<times> (string list \<Rightarrow> PolicyDraft \<Rightarrow> PolicyDraft) \<times> string) list" where
  "policy_lists =
     [(pd_ServiceKeys, \<lambda>v d. d\<lparr>pd_ServiceKeys := v\<rparr>, ''service''),
      (pd_WorkflowRefs, \<lambda>v d. d\<lparr>pd_WorkflowRefs := v\<rparr>, ''workflow''),
      (pd_JobWorkflowRefs, \<lambda>v d. d\<lparr>pd_JobWorkflowRefs := v\<rparr>, ''workflow''),
      (pd_AllowedEvents, \<lambda>v d. d\<lparr>pd_AllowedEvents := v\<rparr>, ''event''),
      (pd_AllowedGitRefs, \<lambda>v d. d\<lparr>pd_AllowedGitRefs := v\<rparr>, ''ref''),
      (pd_AllowedRuntimeIDs, \<lambda>v d. d\<lparr>pd_AllowedRuntimeIDs := v\<rparr>, ''opaque''),
      (pd_AllowedOCIRepositories, \<lambda>v d. d\<lparr>pd_AllowedOCIRepositories := v\<rparr>, ''oci''),
      (pd_AllowedOCIPrefixes, \<lambda>v d. d\<lparr>pd_AllowedOCIPrefixes := v\<rparr>, ''oci_prefix''),
      (pd_AllowedPlatforms, \<lambda>v d. d\<lparr>pd_AllowedPlatforms := v\<rparr>, ''platform''),
      (pd_AllowedConfigHashes, \<lambda>v d. d\<lparr>pd_AllowedConfigHashes := v\<rparr>, ''hash''),
      (pd_AllowedBuildPlanHashes, \<lambda>v d. d\<lparr>pd_AllowedBuildPlanHashes := v\<rparr>, ''hash'')]"

fun normalize_lists :: "((PolicyDraft \<Rightarrow> string list) \<times> (string list \<Rightarrow> PolicyDraft \<Rightarrow> PolicyDraft) \<times> string) list
    \<Rightarrow> PolicyDraft \<Rightarrow> policy_error + PolicyDraft" where
  "normalize_lists [] d = Inr d"
| "normalize_lists ((read, replace, kind) # rest) d =
     (case normalizeList (read d) kind of Inl e \<Rightarrow> Inl e | Inr values \<Rightarrow> normalize_lists rest (replace values d))"

text \<open>
  strings.ToLower as far as a hostname can show it: besides the ASCII letters only the Kelvin sign
  and the capital I with a dot have an ASCII lower case; every other rune beyond ASCII has its lower
  case beyond ASCII, which NormalizeHostname refuses as it refuses the rune left alone here.
\<close>

function lower_text :: "string \<Rightarrow> string" where
  "lower_text s = (case s of [] \<Rightarrow> [] | c # rest \<Rightarrow>
     if HasPrefix s [CHR 0xE2, CHR 0x84, CHR 0xAA] then CHR ''k'' # lower_text (drop 2 rest)
     else if HasPrefix s [CHR 0xC4, CHR 0xB0] then CHR ''i'' # lower_text (drop 1 rest)
     else ascii_lower_char c # lower_text rest)"
  by pat_completeness auto
termination by (relation "measure length") auto

declare lower_text.simps [simp del]

definition normalize_preview :: "PreviewPolicy \<Rightarrow> PreviewPolicy" where
  "normalize_preview p = (if pp_Enabled p
     then p\<lparr>pp_HostnameSuffix := TrimSuffix (lower_text (TrimSpace (pp_HostnameSuffix p))) ''.''\<rparr> else p)"

definition preview_error :: "PreviewPolicy \<Rightarrow> policy_error option" where
  "preview_error p = (if \<not> pp_Enabled p then None else first_failure
     [((case NormalizeHostname (pp_HostnameSuffix p) of Inl _ \<Rightarrow> True | Inr _ \<Rightarrow> False)
         \<or> pp_TTLSeconds p < 60 \<or> 604800 < pp_TTLSeconds p \<or> pp_MaxReplicas p < 1 \<or> 20 < pp_MaxReplicas p,
        invalid_policy ''DEPLOYMENT_POLICY_PREVIEW_INVALID'' ''preview hostname, TTL, and replica bounds are invalid''),
      (validatePolicyResource (pp_CPU p) (pp_Memory p) \<noteq> None,
        invalid_policy ''DEPLOYMENT_POLICY_PREVIEW_INVALID'' ''preview CPU and memory quotas are invalid'')])"

definition contract_error :: "string \<Rightarrow> PolicyDraft \<Rightarrow> policy_error option" where
  "contract_error projectID d = first_failure
     [(pd_SchemaVersion d \<noteq> PolicySchemaVersion \<or> pd_ProjectID d \<noteq> projectID \<or> \<not> opaqueID projectID \<or> pd_RepositoryID d = 0
         \<or> 2 ^ 63 - 1 < pd_RepositoryID d \<or> \<not> opaqueID (TrimSpace (pd_EnvironmentID d)),
        invalid_policy ''DEPLOYMENT_POLICY_CONTRACT_INVALID'' ''schema, project, repository, and environment are required'')]"

definition lists_error :: "PolicyDraft \<Rightarrow> policy_error option" where
  "lists_error d = first_failure
     [(\<not> list_all (\<lambda>values. values \<noteq> []) [pd_ServiceKeys d, pd_WorkflowRefs d, pd_AllowedEvents d, pd_AllowedGitRefs d,
          pd_AllowedRuntimeIDs d, pd_AllowedPlatforms d, pd_AllowedConfigHashes d],
        invalid_policy ''DEPLOYMENT_POLICY_LIST_INVALID'' ''required policy allowlists must not be empty''),
      (pd_AllowedOCIRepositories d = [] \<and> pd_AllowedOCIPrefixes d = [],
        invalid_policy ''DEPLOYMENT_POLICY_OCI_INVALID'' ''at least one exact OCI repository or bounded prefix is required''),
      (pd_AutomaticMain d \<and> (\<not> contains (pd_AllowedEvents d) ''push'' \<or> \<not> contains (pd_AllowedGitRefs d) ''refs/heads/main''),
        invalid_policy ''DEPLOYMENT_POLICY_AUTOMATIC_INVALID'' ''automatic main delivery requires push and refs/heads/main'')]"

definition prefixes_error :: "PolicyDraft \<Rightarrow> policy_error option" where
  "prefixes_error d = first_failure
     [(list_ex (\<lambda>p. \<not> HasSuffix p ''/'' \<or> ContainsAny p (''*?[](){}|'' @ [CHR 0x5C])) (pd_AllowedOCIPrefixes d),
        invalid_policy ''DEPLOYMENT_POLICY_OCI_INVALID'' ''OCI prefixes must end with slash and contain no wildcard or expression syntax'')]"

definition normalize_policy :: "(PolicyDraft \<Rightarrow> string option) \<Rightarrow> string \<Rightarrow> PolicyDraft \<Rightarrow> policy_error + PolicyDraft \<times> string" where
  "normalize_policy h projectID d =
     (case contract_error projectID d of Some e \<Rightarrow> Inl e | None \<Rightarrow>
      case normalize_lists policy_lists (d\<lparr>pd_EnvironmentID := TrimSpace (pd_EnvironmentID d)\<rparr>) of Inl e \<Rightarrow> Inl e | Inr d \<Rightarrow>
      case lists_error d of Some e \<Rightarrow> Inl e | None \<Rightarrow>
      let d = d\<lparr>pd_Preview := normalize_preview (pd_Preview d)\<rparr> in
      case or_else (preview_error (pd_Preview d)) (prefixes_error d) of Some e \<Rightarrow> Inl e | None \<Rightarrow>
      case h d of None \<Rightarrow> Inl PolicyMarshal | Some hash \<Rightarrow> Inr (d, hash))"

section \<open>Matching a build record\<close>

definition policyAllowsBuildPlan :: "PolicyDraft \<Rightarrow> BuildRecord \<Rightarrow> bool" where
  "policyAllowsBuildPlan p r = (if bd_PlanHash (br_Build r) = [] then pd_AllowedBuildPlanHashes p = []
     else contains (pd_AllowedBuildPlanHashes p) (bd_PlanHash (br_Build r)))"

definition policyAllowsOCI :: "PolicyDraft \<Rightarrow> BuildRecord \<Rightarrow> bool" where
  "policyAllowsOCI p r = (contains (pd_AllowedOCIRepositories p) (bd_OCIRepository (br_Build r))
     \<or> list_ex (\<lambda>pre. let pre = TrimSuffix pre ''/'' in bd_OCIRepository (br_Build r) = pre \<or> HasPrefix (bd_OCIRepository (br_Build r)) (pre @ ''/''))
         (pd_AllowedOCIPrefixes p))"

text \<open>The part that both kinds of match share: identity, the exact allowlists, the job workflow.\<close>

definition job_workflow_allowed :: "PolicyDraft \<Rightarrow> BuildRecord \<Rightarrow> bool" where
  "job_workflow_allowed p r = (if wi_JobWorkflowRef (br_Workload r) = [] then pd_JobWorkflowRefs p = []
     else contains (pd_JobWorkflowRefs p) (wi_JobWorkflowRef (br_Workload r)))"

definition automaticPolicyMatches :: "PolicyDraft \<Rightarrow> BuildRecord \<Rightarrow> bool" where
  "automaticPolicyMatches p r =
     (if pd_ProjectID p \<noteq> br_ProjectID r \<or> pd_RepositoryID p \<noteq> br_RepositoryID r \<or> \<not> contains (pd_ServiceKeys p) (br_ServiceKey r)
         \<or> \<not> contains (pd_WorkflowRefs p) (wi_WorkflowRef (br_Workload r)) \<or> \<not> contains (pd_AllowedPlatforms p) (bd_Platform (br_Build r))
         \<or> \<not> contains (pd_AllowedConfigHashes p) (bd_ConfigHash (br_Build r)) \<or> \<not> policyAllowsBuildPlan p r then False
      else if \<not> job_workflow_allowed p r then False
      else if wi_EventName (br_Workload r) = ''push''
      then pd_AutomaticMain p \<and> contains (pd_AllowedEvents p) ''push'' \<and> wi_Ref (br_Workload r) = ''refs/heads/main''
        \<and> contains (pd_AllowedGitRefs p) ''refs/heads/main'' \<and> policyAllowsOCI p r
      else if wi_EventName (br_Workload r) = ''pull_request''
      then pp_Enabled (pd_Preview p) \<and> contains (pd_AllowedEvents p) ''pull_request'' \<and> HasPrefix (wi_Ref (br_Workload r)) ''refs/pull/''
        \<and> HasSuffix (wi_Ref (br_Workload r)) ''/merge'' \<and> policyAllowsOCI p r
      else False)"

definition policyMatches :: "PolicyDraft \<Rightarrow> BuildRecord \<Rightarrow> string \<Rightarrow> bool" where
  "policyMatches p r environmentID =
     (if pd_ProjectID p \<noteq> br_ProjectID r \<or> pd_RepositoryID p \<noteq> br_RepositoryID r \<or> pd_EnvironmentID p \<noteq> environmentID
         \<or> \<not> contains (pd_ServiceKeys p) (br_ServiceKey r) \<or> \<not> contains (pd_WorkflowRefs p) (wi_WorkflowRef (br_Workload r))
         \<or> \<not> contains (pd_AllowedEvents p) (wi_EventName (br_Workload r)) \<or> \<not> contains (pd_AllowedGitRefs p) (wi_Ref (br_Workload r))
         \<or> \<not> contains (pd_AllowedPlatforms p) (bd_Platform (br_Build r)) \<or> \<not> contains (pd_AllowedConfigHashes p) (bd_ConfigHash (br_Build r))
         \<or> \<not> policyAllowsBuildPlan p r then False
      else if \<not> job_workflow_allowed p r then False
      else policyAllowsOCI p r)"

end
