(* ===== verification/Deployment_Policy_Store.thy ===== *)
theory Deployment_Policy_Store
  imports Replay Deployment_Policy "HOL-Library.AList"
begin

text \<open>
  The store of deployment policies in memory (cloud/internal/deploymentpolicy/memory.go), each
  operation one function under the mutex, and the two contracts of Replay that it keeps: one for
  Apply and one for Disable. The random bytes of newID are an argument.
\<close>

section \<open>The store\<close>

record policy_hashes =
  ph_draft :: "PolicyDraft \<Rightarrow> string option"
  ph_apply :: "PolicyApplyRequest \<Rightarrow> string option"
  ph_disable :: "string \<times> DisableRequest \<Rightarrow> string option"
  ph_state :: "string \<times> nat \<times> string \<Rightarrow> string option"
  ph_decision :: "RoutingDecision \<Rightarrow> string option"

definition policy_stateHash :: "policy_hashes \<Rightarrow> string \<Rightarrow> nat \<Rightarrow> string \<Rightarrow> string" where
  "policy_stateHash H pid revision policyHash = hashMust (ph_state H) (pid, revision, policyHash)"

definition newPolicyID :: "string \<Rightarrow> string" where
  "newPolicyID random = ''pol-'' @ random"

text \<open>The map of policies is an association list, since List goes over it.\<close>

record policy_memory =
  pm_policies :: "(string \<times> Policy) list"
  pm_replays :: "string \<Rightarrow> (string \<times> Policy) option"

definition NewPolicyStore :: policy_memory where
  "NewPolicyStore = \<lparr>pm_policies = [], pm_replays = \<lambda>_. None\<rparr>"

definition zero_draft :: PolicyDraft where
  "zero_draft = \<lparr>pd_SchemaVersion = [], pd_ProjectID = [], pd_RepositoryID = 0, pd_ServiceKeys = [], pd_WorkflowRefs = [],
     pd_JobWorkflowRefs = [], pd_AllowedEvents = [], pd_AllowedGitRefs = [], pd_EnvironmentID = [], pd_AllowedRuntimeIDs = [],
     pd_AllowedOCIRepositories = [], pd_AllowedOCIPrefixes = [], pd_AllowedPlatforms = [], pd_AllowedConfigHashes = [],
     pd_AllowedBuildPlanHashes = [], pd_AllowUnknownCapacity = False, pd_Enabled = False, pd_AutomaticMain = False,
     pd_Preview = \<lparr>pp_Enabled = False, pp_HostnameSuffix = [], pp_TTLSeconds = 0, pp_MaxReplicas = 0, pp_CPU = [], pp_Memory = []\<rparr>\<rparr>"

definition zero_policy :: Policy where
  "zero_policy = \<lparr>po_SchemaVersion = [], po_ID = [], po_Revision = 0, po_StateHash = [], po_PolicyHash = [], po_Draft = zero_draft,
     po_CreatedBy = [], po_AppliedBy = [], po_CreatedAt = zero_time, po_AppliedAt = zero_time\<rparr>"

definition lookup_policy :: "policy_memory \<Rightarrow> string \<Rightarrow> Policy" where
  "lookup_policy s pid = (case map_of (pm_policies s) pid of None \<Rightarrow> zero_policy | Some p \<Rightarrow> p)"

definition store_policy :: "string \<Rightarrow> string \<Rightarrow> string \<Rightarrow> Policy \<Rightarrow> policy_memory \<Rightarrow> policy_memory" where
  "store_policy pid replayKey payloadHash p s =
     s\<lparr>pm_policies := AList.update pid p (pm_policies s), pm_replays := (pm_replays s)(replayKey \<mapsto> (payloadHash, p))\<rparr>"

definition policy_Get :: "string \<Rightarrow> string \<Rightarrow> policy_memory \<Rightarrow> policy_error + Policy" where
  "policy_Get projectID pid s = (case map_of (pm_policies s) pid of None \<Rightarrow> Inl PolicyNotFound
     | Some p \<Rightarrow> if pd_ProjectID (po_Draft p) \<noteq> projectID then Inl PolicyNotFound else Inr p)"

definition policy_List :: "string \<Rightarrow> policy_memory \<Rightarrow> policy_error + Policy list" where
  "policy_List projectID s = Inr (sort_key po_ID (filter (\<lambda>p. pd_ProjectID (po_Draft p) = projectID) (map snd (pm_policies s))))"

definition policy_conflict :: policy_error where
  "policy_conflict = PolicyError ''IDEMPOTENCY_CONFLICT'' 409 ''idempotency key was already used with a different payload''"

definition replay_key :: "string \<Rightarrow> string \<Rightarrow> string \<Rightarrow> string" where
  "replay_key operation projectID key = operation @ '':'' @ projectID @ '':'' @ key"

definition replay_policy :: "string \<Rightarrow> string \<Rightarrow> policy_memory \<Rightarrow> policy_error + Policy option" where
  "replay_policy replayKey payloadHash s = (case pm_replays s replayKey of None \<Rightarrow> Inr None
     | Some (h, p) \<Rightarrow> if h \<noteq> payloadHash then Inl policy_conflict else Inr (Some p))"

text \<open>The map from the operation to its prefix; an operation it lacks gives the empty string.\<close>

definition operation_prefix :: "string \<Rightarrow> string" where
  "operation_prefix operation = (if operation = ''policy_apply'' then ''apply'' else if operation = ''policy_disable'' then ''disable'' else [])"

definition ReplayPolicy :: "string \<Rightarrow> string \<Rightarrow> string \<Rightarrow> string \<Rightarrow> policy_memory \<Rightarrow> policy_error + Policy option" where
  "ReplayPolicy projectID operation key payloadHash s =
     (let pre = operation_prefix operation in
      if pre = [] then Inl policy_unavailable else replay_policy (replay_key pre projectID key) payloadHash s)"

definition applied_policy :: "policy_hashes \<Rightarrow> string \<Rightarrow> Policy \<Rightarrow> Policy \<Rightarrow> Policy" where
  "applied_policy H random old policy =
     (let policy = (if po_ID old = [] then policy\<lparr>po_ID := newPolicyID random\<rparr>
                    else policy\<lparr>po_ID := po_ID old, po_CreatedAt := po_CreatedAt old, po_CreatedBy := po_CreatedBy old\<rparr>);
          policy = policy\<lparr>po_Revision := wrap_u64 (Suc (po_Revision old))\<rparr> in
      policy\<lparr>po_StateHash := policy_stateHash H (po_ID policy) (po_Revision policy) (po_PolicyHash policy)\<rparr>)"

definition policy_Apply :: "policy_hashes \<Rightarrow> string \<Rightarrow> string \<Rightarrow> string \<Rightarrow> PolicyApplyRequest \<Rightarrow> Policy \<Rightarrow> policy_memory
    \<Rightarrow> (policy_error + Policy \<times> bool) \<times> policy_memory" where
  "policy_Apply H random key payloadHash request policy s =
     (let replayKey = replay_key ''apply'' (pd_ProjectID (po_Draft policy)) key in
      case replay_policy replayKey payloadHash s of
        Inl e \<Rightarrow> (Inl e, s)
      | Inr (Some p) \<Rightarrow> (Inr (p, True), s)
      | Inr None \<Rightarrow>
          let old = lookup_policy s (par_PolicyID request) in
          if par_PolicyID request \<noteq> [] \<and> po_ID old = [] then (Inl PolicyNotFound, s)
          else if po_Revision old \<noteq> par_ExpectedRevision request \<or> po_StateHash old \<noteq> par_ExpectedStateHash request
          then (Inl (PolicyError ''DEPLOYMENT_POLICY_STATE_CONFLICT'' 409 ''policy state changed; refresh diff and retry''), s)
          else let p = applied_policy H random old policy in (Inr (p, False), store_policy (po_ID p) replayKey payloadHash p s))"

definition disabled_policy :: "policy_hashes \<Rightarrow> string \<Rightarrow> time \<Rightarrow> Policy \<Rightarrow> Policy" where
  "disabled_policy H actor now old =
     (let p = old\<lparr>po_Revision := wrap_u64 (Suc (po_Revision old)), po_Draft := po_Draft old\<lparr>pd_Enabled := False\<rparr>,
            po_AppliedBy := actor, po_AppliedAt := now\<rparr>;
          p = p\<lparr>po_PolicyHash := hashMust (ph_draft H) (po_Draft p)\<rparr> in
      p\<lparr>po_StateHash := policy_stateHash H (po_ID p) (po_Revision p) (po_PolicyHash p)\<rparr>)"

definition policy_Disable :: "policy_hashes \<Rightarrow> string \<Rightarrow> string \<Rightarrow> string \<Rightarrow> string \<Rightarrow> string \<Rightarrow> DisableRequest \<Rightarrow> time \<Rightarrow> policy_memory
    \<Rightarrow> (policy_error + Policy \<times> bool) \<times> policy_memory" where
  "policy_Disable H projectID pid actor key payloadHash request now s =
     (let replayKey = replay_key ''disable'' projectID key in
      case replay_policy replayKey payloadHash s of
        Inl e \<Rightarrow> (Inl e, s)
      | Inr (Some p) \<Rightarrow> (Inr (p, True), s)
      | Inr None \<Rightarrow>
          (case map_of (pm_policies s) pid of None \<Rightarrow> (Inl PolicyNotFound, s) | Some old \<Rightarrow>
           if pd_ProjectID (po_Draft old) \<noteq> projectID then (Inl PolicyNotFound, s)
           else if po_Revision old \<noteq> dis_ExpectedRevision request \<or> po_StateHash old \<noteq> dis_ExpectedStateHash request
           then (Inl (PolicyError ''DEPLOYMENT_POLICY_STATE_CONFLICT'' 409 ''policy state changed; refresh and retry''), s)
           else if \<not> pd_Enabled (po_Draft old)
           then (Inl (PolicyError ''DEPLOYMENT_POLICY_ALREADY_DISABLED'' 409 ''deployment policy is already disabled''), s)
           else let p = disabled_policy H actor now old in (Inr (p, False), store_policy pid replayKey payloadHash p s)))"

section \<open>Steps and the invariant\<close>

inductive policy_step :: "policy_hashes \<Rightarrow> policy_memory \<Rightarrow> policy_memory \<Rightarrow> bool" for H where
  apply_step: "policy_Apply H random key h request policy s = (res, s') \<Longrightarrow> policy_step H s s'"
| disable_step: "policy_Disable H projectID pid actor key h drequest now s = (res, s') \<Longrightarrow> policy_step H s s'"

text \<open>A step in which the new identity of a created policy is not yet in use.\<close>

inductive policy_tick :: "policy_hashes \<Rightarrow> policy_memory \<Rightarrow> policy_memory \<Rightarrow> bool" for H where
  apply_tick: "policy_Apply H random key h request policy s = (res, s') \<Longrightarrow> map_of (pm_policies s) (newPolicyID random) = None
    \<Longrightarrow> policy_tick H s s'"
| disable_tick: "policy_Disable H projectID pid actor key h drequest now s = (res, s') \<Longrightarrow> policy_tick H s s'"

definition policies_ok :: "policy_memory \<Rightarrow> bool" where
  "policies_ok s \<longleftrightarrow> distinct (map fst (pm_policies s)) \<and> (\<forall>pid p. map_of (pm_policies s) pid = Some p \<longrightarrow> po_ID p = pid \<and> pid \<noteq> [] \<and> po_Revision p < 2 ^ 64)"

definition policy_version :: "policy_memory \<Rightarrow> string \<Rightarrow> nat \<times> string" where
  "policy_version s pid = (po_Revision (lookup_policy s pid), po_StateHash (lookup_policy s pid))"

definition policy_replay :: "string \<Rightarrow> policy_memory \<Rightarrow> string \<times> string \<Rightarrow> (string \<times> Policy) option" where
  "policy_replay operation s k = pm_replays s (replay_key operation (fst k) (snd k))"

lemma newPolicyID_nonempty [simp]: "newPolicyID random \<noteq> []"
  by (simp add: newPolicyID_def)

lemma applied_policy_simps [simp]:
  "po_Revision (applied_policy H random old p) = wrap_u64 (Suc (po_Revision old))" "po_Draft (applied_policy H random old p) = po_Draft p"
  "po_ID (applied_policy H random old p) = (if po_ID old = [] then newPolicyID random else po_ID old)"
  "po_PolicyHash (applied_policy H random old p) = po_PolicyHash p" "po_AppliedBy (applied_policy H random old p) = po_AppliedBy p"
  by (simp_all add: applied_policy_def Let_def)

lemma disabled_policy_simps [simp]:
  "po_Revision (disabled_policy H actor now old) = wrap_u64 (Suc (po_Revision old))"
  "po_Draft (disabled_policy H actor now old) = po_Draft old\<lparr>pd_Enabled := False\<rparr>" "po_ID (disabled_policy H actor now old) = po_ID old"
  "po_AppliedBy (disabled_policy H actor now old) = actor"
  by (simp_all add: disabled_policy_def Let_def)

lemma lookup_store [simp]:
  "map_of (pm_policies (store_policy pid k h p s)) = (map_of (pm_policies s))(pid \<mapsto> p)"
  "pm_replays (store_policy pid k h p s) = (pm_replays s)(k \<mapsto> (h, p))"
  by (simp_all add: store_policy_def update_conv')

lemma policies_okD:
  assumes "policies_ok s" "map_of (pm_policies s) pid = Some p"
  shows "po_ID p = pid" "pid \<noteq> []" "po_Revision p < 2 ^ 64"
  using assms by (auto simp: policies_ok_def)

lemma lookup_policy_id:
  assumes "policies_ok s"
  shows "po_ID (lookup_policy s pid) = (if map_of (pm_policies s) pid = None then [] else pid)"
  using policies_okD [OF assms] by (auto simp: lookup_policy_def zero_policy_def split: option.split)

lemma policies_ok_store:
  "policies_ok s \<Longrightarrow> po_ID p = pid \<Longrightarrow> pid \<noteq> [] \<Longrightarrow> po_Revision p < 2 ^ 64 \<Longrightarrow> policies_ok (store_policy pid k h p s)"
  unfolding policies_ok_def lookup_store by (auto simp: store_policy_def distinct_update)

lemma zero_policy_simps [simp]: "po_ID zero_policy = []" "po_Revision zero_policy = 0" "po_StateHash zero_policy = []"
  by (simp_all add: zero_policy_def)

text \<open>The ways an operation ends.\<close>

lemma replay_policy_None: "replay_policy k h s = Inr None \<longleftrightarrow> pm_replays s k = None"
  by (auto simp: replay_policy_def split: option.splits)

lemma policy_Apply_cases:
  assumes "policy_Apply H random key h request policy s = (res, s')"
  obtains (error) e where "res = Inl e" "s' = s"
  | (again) p where "replay_policy (replay_key ''apply'' (pd_ProjectID (po_Draft policy)) key) h s = Inr (Some p)" "res = Inr (p, True)" "s' = s"
  | (fresh) p where "pm_replays s (replay_key ''apply'' (pd_ProjectID (po_Draft policy)) key) = None" "res = Inr (p, False)"
      "policy_version s (par_PolicyID request) = (par_ExpectedRevision request, par_ExpectedStateHash request)"
      "par_PolicyID request \<noteq> [] \<Longrightarrow> po_ID (lookup_policy s (par_PolicyID request)) \<noteq> []"
      "p = applied_policy H random (lookup_policy s (par_PolicyID request)) policy"
      "s' = store_policy (po_ID p) (replay_key ''apply'' (pd_ProjectID (po_Draft policy)) key) h p s"
proof (cases "replay_policy (replay_key ''apply'' (pd_ProjectID (po_Draft policy)) key) h s")
  case (Inl e)
  with assms show thesis by (intro error) (auto simp: policy_Apply_def Let_def)
next
  case (Inr x)
  note run = assms [unfolded policy_Apply_def Let_def Inr sum.case]
  show thesis
  proof (cases x)
    case None
    have none: "pm_replays s (replay_key ''apply'' (pd_ProjectID (po_Draft policy)) key) = None"
      using Inr None replay_policy_None by metis
    let ?old = "lookup_policy s (par_PolicyID request)"
    consider "par_PolicyID request \<noteq> [] \<and> po_ID ?old = []"
      | "\<not> (par_PolicyID request \<noteq> [] \<and> po_ID ?old = [])" "policy_version s (par_PolicyID request) \<noteq> (par_ExpectedRevision request, par_ExpectedStateHash request)"
      | "\<not> (par_PolicyID request \<noteq> [] \<and> po_ID ?old = [])" "policy_version s (par_PolicyID request) = (par_ExpectedRevision request, par_ExpectedStateHash request)"
      by blast
    then show thesis
    proof cases
      case 3
      then show thesis using run None Inr by (intro fresh none) (auto simp: policy_version_def)
    qed (use run None error in \<open>auto simp: policy_version_def\<close>)
  next
    case (Some p)
    with run Inr show thesis by (intro again) auto
  qed
qed

lemma policy_Disable_cases:
  assumes "policy_Disable H projectID pid actor key h request now s = (res, s')"
  obtains (error) e where "res = Inl e" "s' = s"
  | (again) p where "replay_policy (replay_key ''disable'' projectID key) h s = Inr (Some p)" "res = Inr (p, True)" "s' = s"
  | (fresh) old where "pm_replays s (replay_key ''disable'' projectID key) = None" "res = Inr (disabled_policy H actor now old, False)"
      "map_of (pm_policies s) pid = Some old" "pd_ProjectID (po_Draft old) = projectID" "pd_Enabled (po_Draft old)"
      "policy_version s pid = (dis_ExpectedRevision request, dis_ExpectedStateHash request)"
      "s' = store_policy pid (replay_key ''disable'' projectID key) h (disabled_policy H actor now old) s"
proof (cases "replay_policy (replay_key ''disable'' projectID key) h s")
  case (Inl e)
  with assms show thesis by (intro error) (auto simp: policy_Disable_def Let_def)
next
  case (Inr x)
  note run = assms [unfolded policy_Disable_def Let_def Inr sum.case]
  show thesis
  proof (cases x)
    case None
    have none: "pm_replays s (replay_key ''disable'' projectID key) = None" using Inr None replay_policy_None by metis
    show thesis
    proof (cases "map_of (pm_policies s) pid")
      case (Some old)
      show thesis
      proof (cases "pd_ProjectID (po_Draft old) = projectID \<and> pd_Enabled (po_Draft old)
          \<and> policy_version s pid = (dis_ExpectedRevision request, dis_ExpectedStateHash request)")
        case True
        then show thesis using run None Inr Some
          by (intro fresh none) (auto simp: policy_version_def lookup_policy_def)
      next
        case False
        then show thesis using run None Some error by (auto simp: policy_version_def lookup_policy_def split: if_splits)
      qed
    qed (use run None error in auto)
  next
    case (Some p)
    with run Inr show thesis by (intro again) auto
  qed
qed

text \<open>An operation leaves the store as it is or stores one policy; its revision follows that of its slot.\<close>

lemma policy_step_cases:
  assumes "policies_ok s" "policy_step H s s'"
  obtains (same) "s' = s"
  | (stored) pid k h p where "pm_replays s k = None" "s' = store_policy pid k h p s" "po_ID p = pid" "pid \<noteq> []" "po_Revision p < 2 ^ 64"
  using assms(2)
proof cases
  case (apply_step random key h request policy res)
  then show thesis
  proof (cases rule: policy_Apply_cases)
    case (fresh p)
    show thesis by (rule stored [OF fresh(1,6) refl]) (simp_all add: fresh(5))
  qed (auto intro: same)
next
  case (disable_step projectID pid actor key h drequest now res)
  then show thesis
  proof (cases rule: policy_Disable_cases)
    case (fresh old)
    show thesis by (rule stored [OF fresh(1,7)]) (use policies_okD [OF assms(1) fresh(3)] in simp_all)
  qed (auto intro: same)
qed

lemma policy_tick_cases:
  assumes "policies_ok s" "policy_tick H s s'"
  obtains (same) "s' = s"
  | (stored) pid k h p where "s' = store_policy pid k h p s" "po_Revision p = wrap_u64 (Suc (po_Revision (lookup_policy s pid)))"
  using assms(2)
proof cases
  case (apply_tick random key h request policy res)
  from apply_tick(1) show thesis
  proof (cases rule: policy_Apply_cases)
    case (fresh p)
    let ?old = "lookup_policy s (par_PolicyID request)"
    have "po_Revision ?old = po_Revision (lookup_policy s (po_ID p))"
      using fresh(5) lookup_policy_id [OF assms(1), of "par_PolicyID request"] apply_tick(2)
      by (cases "map_of (pm_policies s) (par_PolicyID request)") (auto simp: lookup_policy_def dest: policies_okD [OF assms(1)])
    then show thesis using fresh(5,6) by (intro stored) auto
  qed (auto intro: same)
next
  case (disable_tick projectID pid actor key h drequest now res)
  then show thesis by (cases rule: policy_Disable_cases) (auto intro: same stored simp: lookup_policy_def)
qed

lemma policy_tick_step: "policy_tick H s s' \<Longrightarrow> policy_step H s s'"
  by (auto elim!: policy_tick.cases intro: policy_step.intros)

lemma NewPolicyStore_ok: "policies_ok NewPolicyStore"
  by (simp add: policies_ok_def NewPolicyStore_def)

section \<open>The contracts\<close>

type_synonym policy_request = "string \<times> PolicyApplyRequest \<times> Policy"
type_synonym disable_request = "string \<times> string \<times> DisableRequest \<times> time"

definition in_project :: "string \<Rightarrow> Policy \<Rightarrow> Policy" where
  "in_project projectID p = p\<lparr>po_Draft := po_Draft p\<lparr>pd_ProjectID := projectID\<rparr>\<rparr>"

definition policy_apply_op :: "policy_hashes \<Rightarrow> string \<times> string \<Rightarrow> string \<Rightarrow> policy_request \<Rightarrow> policy_memory
    \<Rightarrow> (policy_error + Policy \<times> bool) \<times> policy_memory" where
  "policy_apply_op H k h q = (case q of (random, request, p) \<Rightarrow> policy_Apply H random (snd k) h request (in_project (fst k) p))"

definition policy_slot :: "string \<times> string \<Rightarrow> policy_request \<Rightarrow> string option" where
  "policy_slot k q = (case q of (random, request, p) \<Rightarrow> if par_PolicyID request = [] then None else Some (par_PolicyID request))"

definition policy_expected :: "policy_request \<Rightarrow> nat \<times> string" where
  "policy_expected q = (case q of (random, request, p) \<Rightarrow> (par_ExpectedRevision request, par_ExpectedStateHash request))"

definition policy_disable_op :: "policy_hashes \<Rightarrow> string \<times> string \<Rightarrow> string \<Rightarrow> disable_request \<Rightarrow> policy_memory
    \<Rightarrow> (policy_error + Policy \<times> bool) \<times> policy_memory" where
  "policy_disable_op H k h q = (case q of (pid, actor, request, now) \<Rightarrow> policy_Disable H (fst k) pid actor (snd k) h request now)"

definition disable_slot :: "string \<times> string \<Rightarrow> disable_request \<Rightarrow> string option" where
  "disable_slot k q = Some (fst q)"

definition disable_expected :: "disable_request \<Rightarrow> nat \<times> string" where
  "disable_expected q = (case q of (pid, actor, request, now) \<Rightarrow> (dis_ExpectedRevision request, dis_ExpectedStateHash request))"

lemma in_project_simps [simp]: "pd_ProjectID (po_Draft (in_project projectID p)) = projectID"
  by (simp add: in_project_def)

lemma policy_step_ok: "policies_ok s \<Longrightarrow> policy_step H s s' \<Longrightarrow> policies_ok s'"
  by (frule (1) policy_step_cases) (auto intro: policies_ok_store)

lemma policy_step_replay:
  "policies_ok s \<Longrightarrow> policy_step H s s' \<Longrightarrow> policy_replay operation s k = Some x \<Longrightarrow> policy_replay operation s' k = Some x"
  by (erule (1) policy_step_cases) (auto simp: policy_replay_def)

lemma policy_version_bound: "policies_ok s \<Longrightarrow> fst (policy_version s pid) < 2 ^ 64"
  using policies_okD(3) by (auto simp: policy_version_def lookup_policy_def split: option.split)

lemma policy_tick_version:
  "policies_ok s \<Longrightarrow> policy_tick H s s' \<Longrightarrow> policy_version s' pid \<noteq> policy_version s pid
     \<Longrightarrow> fst (policy_version s' pid) = wrap_u64 (Suc (fst (policy_version s pid)))"
  by (erule (1) policy_tick_cases) (auto simp: policy_version_def lookup_policy_def split: if_splits)

lemmas policy_op_defs = policy_apply_op_def policy_disable_op_def policy_slot_def policy_expected_def disable_slot_def disable_expected_def
  policy_replay_def

interpretation policy_applies: versioned_store policies_ok "policy_step H" "policy_replay ''apply''" "policy_apply_op H" policy_conflict
  "policy_tick H" policy_version policy_slot policy_expected for H
proof (unfold_locales, goal_cases)
  case (1 s s')
  then show ?case by (rule policy_step_ok)
next
  case (2 s s' k x)
  then show ?case by (rule policy_step_replay)
next
  case (3 s k h q res s')
  then show ?case by (cases q) (auto simp: policy_op_defs intro: policy_step.apply_step)
next
  case (4 s k h r q)
  then show ?case by (cases q) (simp add: policy_op_defs policy_Apply_def Let_def replay_policy_def)
next
  case (5 s k h' r h q)
  then show ?case by (cases q) (simp add: policy_op_defs policy_Apply_def Let_def replay_policy_def)
next
  case (6 s k h q r b s')
  then show ?case by (cases q) (auto simp: policy_op_defs replay_policy_def elim!: policy_Apply_cases)
next
  case (7 s k h q e s')
  then show ?case by (cases q) (auto simp: policy_op_defs elim!: policy_Apply_cases)
next
  case (8 s s')
  then show ?case by (rule policy_tick_step)
next
  case (9 s i)
  then show ?case by (rule policy_version_bound)
next
  case (10 s s' i)
  then show ?case by (rule policy_tick_version)
next
  case (11 s k q i h r s')
  then show ?case
    using lookup_policy_id [of s i]
    by (cases q) (auto simp: policy_op_defs policy_version_def lookup_policy_def split: if_splits option.splits elim!: policy_Apply_cases)
qed

interpretation policy_disables: versioned_store policies_ok "policy_step H" "policy_replay ''disable''" "policy_disable_op H" policy_conflict
  "policy_tick H" policy_version disable_slot disable_expected for H
proof (unfold_locales, goal_cases)
  case (1 s s')
  then show ?case by (rule policy_step_ok)
next
  case (2 s s' k x)
  then show ?case by (rule policy_step_replay)
next
  case (3 s k h q res s')
  then show ?case by (cases q) (auto simp: policy_op_defs intro: policy_step.disable_step)
next
  case (4 s k h r q)
  then show ?case by (cases q) (simp add: policy_op_defs policy_Disable_def Let_def replay_policy_def)
next
  case (5 s k h' r h q)
  then show ?case by (cases q) (simp add: policy_op_defs policy_Disable_def Let_def replay_policy_def)
next
  case (6 s k h q r b s')
  then show ?case by (cases q) (auto simp: policy_op_defs replay_policy_def elim!: policy_Disable_cases)
next
  case (7 s k h q e s')
  then show ?case by (cases q) (auto simp: policy_op_defs elim!: policy_Disable_cases)
next
  case (8 s s')
  then show ?case by (rule policy_tick_step)
next
  case (9 s i)
  then show ?case by (rule policy_version_bound)
next
  case (10 s s' i)
  then show ?case by (rule policy_tick_version)
next
  case (11 s k q i h r s')
  then show ?case
    by (cases q) (auto simp: policy_op_defs policy_version_def lookup_policy_def split: if_splits option.splits elim!: policy_Disable_cases)
qed

end
