(* ===== verification/Deployment_Routing.thy ===== *)
theory Deployment_Routing
  imports Deployment_Policy_Store Topology_Service
begin

text \<open>
  The deployment policy service (cloud/internal/deploymentpolicy/service.go): preview, diff, apply
  and disable of policies, and Route, which decides on which runtime and Agent a build record may be
  deployed. The build records, the bindings and the topology service it calls are fields of the
  service; the error of a build record or binding lookup is only compared with nil.
\<close>

section \<open>The service\<close>

record 'p policy_store =
  ps_Get :: "string \<Rightarrow> string \<Rightarrow> 'p \<Rightarrow> policy_error + Policy"
  ps_List :: "string \<Rightarrow> 'p \<Rightarrow> policy_error + Policy list"
  ps_ReplayPolicy :: "string \<Rightarrow> string \<Rightarrow> string \<Rightarrow> string \<Rightarrow> 'p \<Rightarrow> policy_error + Policy option"
  ps_Apply :: "string \<Rightarrow> string \<Rightarrow> string \<Rightarrow> PolicyApplyRequest \<Rightarrow> Policy \<Rightarrow> 'p \<Rightarrow> (policy_error + Policy \<times> bool) \<times> 'p"
  ps_Disable :: "string \<Rightarrow> string \<Rightarrow> string \<Rightarrow> string \<Rightarrow> string \<Rightarrow> DisableRequest \<Rightarrow> time \<Rightarrow> 'p \<Rightarrow> (policy_error + Policy \<times> bool) \<times> 'p"

definition policy_memory_ops :: "policy_hashes \<Rightarrow> policy_memory policy_store" where
  "policy_memory_ops H = \<lparr>ps_Get = policy_Get, ps_List = policy_List, ps_ReplayPolicy = ReplayPolicy, ps_Apply = policy_Apply H,
     ps_Disable = policy_Disable H\<rparr>"

record Binding =
  bi_ProjectID :: string
  bi_BindingID :: string
  bi_ServiceID :: string
  bi_ServiceKey :: string
  bi_RepositoryID :: nat
  bi_RepositoryOwnerID :: nat
  bi_RepositoryFullName :: string

record ('p, 's) policy_service =
  pv_Store :: "'p policy_store option"
  pv_BuildRecords :: "(string \<Rightarrow> string \<Rightarrow> BuildRecord option) option"
  pv_Bindings :: "(nat \<Rightarrow> string \<Rightarrow> Binding option) option"
  pv_Topology :: "'s topology_service"
  pv_Hashes :: policy_hashes

record policy_call =
  pc_Now :: time
  pc_Random :: string
  pc_Topology :: topology_call

section \<open>Policies\<close>

definition environment_owned :: "PlacementFacts \<Rightarrow> string \<Rightarrow> PolicyDraft \<Rightarrow> bool" where
  "environment_owned facts projectID d = list_ex (\<lambda>e. ef_ID e = pd_EnvironmentID d \<and> ef_ProjectID e = projectID) (pf_Environments facts)"

definition runtime_owned :: "PlacementFacts \<Rightarrow> string \<Rightarrow> PolicyDraft \<Rightarrow> string \<Rightarrow> bool" where
  "runtime_owned facts projectID d rid = list_ex (\<lambda>rt. rf_ID rt = rid \<and> rf_ProjectID rt = projectID
     \<and> rf_EnvironmentID rt = pd_EnvironmentID d) (pf_Runtimes facts)"

definition binding_active :: "(nat \<Rightarrow> string \<Rightarrow> Binding option) \<Rightarrow> string \<Rightarrow> PolicyDraft \<Rightarrow> string \<Rightarrow> bool" where
  "binding_active resolve projectID d key = (case resolve (pd_RepositoryID d) key of None \<Rightarrow> False
     | Some b \<Rightarrow> bi_ProjectID b = projectID \<and> bi_RepositoryID b = pd_RepositoryID d \<and> bi_ServiceKey b = key)"

definition validateAuthority :: "('p, 's) policy_service \<Rightarrow> string \<Rightarrow> PolicyDraft \<Rightarrow> policy_error option" where
  "validateAuthority v projectID d = (case (tv_Facts (pv_Topology v), pv_Bindings v) of
     (Some source, Some resolve) \<Rightarrow>
       let not_found = PolicyError ''DEPLOYMENT_POLICY_PROJECT_NOT_FOUND'' 404 ''project policy facts are unavailable'' in
       (case source projectID of None \<Rightarrow> Some not_found | Some facts \<Rightarrow> first_failure
          [(pf_ProjectID facts \<noteq> projectID, not_found),
           (\<not> environment_owned facts projectID d,
             PolicyError ''DEPLOYMENT_POLICY_ENVIRONMENT_INVALID'' 400 ''environment is not owned by this project''),
           (\<not> list_all (runtime_owned facts projectID d) (pd_AllowedRuntimeIDs d),
             PolicyError ''DEPLOYMENT_POLICY_RUNTIME_INVALID'' 400 ''allowed runtime is not owned by the policy environment''),
           (\<not> list_all (binding_active resolve projectID d) (pd_ServiceKeys d),
             PolicyError ''DEPLOYMENT_POLICY_BINDING_INVALID'' 409 ''repository claim and service binding must be active'')])
   | _ \<Rightarrow> Some policy_unavailable)"

definition PreviewPolicyDraft :: "('p, 's) policy_service \<Rightarrow> string \<Rightarrow> PolicyDraft \<Rightarrow> policy_error + PolicyPreview" where
  "PreviewPolicyDraft v projectID d =
     (case normalize_policy (ph_draft (pv_Hashes v)) projectID d of Inl e \<Rightarrow> Inl e | Inr (n, h) \<Rightarrow>
      case validateAuthority v projectID n of Some e \<Rightarrow> Inl e | None \<Rightarrow>
      Inr \<lparr>ppv_Draft = n, ppv_PolicyHash = h, ppv_StateHash = []\<rparr>)"

definition GetPolicy :: "('p, 's) policy_service \<Rightarrow> string \<Rightarrow> string \<Rightarrow> 'p \<Rightarrow> policy_error + Policy" where
  "GetPolicy v projectID pid s = (case pv_Store v of None \<Rightarrow> Inl policy_unavailable | Some store \<Rightarrow> ps_Get store projectID pid s)"

definition ListPolicies :: "('p, 's) policy_service \<Rightarrow> string \<Rightarrow> 'p \<Rightarrow> policy_error + Policy list" where
  "ListPolicies v projectID s = (case pv_Store v of None \<Rightarrow> Inl policy_unavailable | Some store \<Rightarrow> ps_List store projectID s)"

definition DiffPolicy :: "('p, 's) policy_service \<Rightarrow> string \<Rightarrow> string \<Rightarrow> PolicyDraft \<Rightarrow> 'p \<Rightarrow> policy_error + PolicyDiff" where
  "DiffPolicy v projectID pid d s =
     (case PreviewPolicyDraft v projectID d of Inl e \<Rightarrow> Inl e | Inr preview \<Rightarrow>
      let result = \<lparr>pdf_PolicyID = pid, pdf_CurrentRevision = 0, pdf_CurrentHash = [], pdf_ProposedHash = ppv_PolicyHash preview,
            pdf_Changes = []\<rparr> in
      if pid = [] then Inr (result\<lparr>pdf_Changes := [\<lparr>pde_Field = ''policy'', pde_Before = None, pde_After = Some (ppv_Draft preview)\<rparr>]\<rparr>)
      else case GetPolicy v projectID pid s of Inl e \<Rightarrow> Inl e | Inr old \<Rightarrow>
      let result = result\<lparr>pdf_CurrentRevision := po_Revision old, pdf_CurrentHash := po_StateHash old\<rparr> in
      Inr (if po_PolicyHash old \<noteq> ppv_PolicyHash preview
           then result\<lparr>pdf_Changes := [\<lparr>pde_Field = ''policy'', pde_Before = Some (po_Draft old), pde_After = Some (ppv_Draft preview)\<rparr>]\<rparr>
           else result))"

definition new_policy :: "policy_call \<Rightarrow> string \<Rightarrow> string \<Rightarrow> string \<Rightarrow> PolicyDraft \<Rightarrow> Policy" where
  "new_policy c pid actor policyHash n =
     \<lparr>po_SchemaVersion = PolicySchemaVersion, po_ID = pid, po_Revision = 0, po_StateHash = [], po_PolicyHash = policyHash, po_Draft = n,
      po_CreatedBy = actor, po_AppliedBy = actor, po_CreatedAt = pc_Now c, po_AppliedAt = pc_Now c\<rparr>"

definition policy_result :: "policy_error + Policy \<times> bool \<Rightarrow> policy_error + PolicyApplyResult" where
  "policy_result r = (case r of Inl e \<Rightarrow> Inl e | Inr (p, reused) \<Rightarrow> Inr \<lparr>pres_Policy = p, pres_Reused = reused\<rparr>)"

text \<open>The check of the key is that of package topology, with this package's error.\<close>

definition validateKey :: "string \<Rightarrow> policy_error option" where
  "validateKey value = (case validateIdempotencyKey value of Some (TopologyError code status message) \<Rightarrow> Some (PolicyError code status message)
     | _ \<Rightarrow> None)"

definition ApplyPolicy :: "('p, 's) policy_service \<Rightarrow> policy_call \<Rightarrow> string \<Rightarrow> string \<Rightarrow> string \<Rightarrow> PolicyApplyRequest \<Rightarrow> 'p
    \<Rightarrow> (policy_error + PolicyApplyResult) \<times> 'p" where
  "ApplyPolicy v c projectID actor key request s =
     (case pv_Store v of None \<Rightarrow> (Inl policy_unavailable, s) | Some store \<Rightarrow>
      if TrimSpace actor = [] then (Inl policy_unavailable, s) else
      case validateKey key of Some e \<Rightarrow> (Inl e, s) | None \<Rightarrow>
      case normalize_policy (ph_draft (pv_Hashes v)) projectID (par_Draft request) of Inl e \<Rightarrow> (Inl e, s) | Inr (n, policyHash) \<Rightarrow>
      let request = request\<lparr>par_Draft := n\<rparr> in
      case ph_apply (pv_Hashes v) request of None \<Rightarrow> (Inl policy_unavailable, s) | Some payloadHash \<Rightarrow>
      case ps_ReplayPolicy store projectID ''policy_apply'' key payloadHash s of
        Inl e \<Rightarrow> (Inl e, s)
      | Inr (Some p) \<Rightarrow> (Inr \<lparr>pres_Policy = p, pres_Reused = True\<rparr>, s)
      | Inr None \<Rightarrow>
      case validateAuthority v projectID n of Some e \<Rightarrow> (Inl e, s) | None \<Rightarrow>
      (case ps_Apply store (pc_Random c) key payloadHash request (new_policy c (par_PolicyID request) actor policyHash n) s of
        (r, s') \<Rightarrow> (policy_result r, s')))"

definition DisablePolicy :: "('p, 's) policy_service \<Rightarrow> policy_call \<Rightarrow> string \<Rightarrow> string \<Rightarrow> string \<Rightarrow> string \<Rightarrow> DisableRequest \<Rightarrow> 'p
    \<Rightarrow> (policy_error + PolicyApplyResult) \<times> 'p" where
  "DisablePolicy v c projectID pid actor key request s =
     (case pv_Store v of None \<Rightarrow> (Inl policy_unavailable, s) | Some store \<Rightarrow>
      if TrimSpace actor = [] then (Inl policy_unavailable, s) else
      case validateKey key of Some e \<Rightarrow> (Inl e, s) | None \<Rightarrow>
      case ph_disable (pv_Hashes v) (pid, request) of None \<Rightarrow> (Inl policy_unavailable, s) | Some payloadHash \<Rightarrow>
      case ps_ReplayPolicy store projectID ''policy_disable'' key payloadHash s of
        Inl e \<Rightarrow> (Inl e, s)
      | Inr (Some p) \<Rightarrow> (Inr \<lparr>pres_Policy = p, pres_Reused = True\<rparr>, s)
      | Inr None \<Rightarrow>
      (case ps_Disable store projectID pid actor key payloadHash request (pc_Now c) s of
        (r, s') \<Rightarrow> (policy_result r, s')))"

section \<open>Routing\<close>

definition decisionHash :: "policy_hashes \<Rightarrow> RoutingDecision \<Rightarrow> string" where
  "decisionHash H d = hashMust (ph_decision H) (d\<lparr>rd_DecidedAt := zero_time, rd_DecisionHash := []\<rparr>)"

type_synonym route = "RoutingDecision \<times> policy_error option"

definition reject_route :: "policy_hashes \<Rightarrow> RoutingDecision \<Rightarrow> string \<Rightarrow> string \<Rightarrow> route" where
  "reject_route H d code message =
     (let d = d\<lparr>rd_Eligible := False, rd_DecisionCode := code, rd_Message := message\<rparr> in
      (d\<lparr>rd_DecisionHash := decisionHash H d\<rparr>, Some (PolicyError code 409 message)))"

definition first_decision :: "policy_call \<Rightarrow> string \<Rightarrow> RoutingRequest \<Rightarrow> RoutingDecision" where
  "first_decision c projectID request =
     \<lparr>rd_SchemaVersion = PolicySchemaVersion, rd_ProjectID = projectID, rd_BuildRecordID = rq_BuildRecordID request, rd_ServiceKey = [],
      rd_EnvironmentID = rq_EnvironmentID request, rd_RuntimeID = [], rd_NodeID = [], rd_AgentID = [], rd_TopologyPlanID = [],
      rd_TopologyRevision = 0, rd_DeploymentPolicyID = [], rd_DeploymentPolicyRevision = 0, rd_Eligible = False, rd_DecisionCode = [],
      rd_Message = [], rd_DecisionHash = [], rd_UnknownCapacityOverride = False, rd_DecidedAt = pc_Now c\<rparr>"

definition record_valid :: "string \<Rightarrow> BuildRecord \<Rightarrow> bool" where
  "record_valid projectID r = (br_SchemaVersion r = BuildRecordSchemaVersion \<and> br_ProjectID r = projectID
     \<and> br_RepositoryID r = wi_RepositoryID (br_Workload r) \<and> br_RepositoryOwnerID r = wi_RepositoryOwnerID (br_Workload r)
     \<and> bd_Status (br_Build r) = ''succeeded'')"

definition record_bound :: "(nat \<Rightarrow> string \<Rightarrow> Binding option) \<Rightarrow> string \<Rightarrow> BuildRecord \<Rightarrow> bool" where
  "record_bound resolve projectID r = (case resolve (br_RepositoryID r) (br_ServiceKey r) of None \<Rightarrow> False
     | Some b \<Rightarrow> bi_ProjectID b = projectID \<and> bi_RepositoryID b = br_RepositoryID r \<and> bi_RepositoryOwnerID b = br_RepositoryOwnerID r
         \<and> bi_BindingID b = br_ActiveBindingID r \<and> bi_ServiceID b = br_ServiceID r)"

text \<open>The policy, the topology validation and the Agent of one assignment.\<close>

definition policy_admits :: "BuildRecord \<Rightarrow> bool \<Rightarrow> string \<Rightarrow> string \<Rightarrow> Policy \<Rightarrow> bool" where
  "policy_admits r automatic environmentID runtimeID p =
     ((automatic \<and> pd_Enabled (po_Draft p) \<and> automaticPolicyMatches (po_Draft p) r
        \<or> \<not> automatic \<and> pd_Enabled (po_Draft p) \<and> policyMatches (po_Draft p) r environmentID)
      \<and> pd_EnvironmentID (po_Draft p) = environmentID \<and> contains (pd_AllowedRuntimeIDs (po_Draft p)) runtimeID)"

definition policy_override :: "PolicyDraft \<Rightarrow> CapacityOverride" where
  "policy_override p = \<lparr>co_Allowed = pd_AllowUnknownCapacity p, co_EnvironmentID = pd_EnvironmentID p, co_ServiceKeys = pd_ServiceKeys p,
     co_RuntimeIDs = pd_AllowedRuntimeIDs p\<rparr>"

definition route_runtime :: "policy_hashes \<Rightarrow> RoutingDecision \<Rightarrow> RuntimeValidation option \<Rightarrow> route" where
  "route_runtime H d runtime = (case runtime of
     None \<Rightarrow> reject_route H d ''ROUTING_RUNTIME_INELIGIBLE'' ''runtime failed health, heartbeat, capacity, or Agent validation''
   | Some rv \<Rightarrow>
       if \<not> rv_Eligible rv
       then (case rv_Issues rv of
           [] \<Rightarrow> reject_route H d ''ROUTING_RUNTIME_INELIGIBLE'' ''runtime failed health, heartbeat, capacity, or Agent validation''
         | issue # _ \<Rightarrow> reject_route H d (is_Code issue) (is_Message issue))
       else let d = d\<lparr>rd_NodeID := cp_NodeID (rv_Capacity rv), rd_AgentID := cp_AgentID (rv_Capacity rv),
                  rd_UnknownCapacityOverride := cp_UnknownCapacityPolicyOverride (rv_Capacity rv)\<rparr> in
         if rd_AgentID d = [] \<or> rd_NodeID d = []
         then reject_route H d ''ROUTING_AGENT_MISSING'' ''eligible runtime did not resolve exactly one deploy Agent''
         else let d = d\<lparr>rd_Eligible := True, rd_DecisionCode := ''ROUTING_ELIGIBLE'',
                    rd_Message := ''BuildRecord is eligible for this runtime and Agent''\<rparr> in
           (d\<lparr>rd_DecisionHash := decisionHash H d\<rparr>, None))"

definition route_assignment :: "('p, 's) policy_service \<Rightarrow> policy_call \<Rightarrow> string \<Rightarrow> RoutingRequest \<Rightarrow> BuildRecord \<Rightarrow> Plan \<Rightarrow> Policy list
    \<Rightarrow> Assignment \<Rightarrow> RoutingDecision \<Rightarrow> 's \<Rightarrow> route" where
  "route_assignment v c projectID request r plan policies a d t =
     (case filter (policy_admits r (rq_Automatic request) (rq_EnvironmentID request) (as_RuntimeID a)) policies of
        [] \<Rightarrow> reject_route (pv_Hashes v) d ''ROUTING_POLICY_MISMATCH''
          ''no active DeploymentPolicy exact-matches the BuildRecord, environment, and topology runtime''
      | [p] \<Rightarrow>
          let d = d\<lparr>rd_DeploymentPolicyID := po_ID p, rd_DeploymentPolicyRevision := po_Revision p, rd_RuntimeID := as_RuntimeID a\<rparr> in
          (case ValidateScoped (pv_Topology v) (pc_Topology c) projectID
             \<lparr>dr_SchemaVersion = TopologySchemaVersion, dr_ProjectID = projectID, dr_Assignments = pl_Assignments plan\<rparr>
             (policy_override (po_Draft p)) t of
             Inl e \<Rightarrow> (d, Some (PolicyTopology e))
           | Inr validation \<Rightarrow> route_runtime (pv_Hashes v) d (List.find (\<lambda>rv. rv_RuntimeID rv = as_RuntimeID a) (vr_Runtimes validation)))
      | _ \<Rightarrow> reject_route (pv_Hashes v) d ''ROUTING_POLICY_AMBIGUOUS'' ''more than one active DeploymentPolicy exact-matches the route'')"

definition route_plan :: "('p, 's) policy_service \<Rightarrow> policy_call \<Rightarrow> string \<Rightarrow> RoutingRequest \<Rightarrow> BuildRecord \<Rightarrow> Plan \<Rightarrow> Policy list
    \<Rightarrow> RoutingDecision \<Rightarrow> 's \<Rightarrow> route" where
  "route_plan v c projectID request r plan policies d t =
     (case filter (\<lambda>a. as_ServiceKey a = br_ServiceKey r) (pl_Assignments plan) of
        [] \<Rightarrow> reject_route (pv_Hashes v) d ''ROUTING_TOPOLOGY_MISMATCH'' ''TopologyPlan has no assignment for the BuildRecord service''
      | mine \<Rightarrow> (case filter (\<lambda>a. as_EnvironmentID a = rq_EnvironmentID request) mine of
          [] \<Rightarrow> reject_route (pv_Hashes v) d ''ROUTING_POLICY_MISMATCH''
            ''no active DeploymentPolicy exact-matches the BuildRecord and environment''
        | [a] \<Rightarrow> route_assignment v c projectID request r plan policies a d t
        | _ \<Rightarrow> reject_route (pv_Hashes v) d ''ROUTING_TOPOLOGY_MISMATCH''
            ''TopologyPlan must contain exactly one matching service assignment''))"

definition route_policies :: "('p, 's) policy_service \<Rightarrow> policy_call \<Rightarrow> string \<Rightarrow> RoutingRequest \<Rightarrow> BuildRecord \<Rightarrow> Plan \<Rightarrow> Policy list
    \<Rightarrow> RoutingDecision \<Rightarrow> 's \<Rightarrow> route" where
  "route_policies v c projectID request r plan policies d t =
     (if rq_Automatic request
      then (case filter (\<lambda>p. pd_Enabled (po_Draft p) \<and> automaticPolicyMatches (po_Draft p) r) policies of
          [] \<Rightarrow> reject_route (pv_Hashes v) d ''ROUTING_AUTOMATIC_DISABLED'' ''no active policy authorizes this automatic delivery''
        | [p] \<Rightarrow> route_plan v c projectID (request\<lparr>rq_EnvironmentID := pd_EnvironmentID (po_Draft p)\<rparr>) r plan policies
            (d\<lparr>rd_EnvironmentID := pd_EnvironmentID (po_Draft p)\<rparr>) t
        | _ \<Rightarrow> reject_route (pv_Hashes v) d ''ROUTING_POLICY_AMBIGUOUS'' ''more than one active policy authorizes this automatic delivery'')
      else route_plan v c projectID request r plan policies d t)"

definition Route :: "('p, 's) policy_service \<Rightarrow> policy_call \<Rightarrow> string \<Rightarrow> RoutingRequest \<Rightarrow> 'p \<Rightarrow> 's \<Rightarrow> route" where
  "Route v c projectID request s t =
     (let d = first_decision c projectID request; H = pv_Hashes v in
      case (pv_BuildRecords v, pv_Bindings v, pv_Store v) of
        (Some build_records, Some resolve, Some store) \<Rightarrow>
          (case build_records projectID (rq_BuildRecordID request) of
             None \<Rightarrow> reject_route H d ''ROUTING_BUILD_RECORD_NOT_FOUND'' ''accepted BuildRecord was not found''
           | Some r \<Rightarrow>
               let d = d\<lparr>rd_ServiceKey := br_ServiceKey r\<rparr> in
               if \<not> record_valid projectID r
               then reject_route H d ''ROUTING_BUILD_RECORD_INVALID'' ''BuildRecord status or stored workload identity is invalid''
               else if \<not> record_bound resolve projectID r
               then reject_route H d ''ROUTING_BINDING_INACTIVE'' ''repository claim or service binding is no longer active''
               else (case GetPlan (pv_Topology v) projectID t of
                   Inl _ \<Rightarrow> reject_route H d ''ROUTING_TOPOLOGY_MISSING'' ''no active TopologyPlan is available''
                 | Inr plan \<Rightarrow>
                     let d = d\<lparr>rd_TopologyPlanID := pl_ID plan, rd_TopologyRevision := pl_Revision plan\<rparr> in
                     (case ps_List store projectID s of Inl e \<Rightarrow> (d, Some e)
                      | Inr policies \<Rightarrow> route_policies v c projectID request r plan policies d t)))
      | _ \<Rightarrow> (d, Some policy_unavailable))"

end
