(* ===== verification/Deployment_Policy_Properties.thy ===== *)
theory Deployment_Policy_Properties
  imports Deployment_Routing
begin

text \<open>
  What a normalised policy is: canonical lists on which the binary search decides membership, and a
  fixed point of the normalisation; and what matching a build record means for one.
\<close>

section \<open>The binary search\<close>

lemma search_result:
  "sorted vs \<Longrightarrow> i \<le> j \<Longrightarrow> j \<le> length vs \<Longrightarrow> (\<And>k. k < i \<Longrightarrow> vs ! k < t) \<Longrightarrow> (\<And>k. j \<le> k \<Longrightarrow> k < length vs \<Longrightarrow> t \<le> vs ! k)
    \<Longrightarrow> search vs t i j \<le> j \<and> (\<forall>k < search vs t i j. vs ! k < t) \<and> (\<forall>k. search vs t i j \<le> k \<longrightarrow> k < length vs \<longrightarrow> t \<le> vs ! k)"
proof (induction vs t i j rule: search.induct)
  case (1 vs t i j)
  define h where "h = (i + j) div 2"
  show ?case
  proof (cases "i < j")
    case False
    then have eq: "search vs t i j = i" unfolding search.simps [of vs t i j] by (rule if_not_P)
    have "i = j" using False 1(4) by linarith
    with 1(6,7) show ?thesis unfolding eq by simp
  next
    case True
    then have h: "i \<le> h" "h < j" "h < length vs" using 1(5) by (auto simp: h_def)
    show ?thesis
    proof (cases "vs ! h < t")
      case low: True
      then have eq: "search vs t i j = search vs t (Suc h) j" unfolding search.simps [of vs t i j] Let_def h_def using True by (simp only: if_True if_False)
      have "vs ! k < t" if "k < Suc h" for k
        by (rule le_less_trans [OF sorted_nth_mono [OF 1(3)] low]) (use h that in simp_all)
      from 1(1) [OF True h_def low 1(3) _ 1(5) this 1(7)] h(2) show ?thesis unfolding eq by simp
    next
      case high: False
      then have eq: "search vs t i j = search vs t i h" unfolding search.simps [of vs t i j] Let_def h_def using True by (simp only: if_True if_False)
      have "t \<le> vs ! k" if "h \<le> k" "k < length vs" for k
        by (rule order_trans [OF leI [OF high] sorted_nth_mono [OF 1(3) that]])
      from 1(2) [OF True h_def high 1(3) h(1) _ 1(6) this] h show ?thesis unfolding eq by simp
    qed
  qed
qed

lemma SearchStrings_sorted:
  assumes "sorted vs"
  shows "SearchStrings vs t = length (filter (\<lambda>v. v < t) vs)"
proof -
  define r where "r = SearchStrings vs t"
  have r: "r \<le> length vs" "\<forall>k < r. vs ! k < t" "\<forall>k. r \<le> k \<longrightarrow> k < length vs \<longrightarrow> t \<le> vs ! k"
    using search_result [OF assms, of 0 "length vs" t] by (auto simp: r_def SearchStrings_def)
  have "filter (\<lambda>v. v < t) (take r vs) = take r vs"
    using r by (auto simp: filter_id_conv in_set_conv_nth)
  moreover have "filter (\<lambda>v. v < t) (drop r vs) = []"
    using r by (force simp: filter_empty_conv in_set_conv_nth not_less)
  ultimately have "filter (\<lambda>v. v < t) vs = take r vs"
    using filter_append [of "\<lambda>v. v < t" "take r vs" "drop r vs"] by simp
  then show ?thesis using r(1) by (simp add: r_def [symmetric])
qed

lemma contains_sorted:
  assumes "sorted vs"
  shows "contains vs t \<longleftrightarrow> t \<in> set vs"
proof
  assume "contains vs t"
  then show "t \<in> set vs" unfolding contains_def Let_def by (metis nth_mem)
next
  define r where "r = SearchStrings vs t"
  have r: "\<forall>k < r. vs ! k < t" "\<forall>k. r \<le> k \<longrightarrow> k < length vs \<longrightarrow> t \<le> vs ! k"
    using search_result [OF assms, of 0 "length vs" t] by (auto simp: r_def SearchStrings_def)
  assume "t \<in> set vs"
  then obtain i where i: "i < length vs" "vs ! i = t" by (auto simp: in_set_conv_nth)
  with r(1) have "r \<le> i" by (metis leI less_irrefl)
  with i r(2) sorted_nth_mono [OF assms, of r i] have "vs ! r = t" by (metis antisym le_less_trans le_refl)
  with \<open>r \<le> i\<close> i show "contains vs t" by (simp add: contains_def Let_def r_def [symmetric])
qed

section \<open>Normalised lists\<close>

lemma list_loop_Inr:
  "list_loop kind seen vs = Inr ws \<Longrightarrow> (\<forall>v \<in> set vs. \<not> bad_value kind (TrimSpace v)) \<and> distinct ws \<and> set ws = TrimSpace ` set vs - set seen
     \<and> length ws \<le> length vs"
proof (induction vs arbitrary: seen ws)
  case (Cons v vs)
  let ?v = "TrimSpace v"
  have ok: "\<not> bad_value kind ?v" using Cons.prems by (auto simp: Let_def)
  show ?case
  proof (cases "?v \<in> set seen")
    case True
    then have "list_loop kind seen vs = Inr ws" using Cons.prems ok by (simp add: Let_def)
    from Cons.IH [OF this] show ?thesis using ok True by auto
  next
    case False
    then obtain us where us: "list_loop kind (?v # seen) vs = Inr us" "ws = ?v # us"
      using Cons.prems ok by (auto simp: Let_def split: sum.splits)
    from Cons.IH [OF us(1)] show ?thesis using ok False us(2) by auto
  qed
qed simp

lemma list_loop_total: "\<forall>v \<in> set vs. \<not> bad_value kind (TrimSpace v) \<Longrightarrow> \<exists>ws. list_loop kind seen vs = Inr ws"
proof (induction vs arbitrary: seen)
  case (Cons v vs)
  then obtain ws ws' where "list_loop kind seen vs = Inr ws" "list_loop kind (TrimSpace v # seen) vs = Inr ws'" by fastforce
  with Cons.prems show ?case by (auto simp: Let_def)
qed simp

lemma sort_distinct_set: "distinct ws \<Longrightarrow> sort ws = sorted_list_of_set (set ws)"
  by (simp add: sorted_list_of_set_sort_remdups distinct_remdups_id)

lemma normalizeList_Inr:
  "normalizeList vs kind = Inr ws \<longleftrightarrow> length vs \<le> 50 \<and> (\<forall>v \<in> set vs. \<not> bad_value kind (TrimSpace v))
     \<and> ws = sorted_list_of_set (TrimSpace ` set vs)"
proof -
  have "normalizeList vs kind = Inr ws \<longleftrightarrow> length vs \<le> 50 \<and> (\<exists>us. list_loop kind [] vs = Inr us \<and> ws = sort us)"
    by (auto simp: normalizeList_def maxListItems_def split: sum.splits)
  also have "\<dots> \<longleftrightarrow> length vs \<le> 50 \<and> (\<forall>v \<in> set vs. \<not> bad_value kind (TrimSpace v)) \<and> ws = sorted_list_of_set (TrimSpace ` set vs)"
  proof (cases "\<forall>v \<in> set vs. \<not> bad_value kind (TrimSpace v)")
    case True
    then obtain us where us: "list_loop kind [] vs = Inr us" using list_loop_total by blast
    with list_loop_Inr [OF us] sort_distinct_set [of us] True show ?thesis by simp
  next
    case False
    then show ?thesis using list_loop_Inr [of kind "[]" vs] by blast
  qed
  finally show ?thesis .
qed

definition canonical_list :: "string \<Rightarrow> string list \<Rightarrow> bool" where
  "canonical_list kind ws \<longleftrightarrow> sorted ws \<and> distinct ws \<and> length ws \<le> 50 \<and> (\<forall>w \<in> set ws. TrimSpace w = w \<and> \<not> bad_value kind w)"

lemma normalizeList_canonical:
  assumes "normalizeList vs kind = Inr ws"
  shows "canonical_list kind ws"
proof -
  have n: "length vs \<le> 50" "\<forall>v \<in> set vs. \<not> bad_value kind (TrimSpace v)" "ws = sorted_list_of_set (TrimSpace ` set vs)"
    using assms by (auto simp: normalizeList_Inr)
  have "length ws \<le> 50"
    using n(1,3) card_image_le [of "set vs" TrimSpace] card_length [of vs] by (simp add: le_trans)
  then show ?thesis using n by (auto simp: canonical_list_def)
qed

lemma canonical_list_fixed: "canonical_list kind ws \<Longrightarrow> normalizeList ws kind = Inr ws"
  unfolding normalizeList_Inr canonical_list_def
  by (auto simp: image_def sorted_list_of_set.idem_if_sorted_distinct intro!: arg_cong [of _ _ sorted_list_of_set])

section \<open>Normalised policies\<close>

lemma lower_text_simps:
  "lower_text [] = []"
  "lower_text (c # rest) = (if HasPrefix (c # rest) [CHR 0xE2, CHR 0x84, CHR 0xAA] then CHR ''k'' # lower_text (drop 2 rest)
     else if HasPrefix (c # rest) [CHR 0xC4, CHR 0xB0] then CHR ''i'' # lower_text (drop 1 rest)
     else ascii_lower_char c # lower_text rest)"
  by (subst lower_text.simps, simp)+

lemma ToLower_lower_text: "ToLower (lower_text s) = lower_text s"
proof (induction s rule: lower_text.induct)
  case (1 s)
  have "ascii_lower_char (CHR ''k'') = CHR ''k''" "ascii_lower_char (CHR ''i'') = CHR ''i''" by (simp_all add: ascii_lower_char_def)
  with 1 show ?case by (cases s) (auto simp: lower_text_simps ToLower_def)
qed

lemma lower_text_ascii: "list_all (in_range 0 0x7F) s \<Longrightarrow> lower_text s = ToLower s"
  by (induction s) (auto simp: lower_text_simps ToLower_def in_range_def)

lemma set_TrimSuffix: "set (TrimSuffix s p) \<subseteq> set s"
  by (auto simp: TrimSuffix_def dest: in_set_takeD)

lemma ToLower_TrimSuffix: "ToLower s = s \<Longrightarrow> ToLower (TrimSuffix s p) = TrimSuffix s p"
  by (auto simp: ToLower_def TrimSuffix_def take_map [symmetric])

definition preview_ok :: "PreviewPolicy \<Rightarrow> bool" where
  "preview_ok p \<longleftrightarrow> (pp_Enabled p \<longrightarrow> NormalizeHostname (pp_HostnameSuffix p) = Inr (pp_HostnameSuffix p)
     \<and> 60 \<le> pp_TTLSeconds p \<and> pp_TTLSeconds p \<le> 604800 \<and> 1 \<le> pp_MaxReplicas p \<and> pp_MaxReplicas p \<le> 20)"

lemma normalize_preview_ok:
  assumes "preview_error (normalize_preview p) = None"
  shows "preview_ok (normalize_preview p)"
proof (cases "pp_Enabled p")
  case True
  let ?host = "TrimSuffix (lower_text (TrimSpace (pp_HostnameSuffix p))) ''.''"
  from assms True obtain w where "NormalizeHostname ?host = Inr w"
    by (cases "NormalizeHostname ?host") (auto simp: preview_error_def normalize_preview_def)
  moreover have "w = ?host"
    using calculation NormalizeHostname_Inr [of ?host w] ToLower_TrimSuffix [OF ToLower_lower_text] by simp
  ultimately show ?thesis using assms True
    by (auto simp: preview_ok_def preview_error_def normalize_preview_def split: if_splits)
qed (simp add: preview_ok_def normalize_preview_def)

lemma normalize_preview_fixed:
  assumes "preview_ok p"
  shows "normalize_preview p = p"
proof (cases "pp_Enabled p")
  case True
  let ?host = "pp_HostnameSuffix p"
  have n: "NormalizeHostname ?host = Inr ?host" using assms True by (simp add: preview_ok_def)
  note shape = NormalizeHostname_Inr [THEN iffD1, OF n]
  show ?thesis
    using True shape by (simp add: normalize_preview_def lower_text_ascii TrimSuffix_def)
qed (simp add: normalize_preview_def)

text \<open>What a normalised draft keeps: all that the code checks, and the lists in canonical form.\<close>

definition canonical_lists :: "PolicyDraft \<Rightarrow> bool" where
  "canonical_lists d \<longleftrightarrow> list_all (\<lambda>(read, _, kind). canonical_list kind (read d)) policy_lists"

lemmas canonical_lists_unfold = canonical_lists_def [unfolded policy_lists_def list.pred_inject prod.case]

text \<open>A field that the lists do not reach.\<close>

definition list_fields_of :: "PolicyDraft \<Rightarrow> PolicyDraft \<Rightarrow> PolicyDraft" where
  "list_fields_of n d = d\<lparr>pd_ServiceKeys := pd_ServiceKeys n, pd_WorkflowRefs := pd_WorkflowRefs n, pd_JobWorkflowRefs := pd_JobWorkflowRefs n,
     pd_AllowedEvents := pd_AllowedEvents n, pd_AllowedGitRefs := pd_AllowedGitRefs n, pd_AllowedRuntimeIDs := pd_AllowedRuntimeIDs n,
     pd_AllowedOCIRepositories := pd_AllowedOCIRepositories n, pd_AllowedOCIPrefixes := pd_AllowedOCIPrefixes n,
     pd_AllowedPlatforms := pd_AllowedPlatforms n, pd_AllowedConfigHashes := pd_AllowedConfigHashes n,
     pd_AllowedBuildPlanHashes := pd_AllowedBuildPlanHashes n\<rparr>"

lemma bind_Inr: "(case x of Inl e \<Rightarrow> Inl e | Inr v \<Rightarrow> f v) = Inr r \<longleftrightarrow> (\<exists>v. x = Inr v \<and> f v = Inr r)"
  by (cases x) auto

lemma normalize_lists_Inr:
  assumes "normalize_lists policy_lists d = Inr n"
  shows "canonical_lists n" "n = list_fields_of n d"
  using assms unfolding policy_lists_def normalize_lists.simps bind_Inr
  by (auto simp: canonical_lists_unfold list_fields_of_def normalizeList_canonical)

lemma normalize_lists_fixed: "canonical_lists d \<Longrightarrow> normalize_lists policy_lists d = Inr d"
  unfolding canonical_lists_unfold policy_lists_def normalize_lists.simps bind_Inr
  by (simp add: canonical_list_fixed)

definition policy_canonical :: "string \<Rightarrow> PolicyDraft \<Rightarrow> bool" where
  "policy_canonical pid d \<longleftrightarrow> contract_error pid d = None \<and> TrimSpace (pd_EnvironmentID d) = pd_EnvironmentID d \<and> canonical_lists d
     \<and> lists_error d = None \<and> preview_ok (pd_Preview d) \<and> preview_error (pd_Preview d) = None \<and> prefixes_error d = None"

lemma preview_irrelevant [simp]:
  "prefixes_error (d\<lparr>pd_Preview := p\<rparr>) = prefixes_error d" "lists_error (d\<lparr>pd_Preview := p\<rparr>) = lists_error d"
  "contract_error pid (d\<lparr>pd_Preview := p\<rparr>) = contract_error pid d" "canonical_lists (d\<lparr>pd_Preview := p\<rparr>) = canonical_lists d"
  by (simp_all add: prefixes_error_def lists_error_def contract_error_def canonical_lists_unfold)

lemma environment_irrelevant [simp]:
  "contract_error pid (d\<lparr>pd_EnvironmentID := TrimSpace (pd_EnvironmentID d)\<rparr>) = contract_error pid d"
  by (simp add: contract_error_def)

lemma lists_irrelevant [simp]: "contract_error pid (list_fields_of n d) = contract_error pid d"
    "pd_EnvironmentID (list_fields_of n d) = pd_EnvironmentID d"
  by (simp_all add: contract_error_def list_fields_of_def)

lemma normalize_policy_Inr:
  assumes "normalize_policy h pid d = Inr (n, ph)"
  shows "policy_canonical pid n" "h n = Some ph"
proof -
  have c: "contract_error pid d = None" using assms by (auto simp: normalize_policy_def split: option.splits)
  obtain m where m: "normalize_lists policy_lists (d\<lparr>pd_EnvironmentID := TrimSpace (pd_EnvironmentID d)\<rparr>) = Inr m"
    using assms c by (auto simp: normalize_policy_def split: sum.splits)
  let ?n = "m\<lparr>pd_Preview := normalize_preview (pd_Preview m)\<rparr>"
  have n: "n = ?n" "lists_error m = None" "preview_error (pd_Preview ?n) = None" "prefixes_error m = None" "h n = Some ph"
    using assms c m by (auto simp: normalize_policy_def Let_def or_else_None split: option.splits)
  then show "h n = Some ph" by blast
  have "canonical_lists m" using normalize_lists_Inr(1) [OF m] .
  moreover have "pd_EnvironmentID m = TrimSpace (pd_EnvironmentID d)" "contract_error pid m = None"
    using c by (subst normalize_lists_Inr(2) [OF m], simp)+
  ultimately show "policy_canonical pid n"
    using n normalize_preview_ok [of "pd_Preview m"] by (auto simp: policy_canonical_def)
qed

lemma normalize_policy_fixed:
  assumes "policy_canonical pid d" "h d = Some ph"
  shows "normalize_policy h pid d = Inr (d, ph)"
proof -
  note canonical = assms(1) [unfolded policy_canonical_def]
  have same: "d\<lparr>pd_EnvironmentID := TrimSpace (pd_EnvironmentID d)\<rparr> = d" "d\<lparr>pd_Preview := normalize_preview (pd_Preview d)\<rparr> = d"
    using canonical normalize_preview_fixed by simp_all
  have "contract_error pid d = None" "normalize_lists policy_lists d = Inr d" "lists_error d = None"
      "or_else (preview_error (pd_Preview d)) (prefixes_error d) = None"
    using canonical normalize_lists_fixed by simp_all
  then show ?thesis
    unfolding normalize_policy_def Let_def same by (simp only: same option.case sum.case assms(2))
qed

text \<open>Disabling a policy leaves it canonical.\<close>

lemma enabled_irrelevant [simp]:
  "prefixes_error (d\<lparr>pd_Enabled := b\<rparr>) = prefixes_error d" "lists_error (d\<lparr>pd_Enabled := b\<rparr>) = lists_error d"
  "contract_error pid (d\<lparr>pd_Enabled := b\<rparr>) = contract_error pid d" "canonical_lists (d\<lparr>pd_Enabled := b\<rparr>) = canonical_lists d"
  by (simp_all add: prefixes_error_def lists_error_def contract_error_def canonical_lists_unfold)

lemma disabled_canonical: "policy_canonical pid d \<Longrightarrow> policy_canonical pid (d\<lparr>pd_Enabled := b\<rparr>)"
  by (simp add: policy_canonical_def)

section \<open>Matching\<close>

text \<open>What a policy asks of a build record, event and Git reference apart: membership in its lists.\<close>

definition policy_allows :: "PolicyDraft \<Rightarrow> BuildRecord \<Rightarrow> bool" where
  "policy_allows p r \<longleftrightarrow> pd_ProjectID p = br_ProjectID r \<and> pd_RepositoryID p = br_RepositoryID r
     \<and> br_ServiceKey r \<in> set (pd_ServiceKeys p) \<and> wi_WorkflowRef (br_Workload r) \<in> set (pd_WorkflowRefs p)
     \<and> bd_Platform (br_Build r) \<in> set (pd_AllowedPlatforms p) \<and> bd_ConfigHash (br_Build r) \<in> set (pd_AllowedConfigHashes p)
     \<and> (if bd_PlanHash (br_Build r) = [] then pd_AllowedBuildPlanHashes p = [] else bd_PlanHash (br_Build r) \<in> set (pd_AllowedBuildPlanHashes p))
     \<and> (if wi_JobWorkflowRef (br_Workload r) = [] then pd_JobWorkflowRefs p = [] else wi_JobWorkflowRef (br_Workload r) \<in> set (pd_JobWorkflowRefs p))
     \<and> (bd_OCIRepository (br_Build r) \<in> set (pd_AllowedOCIRepositories p)
        \<or> (\<exists>pre \<in> set (pd_AllowedOCIPrefixes p). HasPrefix (bd_OCIRepository (br_Build r) @ ''/'') pre))"

lemma canonical_contains:
  assumes "canonical_lists d"
  shows "contains (pd_ServiceKeys d) t \<longleftrightarrow> t \<in> set (pd_ServiceKeys d)" "contains (pd_WorkflowRefs d) t \<longleftrightarrow> t \<in> set (pd_WorkflowRefs d)"
    "contains (pd_JobWorkflowRefs d) t \<longleftrightarrow> t \<in> set (pd_JobWorkflowRefs d)" "contains (pd_AllowedEvents d) t \<longleftrightarrow> t \<in> set (pd_AllowedEvents d)"
    "contains (pd_AllowedGitRefs d) t \<longleftrightarrow> t \<in> set (pd_AllowedGitRefs d)" "contains (pd_AllowedRuntimeIDs d) t \<longleftrightarrow> t \<in> set (pd_AllowedRuntimeIDs d)"
    "contains (pd_AllowedOCIRepositories d) t \<longleftrightarrow> t \<in> set (pd_AllowedOCIRepositories d)"
    "contains (pd_AllowedPlatforms d) t \<longleftrightarrow> t \<in> set (pd_AllowedPlatforms d)"
    "contains (pd_AllowedConfigHashes d) t \<longleftrightarrow> t \<in> set (pd_AllowedConfigHashes d)"
    "contains (pd_AllowedBuildPlanHashes d) t \<longleftrightarrow> t \<in> set (pd_AllowedBuildPlanHashes d)"
  using assms by (auto simp: canonical_lists_unfold canonical_list_def contains_sorted)

lemma prefix_slash:
  assumes "HasSuffix pre ''/''"
  shows "(let p = TrimSuffix pre ''/'' in oci = p \<or> HasPrefix oci (p @ ''/'')) \<longleftrightarrow> HasPrefix (oci @ ''/'') pre"
proof -
  obtain p where pre: "pre = p @ ''/''" using assms by (auto simp: suffix_def)
  then have "TrimSuffix pre ''/'' = p" by (simp add: TrimSuffix_def suffix_def)
  then show ?thesis using pre by (auto simp: Let_def)
qed

lemma policyAllowsOCI_canonical:
  assumes "policy_canonical pid p"
  shows "policyAllowsOCI p r \<longleftrightarrow> bd_OCIRepository (br_Build r) \<in> set (pd_AllowedOCIRepositories p)
    \<or> (\<exists>pre \<in> set (pd_AllowedOCIPrefixes p). HasPrefix (bd_OCIRepository (br_Build r) @ ''/'') pre)"
proof -
  have lists: "canonical_lists p" and none: "prefixes_error p = None" using assms by (auto simp: policy_canonical_def)
  from none have "\<forall>pre \<in> set (pd_AllowedOCIPrefixes p). HasSuffix pre ''/''"
    unfolding prefixes_error_def first_failure_None list_ex_iff by auto
  then show ?thesis
    unfolding policyAllowsOCI_def list_ex_iff using prefix_slash by (auto simp: canonical_contains [OF lists])
qed

lemma policyMatches_canonical:
  assumes "policy_canonical pid p"
  shows "policyMatches p r env \<longleftrightarrow> policy_allows p r \<and> pd_EnvironmentID p = env
    \<and> wi_EventName (br_Workload r) \<in> set (pd_AllowedEvents p) \<and> wi_Ref (br_Workload r) \<in> set (pd_AllowedGitRefs p)"
proof -
  have "canonical_lists p" using assms by (simp add: policy_canonical_def)
  note lookups = canonical_contains [OF this]
  show ?thesis
    unfolding policyMatches_def policy_allows_def policyAllowsBuildPlan_def job_workflow_allowed_def policyAllowsOCI_canonical [OF assms] lookups
    by auto
qed

lemma automaticPolicyMatches_canonical:
  assumes "policy_canonical pid p"
  shows "automaticPolicyMatches p r \<longleftrightarrow> policy_allows p r
    \<and> (wi_EventName (br_Workload r) = ''push'' \<and> pd_AutomaticMain p \<and> wi_Ref (br_Workload r) = ''refs/heads/main''
       \<or> wi_EventName (br_Workload r) = ''pull_request'' \<and> pp_Enabled (pd_Preview p) \<and> ''pull_request'' \<in> set (pd_AllowedEvents p)
         \<and> HasPrefix (wi_Ref (br_Workload r)) ''refs/pull/'' \<and> HasSuffix (wi_Ref (br_Workload r)) ''/merge'')"
proof -
  have lists: "canonical_lists p" and none: "lists_error p = None" using assms by (simp_all add: policy_canonical_def)
  note lookups = canonical_contains [OF lists]
  have "pd_AutomaticMain p \<Longrightarrow> ''push'' \<in> set (pd_AllowedEvents p) \<and> ''refs/heads/main'' \<in> set (pd_AllowedGitRefs p)"
    using none unfolding lists_error_def first_failure_None lookups by auto
  then show ?thesis
    unfolding automaticPolicyMatches_def policy_allows_def policyAllowsBuildPlan_def job_workflow_allowed_def
      policyAllowsOCI_canonical [OF assms] lookups
    by (cases "wi_EventName (br_Workload r) = ''push''"; cases "wi_EventName (br_Workload r) = ''pull_request''"; simp; blast)
qed

end
