(* ===== verification/Topology_Runtimes.thy ===== *)
theory Topology_Runtimes
  imports Topology_Validation_Properties
begin

text \<open>
  The runtime verdicts of a validation (cloud/internal/topology/service.go, validate and
  validateRuntime): which runtimes it reports and with which verdict, for the callers that look one
  up, such as the routing of build records.
\<close>

section \<open>The runtimes of a validation\<close>

lemma find_only:
  assumes "\<And>x. x \<in> set xs \<Longrightarrow> P x \<Longrightarrow> x = y"
  shows "List.find P xs = (if \<exists>x \<in> set xs. P x then Some y else None)"
  using assms by (induction xs) auto

lemma index_by_Some: "index_by key xs k = Some x \<Longrightarrow> x \<in> set xs \<and> key x = k"
  unfolding index_by_def by (drule map_of_SomeD) auto

lemma vr_Runtimes_simps [simp]:
  "vr_Runtimes (addIssue code message a r) = vr_Runtimes r" "vr_Runtimes (issue_if bad code message a r) = vr_Runtimes r"
  "vr_Runtimes (check_service facts projectID a r) = vr_Runtimes r" "vr_Runtimes (check_environment facts projectID rt a r) = vr_Runtimes r"
  "set (vr_Runtimes (add_runtime rv r)) = insert rv (set (vr_Runtimes r))"
  by (auto simp: addIssue_def issue_if_def check_service_def check_environment_def add_runtime_def Let_def split: option.splits)

definition owned_runtime :: "PlacementFacts \<Rightarrow> string \<Rightarrow> string \<Rightarrow> RuntimeFact option" where
  "owned_runtime facts projectID rid = (case index_by rf_ID (pf_Runtimes facts) rid of None \<Rightarrow> None
     | Some rt \<Rightarrow> if rf_ProjectID rt = projectID then Some rt else None)"

definition verdicts :: "PlacementFacts \<Rightarrow> string \<Rightarrow> (RuntimeFact \<Rightarrow> string \<Rightarrow> RuntimeValidation) \<Rightarrow> string set \<Rightarrow> RuntimeValidation set" where
  "verdicts facts projectID check rids = (\<Union>rid \<in> rids. (\<lambda>rt. check rt rid) ` set_option (owned_runtime facts projectID rid))"

lemma verdicts_insert [simp]:
  "verdicts facts projectID check (insert rid rids) =
     (\<lambda>rt. check rt rid) ` set_option (owned_runtime facts projectID rid) \<union> verdicts facts projectID check rids"
  by (simp add: verdicts_def)

lemma validate_loop_runtimes:
  "set (vr_Runtimes (validate_loop facts projectID check seen as r)) =
     set (vr_Runtimes r) \<union> verdicts facts projectID check (as_RuntimeID ` set as - set seen)"
proof (induction as arbitrary: seen r)
  case (Cons a as)
  let ?rid = "as_RuntimeID a"
  show ?case
  proof (cases "?rid \<in> set seen \<or> owned_runtime facts projectID ?rid = None")
    case True
    then obtain r' where "validate_loop facts projectID check seen (a # as) r = validate_loop facts projectID check seen as r'"
        "vr_Runtimes r' = vr_Runtimes r"
      by (auto simp: Let_def owned_runtime_def split: option.splits if_splits)
    then show ?thesis using True by (auto simp: Cons.IH insert_Diff_if)
  next
    case False
    then obtain rt where rt: "index_by rf_ID (pf_Runtimes facts) ?rid = Some rt" "rf_ProjectID rt = projectID"
        "owned_runtime facts projectID ?rid = Some rt"
      by (auto simp: owned_runtime_def split: option.splits if_splits)
    have "insert ?rid (as_RuntimeID ` set as) - set seen = insert ?rid (as_RuntimeID ` set as - set (?rid # seen))"
      using False by auto
    moreover have "validate_loop facts projectID check seen (a # as) r = validate_loop facts projectID check (?rid # seen) as
        (add_runtime (check rt ?rid) (check_environment facts projectID rt a (check_service facts projectID a r)))"
      using False by (simp add: Let_def rt)
    ultimately show ?thesis using rt by (simp add: Cons.IH del: validate_loop.simps) 
  qed
qed (simp add: verdicts_def)

lemma rv_RuntimeID_checks [simp]:
  "rv_RuntimeID (check_agents s now facts rt rv) = rv_RuntimeID rv" "rv_RuntimeID (check_capacity requested rv) = rv_RuntimeID rv"
  by (simp_all add: check_agents_def check_capacity_def Let_def split: list.split)

lemma rv_RuntimeID_validateRuntime [simp]: "rv_RuntimeID (validateRuntime s facts rt assigned requested allowed now getcap) = rf_ID rt"
  by (simp add: validateRuntime_def Let_def split: option.split)

lemma validate_find:
  "List.find (\<lambda>rv. rv_RuntimeID rv = rid) (vr_Runtimes (validate s now getcap facts current draft planHash co)) =
     (if rid \<in> as_RuntimeID ` set (dr_Assignments draft)
      then map_option (\<lambda>rt. validateRuntime s facts rt (requestedByRuntime (pl_Assignments current) rid) (requestedByRuntime (dr_Assignments draft) rid)
          (scopedAssignmentOverrides (dr_Assignments draft) co rid = Some True) now getcap) (owned_runtime facts (dr_ProjectID draft) rid)
      else None)" (is "List.find ?P ?rvs = ?res")
proof -
  let ?check = "\<lambda>rt rid. validateRuntime s facts rt (requestedByRuntime (pl_Assignments current) rid) (requestedByRuntime (dr_Assignments draft) rid)
          (scopedAssignmentOverrides (dr_Assignments draft) co rid = Some True) now getcap"
  have set_eq: "set ?rvs = verdicts facts (dr_ProjectID draft) ?check (as_RuntimeID ` set (dr_Assignments draft))"
    unfolding validate_def Let_def by (simp add: validate_loop_runtimes)
  have id: "owned_runtime facts (dr_ProjectID draft) k = Some rt \<Longrightarrow> rf_ID rt = k" for k rt
    by (auto simp: owned_runtime_def dest: index_by_Some split: option.splits if_splits)
  have "\<And>x. x \<in> set ?rvs \<Longrightarrow> ?P x \<Longrightarrow> x = ?check (the (owned_runtime facts (dr_ProjectID draft) rid)) rid"
    unfolding set_eq verdicts_def using id by auto
  from find_only [OF this] have "List.find ?P ?rvs = (if \<exists>x \<in> set ?rvs. ?P x
      then Some (?check (the (owned_runtime facts (dr_ProjectID draft) rid)) rid) else None)" .
  moreover have "(\<exists>x \<in> set ?rvs. ?P x) \<longleftrightarrow> rid \<in> as_RuntimeID ` set (dr_Assignments draft) \<and> owned_runtime facts (dr_ProjectID draft) rid \<noteq> None"
    unfolding set_eq verdicts_def using id by fastforce
  ultimately show ?thesis by (cases "owned_runtime facts (dr_ProjectID draft) rid") auto
qed

text \<open>An eligible runtime has exactly one eligible pair of node and Agent, which its capacity names.\<close>

lemma eligible_pair:
  assumes "rv_Eligible (validateRuntime s facts rt assigned requested allowed now getcap)"
  obtains node agent where "eligible_pairs s now facts rt = [(node, agent)]"
    "cp_NodeID (rv_Capacity (validateRuntime s facts rt assigned requested allowed now getcap)) = nf_ID node"
    "cp_AgentID (rv_Capacity (validateRuntime s facts rt assigned requested allowed now getcap)) = af_ID agent"
proof -
  have "length (eligible_pairs s now facts rt) = 1" using assms unfolding validateRuntime_issues by (simp add: runtime_ok_def)
  then obtain node agent where pair: "eligible_pairs s now facts rt = [(node, agent)]" by (cases "eligible_pairs s now facts rt") auto
  show thesis
    by (rule that [OF pair])
      (simp_all add: validateRuntime_def Let_def check_agents_def pair capacity_source_def check_capacity_def split: sum.split)
qed

lemma override_needed:
  assumes "cp_UnknownCapacityPolicyOverride (rv_Capacity (validateRuntime s facts rt assigned requested allowed now getcap))"
  shows "allowed \<and> available_capacity s now facts rt getcap = None"
proof -
  have "cp_UnknownCapacityPolicyOverride (rv_Capacity (check_agents s now facts rt rv)) = cp_UnknownCapacityPolicyOverride (rv_Capacity rv)" for rv
    by (simp add: check_agents_def split: list.split)
  then show ?thesis
    using assms capacity_source_available [of s now facts rt getcap, symmetric]
    by (auto simp: validateRuntime_def Let_def zero_capacity_def check_capacity_def capacity_source_def split: option.splits if_splits sum.splits list.splits)
qed

end
