(* ===== verification/Deployment_Routing_Properties.thy ===== *)
theory Deployment_Routing_Properties
  imports Deployment_Policy_Properties Topology_Store_Properties Topology_Runtimes
begin

text \<open>
  What the policies in force are and what an eligible decision of Route means: the invariant of the
  stored policies under the requests of the service, the cases of an eligible decision, and the
  runtime that the topology service found for it.
\<close>

section \<open>The policies in force\<close>

definition memory_policies :: "policy_hashes \<Rightarrow> (policy_memory, 's) policy_service \<Rightarrow> bool" where
  "memory_policies H v \<longleftrightarrow> pv_Store v = Some (policy_memory_ops H) \<and> pv_Hashes v = H"

text \<open>The facts, bindings and clock of the service may differ from request to request.\<close>

inductive policies_reachable :: "policy_hashes \<Rightarrow> policy_memory \<Rightarrow> bool" for H where
  init: "policies_reachable H NewPolicyStore"
| apply_policy: "policies_reachable H s \<Longrightarrow> memory_policies H (v :: (policy_memory, memory_store) policy_service)
    \<Longrightarrow> ApplyPolicy v c projectID actor key request s = (res, s') \<Longrightarrow> policies_reachable H s'"
| disable_policy: "policies_reachable H s \<Longrightarrow> memory_policies H (v :: (policy_memory, memory_store) policy_service)
    \<Longrightarrow> DisablePolicy v c projectID pid actor key drequest s = (res, s') \<Longrightarrow> policies_reachable H s'"

definition policy_ok :: "policy_hashes \<Rightarrow> Policy \<Rightarrow> bool" where
  "policy_ok H p \<longleftrightarrow> policy_canonical (pd_ProjectID (po_Draft p)) (po_Draft p) \<and> po_PolicyHash p = hashMust (ph_draft H) (po_Draft p)
     \<and> po_StateHash p = policy_stateHash H (po_ID p) (po_Revision p) (po_PolicyHash p)"

definition stored_ok :: "policy_hashes \<Rightarrow> policy_memory \<Rightarrow> bool" where
  "stored_ok H s \<longleftrightarrow> policies_ok s \<and> (\<forall>pid p. map_of (pm_policies s) pid = Some p \<longrightarrow> policy_ok H p)"

lemma stored_ok_init: "stored_ok H NewPolicyStore"
  using NewPolicyStore_ok by (simp add: stored_ok_def NewPolicyStore_def)

lemma stored_ok_store:
  assumes "stored_ok H s" "policy_step H s (store_policy pid k h p s)" "policy_ok H p"
  shows "stored_ok H (store_policy pid k h p s)"
  using assms policy_step_ok by (auto simp: stored_ok_def)

lemma canonical_project: "policy_canonical projectID d \<Longrightarrow> pd_ProjectID d = projectID"
  by (auto simp: policy_canonical_def contract_error_def split: if_splits)

lemma applied_policy_ok:
  assumes "normalize_policy (ph_draft H) projectID d = Inr (n, policyHash)"
  shows "policy_ok H (applied_policy H random old (new_policy c pid actor policyHash n))"
proof -
  have "policy_canonical projectID n" "ph_draft H n = Some policyHash" using normalize_policy_Inr [OF assms] by simp_all
  moreover from this have "pd_ProjectID n = projectID" using canonical_project by blast
  ultimately show ?thesis by (simp add: policy_ok_def new_policy_def hashMust_def applied_policy_def Let_def)
qed

lemma disabled_policy_ok: "policy_ok H old \<Longrightarrow> policy_ok H (disabled_policy H actor now old)"
  using disabled_canonical [of "pd_ProjectID (po_Draft old)" "po_Draft old" False]
  by (simp add: policy_ok_def disabled_policy_def Let_def)

text \<open>The request of the service reaches the store with a normalised draft.\<close>

lemma ApplyPolicy_cases:
  assumes "ApplyPolicy v c projectID actor key request s = (res, s')" "memory_policies H v"
  obtains (same) "s' = s"
  | (stored) n policyHash payloadHash r where "normalize_policy (ph_draft H) projectID (par_Draft request) = Inr (n, policyHash)"
      "validateAuthority v projectID n = None"
      "policy_Apply H (pc_Random c) key payloadHash (request\<lparr>par_Draft := n\<rparr>) (new_policy c (par_PolicyID request) actor policyHash n) s = (r, s')"
      "res = policy_result r"
  using assms
  by (auto simp: ApplyPolicy_def memory_policies_def policy_memory_ops_def Let_def split: option.splits sum.splits prod.splits if_splits)

lemma DisablePolicy_cases:
  assumes "DisablePolicy v c projectID pid actor key request s = (res, s')" "memory_policies H v"
  obtains (same) "s' = s"
  | (stored) payloadHash r where "policy_Disable H projectID pid actor key payloadHash request (pc_Now c) s = (r, s')" "res = policy_result r"
  using assms
  by (auto simp: DisablePolicy_def memory_policies_def policy_memory_ops_def Let_def split: option.splits sum.splits prod.splits if_splits)

lemma policies_reachable_ok: "policies_reachable H s \<Longrightarrow> stored_ok H s"
proof (induction rule: policies_reachable.induct)
  case init
  show ?case by (rule stored_ok_init)
next
  case (apply_policy s v c projectID actor key request res s')
  from apply_policy(3,2) show ?case
  proof (cases rule: ApplyPolicy_cases)
    case (stored n policyHash payloadHash r)
    note step = policy_step.apply_step [OF stored(3)]
    from stored(3) show ?thesis
    proof (cases rule: policy_Apply_cases)
      case (fresh p)
      have "policy_ok H p" unfolding fresh(5) using stored(1) by (rule applied_policy_ok)
      then show ?thesis using stored_ok_store [OF apply_policy.IH] step fresh(6) by simp
    qed (use apply_policy.IH in simp_all)
  qed (use apply_policy.IH in simp)
next
  case (disable_policy s v c projectID pid actor key request res s')
  from disable_policy(3,2) show ?case
  proof (cases rule: DisablePolicy_cases)
    case (stored payloadHash r)
    note step = policy_step.disable_step [OF stored(1)]
    from stored(1) show ?thesis
    proof (cases rule: policy_Disable_cases)
      case (fresh old)
      have "policy_ok H (disabled_policy H actor (pc_Now c) old)"
        using disable_policy.IH fresh(3) by (intro disabled_policy_ok) (auto simp: stored_ok_def)
      then show ?thesis using stored_ok_store [OF disable_policy.IH] step fresh(7) by simp
    qed (use disable_policy.IH in simp_all)
  qed (use disable_policy.IH in simp)
qed

lemma policy_Get_Inr:
  "policy_Get projectID pid s = Inr p \<longleftrightarrow> map_of (pm_policies s) pid = Some p \<and> pd_ProjectID (po_Draft p) = projectID"
  by (auto simp: policy_Get_def split: option.splits)

lemma in_policy_List:
  assumes "policies_ok s" "policy_List projectID s = Inr policies"
  shows "p \<in> set policies \<longleftrightarrow> policy_Get projectID (po_ID p) s = Inr p" "distinct policies"
proof -
  have keys: "distinct (map fst (pm_policies s))" using assms(1) by (simp add: policies_ok_def)
  have ids: "(pid, p) \<in> set (pm_policies s) \<Longrightarrow> po_ID p = pid" for pid p
    using assms(1) map_of_is_SomeI [OF keys] policies_okD(1) by blast
  have policies: "policies = sort_key po_ID (filter (\<lambda>p. pd_ProjectID (po_Draft p) = projectID) (map snd (pm_policies s)))"
    using assms(2) by (simp add: policy_List_def)
  have "p \<in> set policies \<longleftrightarrow> pd_ProjectID (po_Draft p) = projectID \<and> (\<exists>pid. (pid, p) \<in> set (pm_policies s))"
    by (force simp: policies)
  also have "\<dots> \<longleftrightarrow> pd_ProjectID (po_Draft p) = projectID \<and> (po_ID p, p) \<in> set (pm_policies s)" using ids by blast
  also have "\<dots> \<longleftrightarrow> policy_Get projectID (po_ID p) s = Inr p" unfolding policy_Get_Inr map_of_eq_Some_iff [OF keys] by blast
  finally show "p \<in> set policies \<longleftrightarrow> policy_Get projectID (po_ID p) s = Inr p" .
  have "inj_on snd (set (pm_policies s))"
  proof (rule inj_onI)
    fix x y assume "x \<in> set (pm_policies s)" "y \<in> set (pm_policies s)" "snd x = snd y"
    then show "x = y" using ids [of "fst x" "snd x"] ids [of "fst y" "snd y"] by (metis prod.collapse)
  qed
  moreover have "distinct (pm_policies s)" using keys by (simp add: distinct_map)
  ultimately show "distinct policies" by (simp add: policies distinct_map)
qed

section \<open>An eligible decision\<close>

lemma not_rejected [simp]: "reject_route H d code message \<noteq> (d', None)"
  by (simp add: reject_route_def Let_def)

lemma route_runtime_None:
  assumes "route_runtime H d runtime = (d', None)"
  obtains rv where "runtime = Some rv" "rv_Eligible rv" "cp_NodeID (rv_Capacity rv) \<noteq> []" "cp_AgentID (rv_Capacity rv) \<noteq> []"
    "d' = d\<lparr>rd_NodeID := cp_NodeID (rv_Capacity rv), rd_AgentID := cp_AgentID (rv_Capacity rv),
      rd_UnknownCapacityOverride := cp_UnknownCapacityPolicyOverride (rv_Capacity rv), rd_Eligible := True,
      rd_DecisionCode := ''ROUTING_ELIGIBLE'', rd_Message := ''BuildRecord is eligible for this runtime and Agent'',
      rd_DecisionHash := rd_DecisionHash d'\<rparr>" "rd_DecisionHash d' = decisionHash H d'"
  using assms by (auto simp: route_runtime_def Let_def decisionHash_def split: option.splits if_splits list.splits)

lemma route_assignment_None:
  assumes "route_assignment v c projectID request r plan policies a d t = (d', None)"
  obtains p validation where
    "filter (policy_admits r (rq_Automatic request) (rq_EnvironmentID request) (as_RuntimeID a)) policies = [p]"
    "ValidateScoped (pv_Topology v) (pc_Topology c) projectID
       \<lparr>dr_SchemaVersion = TopologySchemaVersion, dr_ProjectID = projectID, dr_Assignments = pl_Assignments plan\<rparr>
       (policy_override (po_Draft p)) t = Inr validation"
    "route_runtime (pv_Hashes v)
       (d\<lparr>rd_DeploymentPolicyID := po_ID p, rd_DeploymentPolicyRevision := po_Revision p, rd_RuntimeID := as_RuntimeID a\<rparr>)
       (List.find (\<lambda>rv. rv_RuntimeID rv = as_RuntimeID a) (vr_Runtimes validation)) = (d', None)"
  using assms by (auto simp: route_assignment_def Let_def split: list.splits sum.splits)

lemma route_plan_None:
  assumes "route_plan v c projectID request r plan policies d t = (d', None)"
  obtains a where "filter (\<lambda>a. as_ServiceKey a = br_ServiceKey r \<and> as_EnvironmentID a = rq_EnvironmentID request) (pl_Assignments plan) = [a]"
    "route_assignment v c projectID request r plan policies a d t = (d', None)"
proof -
  let ?mine = "filter (\<lambda>a. as_ServiceKey a = br_ServiceKey r) (pl_Assignments plan)"
  have "filter (\<lambda>a. as_ServiceKey a = br_ServiceKey r \<and> as_EnvironmentID a = rq_EnvironmentID request) (pl_Assignments plan)
      = filter (\<lambda>a. as_EnvironmentID a = rq_EnvironmentID request) ?mine"
    by (simp add: conj_commute)
  moreover obtain a where "filter (\<lambda>a. as_EnvironmentID a = rq_EnvironmentID request) ?mine = [a]"
      "route_assignment v c projectID request r plan policies a d t = (d', None)"
  proof (cases ?mine)
    case Nil
    with assms show thesis by (simp add: route_plan_def)
  next
    case (Cons x xs)
    show thesis
    proof (cases "filter (\<lambda>a. as_EnvironmentID a = rq_EnvironmentID request) ?mine")
      case Nil
      with assms Cons show thesis by (simp add: route_plan_def)
    next
      case (Cons a as)
      with assms \<open>?mine = x # xs\<close> that show thesis
        by (cases as) (simp_all only: route_plan_def list.case not_rejected not_False_eq_True)
    qed
  qed
  ultimately show thesis using that by simp
qed

lemma route_policies_None:
  assumes "route_policies v c projectID request r plan policies d t = (d', None)" "rd_EnvironmentID d = rq_EnvironmentID request"
  obtains environmentID where
    "route_plan v c projectID (request\<lparr>rq_EnvironmentID := environmentID\<rparr>) r plan policies (d\<lparr>rd_EnvironmentID := environmentID\<rparr>) t = (d', None)"
    "rq_Automatic request \<or> environmentID = rq_EnvironmentID request"
proof (cases "rq_Automatic request")
  case True
  then show thesis using assms that by (auto simp: route_policies_def split: list.splits)
next
  case False
  have same: "request\<lparr>rq_EnvironmentID := rq_EnvironmentID request\<rparr> = request" "d\<lparr>rd_EnvironmentID := rq_EnvironmentID request\<rparr> = d"
    using assms(2) [symmetric] by simp_all
  show thesis
    by (rule that [of "rq_EnvironmentID request"], unfold same)
      (use assms False in \<open>simp_all add: route_policies_def\<close>)
qed

lemma Route_None:
  assumes "Route v c projectID request s t = (d', None)"
  obtains get resolve store r plan policies a p validation rv where
    "pv_BuildRecords v = Some get" "pv_Bindings v = Some resolve" "pv_Store v = Some store" "get projectID (rq_BuildRecordID request) = Some r"
    "record_valid projectID r" "record_bound resolve projectID r"
    "GetPlan (pv_Topology v) projectID t = Inr plan" "ps_List store projectID s = Inr policies"
    "filter (\<lambda>a. as_ServiceKey a = br_ServiceKey r \<and> as_EnvironmentID a = rd_EnvironmentID d') (pl_Assignments plan) = [a]"
    "filter (policy_admits r (rq_Automatic request) (rd_EnvironmentID d') (as_RuntimeID a)) policies = [p]"
    "rq_Automatic request \<or> rd_EnvironmentID d' = rq_EnvironmentID request"
    "ValidateScoped (pv_Topology v) (pc_Topology c) projectID
       \<lparr>dr_SchemaVersion = TopologySchemaVersion, dr_ProjectID = projectID, dr_Assignments = pl_Assignments plan\<rparr>
       (policy_override (po_Draft p)) t = Inr validation"
    "List.find (\<lambda>rv. rv_RuntimeID rv = as_RuntimeID a) (vr_Runtimes validation) = Some rv" "rv_Eligible rv"
    "cp_NodeID (rv_Capacity rv) \<noteq> []" "cp_AgentID (rv_Capacity rv) \<noteq> []"
    "rd_RuntimeID d' = as_RuntimeID a" "rd_DeploymentPolicyID d' = po_ID p" "rd_DeploymentPolicyRevision d' = po_Revision p"
    "rd_NodeID d' = cp_NodeID (rv_Capacity rv)" "rd_AgentID d' = cp_AgentID (rv_Capacity rv)"
    "rd_UnknownCapacityOverride d' = cp_UnknownCapacityPolicyOverride (rv_Capacity rv)" "rd_Eligible d'"
    "rd_DecisionHash d' = decisionHash (pv_Hashes v) d'"
proof -
  let ?d1 = "first_decision c projectID request"
  obtain get resolve store r plan policies where outer:
      "pv_BuildRecords v = Some get" "pv_Bindings v = Some resolve" "pv_Store v = Some store" "get projectID (rq_BuildRecordID request) = Some r"
      "record_valid projectID r" "record_bound resolve projectID r"
      "GetPlan (pv_Topology v) projectID t = Inr plan" "ps_List store projectID s = Inr policies"
    and run: "route_policies v c projectID request r plan policies
      (?d1\<lparr>rd_ServiceKey := br_ServiceKey r, rd_TopologyPlanID := pl_ID plan, rd_TopologyRevision := pl_Revision plan\<rparr>) t = (d', None)"
    using assms by (auto simp: Route_def Let_def split: option.splits sum.splits if_splits)
  define d where "d = ?d1\<lparr>rd_ServiceKey := br_ServiceKey r, rd_TopologyPlanID := pl_ID plan, rd_TopologyRevision := pl_Revision plan\<rparr>"
  have "rd_EnvironmentID d = rq_EnvironmentID request" by (simp add: d_def first_decision_def)
  from run [folded d_def] this obtain environmentID where env: "rq_Automatic request \<or> environmentID = rq_EnvironmentID request"
      and run: "route_plan v c projectID (request\<lparr>rq_EnvironmentID := environmentID\<rparr>) r plan policies
      (d\<lparr>rd_EnvironmentID := environmentID\<rparr>) t = (d', None)"
    by (rule route_policies_None)
  from run obtain a where a: "filter (\<lambda>a. as_ServiceKey a = br_ServiceKey r \<and> as_EnvironmentID a = environmentID) (pl_Assignments plan) = [a]"
      and run: "route_assignment v c projectID (request\<lparr>rq_EnvironmentID := environmentID\<rparr>) r plan policies a
      (d\<lparr>rd_EnvironmentID := environmentID\<rparr>) t = (d', None)"
    by (rule route_plan_None) simp
  from run show thesis
  proof (rule route_assignment_None)
    fix p validation
    assume p: "filter (policy_admits r (rq_Automatic (request\<lparr>rq_EnvironmentID := environmentID\<rparr>))
        (rq_EnvironmentID (request\<lparr>rq_EnvironmentID := environmentID\<rparr>)) (as_RuntimeID a)) policies = [p]"
      and validation: "ValidateScoped (pv_Topology v) (pc_Topology c) projectID
         \<lparr>dr_SchemaVersion = TopologySchemaVersion, dr_ProjectID = projectID, dr_Assignments = pl_Assignments plan\<rparr>
         (policy_override (po_Draft p)) t = Inr validation"
      and run: "route_runtime (pv_Hashes v) (d\<lparr>rd_EnvironmentID := environmentID, rd_DeploymentPolicyID := po_ID p,
         rd_DeploymentPolicyRevision := po_Revision p, rd_RuntimeID := as_RuntimeID a\<rparr>)
         (List.find (\<lambda>rv. rv_RuntimeID rv = as_RuntimeID a) (vr_Runtimes validation)) = (d', None)"
    from run show thesis
    proof (rule route_runtime_None)
      fix rv
      assume rv: "List.find (\<lambda>rv. rv_RuntimeID rv = as_RuntimeID a) (vr_Runtimes validation) = Some rv" "rv_Eligible rv"
          "cp_NodeID (rv_Capacity rv) \<noteq> []" "cp_AgentID (rv_Capacity rv) \<noteq> []"
        and d': "d' = d\<lparr>rd_EnvironmentID := environmentID, rd_DeploymentPolicyID := po_ID p,
           rd_DeploymentPolicyRevision := po_Revision p, rd_RuntimeID := as_RuntimeID a,
           rd_NodeID := cp_NodeID (rv_Capacity rv), rd_AgentID := cp_AgentID (rv_Capacity rv),
           rd_UnknownCapacityOverride := cp_UnknownCapacityPolicyOverride (rv_Capacity rv), rd_Eligible := True,
           rd_DecisionCode := ''ROUTING_ELIGIBLE'', rd_Message := ''BuildRecord is eligible for this runtime and Agent'',
           rd_DecisionHash := rd_DecisionHash d'\<rparr>"
        and hash: "rd_DecisionHash d' = decisionHash (pv_Hashes v) d'"
      have fields: "rd_EnvironmentID d' = environmentID" "rd_RuntimeID d' = as_RuntimeID a" "rd_DeploymentPolicyID d' = po_ID p"
          "rd_DeploymentPolicyRevision d' = po_Revision p" "rd_NodeID d' = cp_NodeID (rv_Capacity rv)" "rd_AgentID d' = cp_AgentID (rv_Capacity rv)"
          "rd_UnknownCapacityOverride d' = cp_UnknownCapacityPolicyOverride (rv_Capacity rv)" "rd_Eligible d'"
        by (subst d', simp)+
      show thesis
        by (rule that [OF outer _ _ _ validation rv fields(2-8) hash]) (use a p env fields(1) in simp_all)
    qed
  qed
qed

end
