(* ===== verification/Deployment_Properties.thy ===== *)
theory Deployment_Properties
  imports Deployment_Routing_Properties
begin

text \<open>
  The properties of deployment policies (cloud/internal/deploymentpolicy): matching, the policies in
  force, writes and their replay, and what an eligible routing decision rests on, down to the
  placement plan and the runtime verdict of the topology service. A concrete service over both
  stores in memory comes first.
\<close>

section \<open>A concrete service\<close>

definition sample_policy_hashes :: policy_hashes where
  "sample_policy_hashes = \<lparr>ph_draft = (\<lambda>d. Some (if pd_Enabled d \<and> pd_SchemaVersion d \<noteq> [] then ''on'' else ''off'')), ph_apply = (\<lambda>r. Some (par_ExpectedStateHash r @ ''0'')),
     ph_disable = (\<lambda>r. Some (fst r)), ph_state = (\<lambda>(pid, revision, h). Some (pid @ dec revision @ h)), ph_decision = (\<lambda>d. Some (rd_AgentID d))\<rparr>"

definition sample_policy_draft :: PolicyDraft where
  "sample_policy_draft = zero_draft\<lparr>pd_SchemaVersion := PolicySchemaVersion, pd_ProjectID := ''p1'', pd_RepositoryID := 7,
     pd_ServiceKeys := [''api'', ''web''], pd_WorkflowRefs := [''o/r/.github/workflows/ci.yml@refs/heads/main''],
     pd_AllowedEvents := [''push''], pd_AllowedGitRefs := [''refs/heads/main''], pd_EnvironmentID := ''env'', pd_AllowedRuntimeIDs := [''r1''],
     pd_AllowedOCIRepositories := [''ghcr.io/o/r''], pd_AllowedPlatforms := [''linux/amd64''],
     pd_AllowedConfigHashes := [replicate 64 CHR ''a''], pd_Enabled := True, pd_AutomaticMain := True\<rparr>"

lemma sample_values:
  "\<not> bad_value ''service'' ''api''" "\<not> bad_value ''service'' ''web''" "\<not> bad_value ''workflow'' ''o/r/.github/workflows/ci.yml@refs/heads/main''"
  "\<not> bad_value ''event'' ''push''" "\<not> bad_value ''ref'' ''refs/heads/main''" "\<not> bad_value ''opaque'' ''r1''"
  "\<not> bad_value ''oci'' ''ghcr.io/o/r''" "\<not> bad_value ''platform'' ''linux/amd64''"
  by (simp_all add: bad_value_def validPolicyValue_def value_bytes_def serviceKeyPattern_def policyWorkflow_def policyEvent_def policyRef_def
      opaqueID_def repositoryPattern_def policyPlatform_def some_of_def string_eval registry_host_def lower_alnum_def TrimSuffix_def is_alnum_def is_lower_def is_upper_def is_digit_def in_range_def ident_def)

lemma sample_hash_value: "\<not> bad_value ''hash'' (replicate 64 CHR ''a'')"
  using opaqueID_hash64(2) by (simp add: bad_value_def validPolicyValue_def value_bytes_def ContainsAny_def list_ex_iff)

lemma sample_hash_trimmed: "TrimSpace (replicate 64 CHR ''a'') = replicate 64 CHR ''a''"
  by (rule TrimSpace_printable) (simp add: list_all_iff in_range_def)

lemma sample_policy_canonical: "policy_canonical ''p1'' sample_policy_draft"
proof -
  have "canonical_lists sample_policy_draft"
    unfolding canonical_lists_unfold
    by (simp add: canonical_list_def sample_policy_draft_def zero_draft_def sample_values sample_hash_value string_eval sample_hash_trimmed)
  moreover have "TrimSpace ''env'' = ''env''" by (simp add: string_eval)
  ultimately show ?thesis
    using canonical_contains(4,5) [OF \<open>canonical_lists sample_policy_draft\<close>]
    by (simp add: policy_canonical_def contract_error_def sample_policy_draft_def zero_draft_def opaqueID_def ident_def is_alnum_def is_lower_def is_digit_def
       in_range_def lists_error_def preview_ok_def preview_error_def prefixes_error_def)
qed

definition sample_bindings :: "nat \<Rightarrow> string \<Rightarrow> Binding option" where
  "sample_bindings repository key = Some \<lparr>bi_ProjectID = ''p1'', bi_BindingID = ''b1'', bi_ServiceID = ''s1'', bi_ServiceKey = key,
     bi_RepositoryID = repository, bi_RepositoryOwnerID = 9, bi_RepositoryFullName = ''o/r''\<rparr>"

definition sample_record :: BuildRecord where
  "sample_record = \<lparr>br_SchemaVersion = BuildRecordSchemaVersion, br_ID = ''build1'', br_ProjectID = ''p1'', br_RepositoryID = 7,
     br_RepositoryOwnerID = 9, br_ActiveBindingID = ''b1'', br_ServiceID = ''s1'', br_ServiceKey = ''web'', br_CreatedAt = 0,
     br_Workload = \<lparr>wi_Issuer = [], wi_Subject = [], wi_RepositoryID = 7, wi_RepositoryOwnerID = 9, wi_Ref = ''refs/heads/main'', wi_SHA = [],
       wi_EventName = ''push'', wi_Workflow = [], wi_WorkflowRef = ''o/r/.github/workflows/ci.yml@refs/heads/main'', wi_JobWorkflowRef = [],
       wi_RunID = 1, wi_RunAttempt = 1\<rparr>,
     br_Build = \<lparr>bd_ConfigHash = replicate 64 CHR ''a'', bd_PlanHash = [], bd_Platform = ''linux/amd64'', bd_OCIRepository = ''ghcr.io/o/r'',
       bd_OCIDigest = [], bd_ProvenanceDigest = [], bd_BuildJobID = [], bd_BuildStrategy = [], bd_BuilderIdentity = [], bd_BuilderVersion = [],
       bd_Builder = \<lparr>bm_PackVersion = [], bm_BuilderImage = [], bm_BuilderImageDigest = [], bm_RunImage = [], bm_RunImageDigest = [],
         bm_LifecycleVersion = [], bm_Buildpacks = [], bm_Processes = []\<rparr>, bd_MediaType = [], bd_Status = ''succeeded''\<rparr>\<rparr>"

definition sample_policy_service :: "(policy_memory, memory_store) policy_service" where
  "sample_policy_service = \<lparr>pv_Store = Some (policy_memory_ops sample_policy_hashes),
     pv_BuildRecords = Some (\<lambda>projectID bid. if bid = ''build1'' then Some sample_record else None), pv_Bindings = Some sample_bindings,
     pv_Topology = sample_service, pv_Hashes = sample_policy_hashes\<rparr>"

definition sample_policy_call :: policy_call where
  "sample_policy_call = \<lparr>pc_Now = 0, pc_Random = ''aa'', pc_Topology = sample_topology_call\<rparr>"

definition sample_policy_request :: PolicyApplyRequest where
  "sample_policy_request = \<lparr>par_PolicyID = [], par_Draft = sample_policy_draft, par_ExpectedRevision = 0, par_ExpectedStateHash = []\<rparr>"

definition sample_policy :: Policy where
  "sample_policy = applied_policy sample_policy_hashes ''aa'' zero_policy (new_policy sample_policy_call [] ''alice'' ''on'' sample_policy_draft)"

definition sample_policies :: policy_memory where
  "sample_policies = store_policy ''pol-aa'' ''apply:p1:apply-key-1'' ''0'' sample_policy NewPolicyStore"

lemma sample_authority: "validateAuthority sample_policy_service ''p1'' sample_policy_draft = None"
  by (simp add: validateAuthority_def sample_policy_service_def sample_service_def sample_facts_def sample_policy_draft_def zero_draft_def
      environment_owned_def runtime_owned_def binding_active_def sample_bindings_def)

lemma sample_apply_policy:
  "ApplyPolicy sample_policy_service sample_policy_call ''p1'' ''alice'' ''apply-key-1'' sample_policy_request NewPolicyStore
     = (Inr \<lparr>pres_Policy = sample_policy, pres_Reused = False\<rparr>, sample_policies)"
proof -
  have norm: "normalize_policy (ph_draft sample_policy_hashes) ''p1'' sample_policy_draft = Inr (sample_policy_draft, ''on'')"
    by (rule normalize_policy_fixed [OF sample_policy_canonical])
      (simp add: sample_policy_hashes_def sample_policy_draft_def PolicySchemaVersion_def)
  have project: "pd_ProjectID (po_Draft (new_policy c [] actor h sample_policy_draft)) = ''p1''" for c actor h
    by (simp add: new_policy_def sample_policy_draft_def)
  have hash: "ph_apply sample_policy_hashes sample_policy_request = Some ''0''"
    by (simp add: sample_policy_hashes_def sample_policy_request_def)
  show ?thesis
    using norm sample_authority project hash
    by (simp add: ApplyPolicy_def sample_policy_service_def sample_policy_request_def sample_keys_valid validateKey_def policy_memory_ops_def ReplayPolicy_def
        operation_prefix_def replay_policy_def NewPolicyStore_def policy_Apply_def replay_key_def lookup_policy_def Let_def policy_result_def
        sample_policies_def sample_policy_def sample_policy_call_def newPolicyID_def)
qed

lemma sample_matches:
  "filter (policy_admits sample_record True ''env'' ''r1'') [sample_policy] = [sample_policy]"
  "automaticPolicyMatches sample_policy_draft sample_record" "pd_Enabled sample_policy_draft" "pd_EnvironmentID sample_policy_draft = ''env''"
proof -
  have lists: "canonical_lists sample_policy_draft" using sample_policy_canonical by (simp add: policy_canonical_def)
  show matches: "automaticPolicyMatches sample_policy_draft sample_record" "pd_Enabled sample_policy_draft" "pd_EnvironmentID sample_policy_draft = ''env''"
    unfolding automaticPolicyMatches_canonical [OF sample_policy_canonical] policy_allows_def
    by (simp_all add: sample_policy_draft_def zero_draft_def sample_record_def)
  have "contains (pd_AllowedRuntimeIDs sample_policy_draft) ''r1''"
    unfolding canonical_contains [OF lists] by (simp add: sample_policy_draft_def)
  then show "filter (policy_admits sample_record True ''env'' ''r1'') [sample_policy] = [sample_policy]"
    using matches by (simp add: policy_admits_def sample_policy_def new_policy_def)
qed

lemma sample_policies_reachable:
  "policies_reachable sample_policy_hashes sample_policies" "memory_policies sample_policy_hashes sample_policy_service"
proof -
  show m: "memory_policies sample_policy_hashes sample_policy_service" by (simp add: memory_policies_def sample_policy_service_def)
  show "policies_reachable sample_policy_hashes sample_policies"
    by (rule policies_reachable.apply_policy [OF policies_reachable.init m sample_apply_policy])
qed

section \<open>The placement plan behind a decision\<close>

lemma memory_validation:
  assumes "memory_service H w" "service_reachable H t" "GetPlan w projectID t = Inr plan"
  shows "ValidateScoped w c projectID \<lparr>dr_SchemaVersion = TopologySchemaVersion, dr_ProjectID = projectID, dr_Assignments = pl_Assignments plan\<rparr> co t
    = (case tv_Facts w of None \<Rightarrow> Inl unavailable | Some source \<Rightarrow> case source projectID of None \<Rightarrow> Inl project_not_found | Some facts \<Rightarrow>
       if pf_ProjectID facts \<noteq> projectID then Inl project_not_found
       else Inr (validate (tv_Limits w) (tc_ValidatedAt c) (\<lambda>pid rid. memory_GetOperatorCapacity pid rid t) facts plan
         \<lparr>dr_SchemaVersion = TopologySchemaVersion, dr_ProjectID = projectID, dr_Assignments = pl_Assignments plan\<rparr> (pl_PlanHash plan) co))"
proof -
  have store: "tv_Store w = Some (memory_ops H)" "tv_Hashes w = H" using assms(1) by (auto simp: memory_service_def)
  have plan: "ms_plans t projectID = Some plan"
    using assms(3) by (auto simp: GetPlan_def store memory_ops_def memory_Get_def split: option.splits)
  then have "pl_ProjectID plan = projectID" "plan_ok H plan" using service_reachable_ok [OF assms(2)] by (auto simp: service_ok_state_def)
  then have norm: "normalizeDraft (sh_topology H) projectID
      \<lparr>dr_SchemaVersion = TopologySchemaVersion, dr_ProjectID = projectID, dr_Assignments = pl_Assignments plan\<rparr>
      = Inr (\<lparr>dr_SchemaVersion = TopologySchemaVersion, dr_ProjectID = projectID, dr_Assignments = pl_Assignments plan\<rparr>, pl_PlanHash plan)"
    by (simp add: plan_ok_def plan_draft_def)
  have "current w projectID t = Inr plan" by (simp add: current_def store memory_ops_def memory_Get_def plan)
  with norm show ?thesis
    by (auto simp: ValidateScoped_def PreviewDraft_def store memory_ops_def split: option.split)
qed

text \<open>The concrete record on the concrete plan.\<close>

definition sample_routing_request :: RoutingRequest where
  "sample_routing_request = \<lparr>rq_BuildRecordID = ''build1'', rq_EnvironmentID = [], rq_Automatic = True\<rparr>"

definition sample_decision :: RoutingDecision where
  "sample_decision = fst (Route sample_policy_service sample_policy_call ''p1'' sample_routing_request sample_policies sample_state)"

lemma sample_state_plan:
  obtains plan where "GetPlan sample_service ''p1'' sample_state = Inr plan" "service_reachable sample_hashes sample_state"
    "pl_Assignments plan = map canonical_assignment [sample_assignment ''api'' ''r1'', sample_assignment ''web'' ''r1'']"
proof -
  have reach: "service_reachable sample_hashes sample_state"
    by (rule service_reachable.plan [OF service_reachable.init sample_service_memory sample_apply(1)])
  obtain n h where n: "normalizeDraft (sh_topology sample_hashes) ''p1'' (ar_Draft (sample_apply_request ''one'')) = Inr (n, h)"
      "res_Plan sample_answer = next_plan (sh_topology sample_hashes) (tc_Random sample_topology_call) (current_plan NewMemoryStore ''p1'')
         (new_plan sample_topology_call ''p1'' ''alice'' h n)"
      "ms_plans sample_state ''p1'' = Some (res_Plan sample_answer)"
    using ApplyScoped_memory [OF NewMemoryStore_ok sample_service_memory sample_apply] by auto
  have "dr_Assignments n = map canonical_assignment [sample_assignment ''api'' ''r1'', sample_assignment ''web'' ''r1'']"
    using n(1) sample_normalized by (simp add: sample_hashes_def sample_apply_request_def sample_draft_def)
  then show thesis
    using n(2,3) reach by (intro that [of "res_Plan sample_answer"])
      (simp_all add: GetPlan_def sample_service_def memory_ops_def memory_Get_def new_plan_def)
qed

lemma runtime_ok_mono: "runtime_ok s now facts rt getcap requested a \<Longrightarrow> (a \<Longrightarrow> b) \<Longrightarrow> runtime_ok s now facts rt getcap requested b"
  by (auto simp: runtime_ok_def split: option.splits)

lemma sample_runtime:
  assumes "as = map canonical_assignment [sample_assignment ''api'' ''r1'', sample_assignment ''web'' ''r1'']"
  shows "runtime_ok sample_limits 0 (sample_facts [''api'', ''web'']) (hd (pf_Runtimes (sample_facts [''api'', ''web''])))
     (\<lambda>pid rid. memory_GetOperatorCapacity pid rid sample_state) (requestedByRuntime as ''r1'') allowed"
proof -
  let ?f = "sample_facts [''api'', ''web'']" let ?d = "sample_draft [sample_assignment ''web'' ''r1'', sample_assignment ''api'' ''r1'']"
  obtain n h validation where n: "normalizeDraft sample_topology_hashes ''p1'' ?d = Inr (n, h)"
      "ValidateScoped sample_service sample_topology_call ''p1'' n no_override NewMemoryStore = Inr validation" "vr_Valid validation"
      "ms_capacities sample_state = ms_capacities NewMemoryStore"
    using ApplyScoped_memory [OF NewMemoryStore_ok sample_service_memory sample_apply] by (auto simp: sample_hashes_def sample_apply_request_def)
  have as: "dr_Assignments n = as" "dr_ProjectID n = ''p1''" using n(1) assms sample_normalized by (auto simp: sample_draft_def)
  obtain plan where "vr_Valid (validate sample_limits 0 (\<lambda>pid rid. memory_GetOperatorCapacity pid rid NewMemoryStore) ?f plan n h no_override)"
    using n(2,3) normalizeDraft_idem [OF n(1)]
    by (auto simp: ValidateScoped_def PreviewDraft_def sample_service_def sample_hashes_def sample_topology_call_def memory_ops_def split: sum.splits if_splits)
  moreover have "sample_assignment ''web'' ''r1''\<lparr>as_CPULimitMillicores := 500, as_MemoryLimitBytes := 1024\<rparr> \<in> set as"
    unfolding assms by (simp add: sample_canonical_assignment in_range_def)
  moreover have "index_by rf_ID (pf_Runtimes ?f) ''r1'' = Some (hd (pf_Runtimes ?f))" by (simp add: index_by_def sample_facts_def)
  ultimately obtain b where "runtime_ok sample_limits 0 ?f (hd (pf_Runtimes ?f)) (\<lambda>pid rid. memory_GetOperatorCapacity pid rid NewMemoryStore)
      (requestedByRuntime as ''r1'') b" "\<not> b"
    unfolding accepted_iff as by (fastforce simp: sample_assignment_def override_allows_def no_override_def)
  moreover have "(\<lambda>pid rid. memory_GetOperatorCapacity pid rid sample_state) = (\<lambda>pid rid. memory_GetOperatorCapacity pid rid NewMemoryStore)"
    by (intro ext) (simp add: memory_GetOperatorCapacity_def n(4))
  ultimately show ?thesis by (auto intro: runtime_ok_mono)
qed

lemma sample_route:
  "Route sample_policy_service sample_policy_call ''p1'' sample_routing_request sample_policies sample_state = (sample_decision, None)"
proof -
  let ?f = "sample_facts [''api'', ''web'']" let ?rt = "hd (pf_Runtimes ?f)"
  obtain plan where plan: "GetPlan sample_service ''p1'' sample_state = Inr plan" "service_reachable sample_hashes sample_state"
      "pl_Assignments plan = map canonical_assignment [sample_assignment ''api'' ''r1'', sample_assignment ''web'' ''r1'']"
    by (rule sample_state_plan)
  define a where "a = sample_assignment ''web'' ''r1''\<lparr>as_CPULimitMillicores := 500, as_MemoryLimitBytes := 1024\<rparr>"
  have as: "pl_Assignments plan = [sample_assignment ''api'' ''r1''\<lparr>as_CPULimitMillicores := 500, as_MemoryLimitBytes := 1024\<rparr>, a]"
    unfolding plan(3) a_def by (simp add: sample_canonical_assignment in_range_def)
  have mine: "filter (\<lambda>a. as_ServiceKey a = ''web'') (pl_Assignments plan) = [a]" "as_EnvironmentID a = ''env''" "as_RuntimeID a = ''r1''"
    by (simp_all add: as a_def sample_assignment_def)
  let ?d = "\<lparr>dr_SchemaVersion = TopologySchemaVersion, dr_ProjectID = ''p1'', dr_Assignments = pl_Assignments plan\<rparr>"
  let ?v = "validate sample_limits 0 (\<lambda>pid rid. memory_GetOperatorCapacity pid rid sample_state) ?f plan ?d (pl_PlanHash plan)
       (policy_override sample_policy_draft)"
  have validated: "ValidateScoped sample_service sample_topology_call ''p1'' ?d (policy_override sample_policy_draft) sample_state = Inr ?v"
    unfolding memory_validation [OF sample_service_memory plan(2,1)]
    by (simp add: sample_service_def sample_topology_call_def sample_facts_def)
  have owned: "owned_runtime ?f ''p1'' ''r1'' = Some ?rt" by (simp add: owned_runtime_def index_by_def sample_facts_def)
  obtain rv where rv: "List.find (\<lambda>rv. rv_RuntimeID rv = ''r1'') (vr_Runtimes ?v) = Some rv" "rv_Eligible rv"
      "cp_NodeID (rv_Capacity rv) = ''n1''" "cp_AgentID (rv_Capacity rv) = ''a1''"
  proof -
    let ?rv = "validateRuntime sample_limits ?f ?rt (requestedByRuntime (pl_Assignments plan) ''r1'') (requestedByRuntime (pl_Assignments plan) ''r1'')
       (scopedAssignmentOverrides (pl_Assignments plan) (policy_override sample_policy_draft) ''r1'' = Some True) 0
       (\<lambda>pid rid. memory_GetOperatorCapacity pid rid sample_state)"
    have "''r1'' \<in> as_RuntimeID ` set (pl_Assignments plan)" using mine by (simp add: as)
    then have "List.find (\<lambda>rv. rv_RuntimeID rv = ''r1'') (vr_Runtimes ?v) = Some ?rv" by (simp add: validate_find owned)
    moreover have "rv_Eligible ?rv" unfolding validateRuntime_issues by (rule sample_runtime [OF plan(3)])
    moreover from this obtain node agent where "eligible_pairs sample_limits 0 ?f ?rt = [(node, agent)]"
        "cp_NodeID (rv_Capacity ?rv) = nf_ID node" "cp_AgentID (rv_Capacity ?rv) = af_ID agent"
      by (rule eligible_pair)
    moreover from this(1) have "nf_ID node = ''n1''" "af_ID agent = ''a1''"
      by (auto simp: eligible_pairs_def runtime_nodes_def sample_facts_def nodeParticipatesInRuntime_def split: if_splits)
    ultimately show thesis using that by simp
  qed
  have listed: "policy_List ''p1'' sample_policies = Inr [sample_policy]"
    by (simp add: policy_List_def sample_policies_def store_policy_def NewPolicyStore_def sample_policy_def new_policy_def sample_policy_draft_def)
  have "pd_Enabled (po_Draft sample_policy)" "po_Draft sample_policy = sample_policy_draft"
    using sample_matches(3) by (simp_all add: sample_policy_def new_policy_def)
  then have "snd (route_policies sample_policy_service sample_policy_call ''p1'' sample_routing_request sample_record plan [sample_policy] d0 sample_state)
      = None" for d0
    using sample_matches mine validated rv
    by (simp add: route_policies_def route_plan_def route_assignment_def route_runtime_def Let_def sample_routing_request_def sample_policy_service_def
        sample_policy_call_def sample_record_def)
  moreover have "record_valid ''p1'' sample_record" "record_bound sample_bindings ''p1'' sample_record"
    by (simp_all add: record_valid_def record_bound_def sample_record_def sample_bindings_def)
  ultimately show ?thesis
    unfolding sample_decision_def using plan(1) listed
    by (simp add: Route_def Let_def sample_policy_service_def sample_routing_request_def policy_memory_ops_def prod_eq_iff)
qed

definition sample_update_request :: PolicyApplyRequest where
  "sample_update_request = \<lparr>par_PolicyID = ''pol-aa'', par_Draft = sample_policy_draft, par_ExpectedRevision = 1,
     par_ExpectedStateHash = po_StateHash sample_policy\<rparr>"

definition sample_update :: Policy where
  "sample_update = applied_policy sample_policy_hashes ''bb'' sample_policy sample_policy"

definition sample_updated :: policy_memory where
  "sample_updated = store_policy ''pol-aa'' ''apply:p1:apply-key-2'' ''0'' sample_update sample_policies"

lemma sample_update:
  "policy_Apply sample_policy_hashes ''bb'' ''apply-key-2'' ''0'' sample_update_request sample_policy sample_policies
     = (Inr (sample_update, False), sample_updated)"
  by (simp add: policy_Apply_def Let_def replay_key_def replay_policy_def sample_policies_def NewPolicyStore_def lookup_policy_def
      sample_update_request_def sample_update_def sample_updated_def sample_policy_def new_policy_def sample_policy_draft_def newPolicyID_def wrap_u64_def)

section \<open>Properties\<close>

lemma policy_Apply_own:
  assumes "policy_Apply H random key h request p s = r"
  shows "policy_apply_op H (pd_ProjectID (po_Draft p), key) h (random, request, p) s = r"
proof -
  have "in_project (pd_ProjectID (po_Draft p)) p = p" by (simp add: in_project_def)
  with assms show ?thesis by (simp add: policy_apply_op_def)
qed

lemma policy_update_moved:
  assumes "policies_ok s" "policy_Apply H random key h request p s = (Inr (q, False), s1)" "(policy_tick H ^^ n) s1 s2"
    and "par_PolicyID request \<noteq> []" "n < 2 ^ 64 - 1"
  shows "policy_version s2 (par_PolicyID request) \<noteq> (par_ExpectedRevision request, par_ExpectedStateHash request)"
proof -
  have "policy_slot (pd_ProjectID (po_Draft p), key) (random, request, p) = Some (par_PolicyID request)"
    using assms(4) by (simp add: policy_slot_def)
  from policy_applies.moved_on(2) [OF assms(1) this policy_Apply_own [OF assms(2)] assms(3,5)] show ?thesis
    by (simp add: policy_expected_def)
qed

lemma distinct_singleton_set: "distinct xs \<Longrightarrow> set xs = {x} \<Longrightarrow> xs = [x]"
  by (cases xs; cases "tl xs") auto



text \<open>
  C12: Every policy that requests of the service bring into force stays in canonical form: normalising
  its draft again changes nothing and gives its policy hash, its state hash is that of its identity,
  revision and policy hash, and it is the only policy of its identity.
\<close>

theorem stored_policy_invariant:
  assumes "policies_reachable H s" "policy_Get projectID pid s = Inr p"
  shows "po_ID p = pid \<and> pd_ProjectID (po_Draft p) = projectID
    \<and> (case ph_draft H (po_Draft p) of None \<Rightarrow> po_PolicyHash p = []
       | Some h \<Rightarrow> po_PolicyHash p = h \<and> normalize_policy (ph_draft H) projectID (po_Draft p) = Inr (po_Draft p, h))
    \<and> po_StateHash p = policy_stateHash H pid (po_Revision p) (po_PolicyHash p)
    \<and> (case policy_List projectID s of Inl e \<Rightarrow> False | Inr policies \<Rightarrow> filter (\<lambda>q. po_ID q = pid) policies = [p])"
proof -
  have ok: "policies_ok s" "policy_ok H p" and p: "map_of (pm_policies s) pid = Some p" "pd_ProjectID (po_Draft p) = projectID"
    using policies_reachable_ok [OF assms(1)] assms(2) by (auto simp: stored_ok_def policy_Get_Inr)
  note id = policies_okD(1) [OF ok(1) p(1)]
  obtain policies where policies: "policy_List projectID s = Inr policies" by (simp add: policy_List_def)
  note listed = in_policy_List [OF ok(1) policies]
  have "set (filter (\<lambda>q. po_ID q = pid) policies) = {p}" using listed(1) assms(2) id by auto
  then have "filter (\<lambda>q. po_ID q = pid) policies = [p]"
    by (intro distinct_singleton_set distinct_filter listed(2))
  then show ?thesis
    using ok(2) p id policies normalize_policy_fixed [of projectID "po_Draft p" "ph_draft H"]
    by (auto simp: policy_ok_def hashMust_def split: option.split)
qed

lemma stored_policy_invariant_witness: "normalize_policy (ph_draft sample_policy_hashes) ''p1'' sample_policy_draft = Inr (sample_policy_draft, ''on'')"
proof -
  have "policy_Get ''p1'' ''pol-aa'' sample_policies = Inr sample_policy" "po_Draft sample_policy = sample_policy_draft"
    by (simp_all add: policy_Get_Inr sample_policies_def sample_policy_def new_policy_def sample_policy_draft_def)
  moreover have "ph_draft sample_policy_hashes sample_policy_draft = Some ''on''"
    by (simp add: sample_policy_hashes_def sample_policy_draft_def PolicySchemaVersion_def)
  ultimately show ?thesis using stored_policy_invariant [OF sample_policies_reachable(1), of "''p1''" "''pol-aa''" sample_policy] by simp
qed

text \<open>
  C13: Writes of policies. After an Apply wrote a policy, however many operations later, the same key
  and payload are answered by that policy and write nothing, and another payload under the key is
  refused; and when it updated a policy, a second Apply or a Disable that expects the version the
  first one saw does not write (as long as the revision counter has not gone round).
\<close>

theorem policy_writes_exclusive:
  assumes "policies_ok s" "policy_Apply H random key h request p s = (Inr (q, False), s1)" "(policy_tick H ^^ n) s1 s2"
  shows "policy_Apply H random2 key h request2 (in_project (pd_ProjectID (po_Draft p)) p2) s2 = (Inr (q, True), s2)
    \<and> (h2 \<noteq> h \<longrightarrow> policy_Apply H random2 key h2 request2 (in_project (pd_ProjectID (po_Draft p)) p2) s2 = (Inl policy_conflict, s2))
    \<and> (par_PolicyID request \<noteq> [] \<and> n < 2 ^ 64 - 1 \<and> par_PolicyID request2 = par_PolicyID request
         \<and> par_ExpectedRevision request2 = par_ExpectedRevision request \<and> par_ExpectedStateHash request2 = par_ExpectedStateHash request
       \<longrightarrow> policy_Apply H random2 key2 h2 request2 p3 s2 \<noteq> (Inr (r2, False), s3))
    \<and> (par_PolicyID request \<noteq> [] \<and> n < 2 ^ 64 - 1
         \<and> dis_ExpectedRevision drequest = par_ExpectedRevision request \<and> dis_ExpectedStateHash drequest = par_ExpectedStateHash request
       \<longrightarrow> policy_Disable H projectID2 (par_PolicyID request) actor2 key2 h2 drequest now2 s2 \<noteq> (Inr (r2, False), s3))"
proof -
  note first = policy_Apply_own [OF assms(2)] and steps = policy_applies.ticks_steps [OF assms(3)]
  have "policy_Apply H random2 key h request2 (in_project (pd_ProjectID (po_Draft p)) p2) s2 = (Inr (q, True), s2)"
    using policy_applies.retry [OF assms(1) first steps, of "(random2, request2, p2)"] by (simp add: policy_apply_op_def)
  moreover have "h2 \<noteq> h \<Longrightarrow> policy_Apply H random2 key h2 request2 (in_project (pd_ProjectID (po_Draft p)) p2) s2 = (Inl policy_conflict, s2)"
    using policy_applies.key_bound [OF assms(1) first steps, of h2 "(random2, request2, p2)"] by (simp add: policy_apply_op_def)
  ultimately show ?thesis
    using policy_update_moved [OF assms] by (auto elim!: policy_Apply_cases policy_Disable_cases)
qed

lemma policy_writes_exclusive_witness:
  "policy_Apply sample_policy_hashes ''bb'' ''apply-key-2'' ''0'' sample_update_request (in_project ''p1'' sample_policy) sample_updated = (Inr (sample_update, True), sample_updated)
   \<and> policy_Apply sample_policy_hashes ''bb'' ''apply-key-2'' ''1'' sample_update_request (in_project ''p1'' sample_policy) sample_updated = (Inl policy_conflict, sample_updated)
   \<and> policy_Apply sample_policy_hashes ''bb'' ''apply-key-3'' ''0'' sample_update_request sample_policy sample_updated \<noteq> (Inr (sample_policy, False), sample_updated)
   \<and> policy_Disable sample_policy_hashes ''p1'' ''pol-aa'' ''bob'' ''apply-key-3'' ''0''
       \<lparr>dis_ExpectedRevision = 1, dis_ExpectedStateHash = po_StateHash sample_policy\<rparr> 0 sample_updated \<noteq> (Inr (sample_policy, False), sample_updated)"
proof -
  have ok: "policies_ok sample_policies" using policies_reachable_ok [OF sample_policies_reachable(1)] by (simp add: stored_ok_def)
  have zero: "(policy_tick sample_policy_hashes ^^ 0) sample_updated sample_updated" by simp
  have project: "pd_ProjectID (po_Draft sample_policy) = ''p1''" by (simp add: sample_policy_def new_policy_def sample_policy_draft_def)
  have update: "par_PolicyID sample_update_request = ''pol-aa''" "par_ExpectedRevision sample_update_request = 1"
      "par_ExpectedStateHash sample_update_request = po_StateHash sample_policy"
    by (simp_all add: sample_update_request_def)
  show ?thesis
    using policy_writes_exclusive [OF ok sample_update zero, of "''bb''" sample_update_request sample_policy "''1''" "''apply-key-2''"]
      policy_writes_exclusive [OF ok sample_update zero, of "''bb''" sample_update_request sample_policy "''0''" "''apply-key-3''" sample_policy
        sample_policy sample_updated "\<lparr>dis_ExpectedRevision = 1, dis_ExpectedStateHash = po_StateHash sample_policy\<rparr>" "''p1''" "''bob''" 0]
    unfolding update project by simp
qed

text \<open>
  C10: What an eligible decision rests on. When Route answers without an error, the build record was
  found, succeeded and belongs to the project, its repository binding is still the active one, and
  exactly one policy in force in the project admits it: enabled, allowing the record, for the
  environment and runtime of the decision and, for an automatic delivery, its event. The decision
  names that policy at its revision, is marked eligible and carries its own hash.
\<close>

theorem route_authorised:
  assumes "memory_policies H v" "policies_reachable H s" "Route v c projectID request s t = (d, None)"
  shows "\<exists>get resolve r b p. pv_BuildRecords v = Some get \<and> get projectID (rq_BuildRecordID request) = Some r
    \<and> br_ProjectID r = projectID \<and> bd_Status (br_Build r) = ''succeeded''
    \<and> pv_Bindings v = Some resolve \<and> resolve (br_RepositoryID r) (br_ServiceKey r) = Some b \<and> bi_ProjectID b = projectID
    \<and> bi_BindingID b = br_ActiveBindingID r \<and> bi_RepositoryOwnerID b = wi_RepositoryOwnerID (br_Workload r)
    \<and> policy_Get projectID (rd_DeploymentPolicyID d) s = Inr p \<and> po_Revision p = rd_DeploymentPolicyRevision d
    \<and> pd_Enabled (po_Draft p) \<and> policy_allows (po_Draft p) r
    \<and> pd_EnvironmentID (po_Draft p) = rd_EnvironmentID d \<and> rd_RuntimeID d \<in> set (pd_AllowedRuntimeIDs (po_Draft p))
    \<and> (if rq_Automatic request then automaticPolicyMatches (po_Draft p) r
       else rd_EnvironmentID d = rq_EnvironmentID request \<and> wi_EventName (br_Workload r) \<in> set (pd_AllowedEvents (po_Draft p))
         \<and> wi_Ref (br_Workload r) \<in> set (pd_AllowedGitRefs (po_Draft p)))
    \<and> (\<forall>q. policy_Get projectID (po_ID q) s = Inr q
         \<and> policy_admits r (rq_Automatic request) (rd_EnvironmentID d) (rd_RuntimeID d) q \<longrightarrow> q = p)
    \<and> rd_Eligible d \<and> rd_DecisionHash d = decisionHash H d"
  using assms(3)
proof (rule Route_None)
  fix get resolve store r plan policies a p validation rv
  assume env: "pv_BuildRecords v = Some get" "pv_Bindings v = Some resolve" "pv_Store v = Some store"
    and r: "get projectID (rq_BuildRecordID request) = Some r" "record_valid projectID r" "record_bound resolve projectID r"
    and listed: "ps_List store projectID s = Inr policies"
    and p: "filter (policy_admits r (rq_Automatic request) (rd_EnvironmentID d) (as_RuntimeID a)) policies = [p]"
    and automatic: "rq_Automatic request \<or> rd_EnvironmentID d = rq_EnvironmentID request"
    and d: "rd_RuntimeID d = as_RuntimeID a" "rd_DeploymentPolicyID d = po_ID p" "rd_DeploymentPolicyRevision d = po_Revision p"
      "rd_Eligible d" "rd_DecisionHash d = decisionHash (pv_Hashes v) d"
  have stored: "stored_ok H s" by (rule policies_reachable_ok [OF assms(2)])
  have store: "store = policy_memory_ops H" "pv_Hashes v = H" using assms(1) env(3) by (auto simp: memory_policies_def)
  have in_list: "q \<in> set policies \<longleftrightarrow> policy_Get projectID (po_ID q) s = Inr q" for q
    using in_policy_List(1) stored listed by (simp add: store policy_memory_ops_def stored_ok_def)
  have only: "policy_Get projectID (po_ID q) s = Inr q \<and> policy_admits r (rq_Automatic request) (rd_EnvironmentID d) (rd_RuntimeID d) q
      \<longleftrightarrow> q = p" for q
    using arg_cong [OF p, of set] d(1) by (auto simp: in_list set_eq_iff)
  then have get: "policy_Get projectID (po_ID p) s = Inr p" and admits: "policy_admits r (rq_Automatic request) (rd_EnvironmentID d) (rd_RuntimeID d) p"
    by blast+
  have "policy_ok H p" using stored get by (auto simp: stored_ok_def policy_Get_Inr)
  then have canonical: "policy_canonical (pd_ProjectID (po_Draft p)) (po_Draft p)" by (simp add: policy_ok_def)
  then have lists: "canonical_lists (po_Draft p)" by (simp add: policy_canonical_def)
  have "policy_allows (po_Draft p) r \<and> pd_Enabled (po_Draft p) \<and> pd_EnvironmentID (po_Draft p) = rd_EnvironmentID d
      \<and> rd_RuntimeID d \<in> set (pd_AllowedRuntimeIDs (po_Draft p))
      \<and> (if rq_Automatic request then automaticPolicyMatches (po_Draft p) r
       else rd_EnvironmentID d = rq_EnvironmentID request \<and> wi_EventName (br_Workload r) \<in> set (pd_AllowedEvents (po_Draft p))
         \<and> wi_Ref (br_Workload r) \<in> set (pd_AllowedGitRefs (po_Draft p)))"
    using admits automatic unfolding policy_admits_def canonical_contains [OF lists]
    by (auto simp: policyMatches_canonical [OF canonical] automaticPolicyMatches_canonical [OF canonical])
  moreover obtain b where "resolve (br_RepositoryID r) (br_ServiceKey r) = Some b" "bi_ProjectID b = projectID"
      "bi_BindingID b = br_ActiveBindingID r" "bi_RepositoryOwnerID b = br_RepositoryOwnerID r"
    using r(3) by (auto simp: record_bound_def split: option.splits)
  ultimately show ?thesis
    using env(1,2) r(1,2) get only d store(2) unfolding record_valid_def by metis
qed

lemma route_authorised_witness: "\<exists>p. policy_Get ''p1'' (rd_DeploymentPolicyID sample_decision) sample_policies = Inr p \<and> pd_Enabled (po_Draft p)"
  using route_authorised [OF sample_policies_reachable(2,1) sample_route] by blast



text \<open>
  C15: The store in memory does not compare projects when Apply updates a policy, although Get and
  Disable do: a request of another project that names the policy and its version overwrites it with
  its own draft, and the policy is gone from the project it belonged to.
\<close>

theorem foreign_policy_overwritten:
  assumes "policies_ok s" "policy_Get owner pid s = Inr old" "pd_ProjectID (po_Draft p) = other" "other \<noteq> owner"
    and "par_PolicyID request = pid" "par_ExpectedRevision request = po_Revision old" "par_ExpectedStateHash request = po_StateHash old"
    and "pm_replays s (replay_key ''apply'' other key) = None" "pm_replays s (replay_key ''disable'' other key) = None"
  shows "policy_Get other pid s = Inl PolicyNotFound \<and> policy_Disable H other pid actor key h drequest now s = (Inl PolicyNotFound, s)
    \<and> (\<exists>q s'. policy_Apply H random key h request p s = (Inr (q, False), s') \<and> po_ID q = pid \<and> po_Draft q = po_Draft p
         \<and> policy_Get owner pid s' = Inl PolicyNotFound \<and> policy_Get other pid s' = Inr q)"
proof -
  have old: "map_of (pm_policies s) pid = Some old" "pd_ProjectID (po_Draft old) = owner" using assms(2) by (simp_all add: policy_Get_Inr)
  note id = policies_okD(1,2) [OF assms(1) old(1)]
  let ?q = "applied_policy H random old p"
  let ?s = "store_policy pid (replay_key ''apply'' other key) h ?q s"
  have "policy_Apply H random key h request p s = (Inr (?q, False), ?s)"
    using assms(3,5-8) old id by (simp add: policy_Apply_def Let_def replay_policy_def lookup_policy_def)
  moreover have "policy_Get owner pid ?s = Inl PolicyNotFound" "policy_Get other pid ?s = Inr ?q"
    using assms(3,4) by (simp_all add: policy_Get_def)
  ultimately show ?thesis
    using old id assms(3,4,9) by (auto simp: policy_Get_def policy_Disable_def Let_def replay_policy_def)
qed

lemma foreign_policy_overwritten_witness:
  "policy_Get ''p2'' ''pol-aa'' sample_policies = Inl PolicyNotFound \<and> (\<exists>q s'.
     policy_Apply sample_policy_hashes ''bb'' ''k'' ''h'' sample_update_request (in_project ''p2'' sample_policy) sample_policies = (Inr (q, False), s')
       \<and> policy_Get ''p1'' ''pol-aa'' s' = Inl PolicyNotFound \<and> policy_Get ''p2'' ''pol-aa'' s' = Inr q)"
proof -
  have ok: "policies_ok sample_policies" using policies_reachable_ok [OF sample_policies_reachable(1)] by (simp add: stored_ok_def)
  have facts: "policy_Get ''p1'' ''pol-aa'' sample_policies = Inr sample_policy" "pd_ProjectID (po_Draft (in_project ''p2'' sample_policy)) = ''p2''"
      "''p2'' \<noteq> ''p1''" "par_PolicyID sample_update_request = ''pol-aa''" "par_ExpectedRevision sample_update_request = po_Revision sample_policy"
      "par_ExpectedStateHash sample_update_request = po_StateHash sample_policy"
      "pm_replays sample_policies (replay_key ''apply'' ''p2'' ''k'') = None" "pm_replays sample_policies (replay_key ''disable'' ''p2'' ''k'') = None"
    by (simp_all add: policy_Get_Inr sample_policies_def sample_policy_def new_policy_def sample_policy_draft_def wrap_u64_def
        sample_update_request_def NewPolicyStore_def replay_key_def)
  show ?thesis
    using foreign_policy_overwritten [OF ok facts, of sample_policy_hashes "''x''" "''h''" "\<lparr>dis_ExpectedRevision = 1, dis_ExpectedStateHash = []\<rparr>" 0 "''bb''"] by blast
qed

end
