(* ===== verification/Build_Job.thy ===== *)
theory Build_Job
  imports Deployment_Policy
begin

text \<open>
  Build jobs (cloud/internal/buildjob/service.go and executor.go): the data, the checks on sources,
  configurations, specifications and runner results, the resolution of the build strategy and the
  build record that a finished job leaves. SHA-256, the JSON hash of the build configuration and the
  media type that a manifest states are parameters.
\<close>

section \<open>Constants and errors\<close>

abbreviation StatusPending :: string where "StatusPending \<equiv> ''pending''"
abbreviation StatusReady :: string where "StatusReady \<equiv> ''ready''"
abbreviation StatusRunning :: string where "StatusRunning \<equiv> ''running''"
abbreviation StatusSucceeded :: string where "StatusSucceeded \<equiv> ''succeeded''"
abbreviation StatusFailed :: string where "StatusFailed \<equiv> ''failed''"
abbreviation StatusCancelled :: string where "StatusCancelled \<equiv> ''cancelled''"

abbreviation StrategyAuto :: string where "StrategyAuto \<equiv> ''auto''"
abbreviation StrategyDockerfile :: string where "StrategyDockerfile \<equiv> ''dockerfile''"
abbreviation StrategyBuildpack :: string where "StrategyBuildpack \<equiv> ''buildpack''"

abbreviation DispatchStateDispatching :: string where "DispatchStateDispatching \<equiv> ''dispatching''"
abbreviation DispatchStateDispatched :: string where "DispatchStateDispatched \<equiv> ''dispatched''"
abbreviation DispatchStateRejected :: string where "DispatchStateRejected \<equiv> ''dispatch_rejected''"
abbreviation DispatchStateClaimed :: string where "DispatchStateClaimed \<equiv> ''claimed''"
abbreviation DispatchStateSucceeded :: string where "DispatchStateSucceeded \<equiv> ''succeeded''"
abbreviation DispatchStateFailed :: string where "DispatchStateFailed \<equiv> ''failed''"
abbreviation DispatchStateCancelled :: string where "DispatchStateCancelled \<equiv> ''cancelled''"

definition ExecutorProviderGitHubActions :: string where "ExecutorProviderGitHubActions = ''github_actions''"
definition runnerLeaseTTL :: int where "runnerLeaseTTL = 10 * Minute"
definition runnerClaimTimeout :: int where "runnerClaimTimeout = 10 * Minute"

datatype build_error = BuildError (be_Code: string) (be_Status: int) (be_Message: string) (be_Cause: string)
  | BuildForeign string \<comment> \<open>an error of the source or repository authority, passed on\<close>

definition build_invalid :: "string \<Rightarrow> string \<Rightarrow> string \<Rightarrow> build_error" where
  "build_invalid code message cause = BuildError code 400 message cause"

definition build_unavailable :: build_error where
  "build_unavailable = BuildError ''BUILD_JOB_UNAVAILABLE'' 503 ''BuildJob authority is unavailable.'' ''build_job_store''"

section \<open>Data\<close>

text \<open>A map from strings to strings is an association list with distinct keys.\<close>

record SourceSnapshot =
  sx_BindingID :: string
  sx_BindingUpdatedAt :: time
  sx_InstallationID :: int
  sx_RepositoryID :: int
  sx_RepositoryOwnerID :: int
  sx_RepositoryFullName :: string
  sx_SelectedRef :: string
  sx_ResolvedCommitSHA :: string
  sx_ApplicationRoot :: string
  sx_BuildContext :: string
  sx_BuildDependencyState :: string
  sx_BuildEnvironment :: "(string \<times> string) list"

record ApplicationSource =
  ap_ProjectID :: string
  ap_EnvironmentID :: string
  ap_ApplicationID :: string
  ap_BindingID :: string
  ap_BindingUpdatedAt :: time
  ap_InstallationID :: int
  ap_RepositoryID :: int
  ap_RepositoryOwnerID :: int
  ap_RepositoryFullName :: string
  ap_SelectedRef :: string
  ap_ApplicationRoot :: string
  ap_BuildContext :: string
  ap_BuildStrategy :: string
  ap_DockerfilePath :: string
  ap_BuildDependencyState :: string
  ap_BuildEnvironment :: "(string \<times> string) list"

record Job =
  jb_ID :: string
  jb_ProjectID :: string
  jb_EnvironmentID :: string
  jb_ApplicationID :: string
  jb_Source :: SourceSnapshot
  jb_RequestedBuildStrategy :: string
  jb_ResolvedBuildStrategy :: string
  jb_DockerfilePath :: string
  jb_Status :: string
  jb_FailureCode :: string
  jb_FailureMessageRedacted :: string
  jb_FailureCause :: string
  jb_BuildRecordID :: string
  jb_CompletedAt :: "time option"
  jb_CreatedBy :: string
  jb_CreatedAt :: time
  jb_UpdatedAt :: time
  jb_IdempotencyKey :: string

record ExecutorConfig =
  xc_Owner :: string
  xc_Repository :: string
  xc_Workflow :: string
  xc_Ref :: string

record RegistryConfig =
  gc_Host :: string
  gc_Namespace :: string
  gc_RepositoryPrefix :: string
  gc_Visibility :: string

record PublicationTarget =
  pt_Host :: string
  pt_Repository :: string
  pt_Tag :: string

record DispatchAttempt =
  at_Provider :: string
  at_AttemptID :: string
  at_BuildJobID :: string
  at_Workflow :: string
  at_WorkflowRef :: string
  at_ExecutorRef :: string
  at_RunID :: nat
  at_RunAttempt :: nat
  at_RunURL :: string
  at_DispatchedAt :: time
  at_ClaimedAt :: "time option"
  at_CompletedAt :: "time option"
  at_LastState :: string
  at_FailureCode :: string
  at_LeaseExpiresAt :: time
  at_LeaseHash :: string

record DispatchFacts =
  dfa_RunID :: nat
  dfa_RunAttempt :: nat
  dfa_RunURL :: string

record RunnerIdentity =
  rn_Repository :: string
  rn_WorkflowRef :: string
  rn_Ref :: string
  rn_EventName :: string
  rn_RunID :: nat
  rn_RunAttempt :: nat

record RunnerLease =
  le_Token :: string
  le_ExpiresAt :: time
  le_JobID :: string
  le_AttemptID :: string
  le_RunID :: nat
  le_RunAttempt :: nat

record SourceScanContext =
  sc_ProjectID :: string
  sc_ApplicationID :: string
  sc_ScanDependenciesJSON :: string

record BuildSpec =
  bsx_BuildJobID :: string
  bsx_Repository :: string
  bsx_RepositoryID :: int
  bsx_RepositoryOwnerID :: int
  bsx_GitHubInstallationID :: int
  bsx_ResolvedCommitSHA :: string
  bsx_ApplicationRoot :: string
  bsx_BuildContext :: string
  bsx_ResolvedBuildStrategy :: string
  bsx_DockerfilePath :: string
  bsx_Publication :: PublicationTarget
  bsx_BuildEnvironment :: "(string \<times> string) list"
  bsx_ScanContext :: "SourceScanContext option"

record ImageDescriptor =
  im_Digest :: string
  im_MediaType :: string
  im_Size :: int

record RemoteRegistryEvidence =
  rg_Descriptor :: ImageDescriptor
  rg_Platform :: string
  rg_Manifest :: string
  rg_Private :: bool

record ExecutorResult =
  xr_Strategy :: string
  xr_Platform :: string
  xr_BuildKitVersion :: string
  xr_BuildxVersion :: string
  xr_BuilderIdentity :: string
  xr_Builder :: BuilderMetadata
  xr_StartedAt :: time
  xr_CompletedAt :: time
  xr_BuildDescriptor :: ImageDescriptor
  xr_Remote :: RemoteRegistryEvidence

text \<open>The report of the source scanner is only stored; its type is a parameter.\<close>

record 'r RunnerResult =
  rnr_BuildJobID :: string
  rnr_AttemptID :: string
  rnr_RegistryReference :: string
  rnr_Digest :: string
  rnr_Executor :: ExecutorResult
  rnr_SourceRiskReport :: "'r option"

record RunnerFailure =
  rnf_BuildJobID :: string
  rnf_AttemptID :: string
  rnf_Code :: string

record 'r Completion =
  cm_Result :: "'r RunnerResult"
  cm_LeaseHash :: string
  cm_Now :: time

record CompletionResult =
  cmr_BuildRecordID :: string
  cmr_Digest :: string
  cmr_BuildJobState :: string
  cmr_Reused :: bool

record RunnerAccess =
  acc_JobID :: string
  acc_AttemptID :: string
  acc_RunID :: nat
  acc_RunAttempt :: nat
  acc_LeaseHash :: string

record SourceGrant =
  sg_BuildJobID :: string
  sg_Repository :: string
  sg_RepositoryID :: int
  sg_GitHubInstallationID :: int
  sg_ResolvedCommitSHA :: string

record BuildConfigInput =
  bci_Commit :: string
  bci_Strategy :: string
  bci_Dockerfile :: string
  bci_Context :: string
  bci_Repository :: string
  bci_BuildDepState :: string

record build_hashes =
  bh_sha256 :: "string \<Rightarrow> string" \<comment> \<open>the 32 bytes\<close>
  bh_config :: "BuildConfigInput \<Rightarrow> string" \<comment> \<open>hex of the SHA-256 of the JSON\<close>
  bh_media_type :: "string \<Rightarrow> string option" \<comment> \<open>mediaType of a manifest; None: not JSON\<close>

section \<open>Identifiers\<close>

definition validOpaqueID :: "string \<Rightarrow> bool" where
  "validOpaqueID value = (value \<noteq> [] \<and> length value \<le> 128 \<and> TrimSpace value = value
     \<and> \<not> ContainsAny value [CHR 0x0D, CHR 0x0A, CHR ''/'', CHR 0x5C])"

text \<open>Whether a white-space rune occurs: its encoding starts at some position.\<close>

definition containsSpace :: "string \<Rightarrow> bool" where
  "containsSpace s = list_ex (\<lambda>t. list_ex (\<lambda>r. HasPrefix t r) space_runes) (suffixes s)"

definition validIdempotencyKey :: "string \<Rightarrow> bool" where
  "validIdempotencyKey value = (if value = [] \<or> 128 < length value \<or> TrimSpace value \<noteq> value then False
     else \<not> (containsSpace value \<or> containsControl value))"

definition validGitHubName :: "string \<Rightarrow> bool" where
  "validGitHubName value = (if value = [] \<or> 100 < length value then False
     else list_all (\<lambda>c. is_lower c \<or> is_upper c \<or> is_digit c \<or> c \<in> set ''._-'') value)"

definition validRepositoryFullName :: "string \<Rightarrow> bool" where
  "validRepositoryFullName value = (case Split (CHR ''/'') value of [a, b] \<Rightarrow> validGitHubName a \<and> validGitHubName b | _ \<Rightarrow> False)"

text \<open>hex.DecodeString takes both cases, an even number of digits; all characters are ASCII then.\<close>

definition validSHA40 :: "string \<Rightarrow> bool" where
  "validSHA40 value = (if length value \<noteq> 40 \<or> value \<noteq> ToLower value then False
     else list_all (\<lambda>c. is_hex_lower (ascii_lower_char c)) value)"

definition validStatus :: "string \<Rightarrow> bool" where
  "validStatus status = (status \<in> {StatusPending, StatusReady, StatusRunning, StatusSucceeded, StatusFailed, StatusCancelled})"

section \<open>Repository paths\<close>

text \<open>path.Clean: drop empty and dot segments, let a double dot remove the segment before it.\<close>

fun clean_step :: "bool \<Rightarrow> string list \<Rightarrow> string \<Rightarrow> string list" where
  "clean_step rooted out segment =
     (if segment = [] \<or> segment = ''.'' then out
      else if segment = ''..''
      then (if out \<noteq> [] \<and> last out \<noteq> ''..'' then butlast out else if rooted then out else out @ [segment])
      else out @ [segment])"

definition Join :: "string list \<Rightarrow> string" where
  "Join ws = concat (case ws of [] \<Rightarrow> [] | w # ws \<Rightarrow> w # map (\<lambda>w. ''/'' @ w) ws)"

definition Clean :: "string \<Rightarrow> string" where
  "Clean value = (let rooted = HasPrefix value ''/''; out = foldl (clean_step rooted) [] (Split (CHR ''/'') value) in
     if rooted then ''/'' @ Join out else if out = [] then ''.'' else Join out)"

definition canonicalRepositoryPath :: "string \<Rightarrow> bool \<Rightarrow> bool" where
  "canonicalRepositoryPath value allowDot =
     (if value = [] \<or> 1024 < length value \<or> HasPrefix value ''/'' \<or> CHR 0x5C \<in> set value \<or> containsControl value \<or> Clean value \<noteq> value
      then False
      else if value = ''.'' then allowDot
      else list_all (\<lambda>segment. segment \<noteq> [] \<and> segment \<noteq> ''.'' \<and> segment \<noteq> ''..'') (Split (CHR ''/'') value))"

definition repositoryPath :: "string \<Rightarrow> string \<Rightarrow> string" where
  "repositoryPath root name = (if root = ''.'' then name
     else Clean (Join (filter (\<lambda>e. e \<noteq> []) [root, name])))"

fun unique_loop :: "string list \<Rightarrow> string list \<Rightarrow> string list" where
  "unique_loop seen [] = []"
| "unique_loop seen (v # vs) = (if v \<in> set seen then unique_loop seen vs else v # unique_loop (v # seen) vs)"

definition uniqueStrings :: "string list \<Rightarrow> string list" where
  "uniqueStrings = unique_loop []"

section \<open>Sources\<close>

definition validateSource :: "ApplicationSource \<Rightarrow> string \<Rightarrow> string \<Rightarrow> build_error option" where
  "validateSource a projectID applicationID = first_failure
     [(ap_ProjectID a \<noteq> projectID \<or> ap_ApplicationID a \<noteq> applicationID \<or> \<not> validOpaqueID (ap_EnvironmentID a) \<or> \<not> validOpaqueID (ap_BindingID a)
         \<or> IsZero (ap_BindingUpdatedAt a) \<or> ap_InstallationID a \<le> 0 \<or> ap_RepositoryID a \<le> 0 \<or> ap_RepositoryOwnerID a \<le> 0
         \<or> \<not> validRepositoryFullName (ap_RepositoryFullName a),
       BuildError ''BUILD_SOURCE_INVALID_SCOPE'' 409 ''The active source binding does not belong to the requested Application.'' ''source_scope''),
      (ap_SelectedRef a = [] \<or> 1024 < length (ap_SelectedRef a) \<or> TrimSpace (ap_SelectedRef a) \<noteq> ap_SelectedRef a
         \<or> containsControl (ap_SelectedRef a),
       BuildError ''BUILD_SOURCE_INVALID'' 409 ''The source binding contains an invalid selected ref.'' ''source_binding''),
      (\<not> canonicalRepositoryPath (ap_ApplicationRoot a) True \<or> \<not> canonicalRepositoryPath (ap_BuildContext a) True
         \<or> ap_BuildContext a \<noteq> ''.'' \<and> ap_ApplicationRoot a \<noteq> ap_BuildContext a \<and> \<not> HasPrefix (ap_ApplicationRoot a) (ap_BuildContext a @ ''/''),
       BuildError ''BUILD_SOURCE_INVALID'' 409 ''The source binding contains invalid canonical paths.'' ''source_binding''),
      (ap_BuildStrategy a \<noteq> StrategyAuto \<and> ap_BuildStrategy a \<noteq> StrategyDockerfile \<and> ap_BuildStrategy a \<noteq> StrategyBuildpack,
       BuildError ''BUILD_SOURCE_INVALID'' 409 ''The source binding contains an invalid build strategy.'' ''source_binding''),
      (ap_DockerfilePath a \<noteq> [] \<and> \<not> canonicalRepositoryPath (ap_DockerfilePath a) False
         \<or> ap_BuildStrategy a = StrategyDockerfile \<and> ap_DockerfilePath a = [],
       BuildError ''BUILD_SOURCE_INVALID'' 409 ''The source binding contains an invalid Dockerfile path.'' ''source_binding'')]"

text \<open>\<open>exists_file path\<close> asks the repository at the resolved commit; it may fail.\<close>

fun existing :: "(string \<Rightarrow> build_error + bool) \<Rightarrow> string list \<Rightarrow> build_error + string list" where
  "existing exists_file [] = Inr []"
| "existing exists_file (candidate # rest) =
     (case exists_file candidate of Inl e \<Rightarrow> Inl e
      | Inr found \<Rightarrow> (case existing exists_file rest of Inl e \<Rightarrow> Inl e | Inr ws \<Rightarrow> Inr (if found then candidate # ws else ws)))"

text \<open>The third component is the failure with which the job would be stored; no branch gives one.\<close>

definition resolveStrategy :: "(string \<Rightarrow> build_error + bool) \<Rightarrow> ApplicationSource \<Rightarrow> build_error + string \<times> string \<times> build_error option" where
  "resolveStrategy exists_file a =
     (if ap_BuildStrategy a = StrategyBuildpack then Inr (StrategyBuildpack, [], None)
      else if ap_DockerfilePath a \<noteq> []
      then (case exists_file (ap_DockerfilePath a) of Inl e \<Rightarrow> Inl e
        | Inr found \<Rightarrow> if \<not> found
            then Inl (BuildError ''DOCKERFILE_NOT_FOUND'' 422 ''The selected Dockerfile does not exist at the resolved commit.'' ''dockerfile'')
            else Inr (StrategyDockerfile, ap_DockerfilePath a, None))
      else if ap_BuildStrategy a = StrategyDockerfile
      then Inl (BuildError ''DOCKERFILE_PATH_REQUIRED'' 422 ''Dockerfile strategy requires an explicit Dockerfile path.'' ''dockerfile'')
      else (case existing exists_file (uniqueStrings
            [repositoryPath (ap_ApplicationRoot a) ''Dockerfile'', repositoryPath (ap_BuildContext a) ''Dockerfile'']) of
          Inl e \<Rightarrow> Inl e
        | Inr [] \<Rightarrow> Inr (StrategyBuildpack, [], None)
        | Inr [found] \<Rightarrow> Inr (StrategyDockerfile, found, None)
        | Inr _ \<Rightarrow> Inl (BuildError ''DOCKERFILE_AMBIGUOUS'' 422 ''Multiple canonical Dockerfiles exist; select one explicitly.'' ''dockerfile'')))"

section \<open>Configurations\<close>

text \<open>strings.Trim with a cutset leaves nothing exactly when every character is in it.\<close>

definition only :: "(char \<Rightarrow> bool) \<Rightarrow> string \<Rightarrow> bool" where
  "only p s = list_all p s"

definition parses_uint16 :: "string \<Rightarrow> bool" where
  "parses_uint16 s = (s \<noteq> [] \<and> list_all is_digit s \<and> dec_val s < 2 ^ 16)"

definition validOCIHost :: "string \<Rightarrow> bool" where
  "validOCIHost value =
     (if value = [] \<or> value \<noteq> ToLower value \<or> ContainsAny value ''/@ '' then False
      else let parts = Split (CHR '':'') value in
        if (2 < length parts \<or> length parts = 2) \<and> \<not> parses_uint16 (parts ! 1) then False
        else list_all (\<lambda>part. \<not> (part = [] \<or> \<not> only (\<lambda>c. is_lower c \<or> is_digit c \<or> c = CHR ''-'') part
               \<or> HasPrefix part ''-'' \<or> HasSuffix part ''-'')) (Split (CHR ''.'') (parts ! 0)))"

definition validOCIPath :: "string \<Rightarrow> bool" where
  "validOCIPath value =
     (if value = [] \<or> value \<noteq> ToLower value \<or> 200 < length value then False
      else list_all (\<lambda>segment. \<not> (segment = [] \<or> \<not> only (\<lambda>c. is_lower c \<or> is_digit c \<or> c \<in> set ''._-'') segment
             \<or> HasPrefix segment ''.'' \<or> HasPrefix segment ''-'' \<or> HasSuffix segment ''.'' \<or> HasSuffix segment ''-''))
             (Split (CHR ''/'') value))"

definition validOCITag :: "string \<Rightarrow> bool" where
  "validOCITag value = (value \<noteq> [] \<and> length value \<le> 128 \<and> only (\<lambda>c. is_alnum c \<or> c \<in> set ''_.-'') value
     \<and> hd value \<noteq> CHR ''.'' \<and> hd value \<noteq> CHR ''-'')"

definition registry_error :: "RegistryConfig \<Rightarrow> build_error option" where
  "registry_error c = (if \<not> validOCIHost (gc_Host c) \<or> \<not> validOCIPath (gc_Namespace c) \<or> \<not> validOCIPath (gc_RepositoryPrefix c)
       \<or> gc_Visibility c \<noteq> ''private''
     then Some (build_invalid ''REGISTRY_CONFIG_INVALID'' ''Build registry configuration is invalid.'' ''registry_config'') else None)"

definition hex_digit :: "nat \<Rightarrow> char" where
  "hex_digit n = (if n < 10 then char_of (48 + n) else char_of (87 + n))"

definition hex_encode :: "string \<Rightarrow> string" where
  "hex_encode bytes = concat (map (\<lambda>c. [hex_digit (of_char c div 16), hex_digit (of_char c mod 16)]) bytes)"

definition registry_target :: "build_hashes \<Rightarrow> RegistryConfig \<Rightarrow> string \<Rightarrow> string \<Rightarrow> PublicationTarget" where
  "registry_target B c applicationID jobID =
     \<lparr>pt_Host = gc_Host c,
      pt_Repository = gc_Host c @ ''/'' @ gc_Namespace c @ ''/'' @ gc_RepositoryPrefix c @ ''/app-'' @ hex_encode (take 12 (bh_sha256 B applicationID)),
      pt_Tag = ''job-'' @ hex_encode (take 12 (bh_sha256 B jobID))\<rparr>"

definition DigestReference :: "PublicationTarget \<Rightarrow> string \<Rightarrow> string" where
  "DigestReference t digest = pt_Repository t @ ''@'' @ digest"

definition target_empty :: "PublicationTarget \<Rightarrow> bool" where
  "target_empty t = (pt_Host t = [] \<and> pt_Repository t = [] \<and> pt_Tag t = [])"

definition TrimPrefix :: "string \<Rightarrow> string \<Rightarrow> string" where
  "TrimPrefix s p = (if HasPrefix s p then drop (length p) s else s)"

definition target_error :: "PublicationTarget \<Rightarrow> build_error option" where
  "target_error t = (if \<not> validOCIHost (pt_Host t) \<or> \<not> HasPrefix (pt_Repository t) (pt_Host t @ ''/'')
       \<or> \<not> validOCIPath (TrimPrefix (pt_Repository t) (pt_Host t @ ''/'')) \<or> \<not> validOCITag (pt_Tag t)
     then Some (build_invalid ''REGISTRY_TARGET_INVALID'' ''Build registry target is invalid.'' ''registry_target'') else None)"

definition executor_available :: "ExecutorConfig \<Rightarrow> bool" where
  "executor_available c = (xc_Owner c \<noteq> [] \<and> xc_Repository c \<noteq> [] \<and> xc_Workflow c \<noteq> [] \<and> xc_Ref c \<noteq> [])"

definition executor_error :: "ExecutorConfig \<Rightarrow> build_error option" where
  "executor_error c =
     (let refName = TrimPrefix (TrimPrefix (xc_Ref c) ''refs/heads/'') ''refs/tags/'' in
      if \<not> validGitHubName (xc_Owner c) \<or> \<not> validGitHubName (xc_Repository c) \<or> \<not> HasPrefix (xc_Workflow c) ''.github/workflows/''
         \<or> \<not> (HasSuffix (xc_Workflow c) ''.yml'' \<or> HasSuffix (xc_Workflow c) ''.yaml'') \<or> \<not> canonicalRepositoryPath (xc_Workflow c) False
         \<or> refName = xc_Ref c \<or> refName = [] \<or> 512 < length (xc_Ref c) \<or> TrimSpace (xc_Ref c) \<noteq> xc_Ref c \<or> containsControl (xc_Ref c)
      then Some (build_invalid ''EXECUTOR_CONFIG_INVALID'' ''Build executor configuration is invalid.'' ''executor_config'') else None)"

definition RepositoryFullName :: "ExecutorConfig \<Rightarrow> string" where
  "RepositoryFullName c = xc_Owner c @ ''/'' @ xc_Repository c"

definition executor_WorkflowRef :: "ExecutorConfig \<Rightarrow> string" where
  "executor_WorkflowRef c = RepositoryFullName c @ ''/'' @ xc_Workflow c @ ''@'' @ xc_Ref c"

definition DispatchRef :: "ExecutorConfig \<Rightarrow> string" where
  "DispatchRef c = (let value = TrimPrefix (xc_Ref c) ''refs/heads/'' in
     if value \<noteq> xc_Ref c then value else TrimPrefix (xc_Ref c) ''refs/tags/'')"

section \<open>Jobs and specifications\<close>

definition strategy_valid :: "string \<Rightarrow> string \<Rightarrow> bool" where
  "strategy_valid strategy dockerfile = (strategy = StrategyDockerfile \<and> canonicalRepositoryPath dockerfile False
     \<or> strategy = StrategyBuildpack \<and> dockerfile = [])"

definition validateDispatchableJob :: "Job \<Rightarrow> build_error option" where
  "validateDispatchableJob job = first_failure
     [(jb_Status job \<noteq> StatusReady,
        BuildError ''BUILD_JOB_NOT_READY'' 409 ''BuildJob is not ready for dispatch.'' ''build_job_status''),
      (\<not> strategy_valid (jb_ResolvedBuildStrategy job) (jb_DockerfilePath job),
        BuildError ''BUILD_STRATEGY_NOT_DISPATCHABLE'' 409 ''BuildJob strategy is not dispatchable.'' ''build_strategy''),
      (\<not> validOpaqueID (jb_ProjectID job) \<or> \<not> validOpaqueID (jb_ApplicationID job) \<or> \<not> validOpaqueID (jb_EnvironmentID job)
         \<or> \<not> validOpaqueID (sx_BindingID (jb_Source job)) \<or> IsZero (sx_BindingUpdatedAt (jb_Source job)) \<or> sx_InstallationID (jb_Source job) \<le> 0
         \<or> sx_RepositoryID (jb_Source job) \<le> 0 \<or> sx_RepositoryOwnerID (jb_Source job) \<le> 0
         \<or> \<not> validRepositoryFullName (sx_RepositoryFullName (jb_Source job)) \<or> \<not> validSHA40 (sx_ResolvedCommitSHA (jb_Source job))
         \<or> \<not> canonicalRepositoryPath (sx_ApplicationRoot (jb_Source job)) True \<or> \<not> canonicalRepositoryPath (sx_BuildContext (jb_Source job)) True,
        BuildError ''BUILD_JOB_SNAPSHOT_INVALID'' 409 ''BuildJob immutable snapshot is invalid.'' ''build_job_snapshot'')]"

definition build_env_name :: "string \<Rightarrow> bool" where
  "build_env_name s = (case s of [] \<Rightarrow> False | c # cs \<Rightarrow> (is_lower c \<or> is_upper c \<or> c = CHR ''_'') \<and> list_all (\<lambda>c. is_alnum c \<or> c = CHR ''_'') cs)"

definition spec_error :: "BuildSpec \<Rightarrow> build_error option" where
  "spec_error s = first_failure
     [(\<not> validOpaqueID (bsx_BuildJobID s) \<or> \<not> validRepositoryFullName (bsx_Repository s) \<or> bsx_RepositoryID s \<le> 0 \<or> bsx_RepositoryOwnerID s \<le> 0
         \<or> bsx_GitHubInstallationID s \<le> 0 \<or> \<not> validSHA40 (bsx_ResolvedCommitSHA s) \<or> \<not> canonicalRepositoryPath (bsx_ApplicationRoot s) True
         \<or> \<not> canonicalRepositoryPath (bsx_BuildContext s) True \<or> \<not> strategy_valid (bsx_ResolvedBuildStrategy s) (bsx_DockerfilePath s)
         \<or> \<not> target_empty (bsx_Publication s) \<and> target_error (bsx_Publication s) \<noteq> None,
        BuildError ''BUILD_SPEC_INVALID'' 409 ''Build Spec is invalid.'' ''build_spec''),
      (list_ex (\<lambda>(k, v). \<not> build_env_name k \<or> 4096 < length v \<or> containsControl v) (bsx_BuildEnvironment s),
        BuildError ''BUILD_SPEC_INVALID'' 409 ''Build Spec environment is invalid.'' ''build_environment'')]"

definition buildSpec :: "build_hashes \<Rightarrow> Job \<Rightarrow> RegistryConfig \<Rightarrow> BuildSpec" where
  "buildSpec B job registry =
     \<lparr>bsx_BuildJobID = jb_ID job, bsx_Repository = sx_RepositoryFullName (jb_Source job), bsx_RepositoryID = sx_RepositoryID (jb_Source job),
      bsx_RepositoryOwnerID = sx_RepositoryOwnerID (jb_Source job), bsx_GitHubInstallationID = sx_InstallationID (jb_Source job),
      bsx_ResolvedCommitSHA = sx_ResolvedCommitSHA (jb_Source job), bsx_ApplicationRoot = sx_ApplicationRoot (jb_Source job),
      bsx_BuildContext = sx_BuildContext (jb_Source job), bsx_ResolvedBuildStrategy = jb_ResolvedBuildStrategy job,
      bsx_DockerfilePath = jb_DockerfilePath job, bsx_Publication = registry_target B registry (jb_ApplicationID job) (jb_ID job),
      bsx_BuildEnvironment = sx_BuildEnvironment (jb_Source job), bsx_ScanContext = None\<rparr>"

definition sourceMatchesSnapshot :: "ApplicationSource \<Rightarrow> Job \<Rightarrow> bool" where
  "sourceMatchesSnapshot a job = (ap_ProjectID a = jb_ProjectID job \<and> ap_ApplicationID a = jb_ApplicationID job \<and> ap_EnvironmentID a = jb_EnvironmentID job
     \<and> ap_BindingID a = sx_BindingID (jb_Source job) \<and> ap_BindingUpdatedAt a = sx_BindingUpdatedAt (jb_Source job)
     \<and> ap_InstallationID a = sx_InstallationID (jb_Source job) \<and> ap_RepositoryID a = sx_RepositoryID (jb_Source job)
     \<and> ap_RepositoryOwnerID a = sx_RepositoryOwnerID (jb_Source job) \<and> ap_RepositoryFullName a = sx_RepositoryFullName (jb_Source job)
     \<and> ap_SelectedRef a = sx_SelectedRef (jb_Source job) \<and> ap_ApplicationRoot a = sx_ApplicationRoot (jb_Source job)
     \<and> ap_BuildContext a = sx_BuildContext (jb_Source job) \<and> ap_BuildStrategy a = jb_RequestedBuildStrategy job
     \<and> (ap_DockerfilePath a = jb_DockerfilePath job \<or> ap_DockerfilePath a = [] \<and> jb_RequestedBuildStrategy job = StrategyAuto))"

section \<open>Runner results\<close>

definition validBuildpackMetadata :: "BuilderMetadata \<Rightarrow> bool" where
  "validBuildpackMetadata m = (bm_PackVersion m \<noteq> [] \<and> bm_BuilderImage m \<noteq> [] \<and> digestPattern (bm_BuilderImageDigest m) \<and> bm_RunImage m \<noteq> []
     \<and> digestPattern (bm_RunImageDigest m) \<and> bm_LifecycleVersion m \<noteq> [] \<and> bm_Buildpacks m \<noteq> [])"

definition validateRunnerResult :: "build_hashes \<Rightarrow> 'r RunnerResult \<Rightarrow> build_error option" where
  "validateRunnerResult B result =
     (let x = rnr_Executor result; local = xr_BuildDescriptor x; remote = rg_Descriptor (xr_Remote x); manifest = rg_Manifest (xr_Remote x) in
      first_failure
        [(\<not> validOpaqueID (rnr_BuildJobID result) \<or> \<not> validOpaqueID (rnr_AttemptID result) \<or> \<not> digestPattern (rnr_Digest result)
            \<or> rnr_RegistryReference result = [] \<or> xr_Platform x \<noteq> ''linux/amd64''
            \<or> xr_Strategy x \<noteq> StrategyDockerfile \<and> xr_Strategy x \<noteq> StrategyBuildpack \<or> xr_BuilderIdentity x = [] \<or> IsZero (xr_StartedAt x)
            \<or> xr_CompletedAt x < xr_StartedAt x \<or> \<not> rg_Private (xr_Remote x),
           build_invalid ''RUNNER_RESULT_INVALID'' ''Runner result is invalid.'' ''runner_result''),
         (xr_Strategy x = StrategyDockerfile \<and> (xr_BuildKitVersion x = [] \<or> xr_BuildxVersion x = [])
            \<or> xr_Strategy x = StrategyBuildpack \<and> \<not> validBuildpackMetadata (xr_Builder x),
           build_invalid ''RUNNER_RESULT_INVALID'' ''Runner builder metadata is invalid.'' ''runner_result''),
         (im_Digest local \<noteq> rnr_Digest result \<or> im_Digest remote \<noteq> rnr_Digest result \<or> \<not> digestPattern (im_Digest local)
            \<or> im_MediaType local = [] \<or> im_MediaType remote = [] \<or> im_MediaType local \<noteq> im_MediaType remote
            \<or> 0 < im_Size local \<and> im_Size remote \<noteq> im_Size local \<or> rg_Platform (xr_Remote x) \<noteq> xr_Platform x
            \<or> length manifest = 0 \<or> 4 * 2 ^ 20 < length manifest,
           BuildError ''REGISTRY_DIGEST_MISMATCH'' 409 ''Registry result does not match build output.'' ''registry_digest''),
         (''sha256:'' @ hex_encode (bh_sha256 B manifest) \<noteq> im_Digest remote,
           BuildError ''REGISTRY_DIGEST_MISMATCH'' 409 ''Remote registry manifest digest does not match the result.'' ''registry_digest''),
         (bh_media_type B manifest \<noteq> Some (im_MediaType remote),
           build_invalid ''RUNNER_RESULT_INVALID'' ''Remote registry descriptor is invalid.'' ''registry_descriptor'')])"

definition runner_failures :: "string list" where
  "runner_failures = [''USER_BUILD_FAILED'', ''REGISTRY_AUTH_FAILED'', ''REGISTRY_PUSH_FAILED'', ''REGISTRY_DIGEST_MISMATCH'',
     ''REGISTRY_ARTIFACT_NOT_FOUND'', ''EXECUTOR_INFRASTRUCTURE_FAILED'', ''SOURCE_ACCESS_DENIED'', ''SOURCE_TOKEN_UNAVAILABLE'',
     ''BUILDPACK_DETECTION_FAILED'', ''BUILDPACK_BUILD_FAILED'', ''BUILDPACK_RUN_IMAGE_UNAVAILABLE'', ''BUILDPACK_BUILDER_UNAVAILABLE'',
     ''BUILDPACK_MONOREPO_UNSUPPORTED'', ''BUILDPACK_RESULT_INVALID'']"

definition validRunnerFailure :: "string \<Rightarrow> bool" where
  "validRunnerFailure code = (code \<in> set runner_failures)"

definition runner_messages :: "(string \<times> string) list" where
  "runner_messages =
     [(''USER_BUILD_FAILED'', ''Dockerfile build failed.''),
      (''BUILDPACK_DETECTION_FAILED'', ''Buildpacks could not detect a deterministic build plan.''),
      (''BUILDPACK_BUILD_FAILED'', ''Buildpacks build failed.''),
      (''BUILDPACK_RUN_IMAGE_UNAVAILABLE'', ''Pinned Buildpacks run image is unavailable.''),
      (''BUILDPACK_BUILDER_UNAVAILABLE'', ''Pinned Buildpacks builder is unavailable.''),
      (''BUILDPACK_MONOREPO_UNSUPPORTED'', ''Buildpacks shared monorepo layout is unsupported.''),
      (''BUILDPACK_RESULT_INVALID'', ''Buildpacks result metadata is invalid.''),
      (''REGISTRY_AUTH_FAILED'', ''Registry authentication failed.''),
      (''REGISTRY_PUSH_FAILED'', ''Registry publication failed.''),
      (''REGISTRY_DIGEST_MISMATCH'', ''Registry digest verification failed.''),
      (''REGISTRY_ARTIFACT_NOT_FOUND'', ''Published registry artifact was not found.'')]"

definition runnerFailureMessage :: "string \<Rightarrow> string" where
  "runnerFailureMessage code = (case map_of runner_messages code of None \<Rightarrow> ''Build executor infrastructure failed.'' | Some m \<Rightarrow> m)"

section \<open>The build record of a finished job\<close>

definition ComputeBuildConfigHash :: "build_hashes \<Rightarrow> string \<Rightarrow> string \<Rightarrow> string \<Rightarrow> string \<Rightarrow> string \<Rightarrow> string \<Rightarrow> string" where
  "ComputeBuildConfigHash B commit strategy dockerfile buildContext repository buildDepState = bh_config B
     \<lparr>bci_Commit = commit, bci_Strategy = strategy, bci_Dockerfile = dockerfile, bci_Context = buildContext, bci_Repository = repository,
      bci_BuildDepState = buildDepState\<rparr>"

text \<open>The conversions from int64 to uint64 wrap.\<close>

definition uint64_of :: "int \<Rightarrow> nat" where
  "uint64_of n = nat (n mod 2 ^ 64)"

definition runnerBuildRecord :: "build_hashes \<Rightarrow> Job \<Rightarrow> DispatchAttempt \<Rightarrow> string \<Rightarrow> 'r RunnerResult \<Rightarrow> PublicationTarget \<Rightarrow> ExecutorConfig \<Rightarrow> time
    \<Rightarrow> BuildRecord" where
  "runnerBuildRecord B job attempt serviceKey result target executor now =
     (let x = rnr_Executor result; sx = jb_Source job;
          configHash = ComputeBuildConfigHash B (sx_ResolvedCommitSHA sx) (jb_ResolvedBuildStrategy job) (jb_DockerfilePath job) (sx_BuildContext sx)
            (pt_Repository target) (sx_BuildDependencyState sx);
          builderVersion = (if jb_ResolvedBuildStrategy job = StrategyBuildpack
            then ''pack-'' @ bm_PackVersion (xr_Builder x) @ ''/lifecycle-'' @ bm_LifecycleVersion (xr_Builder x)
            else xr_BuildKitVersion x @ ''/buildx-'' @ xr_BuildxVersion x) in
      \<lparr>br_SchemaVersion = BuildRecordSchemaVersion, br_ID = ''br-'' @ hex_encode (take 16 (bh_sha256 B (jb_ID job))), br_ProjectID = jb_ProjectID job,
       br_RepositoryID = uint64_of (sx_RepositoryID sx), br_RepositoryOwnerID = uint64_of (sx_RepositoryOwnerID sx),
       br_ActiveBindingID = sx_BindingID sx, br_ServiceID = jb_ApplicationID job, br_ServiceKey = serviceKey, br_CreatedAt = now,
       br_Workload = \<lparr>wi_Issuer = ''https://token.actions.githubusercontent.com'',
         wi_Subject = ''repo:'' @ RepositoryFullName executor @ '':ref:'' @ xc_Ref executor, wi_RepositoryID = uint64_of (sx_RepositoryID sx),
         wi_RepositoryOwnerID = uint64_of (sx_RepositoryOwnerID sx), wi_Ref = xc_Ref executor, wi_SHA = sx_ResolvedCommitSHA sx,
         wi_EventName = ''workflow_dispatch'', wi_Workflow = at_Workflow attempt, wi_WorkflowRef = at_WorkflowRef attempt, wi_JobWorkflowRef = [],
         wi_RunID = at_RunID attempt, wi_RunAttempt = at_RunAttempt attempt\<rparr>,
       br_Build = \<lparr>bd_ConfigHash = configHash, bd_PlanHash = [], bd_Platform = xr_Platform x, bd_OCIRepository = pt_Repository target,
         bd_OCIDigest = rnr_Digest result, bd_ProvenanceDigest = [], bd_BuildJobID = jb_ID job, bd_BuildStrategy = jb_ResolvedBuildStrategy job,
         bd_BuilderIdentity = xr_BuilderIdentity x, bd_BuilderVersion = builderVersion, bd_Builder = xr_Builder x,
         bd_MediaType = im_MediaType (rg_Descriptor (xr_Remote x)), bd_Status = ''succeeded''\<rparr>\<rparr>)"

end
