(* ===== verification/Build_Job_Store.thy ===== *)
theory Build_Job_Store
  imports Build_Job "HOL-Library.AList"
begin

text \<open>
  The store of build jobs in memory (cloud/internal/buildjob/memory.go): one function per operation,
  each run under the mutex. A loop over the map of attempts visits it in an order that the runtime
  chooses: \<open>visit\<close> lists the entries in that order.
\<close>

section \<open>The store\<close>

record job_memory =
  jm_byID :: "(string \<times> Job) list"
  jm_byIdempotency :: "string \<Rightarrow> string option"
  jm_attempts :: "(string \<times> DispatchAttempt) list"

type_synonym visit = "(string \<times> DispatchAttempt) list \<Rightarrow> (string \<times> DispatchAttempt) list"

definition NewJobStore :: job_memory where
  "NewJobStore = \<lparr>jm_byID = [], jm_byIdempotency = (\<lambda>_. None), jm_attempts = []\<rparr>"

definition zero_source :: SourceSnapshot where
  "zero_source = \<lparr>sx_BindingID = [], sx_BindingUpdatedAt = zero_time, sx_InstallationID = 0, sx_RepositoryID = 0, sx_RepositoryOwnerID = 0,
     sx_RepositoryFullName = [], sx_SelectedRef = [], sx_ResolvedCommitSHA = [], sx_ApplicationRoot = [], sx_BuildContext = [],
     sx_BuildDependencyState = [], sx_BuildEnvironment = []\<rparr>"

definition zero_job :: Job where
  "zero_job = \<lparr>jb_ID = [], jb_ProjectID = [], jb_EnvironmentID = [], jb_ApplicationID = [], jb_Source = zero_source, jb_RequestedBuildStrategy = [],
     jb_ResolvedBuildStrategy = [], jb_DockerfilePath = [], jb_Status = [], jb_FailureCode = [], jb_FailureMessageRedacted = [], jb_FailureCause = [],
     jb_BuildRecordID = [], jb_CompletedAt = None, jb_CreatedBy = [], jb_CreatedAt = zero_time, jb_UpdatedAt = zero_time, jb_IdempotencyKey = []\<rparr>"

definition lookup_job :: "job_memory \<Rightarrow> string \<Rightarrow> Job" where
  "lookup_job s jobID = (case map_of (jm_byID s) jobID of None \<Rightarrow> zero_job | Some job \<Rightarrow> job)"

definition put_job :: "string \<Rightarrow> Job \<Rightarrow> job_memory \<Rightarrow> job_memory" where
  "put_job jobID job s = s\<lparr>jm_byID := AList.update jobID job (jm_byID s)\<rparr>"

definition put_attempt :: "string \<Rightarrow> DispatchAttempt \<Rightarrow> job_memory \<Rightarrow> job_memory" where
  "put_attempt attemptID a s = s\<lparr>jm_attempts := AList.update attemptID a (jm_attempts s)\<rparr>"

definition job_not_found :: build_error where
  "job_not_found = BuildError ''BUILD_JOB_NOT_FOUND'' 404 ''BuildJob was not found.'' ''build_job''"

definition scoped_job :: "job_memory \<Rightarrow> string \<Rightarrow> string \<Rightarrow> string \<Rightarrow> Job option" where
  "scoped_job s projectID applicationID jobID = (case map_of (jm_byID s) jobID of None \<Rightarrow> None
     | Some job \<Rightarrow> if jb_ProjectID job \<noteq> projectID \<or> jb_ApplicationID job \<noteq> applicationID then None else Some job)"

definition active_state :: "string \<Rightarrow> bool" where
  "active_state state = (state = DispatchStateDispatching \<or> state = DispatchStateDispatched \<or> state = DispatchStateClaimed)"

section \<open>Dispatch\<close>

definition memory_ReserveDispatch :: "string \<Rightarrow> string \<Rightarrow> DispatchAttempt \<Rightarrow> job_memory \<Rightarrow> build_error option \<times> job_memory" where
  "memory_ReserveDispatch projectID applicationID attempt s =
     (case scoped_job s projectID applicationID (at_BuildJobID attempt) of
        None \<Rightarrow> (Some job_not_found, s)
      | Some job \<Rightarrow>
          (case validateDispatchableJob job of Some e \<Rightarrow> (Some e, s) | None \<Rightarrow>
           if list_ex (\<lambda>(_, a). at_BuildJobID a = jb_ID job \<and> active_state (at_LastState a)) (jm_attempts s)
           then (Some (BuildError ''DUPLICATE_ACTIVE_DISPATCH'' 409 ''BuildJob already has an active dispatch attempt.'' ''executor_dispatch''), s)
           else (None, put_attempt (at_AttemptID attempt) attempt s)))"

definition memory_CompleteDispatch :: "string \<Rightarrow> DispatchFacts \<Rightarrow> time \<Rightarrow> job_memory \<Rightarrow> (build_error + DispatchAttempt) \<times> job_memory" where
  "memory_CompleteDispatch attemptID facts now s =
     (case map_of (jm_attempts s) attemptID of None \<Rightarrow> (Inl build_unavailable, s) | Some a \<Rightarrow>
      if at_LastState a \<noteq> DispatchStateDispatching then (Inl build_unavailable, s)
      else let a = a\<lparr>at_LastState := DispatchStateDispatched, at_DispatchedAt := now, at_RunID := dfa_RunID facts,
             at_RunAttempt := dfa_RunAttempt facts, at_RunURL := dfa_RunURL facts\<rparr> in (Inr a, put_attempt attemptID a s))"

definition memory_RejectDispatch :: "string \<Rightarrow> string \<Rightarrow> time \<Rightarrow> job_memory \<Rightarrow> build_error option \<times> job_memory" where
  "memory_RejectDispatch attemptID code now s =
     (case map_of (jm_attempts s) attemptID of None \<Rightarrow> (Some build_unavailable, s) | Some a \<Rightarrow>
      (None, put_attempt attemptID (a\<lparr>at_LastState := DispatchStateRejected, at_FailureCode := code, at_CompletedAt := Some now\<rparr>) s))"

definition failed_job :: "string \<Rightarrow> string \<Rightarrow> time \<Rightarrow> Job \<Rightarrow> Job" where
  "failed_job code message now job = job\<lparr>jb_Status := StatusFailed, jb_FailureCode := code, jb_FailureMessageRedacted := message,
     jb_FailureCause := ''executor'', jb_CompletedAt := Some now, jb_UpdatedAt := now\<rparr>"

definition memory_ExpireUnclaimedDispatch :: "visit \<Rightarrow> string \<Rightarrow> string \<Rightarrow> string \<Rightarrow> time \<Rightarrow> time \<Rightarrow> job_memory
    \<Rightarrow> (build_error + Job \<times> bool) \<times> job_memory" where
  "memory_ExpireUnclaimedDispatch visit projectID applicationID jobID cutoff now s =
     (case scoped_job s projectID applicationID jobID of None \<Rightarrow> (Inl job_not_found, s) | Some job \<Rightarrow>
      if jb_Status job \<noteq> StatusReady then (Inr (job, False), s)
      else case List.find (\<lambda>(_, a). \<not> (at_BuildJobID a \<noteq> jobID \<or> at_LastState a \<noteq> DispatchStateDispatched \<or> cutoff < at_DispatchedAt a))
             (visit (jm_attempts s)) of
          None \<Rightarrow> (Inr (job, False), s)
        | Some (attemptID, a) \<Rightarrow>
            let a = a\<lparr>at_LastState := DispatchStateRejected, at_FailureCode := ''RUNNER_CLAIM_TIMEOUT'', at_CompletedAt := Some now\<rparr>;
                job = failed_job ''RUNNER_CLAIM_TIMEOUT'' ''The build executor did not claim its dispatched job before the deadline.'' now job in
            (Inr (job, True), put_job jobID job (put_attempt attemptID a s)))"

section \<open>Runners\<close>

definition run_mismatch :: build_error where
  "run_mismatch = BuildError ''EXECUTOR_RUN_MISMATCH'' 409 ''Executor run does not match the dispatch attempt.'' ''executor_run''"

definition claimed_attempt :: "RunnerIdentity \<Rightarrow> string \<Rightarrow> time \<Rightarrow> time \<Rightarrow> DispatchAttempt \<Rightarrow> DispatchAttempt" where
  "claimed_attempt identity leaseHash expiresAt now a =
     a\<lparr>at_LastState := DispatchStateClaimed, at_RunID := rn_RunID identity, at_RunAttempt := rn_RunAttempt identity,
       at_RunURL := ''https://github.com/'' @ rn_Repository identity @ ''/actions/runs/'' @ dec (rn_RunID identity),
       at_ClaimedAt := Some now, at_LeaseHash := leaseHash, at_LeaseExpiresAt := expiresAt\<rparr>"

definition memory_ClaimDispatch :: "string \<Rightarrow> string \<Rightarrow> RunnerIdentity \<Rightarrow> string \<Rightarrow> time \<Rightarrow> time \<Rightarrow> job_memory \<Rightarrow> build_error option \<times> job_memory" where
  "memory_ClaimDispatch jobID attemptID identity leaseHash expiresAt now s =
     (case map_of (jm_attempts s) attemptID of None \<Rightarrow> (Some run_mismatch, s) | Some a \<Rightarrow>
      if at_BuildJobID a \<noteq> jobID then (Some run_mismatch, s)
      else if at_ClaimedAt a \<noteq> None \<or> at_LastState a = DispatchStateClaimed
      then (Some (BuildError ''RUNNER_CLAIM_CONSUMED'' 409 ''Runner claim was already consumed.'' ''runner_claim''), s)
      else if at_LastState a \<noteq> DispatchStateDispatched \<or> at_RunID a \<noteq> 0 \<and> at_RunID a \<noteq> rn_RunID identity
         \<or> at_RunAttempt a \<noteq> 0 \<and> at_RunAttempt a \<noteq> rn_RunAttempt identity then (Some run_mismatch, s)
      else let not_ready = BuildError ''BUILD_JOB_NOT_READY'' 409 ''BuildJob is not ready for runner claim.'' ''build_job_status'' in
        (case map_of (jm_byID s) jobID of None \<Rightarrow> (Some not_ready, s) | Some job \<Rightarrow>
         if jb_Status job \<noteq> StatusReady then (Some not_ready, s)
         else (None, put_attempt attemptID (claimed_attempt identity leaseHash expiresAt now a)
                (put_job jobID (job\<lparr>jb_Status := StatusRunning, jb_UpdatedAt := now\<rparr>) s))))"

definition lease_invalid :: build_error where
  "lease_invalid = BuildError ''RUNNER_LEASE_INVALID'' 401 ''Runner lease is invalid.'' ''runner_lease''"

definition lease_revoked :: build_error where
  "lease_revoked = BuildError ''RUNNER_LEASE_REVOKED'' 409 ''Runner lease is no longer valid for this BuildJob.'' ''build_job_status''"

definition holder :: "visit \<Rightarrow> string \<Rightarrow> job_memory \<Rightarrow> (string \<times> DispatchAttempt) option" where
  "holder visit leaseHash s = List.find (\<lambda>(_, a). at_LeaseHash a = leaseHash) (visit (jm_attempts s))"

definition memory_GetRunnerJob :: "visit \<Rightarrow> RunnerAccess \<Rightarrow> time \<Rightarrow> job_memory \<Rightarrow> build_error + Job" where
  "memory_GetRunnerJob visit access now s =
     (case holder visit (acc_LeaseHash access) s of None \<Rightarrow> Inl lease_invalid | Some (_, a) \<Rightarrow>
      if at_BuildJobID a \<noteq> acc_JobID access \<or> acc_AttemptID access \<noteq> [] \<and> at_AttemptID a \<noteq> acc_AttemptID access
         \<or> acc_RunID access \<noteq> 0 \<and> at_RunID a \<noteq> acc_RunID access \<or> acc_RunAttempt access \<noteq> 0 \<and> at_RunAttempt a \<noteq> acc_RunAttempt access
      then Inl (BuildError ''RUNNER_LEASE_SCOPE_MISMATCH'' 403 ''Runner lease cannot access this BuildJob attempt.'' ''runner_lease_scope'')
      else if IsZero (at_LeaseExpiresAt a) \<or> at_LeaseExpiresAt a \<le> now
      then Inl (BuildError ''RUNNER_LEASE_EXPIRED'' 401 ''Runner lease has expired.'' ''runner_lease'')
      else if at_LastState a \<noteq> DispatchStateClaimed
      then Inl (BuildError ''RUNNER_LEASE_REVOKED'' 409 ''Runner lease is no longer valid for this dispatch attempt.'' ''runner_lease'')
      else (case map_of (jm_byID s) (acc_JobID access) of None \<Rightarrow> Inl lease_revoked
        | Some job \<Rightarrow> if jb_Status job \<noteq> StatusRunning then Inl lease_revoked else Inr job))"

definition memory_CompleteRunner :: "'r Completion \<Rightarrow> RegistryConfig \<Rightarrow> ExecutorConfig \<Rightarrow> job_memory \<Rightarrow> (build_error + CompletionResult) \<times> job_memory" where
  "memory_CompleteRunner completion registry executor s = (Inl build_unavailable, s)"

definition memory_FailRunner :: "visit \<Rightarrow> RunnerFailure \<Rightarrow> string \<Rightarrow> time \<Rightarrow> job_memory \<Rightarrow> build_error option \<times> job_memory" where
  "memory_FailRunner visit failure leaseHash now s =
     (case holder visit leaseHash s of None \<Rightarrow> (Some lease_invalid, s) | Some (attemptID, a) \<Rightarrow>
      let job = lookup_job s (rnf_BuildJobID failure) in
      if at_BuildJobID a \<noteq> rnf_BuildJobID failure \<or> at_AttemptID a \<noteq> rnf_AttemptID failure \<or> at_LeaseExpiresAt a \<le> now
         \<or> at_LastState a \<noteq> DispatchStateClaimed \<or> jb_Status job \<noteq> StatusRunning then (Some lease_revoked, s)
      else (None, put_attempt attemptID (a\<lparr>at_LastState := DispatchStateFailed, at_FailureCode := rnf_Code failure, at_CompletedAt := Some now\<rparr>)
             (put_job (jb_ID job) (failed_job (rnf_Code failure) (runnerFailureMessage (rnf_Code failure)) now job) s)))"

section \<open>Jobs\<close>

definition cancelled_attempt :: "time \<Rightarrow> DispatchAttempt \<Rightarrow> DispatchAttempt" where
  "cancelled_attempt now a = a\<lparr>at_LastState := DispatchStateCancelled, at_FailureCode := ''BUILD_CANCELLED'', at_CompletedAt := Some now,
     at_LeaseHash := [], at_LeaseExpiresAt := zero_time\<rparr>"

definition active_attempt :: "string \<Rightarrow> DispatchAttempt \<Rightarrow> bool" where
  "active_attempt jobID a = (\<not> (at_BuildJobID a \<noteq> jobID \<or> at_LastState a \<noteq> DispatchStateDispatching
     \<and> at_LastState a \<noteq> DispatchStateDispatched \<and> at_LastState a \<noteq> DispatchStateClaimed))"

text \<open>The attempt that the caller gets is the last one that the loop met.\<close>

definition memory_Cancel :: "visit \<Rightarrow> string \<Rightarrow> string \<Rightarrow> string \<Rightarrow> time \<Rightarrow> job_memory
    \<Rightarrow> (build_error + Job \<times> DispatchAttempt option) \<times> job_memory" where
  "memory_Cancel visit projectID applicationID jobID now s =
     (case scoped_job s projectID applicationID jobID of None \<Rightarrow> (Inl job_not_found, s) | Some job \<Rightarrow>
      if jb_Status job = StatusSucceeded \<or> jb_Status job = StatusFailed \<or> jb_Status job = StatusCancelled then (Inr (job, None), s)
      else let job = job\<lparr>jb_Status := StatusCancelled, jb_FailureCode := ''BUILD_CANCELLED'',
               jb_FailureMessageRedacted := ''Build was cancelled by the deployment workflow.'', jb_FailureCause := ''workflow_cancel'',
               jb_CompletedAt := Some now, jb_UpdatedAt := now\<rparr>;
             met = filter (\<lambda>(_, a). active_attempt jobID a) (visit (jm_attempts s));
             target = (if met = [] then None else Some (cancelled_attempt now (snd (last met)))) in
        (Inr (job, target),
         put_job jobID job (s\<lparr>jm_attempts := map (\<lambda>(attemptID, a). (attemptID, if active_attempt jobID a then cancelled_attempt now a else a))
           (jm_attempts s)\<rparr>)))"

definition idempotencyScope :: "string \<Rightarrow> string \<Rightarrow> string \<Rightarrow> string" where
  "idempotencyScope projectID applicationID key = projectID @ [CHR 0x00] @ applicationID @ [CHR 0x00] @ key"

definition memory_Create :: "Job \<Rightarrow> job_memory \<Rightarrow> (build_error + Job \<times> bool) \<times> job_memory" where
  "memory_Create job s =
     (let key = idempotencyScope (jb_ProjectID job) (jb_ApplicationID job) (jb_IdempotencyKey job) in
      case jm_byIdempotency s key of
        Some jobID \<Rightarrow> (Inr (lookup_job s jobID, True), s)
      | None \<Rightarrow> (Inr (job, False), (put_job (jb_ID job) job s)\<lparr>jm_byIdempotency := (jm_byIdempotency s)(key \<mapsto> jb_ID job)\<rparr>))"

definition memory_GetJob :: "string \<Rightarrow> string \<Rightarrow> string \<Rightarrow> job_memory \<Rightarrow> build_error + Job" where
  "memory_GetJob projectID applicationID jobID s = (case scoped_job s projectID applicationID jobID of None \<Rightarrow> Inl job_not_found | Some job \<Rightarrow> Inr job)"

definition memory_GetByIdempotency :: "string \<Rightarrow> string \<Rightarrow> string \<Rightarrow> job_memory \<Rightarrow> build_error + Job option" where
  "memory_GetByIdempotency projectID applicationID key s =
     (case jm_byIdempotency s (idempotencyScope projectID applicationID key) of None \<Rightarrow> Inr None | Some jobID \<Rightarrow> Inr (Some (lookup_job s jobID)))"

text \<open>Newest first; jobs of one instant by descending identity.\<close>

definition newer_job :: "Job \<Rightarrow> Job \<Rightarrow> bool" where
  "newer_job a b = (if jb_CreatedAt a = jb_CreatedAt b then jb_ID b < jb_ID a else jb_CreatedAt b < jb_CreatedAt a)"

fun insert_job :: "Job \<Rightarrow> Job list \<Rightarrow> Job list" where
  "insert_job a [] = [a]"
| "insert_job a (b # bs) = (if newer_job b a then b # insert_job a bs else a # b # bs)"

definition memory_ListJobs :: "string \<Rightarrow> string \<Rightarrow> string \<Rightarrow> int \<Rightarrow> job_memory \<Rightarrow> build_error + Job list" where
  "memory_ListJobs projectID applicationID status limit s =
     Inr (take (nat limit) (foldr insert_job (filter (\<lambda>job. jb_ProjectID job = projectID \<and> jb_ApplicationID job = applicationID
       \<and> (status = [] \<or> jb_Status job = status)) (map snd (jm_byID s))) []))"

end
