(* ===== verification/Build_Job_Service.thy ===== *)
theory Build_Job_Service
  imports Build_Job_Store
begin

text \<open>
  The build job service (cloud/internal/buildjob/service.go and executor.go) over any store:
  creation from the active source binding, dispatch to the external executor, the claim of a runner
  and what its lease gives it, completion, failure and cancellation. The source and repository
  authorities and the executor are fields; clock and random bytes are arguments of a call.
\<close>

section \<open>The service\<close>

record ('s, 'r) job_store =
  js_Create :: "Job \<Rightarrow> 's \<Rightarrow> (build_error + Job \<times> bool) \<times> 's"
  js_Get :: "string \<Rightarrow> string \<Rightarrow> string \<Rightarrow> 's \<Rightarrow> build_error + Job"
  js_GetByIdempotency :: "string \<Rightarrow> string \<Rightarrow> string \<Rightarrow> 's \<Rightarrow> build_error + Job option"
  js_List :: "string \<Rightarrow> string \<Rightarrow> string \<Rightarrow> int \<Rightarrow> 's \<Rightarrow> build_error + Job list"
  js_ReserveDispatch :: "string \<Rightarrow> string \<Rightarrow> DispatchAttempt \<Rightarrow> 's \<Rightarrow> build_error option \<times> 's"
  js_CompleteDispatch :: "string \<Rightarrow> DispatchFacts \<Rightarrow> time \<Rightarrow> 's \<Rightarrow> (build_error + DispatchAttempt) \<times> 's"
  js_RejectDispatch :: "string \<Rightarrow> string \<Rightarrow> time \<Rightarrow> 's \<Rightarrow> build_error option \<times> 's"
  js_ExpireUnclaimedDispatch :: "string \<Rightarrow> string \<Rightarrow> string \<Rightarrow> time \<Rightarrow> time \<Rightarrow> 's \<Rightarrow> (build_error + Job \<times> bool) \<times> 's"
  js_ClaimDispatch :: "string \<Rightarrow> string \<Rightarrow> RunnerIdentity \<Rightarrow> string \<Rightarrow> time \<Rightarrow> time \<Rightarrow> 's \<Rightarrow> build_error option \<times> 's"
  js_GetRunnerJob :: "RunnerAccess \<Rightarrow> time \<Rightarrow> 's \<Rightarrow> build_error + Job"
  js_CompleteRunner :: "'r Completion \<Rightarrow> RegistryConfig \<Rightarrow> ExecutorConfig \<Rightarrow> 's \<Rightarrow> (build_error + CompletionResult) \<times> 's"
  js_FailRunner :: "RunnerFailure \<Rightarrow> string \<Rightarrow> time \<Rightarrow> 's \<Rightarrow> build_error option \<times> 's"
  js_Cancel :: "string \<Rightarrow> string \<Rightarrow> string \<Rightarrow> time \<Rightarrow> 's \<Rightarrow> (build_error + Job \<times> DispatchAttempt option) \<times> 's"

definition job_memory_ops :: "visit \<Rightarrow> (job_memory, 'r) job_store" where
  "job_memory_ops visit = \<lparr>js_Create = memory_Create, js_Get = memory_GetJob, js_GetByIdempotency = memory_GetByIdempotency, js_List = memory_ListJobs,
     js_ReserveDispatch = memory_ReserveDispatch, js_CompleteDispatch = memory_CompleteDispatch, js_RejectDispatch = memory_RejectDispatch,
     js_ExpireUnclaimedDispatch = memory_ExpireUnclaimedDispatch visit, js_ClaimDispatch = memory_ClaimDispatch,
     js_GetRunnerJob = memory_GetRunnerJob visit, js_CompleteRunner = memory_CompleteRunner, js_FailRunner = memory_FailRunner visit,
     js_Cancel = memory_Cancel visit\<rparr>"

record repository_authority =
  ra_ResolveCommit :: "int \<Rightarrow> string \<Rightarrow> string \<Rightarrow> build_error + string"
  ra_FileExists :: "int \<Rightarrow> string \<Rightarrow> string \<Rightarrow> string \<Rightarrow> build_error + bool"

record dispatcher =
  di_DispatchWorkflow :: "ExecutorConfig \<Rightarrow> string \<Rightarrow> string \<Rightarrow> build_error + DispatchFacts"
  di_CancelWorkflow :: "(ExecutorConfig \<Rightarrow> nat \<Rightarrow> build_error option) option" \<comment> \<open>None: the dispatcher is no WorkflowCanceller\<close>

record ('s, 'r) build_service =
  bv_Store :: "('s, 'r) job_store option"
  bv_Sources :: "(string \<Rightarrow> string \<Rightarrow> build_error + ApplicationSource) option"
  bv_Repository :: "repository_authority option"
  bv_Executor :: ExecutorConfig
  bv_Registry :: RegistryConfig
  bv_Dispatcher :: "dispatcher option"
  bv_Hashes :: build_hashes

text \<open>The clock at the first and at a later reading, the new job identity and the random bytes; None: the source of randomness failed.\<close>

record build_call =
  bc_Now :: time
  bc_Later :: time
  bc_NewID :: "string option"
  bc_Random :: "string option"

definition newJobID :: "string \<Rightarrow> string" where
  "newJobID raw = ''bj-'' @ hex_encode raw"

definition newOpaqueID :: "string \<Rightarrow> string \<Rightarrow> string" where
  "newOpaqueID pre raw = pre @ hex_encode raw"

text \<open>base64.RawURLEncoding\<close>

definition base64_digit :: "nat \<Rightarrow> char" where
  "base64_digit n = (if n < 26 then char_of (65 + n) else if n < 52 then char_of (71 + n) else if n < 62 then char_of (n - 4)
     else if n = 62 then CHR ''-'' else CHR ''_'')"

fun base64_url :: "string \<Rightarrow> string" where
  "base64_url [] = []"
| "base64_url [a] = (let n = of_char a :: nat in map base64_digit [n div 4, n mod 4 * 16])"
| "base64_url [a, b] = (let n = of_char a * 256 + of_char b :: nat in map base64_digit [n div 1024, n div 16 mod 64, n mod 16 * 4])"
| "base64_url (a # b # c # rest) = (let n = (of_char a * 256 + of_char b) * 256 + of_char c :: nat in
     map base64_digit [n div 262144, n div 4096 mod 64, n div 64 mod 64, n mod 64] @ base64_url rest)"

definition newLeaseCredential :: "build_hashes \<Rightarrow> string \<Rightarrow> string \<times> string" where
  "newLeaseCredential B raw = (let token = base64_url raw in (token, bh_sha256 B token))"

section \<open>Jobs\<close>

definition snapshot_source :: "ApplicationSource \<Rightarrow> string \<Rightarrow> SourceSnapshot" where
  "snapshot_source a sha = \<lparr>sx_BindingID = ap_BindingID a, sx_BindingUpdatedAt = ap_BindingUpdatedAt a, sx_InstallationID = ap_InstallationID a,
     sx_RepositoryID = ap_RepositoryID a, sx_RepositoryOwnerID = ap_RepositoryOwnerID a, sx_RepositoryFullName = ap_RepositoryFullName a,
     sx_SelectedRef = ap_SelectedRef a, sx_ResolvedCommitSHA = sha, sx_ApplicationRoot = ap_ApplicationRoot a, sx_BuildContext = ap_BuildContext a,
     sx_BuildDependencyState = ap_BuildDependencyState a, sx_BuildEnvironment = ap_BuildEnvironment a\<rparr>"

definition new_job :: "string \<Rightarrow> string \<Rightarrow> string \<Rightarrow> string \<Rightarrow> string \<Rightarrow> ApplicationSource \<Rightarrow> string \<Rightarrow> string \<Rightarrow> string \<Rightarrow> build_error option \<Rightarrow> time
    \<Rightarrow> Job" where
  "new_job jobID projectID applicationID createdBy key a sha resolved dockerfile failure now =
     (let job = \<lparr>jb_ID = jobID, jb_ProjectID = projectID, jb_EnvironmentID = ap_EnvironmentID a, jb_ApplicationID = applicationID,
            jb_Source = snapshot_source a sha, jb_RequestedBuildStrategy = ap_BuildStrategy a, jb_ResolvedBuildStrategy = resolved,
            jb_DockerfilePath = dockerfile, jb_Status = StatusReady, jb_FailureCode = [], jb_FailureMessageRedacted = [], jb_FailureCause = [],
            jb_BuildRecordID = [], jb_CompletedAt = None, jb_CreatedBy = createdBy, jb_CreatedAt = now, jb_UpdatedAt = now, jb_IdempotencyKey = key\<rparr> in
      case failure of None \<Rightarrow> job
      | Some e \<Rightarrow> job\<lparr>jb_Status := StatusFailed, jb_FailureCode := be_Code e, jb_FailureMessageRedacted := be_Message e, jb_FailureCause := be_Cause e\<rparr>)"

definition CreateJob :: "('s, 'r) build_service \<Rightarrow> build_call \<Rightarrow> string \<Rightarrow> string \<Rightarrow> string \<Rightarrow> string \<Rightarrow> 's \<Rightarrow> (build_error + Job \<times> bool) \<times> 's" where
  "CreateJob v c projectID applicationID createdBy key s =
     (case (bv_Store v, bv_Sources v, bv_Repository v) of
        (Some store, Some sources, Some repository) \<Rightarrow>
          if \<not> validOpaqueID projectID \<or> \<not> validOpaqueID applicationID \<or> \<not> validOpaqueID createdBy \<or> \<not> validIdempotencyKey key
          then (Inl (build_invalid ''BUILD_JOB_REQUEST_INVALID'' ''project, application, actor, or idempotency key is invalid'' ''request''), s)
          else (case js_GetByIdempotency store projectID applicationID key s of
            Inl e \<Rightarrow> (Inl e, s)
          | Inr (Some job) \<Rightarrow> (Inr (job, True), s)
          | Inr None \<Rightarrow>
          (case sources projectID applicationID of Inl e \<Rightarrow> (Inl e, s) | Inr a \<Rightarrow>
           case validateSource a projectID applicationID of Some e \<Rightarrow> (Inl e, s) | None \<Rightarrow>
           case ra_ResolveCommit repository (ap_InstallationID a) (ap_RepositoryFullName a) (ap_SelectedRef a) of Inl e \<Rightarrow> (Inl e, s) | Inr sha \<Rightarrow>
           if \<not> validSHA40 sha
           then (Inl (BuildError ''GITHUB_COMMIT_UNRESOLVED'' 409 ''The selected ref did not resolve to a valid commit.'' ''github_commit''), s)
           else case resolveStrategy (ra_FileExists repository (ap_InstallationID a) (ap_RepositoryFullName a) sha) a of
             Inl e \<Rightarrow> (Inl e, s) | Inr (resolved, dockerfile, failure) \<Rightarrow>
           case bc_NewID c of None \<Rightarrow> (Inl build_unavailable, s) | Some jobID \<Rightarrow>
           js_Create store (new_job jobID projectID applicationID createdBy key a sha resolved dockerfile failure (bc_Now c)) s))
      | _ \<Rightarrow> (Inl build_unavailable, s))"

definition ids_invalid :: build_error where
  "ids_invalid = build_invalid ''BUILD_JOB_ID_INVALID'' ''project, application, or build job is invalid'' ''request''"

definition valid_ids :: "string \<Rightarrow> string \<Rightarrow> string \<Rightarrow> bool" where
  "valid_ids projectID applicationID jobID = (validOpaqueID projectID \<and> validOpaqueID applicationID \<and> validOpaqueID jobID)"

definition GetJob :: "('s, 'r) build_service \<Rightarrow> string \<Rightarrow> string \<Rightarrow> string \<Rightarrow> 's \<Rightarrow> build_error + Job" where
  "GetJob v projectID applicationID jobID s = (case bv_Store v of None \<Rightarrow> Inl ids_invalid | Some store \<Rightarrow>
     if \<not> valid_ids projectID applicationID jobID then Inl ids_invalid else js_Get store projectID applicationID jobID s)"

definition CancelJob :: "('s, 'r) build_service \<Rightarrow> build_call \<Rightarrow> string \<Rightarrow> string \<Rightarrow> string \<Rightarrow> 's \<Rightarrow> (Job option \<times> build_error option) \<times> 's" where
  "CancelJob v c projectID applicationID jobID s = (case bv_Store v of None \<Rightarrow> ((None, Some ids_invalid), s) | Some store \<Rightarrow>
     if \<not> valid_ids projectID applicationID jobID then ((None, Some ids_invalid), s)
     else case js_Cancel store projectID applicationID jobID (bc_Now c) s of
       (Inl e, s') \<Rightarrow> ((None, Some e), s')
     | (Inr (job, attempt), s') \<Rightarrow>
         (case (attempt, Option.bind (bv_Dispatcher v) di_CancelWorkflow) of
            (Some a, Some cancel) \<Rightarrow>
              if at_RunID a \<noteq> 0 \<and> cancel (bv_Executor v) (at_RunID a) \<noteq> None
              then ((Some job, Some (BuildError ''EXECUTOR_CANCEL_FAILED'' 502
                ''BuildJob is cancelled, but the external executor did not confirm cancellation.'' ''executor_cancel'')), s')
              else ((Some job, None), s')
          | _ \<Rightarrow> ((Some job, None), s')))"

definition ListJobs :: "('s, 'r) build_service \<Rightarrow> string \<Rightarrow> string \<Rightarrow> string \<Rightarrow> int \<Rightarrow> 's \<Rightarrow> build_error + Job list" where
  "ListJobs v projectID applicationID status limit s =
     (let bad = Inl (build_invalid ''BUILD_JOB_LIST_INVALID'' ''project or application is invalid'' ''request'') in
      case bv_Store v of None \<Rightarrow> bad | Some store \<Rightarrow>
      if \<not> validOpaqueID projectID \<or> \<not> validOpaqueID applicationID then bad
      else let limit = (if limit = 0 then 50 else limit) in
        if limit < 1 \<or> 100 < limit \<or> status \<noteq> [] \<and> \<not> validStatus status
        then Inl (build_invalid ''BUILD_JOB_LIST_INVALID'' ''status or limit is invalid'' ''request'')
        else js_List store projectID applicationID status limit s)"

section \<open>Dispatch\<close>

definition executor_unavailable :: build_error where
  "executor_unavailable = BuildError ''EXECUTOR_CONFIG_UNAVAILABLE'' 503 ''Build executor configuration is unavailable.'' ''executor_config''"

definition new_attempt :: "ExecutorConfig \<Rightarrow> string \<Rightarrow> string \<Rightarrow> time \<Rightarrow> DispatchAttempt" where
  "new_attempt x attemptID jobID now = \<lparr>at_Provider = ExecutorProviderGitHubActions, at_AttemptID = attemptID, at_BuildJobID = jobID,
     at_Workflow = xc_Workflow x, at_WorkflowRef = executor_WorkflowRef x, at_ExecutorRef = xc_Ref x, at_RunID = 0, at_RunAttempt = 0, at_RunURL = [],
     at_DispatchedAt = now, at_ClaimedAt = None, at_CompletedAt = None, at_LastState = DispatchStateDispatching, at_FailureCode = [],
     at_LeaseExpiresAt = zero_time, at_LeaseHash = []\<rparr>"

text \<open>Dispatch up to the call of the executor: the attempt that it reserved.\<close>

definition Dispatch_reserve :: "('s, 'r) build_service \<Rightarrow> build_call \<Rightarrow> string \<Rightarrow> string \<Rightarrow> string \<Rightarrow> 's \<Rightarrow> (build_error + DispatchAttempt) \<times> 's" where
  "Dispatch_reserve v c projectID applicationID jobID s =
     (case (bv_Store v, bv_Dispatcher v) of
        (Some store, Some _) \<Rightarrow>
          if \<not> executor_available (bv_Executor v) then (Inl executor_unavailable, s)
          else (case executor_error (bv_Executor v) of Some e \<Rightarrow> (Inl e, s) | None \<Rightarrow>
            case bc_Random c of None \<Rightarrow> (Inl build_unavailable, s) | Some raw \<Rightarrow>
            let attempt = new_attempt (bv_Executor v) (newOpaqueID ''bja-'' raw) jobID (bc_Now c) in
            (case js_ReserveDispatch store projectID applicationID attempt s of
               (Some e, s') \<Rightarrow> (Inl e, s')
             | (None, s') \<Rightarrow> (Inr attempt, s')))
      | _ \<Rightarrow> (Inl executor_unavailable, s))"

text \<open>Dispatch from the answer of the executor on.\<close>

definition Dispatch_settle :: "('s, 'r) job_store \<Rightarrow> build_call \<Rightarrow> string \<Rightarrow> build_error + DispatchFacts \<Rightarrow> 's \<Rightarrow> (build_error + DispatchAttempt) \<times> 's" where
  "Dispatch_settle store c attemptID answer s =
     (case answer of
        Inl _ \<Rightarrow> (Inl (BuildError ''EXECUTOR_DISPATCH_REJECTED'' 502 ''GitHub Actions rejected the executor dispatch.'' ''executor_dispatch''),
                  snd (js_RejectDispatch store attemptID ''EXECUTOR_DISPATCH_REJECTED'' (bc_Later c) s))
      | Inr facts \<Rightarrow> js_CompleteDispatch store attemptID facts (bc_Later c) s)"

text \<open>\<open>meanwhile\<close> is what other requests do to the store during the call of the executor.\<close>

definition Dispatch :: "('s, 'r) build_service \<Rightarrow> build_call \<Rightarrow> string \<Rightarrow> string \<Rightarrow> string \<Rightarrow> ('s \<Rightarrow> 's) \<Rightarrow> 's
    \<Rightarrow> (build_error + DispatchAttempt) \<times> 's" where
  "Dispatch v c projectID applicationID jobID meanwhile s =
     (case Dispatch_reserve v c projectID applicationID jobID s of
        (Inl e, s') \<Rightarrow> (Inl e, s')
      | (Inr attempt, s') \<Rightarrow> (case (bv_Store v, bv_Dispatcher v) of
          (Some store, Some dispatcher) \<Rightarrow>
            Dispatch_settle store c (at_AttemptID attempt) (di_DispatchWorkflow dispatcher (bv_Executor v) jobID (at_AttemptID attempt)) (meanwhile s')
        | _ \<Rightarrow> (Inl executor_unavailable, s')))"

definition ExpireUnclaimed :: "('s, 'r) build_service \<Rightarrow> build_call \<Rightarrow> string \<Rightarrow> string \<Rightarrow> string \<Rightarrow> 's \<Rightarrow> (build_error + Job \<times> bool) \<times> 's" where
  "ExpireUnclaimed v c projectID applicationID jobID s = (case bv_Store v of None \<Rightarrow> (Inl ids_invalid, s) | Some store \<Rightarrow>
     if \<not> valid_ids projectID applicationID jobID then (Inl ids_invalid, s)
     else js_ExpireUnclaimedDispatch store projectID applicationID jobID (bc_Now c - runnerClaimTimeout) (bc_Now c) s)"

section \<open>Runners\<close>

definition claim_refused :: "ExecutorConfig \<Rightarrow> string \<Rightarrow> string \<Rightarrow> RunnerIdentity \<Rightarrow> build_error option" where
  "claim_refused x jobID attemptID identity =
     (if \<not> executor_available x then Some executor_unavailable
      else if \<not> validOpaqueID jobID \<or> \<not> validOpaqueID attemptID \<or> rn_RunID identity = 0 \<or> rn_RunAttempt identity = 0
      then Some (build_invalid ''RUNNER_CLAIM_INVALID'' ''Runner claim is invalid.'' ''runner_claim'')
      else or_else (executor_error x) (first_failure
        [(rn_Repository identity \<noteq> RepositoryFullName x,
           BuildError ''OIDC_WRONG_REPOSITORY'' 403 ''OIDC repository is not trusted for build execution.'' ''oidc_repository''),
         (rn_WorkflowRef identity \<noteq> executor_WorkflowRef x \<or> rn_Ref identity \<noteq> xc_Ref x,
           BuildError ''OIDC_WRONG_WORKFLOW_REF'' 403 ''OIDC workflow or ref is not trusted for build execution.'' ''oidc_workflow''),
         (rn_EventName identity \<noteq> ''workflow_dispatch'',
           BuildError ''OIDC_WRONG_EVENT'' 403 ''OIDC event is not a workflow dispatch.'' ''oidc_event'')]))"

definition Claim :: "('s, 'r) build_service \<Rightarrow> build_call \<Rightarrow> string \<Rightarrow> string \<Rightarrow> RunnerIdentity \<Rightarrow> 's \<Rightarrow> (build_error + RunnerLease) \<times> 's" where
  "Claim v c jobID attemptID identity s = (case bv_Store v of None \<Rightarrow> (Inl executor_unavailable, s) | Some store \<Rightarrow>
     case claim_refused (bv_Executor v) jobID attemptID identity of Some e \<Rightarrow> (Inl e, s) | None \<Rightarrow>
     case bc_Random c of None \<Rightarrow> (Inl build_unavailable, s) | Some raw \<Rightarrow>
     let (token, hash) = newLeaseCredential (bv_Hashes v) raw; expiresAt = bc_Now c + runnerLeaseTTL in
     (case js_ClaimDispatch store jobID attemptID identity hash expiresAt (bc_Now c) s of
        (Some e, s') \<Rightarrow> (Inl e, s')
      | (None, s') \<Rightarrow> (Inr \<lparr>le_Token = token, le_ExpiresAt = expiresAt, le_JobID = jobID, le_AttemptID = attemptID, le_RunID = rn_RunID identity,
          le_RunAttempt = rn_RunAttempt identity\<rparr>, s')))"

definition token_ok :: "string \<Rightarrow> bool" where
  "token_ok token = (token \<noteq> [] \<and> length token \<le> 256)"

definition RunnerBuildSpec :: "('s, 'r) build_service \<Rightarrow> build_call \<Rightarrow> string \<Rightarrow> string \<Rightarrow> 's \<Rightarrow> build_error + BuildSpec" where
  "RunnerBuildSpec v c jobID token s = (case bv_Store v of None \<Rightarrow> Inl lease_invalid | Some store \<Rightarrow>
     if \<not> validOpaqueID jobID \<or> \<not> token_ok token \<or> registry_error (bv_Registry v) \<noteq> None then Inl lease_invalid
     else case js_GetRunnerJob store \<lparr>acc_JobID = jobID, acc_AttemptID = [], acc_RunID = 0, acc_RunAttempt = 0,
         acc_LeaseHash = bh_sha256 (bv_Hashes v) token\<rparr> (bc_Now c) s of
       Inl e \<Rightarrow> Inl e
     | Inr job \<Rightarrow> Inr (buildSpec (bv_Hashes v) job (bv_Registry v)))"

definition GrantSource :: "('s, 'r) build_service \<Rightarrow> build_call \<Rightarrow> string \<Rightarrow> string \<Rightarrow> nat \<Rightarrow> nat \<Rightarrow> string \<Rightarrow> 's \<Rightarrow> build_error + SourceGrant" where
  "GrantSource v c jobID attemptID runID runAttempt token s = (case (bv_Store v, bv_Sources v) of
     (Some store, Some sources) \<Rightarrow>
       if \<not> validOpaqueID jobID \<or> \<not> validOpaqueID attemptID \<or> runID = 0 \<or> runAttempt = 0 \<or> \<not> token_ok token then Inl lease_invalid
       else (case js_GetRunnerJob store \<lparr>acc_JobID = jobID, acc_AttemptID = attemptID, acc_RunID = runID, acc_RunAttempt = runAttempt,
           acc_LeaseHash = bh_sha256 (bv_Hashes v) token\<rparr> (bc_Now c) s of
         Inl e \<Rightarrow> Inl e
       | Inr job \<Rightarrow>
           (case sources (jb_ProjectID job) (jb_ApplicationID job) of
              Inl _ \<Rightarrow> Inl (BuildError ''SOURCE_ACCESS_DENIED'' 403 ''Source access is unavailable for this BuildJob.'' ''source_authority'')
            | Inr a \<Rightarrow>
                if \<not> sourceMatchesSnapshot a job
                then Inl (BuildError ''SOURCE_BINDING_MISMATCH'' 409
                  ''The current source binding does not match the immutable BuildJob snapshot.'' ''source_binding'')
                else Inr \<lparr>sg_BuildJobID = jb_ID job, sg_Repository = sx_RepositoryFullName (jb_Source job), sg_RepositoryID = sx_RepositoryID (jb_Source job),
                  sg_GitHubInstallationID = sx_InstallationID (jb_Source job), sg_ResolvedCommitSHA = sx_ResolvedCommitSHA (jb_Source job)\<rparr>))
   | _ \<Rightarrow> Inl lease_invalid)"

definition CompleteJob :: "('s, 'r) build_service \<Rightarrow> build_call \<Rightarrow> 'r RunnerResult \<Rightarrow> string \<Rightarrow> 's \<Rightarrow> (build_error + CompletionResult) \<times> 's" where
  "CompleteJob v c result token s = (case bv_Store v of None \<Rightarrow> (Inl lease_invalid, s) | Some store \<Rightarrow>
     if \<not> token_ok token \<or> registry_error (bv_Registry v) \<noteq> None \<or> executor_error (bv_Executor v) \<noteq> None then (Inl lease_invalid, s)
     else case validateRunnerResult (bv_Hashes v) result of Some e \<Rightarrow> (Inl e, s) | None \<Rightarrow>
     js_CompleteRunner store \<lparr>cm_Result = result, cm_LeaseHash = bh_sha256 (bv_Hashes v) token, cm_Now = bc_Now c\<rparr> (bv_Registry v) (bv_Executor v) s)"

definition FailJob :: "('s, 'r) build_service \<Rightarrow> build_call \<Rightarrow> RunnerFailure \<Rightarrow> string \<Rightarrow> 's \<Rightarrow> build_error option \<times> 's" where
  "FailJob v c failure token s =
     (let bad = BuildError ''RUNNER_FAILURE_INVALID'' 400 ''Runner failure is invalid.'' ''runner_failure'' in
      case bv_Store v of None \<Rightarrow> (Some bad, s) | Some store \<Rightarrow>
      if \<not> token_ok token \<or> \<not> validOpaqueID (rnf_BuildJobID failure) \<or> \<not> validOpaqueID (rnf_AttemptID failure) \<or> \<not> validRunnerFailure (rnf_Code failure)
      then (Some bad, s)
      else js_FailRunner store failure (bh_sha256 (bv_Hashes v) token) (bc_Now c) s)"

end
