(* ===== verification/Build_Job_Steps.thy ===== *)
theory Build_Job_Steps
  imports Build_Job_Service
begin

text \<open>
  Build jobs as a state machine. The requests of the service on the store in memory are steps of a
  configuration that also knows which Dispatch calls still wait for the executor; what a step does
  to jobs and attempts is one of nine effects, and the invariant is proved over those.
\<close>

section \<open>Effects\<close>

type_synonym build_state = "(string \<Rightarrow> Job option) \<times> (string \<Rightarrow> DispatchAttempt option) \<times> string set"

definition running_job :: "time \<Rightarrow> Job \<Rightarrow> Job" where
  "running_job now job = job\<lparr>jb_Status := StatusRunning, jb_UpdatedAt := now\<rparr>"

definition cancelled_job :: "time \<Rightarrow> Job \<Rightarrow> Job" where
  "cancelled_job now job = job\<lparr>jb_Status := StatusCancelled, jb_FailureCode := ''BUILD_CANCELLED'',
     jb_FailureMessageRedacted := ''Build was cancelled by the deployment workflow.'', jb_FailureCause := ''workflow_cancel'',
     jb_CompletedAt := Some now, jb_UpdatedAt := now\<rparr>"

definition dispatched_attempt :: "DispatchFacts \<Rightarrow> time \<Rightarrow> DispatchAttempt \<Rightarrow> DispatchAttempt" where
  "dispatched_attempt facts now a = a\<lparr>at_LastState := DispatchStateDispatched, at_DispatchedAt := now, at_RunID := dfa_RunID facts,
     at_RunAttempt := dfa_RunAttempt facts, at_RunURL := dfa_RunURL facts\<rparr>"

definition ended_attempt :: "string \<Rightarrow> string \<Rightarrow> time \<Rightarrow> DispatchAttempt \<Rightarrow> DispatchAttempt" where
  "ended_attempt state code now a = a\<lparr>at_LastState := state, at_FailureCode := code, at_CompletedAt := Some now\<rparr>"

definition terminal_status :: "string \<Rightarrow> bool" where
  "terminal_status status \<longleftrightarrow> status = StatusSucceeded \<or> status = StatusFailed \<or> status = StatusCancelled"

inductive build_effect :: "time \<Rightarrow> string option \<Rightarrow> build_state \<Rightarrow> build_state \<Rightarrow> bool" for now where
  same: "build_effect now who (J, A, F) (J, A, F)"
| created: "J (jb_ID job) = None \<Longrightarrow> jb_Status job = StatusReady \<or> jb_Status job = StatusFailed \<Longrightarrow> build_effect now None (J, A, F) (J(jb_ID job \<mapsto> job), A, F)"
| reserved: "J (at_BuildJobID a) = Some job \<Longrightarrow> jb_Status job = StatusReady \<Longrightarrow> A (at_AttemptID a) = None
    \<Longrightarrow> (\<And>i b. A i = Some b \<Longrightarrow> at_BuildJobID b = at_BuildJobID a \<Longrightarrow> \<not> active_state (at_LastState b))
    \<Longrightarrow> at_LastState a = DispatchStateDispatching \<Longrightarrow> at_LeaseHash a = [] \<Longrightarrow> at_ClaimedAt a = None
    \<Longrightarrow> build_effect now None (J, A, F) (J, A(at_AttemptID a \<mapsto> a), insert (at_AttemptID a) F)"
| accepted: "A i = Some a \<Longrightarrow> at_LastState a = DispatchStateDispatching \<Longrightarrow> build_effect now None (J, A, F) (J, A(i \<mapsto> dispatched_attempt facts now a), F - {i})"
| lost: "build_effect now None (J, A, F) (J, A, F - {i})"
| refused: "i \<in> F \<Longrightarrow> A i = Some a \<Longrightarrow> build_effect now None (J, A, F) (J, A(i \<mapsto> ended_attempt DispatchStateRejected code now a), F - {i})"
| expired: "A i = Some a \<Longrightarrow> at_LastState a = DispatchStateDispatched \<Longrightarrow> J (at_BuildJobID a) = Some job \<Longrightarrow> jb_Status job = StatusReady
    \<Longrightarrow> build_effect now None (J, A, F) (J(at_BuildJobID a \<mapsto> failed_job code message now job), A(i \<mapsto> ended_attempt DispatchStateRejected code now a), F)"
| claimed: "A i = Some a \<Longrightarrow> at_LastState a = DispatchStateDispatched \<Longrightarrow> at_ClaimedAt a = None \<Longrightarrow> J (at_BuildJobID a) = Some job
    \<Longrightarrow> jb_Status job = StatusReady \<Longrightarrow> h \<noteq> [] \<Longrightarrow> (\<And>k b. A k = Some b \<Longrightarrow> at_LeaseHash b \<noteq> h)
    \<Longrightarrow> build_effect now None (J, A, F) (J(at_BuildJobID a \<mapsto> running_job now job), A(i \<mapsto> claimed_attempt identity h expiresAt now a), F)"
| failed: "A i = Some a \<Longrightarrow> at_LastState a = DispatchStateClaimed \<Longrightarrow> now < at_LeaseExpiresAt a \<Longrightarrow> J (at_BuildJobID a) = Some job \<Longrightarrow> jb_Status job = StatusRunning
    \<Longrightarrow> build_effect now None (J, A, F) (J(at_BuildJobID a \<mapsto> failed_job code message now job), A(i \<mapsto> ended_attempt DispatchStateFailed code now a), F)"
| cancelled: "J j = Some job \<Longrightarrow> \<not> terminal_status (jb_Status job)
    \<Longrightarrow> build_effect now (Some j) (J, A, F) (J(j \<mapsto> cancelled_job now job), \<lambda>i. map_option (\<lambda>a. if active_attempt j a then cancelled_attempt now a else a) (A i), F)"

lemma job_update_simps [simp]:
  "jb_Status (running_job now job) = StatusRunning" "jb_Status (cancelled_job now job) = StatusCancelled" "jb_Status (failed_job c m now job) = StatusFailed"
  "jb_ID (running_job now job) = jb_ID job" "jb_ID (cancelled_job now job) = jb_ID job" "jb_ID (failed_job c m now job) = jb_ID job"
  "jb_ProjectID (running_job now job) = jb_ProjectID job" "jb_ProjectID (cancelled_job now job) = jb_ProjectID job"
  "jb_ProjectID (failed_job c m now job) = jb_ProjectID job"
  "jb_ApplicationID (running_job now job) = jb_ApplicationID job" "jb_ApplicationID (cancelled_job now job) = jb_ApplicationID job"
  "jb_ApplicationID (failed_job c m now job) = jb_ApplicationID job"
  "jb_IdempotencyKey (running_job now job) = jb_IdempotencyKey job" "jb_IdempotencyKey (cancelled_job now job) = jb_IdempotencyKey job"
  "jb_IdempotencyKey (failed_job c m now job) = jb_IdempotencyKey job"
  by (simp_all add: running_job_def cancelled_job_def failed_job_def)

lemma attempt_update_simps [simp]:
  "at_AttemptID (dispatched_attempt facts now a) = at_AttemptID a" "at_BuildJobID (dispatched_attempt facts now a) = at_BuildJobID a"
  "at_LastState (dispatched_attempt facts now a) = DispatchStateDispatched" "at_LeaseHash (dispatched_attempt facts now a) = at_LeaseHash a"
  "at_ClaimedAt (dispatched_attempt facts now a) = at_ClaimedAt a"
  "at_AttemptID (ended_attempt state code now a) = at_AttemptID a" "at_BuildJobID (ended_attempt state code now a) = at_BuildJobID a"
  "at_LastState (ended_attempt state code now a) = state" "at_LeaseHash (ended_attempt state code now a) = at_LeaseHash a"
  "at_ClaimedAt (ended_attempt state code now a) = at_ClaimedAt a"
  "at_AttemptID (claimed_attempt identity h e now a) = at_AttemptID a" "at_BuildJobID (claimed_attempt identity h e now a) = at_BuildJobID a"
  "at_LastState (claimed_attempt identity h e now a) = DispatchStateClaimed" "at_LeaseHash (claimed_attempt identity h e now a) = h"
  "at_ClaimedAt (claimed_attempt identity h e now a) = Some now" "at_LeaseExpiresAt (claimed_attempt identity h e now a) = e"
  "at_AttemptID (cancelled_attempt now a) = at_AttemptID a" "at_BuildJobID (cancelled_attempt now a) = at_BuildJobID a"
  "at_LastState (cancelled_attempt now a) = DispatchStateCancelled" "at_LeaseHash (cancelled_attempt now a) = []"
  "at_ClaimedAt (cancelled_attempt now a) = at_ClaimedAt a"
  by (simp_all add: dispatched_attempt_def ended_attempt_def claimed_attempt_def cancelled_attempt_def)

lemma active_attempt_iff: "active_attempt j a \<longleftrightarrow> at_BuildJobID a = j \<and> active_state (at_LastState a)"
  by (auto simp: active_attempt_def active_state_def)

section \<open>The invariant\<close>

definition keys_ok :: "build_state \<Rightarrow> bool" where
  "keys_ok = (\<lambda>(J, A, F). (\<forall>j job. J j = Some job \<longrightarrow> jb_ID job = j) \<and> (\<forall>i a. A i = Some a \<longrightarrow> at_AttemptID a = i \<and> J (at_BuildJobID a) \<noteq> None))"

definition single_active :: "build_state \<Rightarrow> bool" where
  "single_active = (\<lambda>(J, A, F). \<forall>i a k b. A i = Some a \<longrightarrow> A k = Some b \<longrightarrow> at_BuildJobID a = at_BuildJobID b
     \<longrightarrow> active_state (at_LastState a) \<longrightarrow> active_state (at_LastState b) \<longrightarrow> i = k)"

text \<open>The status of a job that an active attempt allows.\<close>

definition status_of :: "string \<Rightarrow> string" where
  "status_of state = (if state = DispatchStateClaimed then StatusRunning else StatusReady)"

definition active_ok :: "build_state \<Rightarrow> bool" where
  "active_ok = (\<lambda>(J, A, F). \<forall>i a job. A i = Some a \<longrightarrow> J (at_BuildJobID a) = Some job \<longrightarrow> active_state (at_LastState a)
     \<longrightarrow> jb_Status job = status_of (at_LastState a))"

definition running_ok :: "build_state \<Rightarrow> bool" where
  "running_ok = (\<lambda>(J, A, F). \<forall>j job. J j = Some job \<longrightarrow> jb_Status job = StatusRunning
     \<longrightarrow> (\<exists>i a. A i = Some a \<and> at_BuildJobID a = j \<and> at_LastState a = DispatchStateClaimed))"

definition leases_ok :: "build_state \<Rightarrow> bool" where
  "leases_ok = (\<lambda>(J, A, F). (\<forall>i a. A i = Some a \<longrightarrow> at_LastState a = DispatchStateClaimed \<longrightarrow> at_LeaseHash a \<noteq> [])
     \<and> (\<forall>i a. A i = Some a \<longrightarrow> at_LastState a \<in> {DispatchStateDispatching, DispatchStateDispatched} \<longrightarrow> at_LeaseHash a = [] \<and> at_ClaimedAt a = None)
     \<and> (\<forall>i a k b. A i = Some a \<longrightarrow> A k = Some b \<longrightarrow> at_LeaseHash a \<noteq> [] \<longrightarrow> at_LeaseHash a = at_LeaseHash b \<longrightarrow> i = k))"

definition flight_ok :: "build_state \<Rightarrow> bool" where
  "flight_ok = (\<lambda>(J, A, F). \<forall>i \<in> F. \<exists>a. A i = Some a \<and> at_LastState a \<in> {DispatchStateDispatching, DispatchStateCancelled})"

definition statuses_ok :: "build_state \<Rightarrow> bool" where
  "statuses_ok = (\<lambda>(J, A, F). \<forall>j job. J j = Some job \<longrightarrow> jb_Status job \<in> {StatusReady, StatusRunning, StatusFailed, StatusCancelled})"

definition build_inv :: "build_state \<Rightarrow> bool" where
  "build_inv x \<longleftrightarrow> keys_ok x \<and> single_active x \<and> active_ok x \<and> running_ok x \<and> leases_ok x \<and> flight_ok x \<and> statuses_ok x"

lemmas build_inv_defs = keys_ok_def single_active_def active_ok_def running_ok_def leases_ok_def flight_ok_def statuses_ok_def

lemma build_inv_init: "build_inv (\<lambda>_. None, \<lambda>_. None, {})"
  by (simp add: build_inv_def build_inv_defs)

lemma keys_ok_effect: "build_effect now who x y \<Longrightarrow> keys_ok x \<Longrightarrow> keys_ok y"
  by (cases rule: build_effect.cases, assumption) (auto simp: keys_ok_def split: if_splits)

lemma statuses_ok_effect: "build_effect now who x y \<Longrightarrow> statuses_ok x \<Longrightarrow> statuses_ok y"
  by (cases rule: build_effect.cases, assumption) (auto simp: statuses_ok_def split: if_splits)

lemma active_state_simps [simp]:
  "active_state DispatchStateDispatching" "active_state DispatchStateDispatched" "active_state DispatchStateClaimed"
  "\<not> active_state DispatchStateRejected" "\<not> active_state DispatchStateFailed" "\<not> active_state DispatchStateCancelled"
  by (simp_all add: active_state_def)

lemma single_active_effect: "build_effect now who x y \<Longrightarrow> single_active x \<Longrightarrow> single_active y"
proof (induction rule: build_effect.induct)
  case (reserved J a job A F)
  then show ?case by (auto simp: single_active_def)
next
  case (accepted A i a J F facts)
  then show ?case by (auto simp: single_active_def)
next
  case (claimed A i a J job h F identity expiresAt)
  then show ?case by (auto simp: single_active_def)
next
  case (cancelled J j job A F)
  then show ?case by (fastforce simp: single_active_def split: if_splits)
qed (auto simp: single_active_def)

lemma leases_ok_effect: "build_effect now who x y \<Longrightarrow> leases_ok x \<Longrightarrow> leases_ok y"
proof (induction rule: build_effect.induct)
  case (cancelled J j job A F)
  then show ?case by (auto simp: leases_ok_def active_attempt_iff split: if_splits)
next
  case (refused i F A a code J)
  then show ?case by (auto simp: leases_ok_def)
next
  case (expired A i a J job F code message)
  then show ?case by (auto simp: leases_ok_def)
next
  case (failed A i a J job F code message)
  then show ?case by (auto simp: leases_ok_def) metis
qed (auto simp: leases_ok_def)

lemma flight_ok_effect: "build_effect now who x y \<Longrightarrow> flight_ok x \<Longrightarrow> flight_ok y"
proof (induction rule: build_effect.induct)
  case (cancelled J j job A F)
  then show ?case by (auto simp: flight_ok_def active_attempt_iff) (metis attempt_update_simps(19) active_state_simps(1))
qed (auto simp: flight_ok_def)

lemma active_okD: "active_ok (J, A, F) \<Longrightarrow> A i = Some a \<Longrightarrow> J (at_BuildJobID a) = Some job \<Longrightarrow> active_state (at_LastState a)
    \<Longrightarrow> jb_Status job = status_of (at_LastState a)"
  by (auto simp: active_ok_def)

lemma keys_okD: "keys_ok (J, A, F) \<Longrightarrow> A i = Some a \<Longrightarrow> J (at_BuildJobID a) \<noteq> None" "keys_ok (J, A, F) \<Longrightarrow> J j = Some job \<Longrightarrow> jb_ID job = j"
  by (auto simp: keys_ok_def)

lemma single_activeD: "single_active (J, A, F) \<Longrightarrow> A i = Some a \<Longrightarrow> A k = Some b \<Longrightarrow> at_BuildJobID a = at_BuildJobID b
    \<Longrightarrow> active_state (at_LastState a) \<Longrightarrow> active_state (at_LastState b) \<Longrightarrow> i = k"
  by (auto simp: single_active_def)

lemma active_ok_effect:
  assumes "build_effect now who x y" "keys_ok x" "single_active x" "active_ok x"
  shows "active_ok y"
  using assms
proof (induction rule: build_effect.induct)
  case (created J job A F)
  have "A i = Some a \<Longrightarrow> at_BuildJobID a \<noteq> jb_ID job" for i a using keys_okD(1) [OF created(3)] created(1) by metis
  then show ?case using active_okD [OF created(5)] unfolding active_ok_def by (auto split: if_splits)
next
  case (reserved J a job A F)
  then show ?case using active_okD [OF reserved(10)] unfolding active_ok_def by (auto simp: status_of_def split: if_splits)
next
  case (accepted A i a J F facts)
  then show ?case using active_okD [OF accepted(5)] unfolding active_ok_def by (auto simp: status_of_def split: if_splits)
next
  case (expired A i a J job F code message)
  then show ?case using active_okD [OF expired(7)] single_activeD [OF expired(6)] unfolding active_ok_def by (auto split: if_splits)
next
  case (claimed A i a J job h F identity expiresAt)
  then show ?case using active_okD [OF claimed(10)] single_activeD [OF claimed(9)] unfolding active_ok_def by (auto simp: status_of_def split: if_splits)
next
  case (failed A i a J job F code message)
  then show ?case using active_okD [OF failed(8)] single_activeD [OF failed(7)] unfolding active_ok_def by (auto split: if_splits)
next
  case (cancelled J j job A F)
  show ?case unfolding active_ok_def prod.case
  proof (intro allI impI)
    fix i b job' assume b: "map_option (\<lambda>a. if active_attempt j a then cancelled_attempt now a else a) (A i) = Some b"
      "(J(j \<mapsto> cancelled_job now job)) (at_BuildJobID b) = Some job'" "active_state (at_LastState b)"
    then obtain a where a: "A i = Some a" "b = (if active_attempt j a then cancelled_attempt now a else a)" by auto
    with b(3) have "b = a" "\<not> active_attempt j a" by (auto split: if_splits)
    with b(3) have "at_BuildJobID a \<noteq> j" by (auto simp: active_attempt_iff)
    with b(2) \<open>b = a\<close> have "J (at_BuildJobID a) = Some job'" by simp
    from active_okD [OF cancelled(5) a(1) this] b(3) \<open>b = a\<close> show "jb_Status job' = status_of (at_LastState b)" by simp
  qed
qed (auto simp: active_ok_def)

lemma running_okI:
  assumes "running_ok (J, A, F)"
    and "\<And>j job'. J' j = Some job' \<Longrightarrow> jb_Status job' = StatusRunning \<Longrightarrow>
      (\<exists>i a. A' i = Some a \<and> at_BuildJobID a = j \<and> at_LastState a = DispatchStateClaimed)
      \<or> (\<exists>job. J j = Some job \<and> jb_Status job = StatusRunning) \<and> (\<forall>i a. A i = Some a \<longrightarrow> at_BuildJobID a = j
           \<longrightarrow> at_LastState a = DispatchStateClaimed \<longrightarrow> A' i = Some a)"
  shows "running_ok (J', A', F')"
  unfolding running_ok_def prod.case
proof (intro allI impI)
  fix j job' assume j: "J' j = Some job'" "jb_Status job' = StatusRunning"
  from assms(2) [OF j] show "\<exists>i a. A' i = Some a \<and> at_BuildJobID a = j \<and> at_LastState a = DispatchStateClaimed"
  proof
    assume kept: "(\<exists>job. J j = Some job \<and> jb_Status job = StatusRunning) \<and> (\<forall>i a. A i = Some a \<longrightarrow> at_BuildJobID a = j
           \<longrightarrow> at_LastState a = DispatchStateClaimed \<longrightarrow> A' i = Some a)"
    with assms(1) obtain i a where "A i = Some a" "at_BuildJobID a = j" "at_LastState a = DispatchStateClaimed"
      unfolding running_ok_def prod.case by meson
    with kept show ?thesis by blast
  qed
qed

lemma running_ok_effect:
  assumes "build_effect now who x y" "flight_ok x" "running_ok x"
  shows "running_ok y"
  using assms
proof (induction rule: build_effect.induct)
  case (refused i F A a code J)
  from refused(1-3) have "at_LastState a \<noteq> DispatchStateClaimed" by (auto simp: flight_ok_def)
  then show ?case using refused(2) by (intro running_okI [OF refused(4)]) auto
next
  case (created J job A F)
  then show ?case by (intro running_okI [OF created(4)]) (auto split: if_splits)
next
  case (reserved J a job A F)
  show ?case by (rule running_okI [OF reserved(9)]) (use reserved(3) in auto)
next
  case (accepted A i a J F facts)
  then show ?case by (intro running_okI [OF accepted(4)]) auto
next
  case (expired A i a J job F code message)
  then show ?case by (intro running_okI [OF expired(6)]) (auto split: if_splits)
next
  case (claimed A i a J job h F identity expiresAt)
  show ?case by (rule running_okI [OF claimed(9)]) (use claimed(1,2) in \<open>auto split: if_splits\<close>)
next
  case (failed A i a J job F code message)
  then show ?case by (intro running_okI [OF failed(7)]) (auto split: if_splits)
next
  case (cancelled J j job A F)
  then show ?case by (intro running_okI [OF cancelled(4)]) (auto simp: active_attempt_iff split: if_splits)
qed (auto simp: running_ok_def)

lemma build_inv_effect: "build_effect now who x y \<Longrightarrow> build_inv x \<Longrightarrow> build_inv y"
  unfolding build_inv_def
  by (intro conjI)
    (auto intro: keys_ok_effect single_active_effect active_ok_effect running_ok_effect leases_ok_effect flight_ok_effect statuses_ok_effect)

section \<open>The operations of the store\<close>

definition view :: "job_memory \<Rightarrow> string set \<Rightarrow> build_state" where
  "view s F = (map_of (jm_byID s), map_of (jm_attempts s), F)"

definition stored :: "job_memory \<Rightarrow> bool" where
  "stored s \<longleftrightarrow> distinct (map fst (jm_byID s)) \<and> distinct (map fst (jm_attempts s))"

definition visits :: "visit \<Rightarrow> bool" where
  "visits visit \<longleftrightarrow> (\<forall>xs. mset (visit xs) = mset xs)"

lemma view_put [simp]:
  "map_of (jm_byID (put_job j job s)) = (map_of (jm_byID s))(j \<mapsto> job)" "jm_attempts (put_job j job s) = jm_attempts s"
  "map_of (jm_attempts (put_attempt i a s)) = (map_of (jm_attempts s))(i \<mapsto> a)" "jm_byID (put_attempt i a s) = jm_byID s"
  "jm_byIdempotency (put_job j job s) = jm_byIdempotency s" "jm_byIdempotency (put_attempt i a s) = jm_byIdempotency s"
  by (simp_all add: put_job_def put_attempt_def update_conv')

lemma stored_put [simp]: "stored (put_job j job s) \<longleftrightarrow> stored s" "stored (put_attempt i a s) \<longleftrightarrow> stored s"
  by (auto simp: stored_def put_job_def put_attempt_def update_keys)

lemma visited:
  assumes "visits visit" "stored s"
  shows "(i, a) \<in> set (visit (jm_attempts s)) \<longleftrightarrow> map_of (jm_attempts s) i = Some a"
  using assms map_of_eq_Some_iff [of "jm_attempts s" i a] by (metis visits_def stored_def mset_eq_setD)

lemma find_visited:
  assumes "visits visit" "stored s" "List.find (\<lambda>(_, a). P a) (visit (jm_attempts s)) = Some (i, a)"
  shows "map_of (jm_attempts s) i = Some a \<and> P a"
  using assms(3) visited [OF assms(1,2)] unfolding find_Some_iff by (metis nth_mem case_prod_conv)

lemma find_visited_None:
  assumes "visits visit" "stored s" "List.find (\<lambda>(_, a). P a) (visit (jm_attempts s)) = None" "map_of (jm_attempts s) i = Some a"
  shows "\<not> P a"
  using assms(3) visited [OF assms(1,2), of i a] assms(4) unfolding find_None_iff by fastforce

lemma scoped_job_Some: "scoped_job s p a j = Some job \<longleftrightarrow> map_of (jm_byID s) j = Some job \<and> jb_ProjectID job = p \<and> jb_ApplicationID job = a"
  by (auto simp: scoped_job_def split: option.splits)

lemma dispatchable_ready: "validateDispatchableJob job = None \<Longrightarrow> jb_Status job = StatusReady"
  by (auto simp: validateDispatchableJob_def split: if_splits)

lemma ReserveDispatch_effect:
  assumes "memory_ReserveDispatch p ap a s = (e, s')" "keys_ok (view s F)" "stored s"
    and "map_of (jm_attempts s) (at_AttemptID a) = None" "at_LastState a = DispatchStateDispatching" "at_LeaseHash a = []" "at_ClaimedAt a = None"
  shows "(e \<noteq> None \<and> s' = s) \<or> (e = None \<and> stored s' \<and> jm_byIdempotency s' = jm_byIdempotency s
    \<and> build_effect now None (view s F) (view s' (insert (at_AttemptID a) F)))"
proof (cases "scoped_job s p ap (at_BuildJobID a)")
  case None
  with assms(1) show ?thesis by (auto simp: memory_ReserveDispatch_def)
next
  case (Some job)
  then have job: "map_of (jm_byID s) (at_BuildJobID a) = Some job" by (simp add: scoped_job_Some)
  with assms(2) have id: "jb_ID job = at_BuildJobID a" by (simp add: view_def keys_ok_def)
  show ?thesis
  proof (cases "e = None")
    case True
    with assms(1) Some have "validateDispatchableJob job = None" and s': "s' = put_attempt (at_AttemptID a) a s"
      and idle: "\<not> list_ex (\<lambda>(_, b). at_BuildJobID b = jb_ID job \<and> active_state (at_LastState b)) (jm_attempts s)"
      by (auto simp: memory_ReserveDispatch_def split: option.splits if_splits)
    have "\<not> active_state (at_LastState b)" if "map_of (jm_attempts s) i = Some b" "at_BuildJobID b = at_BuildJobID a" for i b
      using idle map_of_SomeD [OF that(1)] that(2) id by (auto simp: list_ex_iff)
    then have "build_effect now None (view s F) (view s' (insert (at_AttemptID a) F))"
      unfolding view_def s' using job assms(4-7) dispatchable_ready [OF \<open>validateDispatchableJob job = None\<close>]
      by (simp del: fun_upd_apply) (rule build_effect.reserved; blast)
    with True s' assms(3) show ?thesis by simp
  next
    case False
    with assms(1) Some show ?thesis by (auto simp: memory_ReserveDispatch_def split: option.splits if_splits)
  qed
qed

lemma CompleteDispatch_effect:
  assumes "memory_CompleteDispatch i facts now s = (res, s')" "stored s"
  shows "stored s' \<and> jm_byIdempotency s' = jm_byIdempotency s \<and> build_effect now None (view s F) (view s' (F - {i}))"
  using assms
  by (auto simp: memory_CompleteDispatch_def view_def dispatched_attempt_def [symmetric] Let_def split: option.splits if_splits
      intro: build_effect.lost build_effect.accepted)

lemma RejectDispatch_effect:
  assumes "memory_RejectDispatch i code now s = (res, s')" "stored s" "i \<in> F"
  shows "stored s' \<and> jm_byIdempotency s' = jm_byIdempotency s \<and> build_effect now None (view s F) (view s' (F - {i}))"
  using assms
  by (auto simp: memory_RejectDispatch_def view_def ended_attempt_def [symmetric] split: option.splits intro: build_effect.lost build_effect.refused)

lemma ExpireUnclaimed_effect:
  assumes "memory_ExpireUnclaimedDispatch visit p ap j cutoff now s = (res, s')" "stored s" "visits visit"
  shows "stored s' \<and> jm_byIdempotency s' = jm_byIdempotency s \<and> build_effect now None (view s F) (view s' F)"
proof (cases "s' = s")
  case True
  then show ?thesis using assms(2) by (simp add: build_effect.same view_def)
next
  case False
  let ?P = "\<lambda>a. \<not> (at_BuildJobID a \<noteq> j \<or> at_LastState a \<noteq> DispatchStateDispatched \<or> cutoff < at_DispatchedAt a)"
  obtain job i a where job: "scoped_job s p ap j = Some job" "jb_Status job = StatusReady"
      and find: "List.find (\<lambda>(_, a). ?P a) (visit (jm_attempts s)) = Some (i, a)"
      and s': "s' = put_job j (failed_job ''RUNNER_CLAIM_TIMEOUT'' ''The build executor did not claim its dispatched job before the deadline.'' now job)
        (put_attempt i (ended_attempt DispatchStateRejected ''RUNNER_CLAIM_TIMEOUT'' now a) s)"
    using assms(1) False by (auto simp: memory_ExpireUnclaimedDispatch_def Let_def ended_attempt_def split: option.splits if_splits)
  from find_visited [OF assms(3,2) find] have a: "map_of (jm_attempts s) i = Some a" "at_BuildJobID a = j" "at_LastState a = DispatchStateDispatched" by auto
  have "map_of (jm_byID s) (at_BuildJobID a) = Some job" using job a(2) by (simp add: scoped_job_Some)
  from build_effect.expired [where J = "map_of (jm_byID s)" and A = "map_of (jm_attempts s)" and F = F, OF a(1,3) this job(2)] show ?thesis
    using assms(2) a(2) by (simp add: s' view_def)
qed

lemma ClaimDispatch_effect:
  assumes "memory_ClaimDispatch j i identity h e now s = (res, s')" "stored s" "h \<noteq> []" "\<And>k b. map_of (jm_attempts s) k = Some b \<Longrightarrow> at_LeaseHash b \<noteq> h"
  shows "stored s' \<and> jm_byIdempotency s' = jm_byIdempotency s \<and> build_effect now None (view s F) (view s' F)"
proof (cases "s' = s")
  case True
  then show ?thesis using assms(2) by (simp add: build_effect.same view_def)
next
  case False
  obtain a job where a: "map_of (jm_attempts s) i = Some a" "at_BuildJobID a = j" "at_ClaimedAt a = None" "at_LastState a = DispatchStateDispatched"
      "map_of (jm_byID s) j = Some job" "jb_Status job = StatusReady"
      "s' = put_attempt i (claimed_attempt identity h e now a) (put_job j (running_job now job) s)"
    using assms(1) False by (auto simp: memory_ClaimDispatch_def Let_def running_job_def split: option.splits if_splits)
  have "map_of (jm_byID s) (at_BuildJobID a) = Some job" using a(2,5) by simp
  from build_effect.claimed [where J = "map_of (jm_byID s)" and A = "map_of (jm_attempts s)" and F = F, OF a(1,4,3) this a(6) assms(3,4)] show ?thesis
    using assms(2) a(2) by (simp add: a(7) view_def)
qed

lemma FailRunner_effect:
  assumes "memory_FailRunner visit failure h now s = (res, s')" "stored s" "visits visit" "keys_ok (view s F)"
  shows "stored s' \<and> jm_byIdempotency s' = jm_byIdempotency s \<and> build_effect now None (view s F) (view s' F)"
proof (cases "s' = s")
  case True
  then show ?thesis using assms(2) by (simp add: build_effect.same view_def)
next
  case False
  let ?job = "lookup_job s (rnf_BuildJobID failure)"
  obtain i a where find: "holder visit h s = Some (i, a)" and a: "at_BuildJobID a = rnf_BuildJobID failure" "at_LastState a = DispatchStateClaimed"
      "jb_Status ?job = StatusRunning" "now < at_LeaseExpiresAt a"
      and s': "s' = put_attempt i (ended_attempt DispatchStateFailed (rnf_Code failure) now a)
        (put_job (jb_ID ?job) (failed_job (rnf_Code failure) (runnerFailureMessage (rnf_Code failure)) now ?job) s)"
    using assms(1) False by (auto simp: memory_FailRunner_def Let_def ended_attempt_def split: option.splits if_splits)
  have i: "map_of (jm_attempts s) i = Some a" using find_visited [OF assms(3,2), of "\<lambda>a. at_LeaseHash a = h" i a] find by (simp add: holder_def)
  have job: "map_of (jm_byID s) (at_BuildJobID a) = Some ?job"
    using a(1,3) by (auto simp: lookup_job_def zero_job_def split: option.splits)
  then have "jb_ID ?job = at_BuildJobID a" using assms(4) by (simp add: view_def keys_ok_def)
  with build_effect.failed [where J = "map_of (jm_byID s)" and A = "map_of (jm_attempts s)" and F = F, OF i a(2,4) job a(3)] show ?thesis
    using assms(2) by (simp add: s' view_def)
qed

lemma map_of_map_values: "map_of (map (\<lambda>(i, a). (i, f a)) xs) = (\<lambda>i. map_option f (map_of xs i))"
  by (induction xs) auto

lemma Cancel_effect:
  assumes "memory_Cancel visit p ap j now s = (res, s')" "stored s"
  shows "stored s' \<and> jm_byIdempotency s' = jm_byIdempotency s \<and> build_effect now (Some j) (view s F) (view s' F)"
proof (cases "s' = s")
  case True
  then show ?thesis using assms(2) by (simp add: build_effect.same view_def)
next
  case False
  obtain job where job: "scoped_job s p ap j = Some job" "\<not> terminal_status (jb_Status job)"
      and s': "s' = put_job j (cancelled_job now job) (s\<lparr>jm_attempts := map (\<lambda>(i, a). (i, if active_attempt j a then cancelled_attempt now a else a))
           (jm_attempts s)\<rparr>)"
    using assms(1) False by (auto simp: memory_Cancel_def Let_def cancelled_job_def terminal_status_def split: option.splits if_splits)
  have "stored (s\<lparr>jm_attempts := map (\<lambda>(i, a). (i, if active_attempt j a then cancelled_attempt now a else a)) (jm_attempts s)\<rparr>)"
    using assms(2) by (simp add: stored_def case_prod_unfold comp_def)
  then have "stored s'" by (simp add: s')
  moreover have "map_of (jm_byID s) j = Some job" using job by (simp add: scoped_job_Some)
  from build_effect.cancelled [where J = "map_of (jm_byID s)" and A = "map_of (jm_attempts s)" and F = F, OF this job(2)] have "build_effect now (Some j) (view s F) (view s' F)"
    by (simp add: s' view_def map_of_map_values [where f = "\<lambda>a. if active_attempt j a then cancelled_attempt now a else a"])
  ultimately show ?thesis by (simp add: s')
qed

end
