(* ===== verification/Build_Job_Runs.thy ===== *)
theory Build_Job_Runs
  imports Build_Job_Steps
begin

text \<open>
  Runs of the build job service on the store in memory: what CreateJob and the other requests do to
  it, the step relation over them, and the invariant of every reachable configuration.
\<close>

section \<open>Requests\<close>

definition memory_jobs :: "(job_memory, 'r) build_service \<Rightarrow> bool" where
  "memory_jobs v \<longleftrightarrow> (\<exists>visit. bv_Store v = Some (job_memory_ops visit) \<and> visits visit)"

lemma memory_jobsE:
  assumes "memory_jobs v"
  obtains visit where "bv_Store v = Some (job_memory_ops visit)" "visits visit"
  using assms by (auto simp: memory_jobs_def)

lemma memory_ops_simps [simp]:
  "js_ReserveDispatch (job_memory_ops visit) = memory_ReserveDispatch" "js_CompleteDispatch (job_memory_ops visit) = memory_CompleteDispatch"
  "js_RejectDispatch (job_memory_ops visit) = memory_RejectDispatch" "js_ClaimDispatch (job_memory_ops visit) = memory_ClaimDispatch"
  "js_ExpireUnclaimedDispatch (job_memory_ops visit) = memory_ExpireUnclaimedDispatch visit" "js_Create (job_memory_ops visit) = memory_Create"
  "js_GetByIdempotency (job_memory_ops visit) = memory_GetByIdempotency" "js_Get (job_memory_ops visit) = memory_GetJob"
  "js_CompleteRunner (job_memory_ops visit) = memory_CompleteRunner" "js_FailRunner (job_memory_ops visit) = memory_FailRunner visit"
  "js_Cancel (job_memory_ops visit) = memory_Cancel visit" "js_GetRunnerJob (job_memory_ops visit) = memory_GetRunnerJob visit"
  by (simp_all add: job_memory_ops_def)

lemma resolveStrategy_failure: "resolveStrategy exists_file a = Inr (strategy, dockerfile, failure) \<Longrightarrow> failure = None"
  by (auto simp: resolveStrategy_def split: if_splits sum.splits list.splits)

lemma new_job_simps [simp]:
  "jb_ID (new_job jobID p a by key src sha resolved dockerfile failure now) = jobID"
  "jb_ProjectID (new_job jobID p a by key src sha resolved dockerfile failure now) = p"
  "jb_ApplicationID (new_job jobID p a by key src sha resolved dockerfile failure now) = a"
  "jb_IdempotencyKey (new_job jobID p a by key src sha resolved dockerfile failure now) = key"
  "jb_Status (new_job jobID p a by key src sha resolved dockerfile None now) = StatusReady"
  by (cases failure; simp add: new_job_def Let_def)+

lemma CreateJob_cases:
  assumes "memory_jobs v" "CreateJob v c p a by key s = (res, s')"
  obtains (refused) e where "res = Inl e" "s' = s"
  | (replayed) jobID where "jm_byIdempotency s (idempotencyScope p a key) = Some jobID" "res = Inr (lookup_job s jobID, True)" "s' = s"
  | (created) src sha resolved dockerfile exists_file failure jobID job where
      "validOpaqueID p" "validOpaqueID a" "validateSource src p a = None" "validSHA40 sha" "bc_NewID c = Some jobID"
      "resolveStrategy exists_file src = Inr (resolved, dockerfile, failure)"
      "job = new_job jobID p a by key src sha resolved dockerfile failure (bc_Now c)" "jm_byIdempotency s (idempotencyScope p a key) = None"
      "res = Inr (job, False)" "s' = (put_job jobID job s)\<lparr>jm_byIdempotency := (jm_byIdempotency s)(idempotencyScope p a key \<mapsto> jobID)\<rparr>"
proof -
  obtain visit where "bv_Store v = Some (job_memory_ops visit)" using assms(1) by (rule memory_jobsE)
  note run = assms(2) [unfolded CreateJob_def, simplified this]
  note splits = option.splits if_splits sum.splits prod.splits
  show thesis
  proof (cases "jm_byIdempotency s (idempotencyScope p a key)")
    case (Some jobID)
    with run have "(\<exists>e. res = Inl e) \<and> s' = s \<or> res = Inr (lookup_job s jobID, True) \<and> s' = s"
      by (simp add: memory_GetByIdempotency_def split: splits; blast)
    then show thesis using Some refused replayed by auto
  next
    case None
    show thesis
    proof (cases res)
      case (Inl e)
      with run None have "s' = s" by (simp add: memory_GetByIdempotency_def memory_Create_def split: splits; blast)
      with Inl show thesis by (rule refused)
    next
      case (Inr out)
      note run = run [unfolded Inr]
      obtain S R where sr: "bv_Sources v = Some S" "bv_Repository v = Some R" using run by (simp split: option.splits)
      note run = run [simplified sr, simplified]
      have ids: "validOpaqueID p" "validOpaqueID a" "validOpaqueID by" "validIdempotencyKey key" using run by (simp_all split: if_splits)
      have get: "memory_GetByIdempotency p a key s = Inr None" using None by (simp add: memory_GetByIdempotency_def)
      note run = run [simplified ids, simplified, simplified get, simplified]
      obtain src where src: "S p a = Inr src" using run by (cases "S p a") simp_all
      note run = run [simplified src, simplified]
      have valid: "validateSource src p a = None" using run by (simp split: option.splits)
      note run = run [simplified valid, simplified]
      obtain sha where sha: "ra_ResolveCommit R (ap_InstallationID src) (ap_RepositoryFullName src) (ap_SelectedRef src) = Inr sha"
        using run by (simp split: sum.splits)
      note run = run [simplified sha, simplified]
      have sha40: "validSHA40 sha" using run by (simp split: if_splits)
      note run = run [simplified sha40, simplified]
      obtain resolved dockerfile failure where resolved:
          "resolveStrategy (ra_FileExists R (ap_InstallationID src) (ap_RepositoryFullName src) sha) src = Inr (resolved, dockerfile, failure)"
        using run by (simp split: sum.splits prod.splits)
      note run = run [simplified resolved, simplified]
      obtain jobID where jobID: "bc_NewID c = Some jobID" using run by (simp split: option.splits)
      show thesis
        by (rule created [OF ids(1,2) valid sha40 jobID resolved refl None])
          (use run in \<open>simp_all add: jobID Inr memory_Create_def None\<close>)
    qed
  qed
qed

lemma CreateJob_replay:
  assumes "memory_jobs v" "CreateJob v c p a by key s = (Inr (job, False), s')" "jm_byIdempotency s'' (idempotencyScope p a key) = Some jobID"
  shows "CreateJob v c' p a by key s'' = (Inr (lookup_job s'' jobID, True), s'')"
proof -
  obtain visit where v: "bv_Store v = Some (job_memory_ops visit)" using assms(1) by (rule memory_jobsE)
  note run = assms(2) [unfolded CreateJob_def, simplified v]
  obtain S R where sr: "bv_Sources v = Some S" "bv_Repository v = Some R" using run by (simp split: option.splits)
  note run = run [simplified sr, simplified]
  have "validOpaqueID p" "validOpaqueID a" "validOpaqueID by" "validIdempotencyKey key" using run by (simp_all split: if_splits)
  then show ?thesis using v sr assms(3) by (simp add: CreateJob_def memory_GetByIdempotency_def)
qed

section \<open>Steps\<close>

text \<open>
  A step is one critical section of a request; Dispatch has two, and \<open>i \<in> F\<close> says that the call of the
  executor for attempt \<open>i\<close> is under way. The label holds the clock and the job of a Cancel. New
  identities and the hashes of new leases are fresh.
\<close>

inductive build_step :: "time \<Rightarrow> string option \<Rightarrow> job_memory \<times> string set \<Rightarrow> job_memory \<times> string set \<Rightarrow> bool" where
  create: "memory_jobs (v :: (job_memory, unit) build_service) \<Longrightarrow> CreateJob v c p a by key s = (res, s')
    \<Longrightarrow> (\<And>jobID. bc_NewID c = Some jobID \<Longrightarrow> map_of (jm_byID s) jobID = None) \<Longrightarrow> build_step (bc_Now c) None (s, F) (s', F)"
| reserve: "memory_jobs (v :: (job_memory, unit) build_service) \<Longrightarrow> Dispatch_reserve v c p a j s = (res, s')
    \<Longrightarrow> (\<And>raw. bc_Random c = Some raw \<Longrightarrow> map_of (jm_attempts s) (newOpaqueID ''bja-'' raw) = None)
    \<Longrightarrow> build_step (bc_Now c) None (s, F) (s', (case res of Inl _ \<Rightarrow> F | Inr attempt \<Rightarrow> insert (at_AttemptID attempt) F))"
| settle: "memory_jobs (v :: (job_memory, unit) build_service) \<Longrightarrow> bv_Store v = Some store \<Longrightarrow> i \<in> F
    \<Longrightarrow> Dispatch_settle store c i answer s = (res, s') \<Longrightarrow> build_step (bc_Later c) None (s, F) (s', F - {i})"
| expire: "memory_jobs (v :: (job_memory, unit) build_service) \<Longrightarrow> ExpireUnclaimed v c p a j s = (exp_res, s') \<Longrightarrow> build_step (bc_Now c) None (s, F) (s', F)"
| claim: "memory_jobs (v :: (job_memory, unit) build_service) \<Longrightarrow> Claim v c j i identity s = (claim_res, s')
    \<Longrightarrow> (\<And>raw token h. bc_Random c = Some raw \<Longrightarrow> newLeaseCredential (bv_Hashes v) raw = (token, h)
           \<Longrightarrow> h \<noteq> [] \<and> (\<forall>(_, b) \<in> set (jm_attempts s). at_LeaseHash b \<noteq> h))
    \<Longrightarrow> build_step (bc_Now c) None (s, F) (s', F)"
| complete: "memory_jobs (v :: (job_memory, unit) build_service) \<Longrightarrow> CompleteJob v c result token s = (complete_res, s') \<Longrightarrow> build_step (bc_Now c) None (s, F) (s', F)"
| fail: "memory_jobs (v :: (job_memory, unit) build_service) \<Longrightarrow> FailJob v c failure token s = (fail_res, s') \<Longrightarrow> build_step (bc_Now c) None (s, F) (s', F)"
| cancel: "memory_jobs (v :: (job_memory, unit) build_service) \<Longrightarrow> CancelJob v c p a j s = (cancel_res, s') \<Longrightarrow> build_step (bc_Now c) (Some j) (s, F) (s', F)"

text \<open>Every idempotency entry leads to a job of its scope.\<close>

definition scope_of :: "Job \<Rightarrow> string" where
  "scope_of job = idempotencyScope (jb_ProjectID job) (jb_ApplicationID job) (jb_IdempotencyKey job)"

definition scopes_ok :: "job_memory \<Rightarrow> bool" where
  "scopes_ok s \<longleftrightarrow> (\<forall>k jobID. jm_byIdempotency s k = Some jobID \<longrightarrow> (\<exists>job. map_of (jm_byID s) jobID = Some job \<and> scope_of job = k))"

definition config_ok :: "job_memory \<times> string set \<Rightarrow> bool" where
  "config_ok = (\<lambda>(s, F). stored s \<and> scopes_ok s \<and> build_inv (view s F))"

text \<open>What a job keeps for ever.\<close>

definition snapshot :: "Job \<Rightarrow> string \<times> string \<times> string \<times> string \<times> SourceSnapshot \<times> string \<times> string \<times> string \<times> string \<times> time \<times> string" where
  "snapshot job = (jb_ID job, jb_ProjectID job, jb_EnvironmentID job, jb_ApplicationID job, jb_Source job, jb_RequestedBuildStrategy job,
     jb_ResolvedBuildStrategy job, jb_DockerfilePath job, jb_CreatedBy job, jb_CreatedAt job, jb_IdempotencyKey job)"

definition job_rank :: "string \<Rightarrow> nat" where
  "job_rank status = (if status = StatusReady then 2 else if status = StatusRunning then 1 else 0)"

lemma snapshot_updates [simp]:
  "snapshot (running_job now job) = snapshot job" "snapshot (cancelled_job now job) = snapshot job" "snapshot (failed_job c m now job) = snapshot job"
  by (simp_all add: snapshot_def running_job_def cancelled_job_def failed_job_def)

lemma snapshot_scope: "snapshot job = snapshot job' \<Longrightarrow> scope_of job = scope_of job'"
  by (simp add: snapshot_def scope_of_def)

lemma effect_job:
  assumes "build_effect now who x y" "statuses_ok x" "fst x j = Some job"
  shows "\<exists>job'. fst y j = Some job' \<and> snapshot job' = snapshot job \<and> (job' = job \<or> job_rank (jb_Status job') < job_rank (jb_Status job))"
  using assms
proof (induction rule: build_effect.induct)
  case (cancelled J j' job' A F)
  from cancelled(1,3) have "jb_Status job' \<in> {StatusReady, StatusRunning, StatusFailed, StatusCancelled}" by (auto simp: statuses_ok_def)
  with cancelled(2) have "0 < job_rank (jb_Status job')" by (auto simp: terminal_status_def job_rank_def)
  then show ?case using cancelled(1,4) by (auto simp: job_rank_def)
qed (auto simp: job_rank_def)

lemma scopes_ok_effect:
  assumes "build_effect now who (view s F) (view s' F')" "scopes_ok s" "jm_byIdempotency s' = jm_byIdempotency s" "statuses_ok (view s F)"
  shows "scopes_ok s'"
  unfolding scopes_ok_def
proof (intro allI impI)
  fix k jobID assume "jm_byIdempotency s' k = Some jobID"
  with assms(2,3) obtain job where "map_of (jm_byID s) jobID = Some job" "scope_of job = k" by (auto simp: scopes_ok_def)
  with effect_job [OF assms(1,4), of jobID job] show "\<exists>job. map_of (jm_byID s') jobID = Some job \<and> scope_of job = k"
    by (auto simp: view_def dest: snapshot_scope)
qed

text \<open>What a step does: one effect, and the table of idempotency keys changes only with a new job.\<close>

lemma create_effect:
  assumes "memory_jobs v" "CreateJob v c p a by key s = (res, s')" "\<And>jobID. bc_NewID c = Some jobID \<Longrightarrow> map_of (jm_byID s) jobID = None"
    "stored s" "scopes_ok s"
  shows "stored s' \<and> scopes_ok s' \<and> build_effect now None (view s F) (view s' F)"
proof (cases rule: CreateJob_cases [OF assms(1,2)])
  case (3 src sha resolved dockerfile exists_file failure jobID job)
  note created = 3
  have new: "map_of (jm_byID s) jobID = None" using assms(3) created(5) by simp
  have job: "jb_ID job = jobID" "jb_Status job = StatusReady" "scope_of job = idempotencyScope p a key"
    using created(7) resolveStrategy_failure [OF created(6)] by (simp_all add: scope_of_def)
  have "build_effect now None (map_of (jm_byID s), map_of (jm_attempts s), F) ((map_of (jm_byID s))(jb_ID job \<mapsto> job), map_of (jm_attempts s), F)"
    by (rule build_effect.created) (use new job in simp_all)
  moreover have "scopes_ok s'"
    using assms(5) new job(3) unfolding scopes_ok_def created(10) by simp (metis option.distinct(1))
  ultimately show ?thesis using assms(4) job(1) created(10) by (simp add: view_def stored_def put_job_def update_keys update_conv')
qed (use assms(4,5) in \<open>simp_all add: view_def build_effect.same\<close>)

lemma reserve_effect:
  assumes "memory_jobs v" "Dispatch_reserve v c p a j s = (res, s')" "keys_ok (view s F)" "stored s"
    and fresh: "\<And>raw. bc_Random c = Some raw \<Longrightarrow> map_of (jm_attempts s) (newOpaqueID ''bja-'' raw) = None"
  shows "stored s' \<and> jm_byIdempotency s' = jm_byIdempotency s
    \<and> build_effect now None (view s F) (view s' (case res of Inl _ \<Rightarrow> F | Inr attempt \<Rightarrow> insert (at_AttemptID attempt) F))"
proof -
  obtain visit where v: "bv_Store v = Some (job_memory_ops visit)" using assms(1) by (rule memory_jobsE)
  show ?thesis
  proof (cases res)
    case (Inr attempt)
    then obtain raw where raw: "bc_Random c = Some raw" and attempt: "attempt = new_attempt (bv_Executor v) (newOpaqueID ''bja-'' raw) j (bc_Now c)"
        and mem: "memory_ReserveDispatch p a attempt s = (None, s')"
      using assms(2) v by (auto simp: Dispatch_reserve_def Let_def split: option.splits if_splits prod.splits)
    from ReserveDispatch_effect [OF mem assms(3,4)] fresh [OF raw] attempt Inr show ?thesis by (simp add: new_attempt_def)
  next
    case (Inl e)
    with assms(2) v have "s' = s"
      by (auto simp: Dispatch_reserve_def Let_def memory_ReserveDispatch_def split: option.splits if_splits prod.splits)
    with Inl assms(4) show ?thesis by (simp add: view_def build_effect.same)
  qed
qed

lemma ClaimDispatch_refused: "memory_ClaimDispatch j i identity h e now s = (Some err, s') \<Longrightarrow> s' = s"
  by (auto simp: memory_ClaimDispatch_def Let_def split: option.splits if_splits)

lemma claim_effect:
  assumes "memory_jobs v" "Claim v c j i identity s = (res, s')" "stored s"
    and fresh: "\<And>raw token h. bc_Random c = Some raw \<Longrightarrow> newLeaseCredential (bv_Hashes v) raw = (token, h)
           \<Longrightarrow> h \<noteq> [] \<and> (\<forall>(_, b) \<in> set (jm_attempts s). at_LeaseHash b \<noteq> h)"
  shows "stored s' \<and> jm_byIdempotency s' = jm_byIdempotency s \<and> build_effect (bc_Now c) None (view s F) (view s' F)"
proof -
  obtain visit where v: "bv_Store v = Some (job_memory_ops visit)" using assms(1) by (rule memory_jobsE)
  show ?thesis
  proof (cases "s' = s")
    case True
    then show ?thesis using assms(3) by (simp add: view_def build_effect.same)
  next
    case False
    then obtain raw token h where raw: "bc_Random c = Some raw" "newLeaseCredential (bv_Hashes v) raw = (token, h)"
        and mem: "memory_ClaimDispatch j i identity h (bc_Now c + runnerLeaseTTL) (bc_Now c) s = (None, s')"
      using assms(2) v by (auto simp: Claim_def Let_def split: option.splits if_splits prod.splits dest: ClaimDispatch_refused)
    show ?thesis
      by (rule ClaimDispatch_effect [OF mem assms(3)]) (use fresh [OF raw] in \<open>auto dest: map_of_SomeD\<close>)
  qed
qed

lemma scopes_kept:
  assumes "config_ok (s, F)" "stored s' \<and> jm_byIdempotency s' = jm_byIdempotency s \<and> build_effect now who (view s F) (view s' F')"
  shows "stored s' \<and> scopes_ok s' \<and> build_effect now who (view s F) (view s' F')"
  using assms scopes_ok_effect [of now who s F s' F'] by (simp add: config_ok_def build_inv_def)

lemma step_effect:
  assumes "build_step now who x y" "config_ok x"
  shows "stored (fst y) \<and> scopes_ok (fst y) \<and> build_effect now who (view (fst x) (snd x)) (view (fst y) (snd y))"
  using assms
proof (induction rule: build_step.induct)
  case (create v c p a actor key s res s' F)
  from create(4) have "stored s" "scopes_ok s" by (simp_all add: config_ok_def)
  from create_effect [OF create(1-3) this] show ?case by simp
next
  case (reserve v c p a j s res s' F)
  from reserve(4) have "keys_ok (view s F)" "stored s" by (simp_all add: config_ok_def build_inv_def)
  from scopes_kept [OF reserve(4) reserve_effect [OF reserve(1,2) this reserve(3)]] show ?case by simp
next
  case (settle v store i F c answer s res s')
  from settle(5) have s: "stored s" by (simp add: config_ok_def)
  obtain visit where "store = job_memory_ops visit" using settle(1,2) by (auto elim!: memory_jobsE)
  then have "stored s' \<and> jm_byIdempotency s' = jm_byIdempotency s \<and> build_effect (bc_Later c) None (view s F) (view s' (F - {i}))"
  proof (cases answer)
    case (Inl e)
    show ?thesis
      using RejectDispatch_effect [OF surjective_pairing s settle(3)] settle(4) \<open>store = job_memory_ops visit\<close> Inl
      by (simp add: Dispatch_settle_def) metis
  next
    case (Inr facts)
    then have "memory_CompleteDispatch i facts (bc_Later c) s = (res, s')"
      using settle(4) \<open>store = job_memory_ops visit\<close> by (simp add: Dispatch_settle_def)
    from CompleteDispatch_effect [OF this s] show ?thesis .
  qed
  from scopes_kept [OF settle(5) this] show ?case by simp
next
  case (expire v c p a j s res s' F)
  from expire(3) have s: "stored s" by (simp add: config_ok_def)
  from expire(1) obtain visit where v: "bv_Store v = Some (job_memory_ops visit)" "visits visit" by (rule memory_jobsE)
  then have "stored s' \<and> jm_byIdempotency s' = jm_byIdempotency s \<and> build_effect (bc_Now c) None (view s F) (view s' F)"
    using expire(2) ExpireUnclaimed_effect [OF _ s v(2)] s by (auto simp: ExpireUnclaimed_def view_def intro: build_effect.same split: if_splits)
  from scopes_kept [OF expire(3) this] show ?case by simp
next
  case (claim v c j i identity s res s' F)
  from claim(4) have s: "stored s" by (simp add: config_ok_def)
  from scopes_kept [OF claim(4) claim_effect [OF claim(1,2) s claim(3)]] show ?case by simp
next
  case (complete v c result token s res s' F)
  from complete(1) obtain visit where "bv_Store v = Some (job_memory_ops visit)" by (rule memory_jobsE)
  then have "s' = s" using complete(2) by (auto simp: CompleteJob_def memory_CompleteRunner_def split: if_splits option.splits)
  then show ?case using complete(3) by (simp add: config_ok_def view_def build_effect.same)
next
  case (fail v c failure token s res s' F)
  from fail(3) have s: "stored s" "keys_ok (view s F)" by (simp_all add: config_ok_def build_inv_def)
  from fail(1) obtain visit where v: "bv_Store v = Some (job_memory_ops visit)" "visits visit" by (rule memory_jobsE)
  then have "stored s' \<and> jm_byIdempotency s' = jm_byIdempotency s \<and> build_effect (bc_Now c) None (view s F) (view s' F)"
    using fail(2) FailRunner_effect [OF _ s(1) v(2) s(2)] s(1) by (auto simp: FailJob_def Let_def view_def intro: build_effect.same split: if_splits)
  from scopes_kept [OF fail(3) this] show ?case by simp
next
  case (cancel v c p a j s res s' F)
  from cancel(3) have s: "stored s" by (simp add: config_ok_def)
  from cancel(1) obtain visit where v: "bv_Store v = Some (job_memory_ops visit)" by (rule memory_jobsE)
  then have "s' = s \<or> (\<exists>r. memory_Cancel visit p a j (bc_Now c) s = (r, s'))"
    using cancel(2) by (auto simp: CancelJob_def split: if_splits sum.splits prod.splits option.splits)
  then have "stored s' \<and> jm_byIdempotency s' = jm_byIdempotency s \<and> build_effect (bc_Now c) (Some j) (view s F) (view s' F)"
    using Cancel_effect [OF _ s] s by (auto simp: view_def intro: build_effect.same)
  from scopes_kept [OF cancel(3) this] show ?case by simp
qed

lemma config_ok_step:
  assumes "build_step now who x y" "config_ok x"
  shows "config_ok y"
proof -
  have "build_inv (view (fst x) (snd x))" using assms(2) by (simp add: config_ok_def case_prod_unfold)
  with step_effect [OF assms] have "build_inv (view (fst y) (snd y))" using build_inv_effect by blast
  with step_effect [OF assms] show ?thesis by (simp add: config_ok_def case_prod_unfold)
qed

definition build_steps :: "job_memory \<times> string set \<Rightarrow> job_memory \<times> string set \<Rightarrow> bool" where
  "build_steps x y \<longleftrightarrow> (\<exists>now who. build_step now who x y)"

definition build_reachable :: "job_memory \<times> string set \<Rightarrow> bool" where
  "build_reachable x \<longleftrightarrow> build_steps\<^sup>*\<^sup>* (NewJobStore, {}) x"

lemma build_reachable_ok: "build_reachable x \<Longrightarrow> config_ok x"
  unfolding build_reachable_def
proof (induction rule: rtranclp_induct)
  case base
  show ?case by (simp add: config_ok_def stored_def scopes_ok_def view_def NewJobStore_def build_inv_init)
next
  case (step y z)
  then show ?case by (auto simp: build_steps_def intro: config_ok_step)
qed

section \<open>Along a run\<close>

text \<open>A value whose rank falls whenever it changes: it changes at most rank-many times.\<close>

lemma ranked_changes:
  fixes f :: "nat \<Rightarrow> 'a" and rank :: "'a \<Rightarrow> nat"
  assumes "\<And>n. f (Suc n) = f n \<or> rank (f (Suc n)) < rank (f n)"
  shows "finite {n. f (Suc n) \<noteq> f n} \<and> card {n. f (Suc n) \<noteq> f n} \<le> rank (f 0) \<and> (\<exists>m. \<forall>n \<ge> m. f n = f m)"
proof -
  let ?C = "{n. f (Suc n) \<noteq> f n}"
  have count: "card {k. k < n \<and> k \<in> ?C} + rank (f n) \<le> rank (f 0)" for n
  proof (induction n)
    case (Suc n)
    show ?case
    proof (cases "n \<in> ?C")
      case True
      then have "{k. k < Suc n \<and> k \<in> ?C} = insert n {k. k < n \<and> k \<in> ?C}" by (auto simp: less_Suc_eq)
      then show ?thesis using Suc assms [of n] True by simp
    next
      case False
      then have "{k. k < Suc n \<and> k \<in> ?C} = {k. k < n \<and> k \<in> ?C}" by (auto simp: less_Suc_eq)
      then show ?thesis using Suc False by simp
    qed
  qed simp
  have small: "card D \<le> rank (f 0)" if D: "finite D" "D \<subseteq> ?C" for D
  proof -
    obtain n where "\<forall>k \<in> D. k < n" using D(1) finite_nat_set_iff_bounded by blast
    with D(2) have "card D \<le> card {k. k < n \<and> k \<in> ?C}" by (intro card_mono) auto
    with count [of n] show ?thesis by simp
  qed
  have fin: "finite ?C"
  proof (rule ccontr)
    assume "infinite ?C"
    then obtain D where "D \<subseteq> ?C" "finite D" "card D = Suc (rank (f 0))" using infinite_arbitrarily_large by blast
    with small show False by fastforce
  qed
  then obtain m where m: "\<forall>k \<in> ?C. k < m" using finite_nat_set_iff_bounded by blast
  have "f n = f m" if "m \<le> n" for n
    using that
  proof (induction rule: dec_induct)
    case (step k)
    then have "k \<notin> ?C" using m by (meson leD)
    with step show ?case by simp
  qed simp
  with fin small [OF fin] show ?thesis by blast
qed

definition job_at :: "(nat \<Rightarrow> job_memory \<times> string set) \<Rightarrow> string \<Rightarrow> nat \<Rightarrow> Job option" where
  "job_at run j n = map_of (jm_byID (fst (run n))) j"

definition attempt_at :: "(nat \<Rightarrow> job_memory \<times> string set) \<Rightarrow> string \<Rightarrow> nat \<Rightarrow> DispatchAttempt option" where
  "attempt_at run i n = map_of (jm_attempts (fst (run n))) i"

lemma view_simps: "fst (view s F) = map_of (jm_byID s)" "fst (snd (view s F)) = map_of (jm_attempts s)"
  by (simp_all add: view_def)

lemma run_ok:
  assumes "build_reachable (run 0)" "\<And>n. build_steps (run n) (run (Suc n))"
  shows "config_ok (run n)"
  using build_reachable_ok [OF assms(1)] assms(2) by (induction n) (auto simp: build_steps_def intro: config_ok_step)

lemma step_job:
  assumes "build_steps x y" "config_ok x" "map_of (jm_byID (fst x)) j = Some job"
  shows "\<exists>job'. map_of (jm_byID (fst y)) j = Some job' \<and> snapshot job' = snapshot job
    \<and> (job' = job \<or> job_rank (jb_Status job') < job_rank (jb_Status job))"
proof -
  from assms(1) obtain now who where step: "build_step now who x y" by (auto simp: build_steps_def)
  from assms(2) have "statuses_ok (view (fst x) (snd x))" by (auto simp: config_ok_def build_inv_def case_prod_unfold)
  with effect_job [of now who "view (fst x) (snd x)" "view (fst y) (snd y)" j job] step_effect [OF step assms(2)] assms(3)
  show ?thesis by (simp add: view_simps)
qed

text \<open>A claimed attempt past its lease keeps its job running: only a Cancel of the job moves it.\<close>

lemma stuck_effect:
  assumes "build_effect now who x y" "build_inv x" "fst (snd x) i = Some a" "at_LastState a = DispatchStateClaimed" "at_LeaseExpiresAt a \<le> now"
    "who \<noteq> Some (at_BuildJobID a)" "fst x (at_BuildJobID a) = Some job" "jb_Status job = StatusRunning"
  shows "fst y (at_BuildJobID a) = Some job \<and> fst (snd y) i = Some a"
  using assms
proof (induction rule: build_effect.induct)
  case (refused i' F A b code J)
  then have "at_LastState b \<noteq> DispatchStateClaimed" by (auto simp: build_inv_def flight_ok_def)
  with refused show ?case by auto
next
  case (failed A i' b J job' F code message)
  then have "single_active (J, A, F)" by (simp add: build_inv_def)
  moreover have "b \<noteq> a" using failed(3) failed(9) by auto
  ultimately have "at_BuildJobID b \<noteq> at_BuildJobID a"
    using failed single_activeD [of J A F i' b i a] by (metis active_state_simps(3) fst_conv option.inject snd_conv)
  with failed \<open>b \<noteq> a\<close> show ?case by auto
next
  case (cancelled J j job' A F)
  then have "\<not> active_attempt j a" by (auto simp: active_attempt_def)
  with cancelled show ?case by auto
qed (auto simp: active_attempt_def)

lemma stuck_step:
  assumes "build_step now who x y" "config_ok x" "map_of (jm_attempts (fst x)) i = Some a" "at_LastState a = DispatchStateClaimed"
    "at_LeaseExpiresAt a \<le> now" "who \<noteq> Some (at_BuildJobID a)" "map_of (jm_byID (fst x)) (at_BuildJobID a) = Some job" "jb_Status job = StatusRunning"
  shows "map_of (jm_byID (fst y)) (at_BuildJobID a) = Some job \<and> map_of (jm_attempts (fst y)) i = Some a"
proof -
  from assms(2) have "build_inv (view (fst x) (snd x))" by (simp add: config_ok_def case_prod_unfold)
  with stuck_effect [of now who "view (fst x) (snd x)" "view (fst y) (snd y)" i a job] step_effect [OF assms(1,2)] assms(3-)
  show ?thesis by (simp add: view_simps)
qed

end
