(* ===== verification/Build_Job_Paths.thy ===== *)
theory Build_Job_Paths
  imports Build_Job_Runs
begin

text \<open>
  The Dockerfile that the strategy resolution finds has a canonical repository path, so the jobs that
  CreateJob stores pass the checks of a dispatch.
\<close>

section \<open>Canonical paths\<close>

lemma containsControl_extend: "\<not> containsControl s \<Longrightarrow> list_all (in_range 0x20 0x7E) t \<Longrightarrow> \<not> containsControl (s @ t)"
proof (induction s)
  case Nil
  then show ?case by (simp add: containsControl_printable)
next
  case (Cons a s)
  then have IH: "\<not> containsControl (s @ t)" by (cases s) auto
  show ?case
  proof (cases s)
    case Nil
    with Cons.prems IH show ?thesis by (cases t) (auto simp: in_range_def)
  next
    case (Cons b s')
    with Cons.prems Cons.IH show ?thesis by auto
  qed
qed

definition plain_segment :: "string \<Rightarrow> bool" where
  "plain_segment w \<longleftrightarrow> w \<noteq> [] \<and> w \<noteq> ''.'' \<and> w \<noteq> ''..''"

lemma clean_plain: "list_all plain_segment ws \<Longrightarrow> foldl (clean_step rooted) out ws = out @ ws"
  by (induction ws arbitrary: out) (auto simp: plain_segment_def)

lemma Join_Cons: "ws \<noteq> [] \<Longrightarrow> Join (w # ws) = w @ ''/'' @ Join ws"
  by (cases ws) (auto simp: Join_def)

lemma Join_Split: "Join (Split (CHR ''/'') s) = s"
proof (induction s)
  case (Cons c s)
  then show ?case
  proof (cases "Split (CHR ''/'') s")
    case (Cons w ws)
    with Cons.IH show ?thesis by (cases ws) (auto simp: Join_def)
  qed simp
qed (simp add: Join_def)

lemma Clean_plain:
  assumes "list_all plain_segment (Split (CHR ''/'') s)"
  shows "Clean s = s"
proof -
  have "\<not> HasPrefix s ''/''"
    using assms by (cases s) (auto simp: plain_segment_def)
  with assms show ?thesis by (simp add: Clean_def Let_def clean_plain Join_Split del: clean_step.simps)
qed

lemma canonical_plain: "canonicalRepositoryPath s dot \<Longrightarrow> s \<noteq> ''.'' \<Longrightarrow> list_all plain_segment (Split (CHR ''/'') s)"
  by (auto simp: canonicalRepositoryPath_def plain_segment_def list_all_iff split: if_splits)

lemma plain_canonical:
  assumes "list_all plain_segment (Split (CHR ''/'') s)" "length s \<le> 1024" "CHR 0x5C \<notin> set s" "\<not> containsControl s"
  shows "canonicalRepositoryPath s dot"
proof -
  have "s \<noteq> []" "s \<noteq> ''.''" "\<not> HasPrefix s ''/''"
    using assms(1) by (cases s; auto simp: plain_segment_def)+
  with assms Clean_plain [OF assms(1)] show ?thesis
    by (auto simp: canonicalRepositoryPath_def plain_segment_def list_all_iff)
qed

lemma canonical_weaken: "canonicalRepositoryPath s False \<Longrightarrow> canonicalRepositoryPath s dot"
  by (auto simp: canonicalRepositoryPath_def split: if_splits)

lemma dockerfile_below:
  assumes "canonicalRepositoryPath root True" "length (repositoryPath root ''Dockerfile'') \<le> 1024"
  shows "canonicalRepositoryPath (repositoryPath root ''Dockerfile'') False"
proof (cases "root = ''.''")
  case True
  show ?thesis unfolding True repositoryPath_def
    by (simp, rule plain_canonical) (simp_all add: plain_segment_def in_range_def)
next
  case False
  have root: "list_all plain_segment (Split (CHR ''/'') root)" "root \<noteq> []" "CHR 0x5C \<notin> set root" "\<not> containsControl root"
    using assms(1) False canonical_plain [OF assms(1) False] by (auto simp: canonicalRepositoryPath_def split: if_splits)
  let ?path = "root @ ''/Dockerfile''"
  have split: "Split (CHR ''/'') ?path = Split (CHR ''/'') root @ [''Dockerfile'']"
    using Split_append_sep [of "CHR ''/''" root "''Dockerfile''"] by simp
  have plain: "list_all plain_segment (Split (CHR ''/'') ?path)" using root(1) by (simp add: split plain_segment_def)
  have path: "repositoryPath root ''Dockerfile'' = ?path"
    using False root(2) Clean_plain [OF plain] by (simp add: repositoryPath_def Join_def)
  show ?thesis unfolding path
    using assms(2) root(3) containsControl_extend [OF root(4), of "''/Dockerfile''"]
    by (intro plain_canonical [OF plain]) (simp_all add: path in_range_def)
qed

section \<open>Resolved strategies\<close>

lemma existing_subset: "existing exists_file cs = Inr ws \<Longrightarrow> set ws \<subseteq> set cs"
  by (induction cs arbitrary: ws) (auto split: sum.splits if_splits)

lemma unique_loop_subset: "set (unique_loop seen vs) \<subseteq> set vs"
  by (induction seen vs rule: unique_loop.induct) auto

lemma resolved_strategy_valid:
  assumes "validateSource a p ap = None" "resolveStrategy exists_file a = Inr (strategy, dockerfile, failure)" "length dockerfile \<le> 1024"
  shows "strategy_valid strategy dockerfile"
proof -
  have src: "canonicalRepositoryPath (ap_ApplicationRoot a) True" "canonicalRepositoryPath (ap_BuildContext a) True"
      "ap_DockerfilePath a = [] \<or> canonicalRepositoryPath (ap_DockerfilePath a) False"
    using assms(1) unfolding validateSource_def first_failure_None by auto
  show ?thesis
  proof (cases "strategy = StrategyDockerfile \<and> ap_DockerfilePath a = []")
    case True
    with assms(2) obtain found where found: "existing exists_file (uniqueStrings
        [repositoryPath (ap_ApplicationRoot a) ''Dockerfile'', repositoryPath (ap_BuildContext a) ''Dockerfile'']) = Inr [found]" "dockerfile = found"
      by (auto simp: resolveStrategy_def split: if_splits sum.splits list.splits)
    then have "dockerfile \<in> {repositoryPath (ap_ApplicationRoot a) ''Dockerfile'', repositoryPath (ap_BuildContext a) ''Dockerfile''}"
      using existing_subset [OF found(1)] unique_loop_subset unfolding uniqueStrings_def by fastforce
    with True src(1,2) assms(3) show ?thesis unfolding strategy_valid_def by (auto intro: dockerfile_below)
  next
    case False
    with assms(2) src(3) show ?thesis
      by (auto simp: resolveStrategy_def strategy_valid_def split: if_splits sum.splits list.splits)
  qed
qed

lemma created_dispatchable:
  assumes "validOpaqueID p" "validOpaqueID ap" "validateSource src p ap = None" "validSHA40 sha"
    "resolveStrategy exists_file src = Inr (resolved, dockerfile, failure)" "length dockerfile \<le> 1024"
  shows "validateDispatchableJob (new_job jobID p ap actor key src sha resolved dockerfile failure now) = None"
proof -
  have [simp]: "failure = None" by (rule resolveStrategy_failure [OF assms(5)])
  have src: "validOpaqueID (ap_EnvironmentID src)" "validOpaqueID (ap_BindingID src)" "\<not> IsZero (ap_BindingUpdatedAt src)" "0 < ap_InstallationID src"
      "0 < ap_RepositoryID src" "0 < ap_RepositoryOwnerID src" "validRepositoryFullName (ap_RepositoryFullName src)"
      "canonicalRepositoryPath (ap_ApplicationRoot src) True" "canonicalRepositoryPath (ap_BuildContext src) True"
    using assms(3) unfolding validateSource_def first_failure_None by auto
  show ?thesis unfolding validateDispatchableJob_def first_failure_None
    using resolved_strategy_valid [OF assms(3,5,6)] assms(1,2,4) src by (simp add: new_job_def snapshot_source_def)
qed

end
