(* ===== verification/Build_Job_Sample.thy ===== *)
theory Build_Job_Sample
  imports Build_Job_Paths
begin

text \<open>A concrete build job service and the run in which a job is created, dispatched and claimed.\<close>

definition sample_source :: ApplicationSource where
  "sample_source = \<lparr>ap_ProjectID = ''p1'', ap_EnvironmentID = ''e1'', ap_ApplicationID = ''a1'', ap_BindingID = ''b1'', ap_BindingUpdatedAt = 1,
     ap_InstallationID = 5, ap_RepositoryID = 7, ap_RepositoryOwnerID = 9, ap_RepositoryFullName = ''o/r'', ap_SelectedRef = ''main'',
     ap_ApplicationRoot = ''.'', ap_BuildContext = ''.'', ap_BuildStrategy = StrategyAuto, ap_DockerfilePath = [],
     ap_BuildDependencyState = [], ap_BuildEnvironment = []\<rparr>"

definition sample_executor :: ExecutorConfig where
  "sample_executor = \<lparr>xc_Owner = ''o'', xc_Repository = ''x'', xc_Workflow = ''.github/workflows/b.yml'', xc_Ref = ''refs/heads/main''\<rparr>"

definition sample_registry :: RegistryConfig where
  "sample_registry = \<lparr>gc_Host = ''ghcr.io'', gc_Namespace = ''o'', gc_RepositoryPrefix = ''apps'', gc_Visibility = ''private''\<rparr>"

definition sample_build_hashes :: build_hashes where
  "sample_build_hashes = \<lparr>bh_sha256 = (\<lambda>s. ''h'' @ s), bh_config = (\<lambda>x. bci_Commit x), bh_media_type = (\<lambda>s. None)\<rparr>"

definition sample_build_service :: "(job_memory, unit) build_service" where
  "sample_build_service = \<lparr>bv_Store = Some (job_memory_ops (\<lambda>xs. xs)), bv_Sources = Some (\<lambda>p a. Inr sample_source),
     bv_Repository = Some \<lparr>ra_ResolveCommit = (\<lambda>i r f. Inr (replicate 40 CHR ''a'')), ra_FileExists = (\<lambda>i r c f. Inr True)\<rparr>,
     bv_Executor = sample_executor, bv_Registry = sample_registry,
     bv_Dispatcher = Some \<lparr>di_DispatchWorkflow = (\<lambda>x j a. Inr \<lparr>dfa_RunID = 3, dfa_RunAttempt = 1, dfa_RunURL = ''u''\<rparr>), di_CancelWorkflow = None\<rparr>,
     bv_Hashes = sample_build_hashes\<rparr>"

definition sample_build_call :: build_call where
  "sample_build_call = \<lparr>bc_Now = 1, bc_Later = 2, bc_NewID = Some ''j1'', bc_Random = Some ''r''\<rparr>"

definition sample_job :: Job where
  "sample_job = new_job ''j1'' ''p1'' ''a1'' ''u1'' ''key'' sample_source (replicate 40 CHR ''a'') StrategyDockerfile ''Dockerfile'' None 1"

definition sample_attempt :: DispatchAttempt where
  "sample_attempt = new_attempt sample_executor ''bja-72'' ''j1'' 1"

definition sample_identity :: RunnerIdentity where
  "sample_identity = \<lparr>rn_Repository = ''o/x'', rn_WorkflowRef = ''o/x/.github/workflows/b.yml@refs/heads/main'', rn_Ref = ''refs/heads/main'',
     rn_EventName = ''workflow_dispatch'', rn_RunID = 3, rn_RunAttempt = 1\<rparr>"

definition sample_claimed :: DispatchAttempt where
  "sample_claimed = claimed_attempt sample_identity ''hcg'' (1 + runnerLeaseTTL) 1
     (dispatched_attempt \<lparr>dfa_RunID = 3, dfa_RunAttempt = 1, dfa_RunURL = ''u''\<rparr> 2 sample_attempt)"

definition sample_jobs :: "nat \<Rightarrow> job_memory \<times> string set" where
  "sample_jobs n = (let store = \<lparr>jm_byID = [(''j1'', sample_job)], jm_byIdempotency = [idempotencyScope ''p1'' ''a1'' ''key'' \<mapsto> ''j1''], jm_attempts = []\<rparr> in
     if n = 0 then (store, {})
     else if n = 1 then (put_attempt ''bja-72'' sample_attempt store, {''bja-72''})
     else if n = 2
     then (put_attempt ''bja-72'' (dispatched_attempt \<lparr>dfa_RunID = 3, dfa_RunAttempt = 1, dfa_RunURL = ''u''\<rparr> 2 sample_attempt) store, {})
     else (put_attempt ''bja-72'' sample_claimed (put_job ''j1'' (running_job 1 sample_job) store), {}))"

lemma sample_opaque: "validOpaqueID ''p1''" "validOpaqueID ''a1''" "validOpaqueID ''u1''" "validOpaqueID ''e1''" "validOpaqueID ''b1''" "validOpaqueID ''j1''"
  "validOpaqueID ''bja-72''"
  by (simp_all add: validOpaqueID_def string_eval)

lemma sample_key: "validIdempotencyKey ''key''"
  by (simp add: validIdempotencyKey_def string_eval containsSpace_def space_runes_def)

lemma sample_sha: "validSHA40 (replicate 40 CHR ''a'')"
  by (simp add: validSHA40_def ToLower_def ascii_lower_char_def list_all_iff is_hex_lower_def char_classes in_range_def)

lemma canonical_dot: "canonicalRepositoryPath ''.'' True"
  by (simp add: canonicalRepositoryPath_def Clean_def Join_def in_range_def)

lemma sample_source_valid: "validateSource sample_source ''p1'' ''a1'' = None"
  unfolding validateSource_def first_failure_None
  by (simp add: sample_source_def sample_opaque canonical_dot IsZero_def zero_time_def validRepositoryFullName_def validGitHubName_def char_classes string_eval)

lemma sample_resolved: "resolveStrategy (\<lambda>f. Inr True) sample_source = Inr (StrategyDockerfile, ''Dockerfile'', None)"
  by (simp add: resolveStrategy_def sample_source_def repositoryPath_def uniqueStrings_def)

lemma sample_memory: "memory_jobs sample_build_service"
  unfolding memory_jobs_def by (rule exI [of _ "\<lambda>xs. xs"]) (simp add: sample_build_service_def visits_def)

lemma sample_created: "CreateJob sample_build_service sample_build_call ''p1'' ''a1'' ''u1'' ''key'' NewJobStore = (Inr (sample_job, False), fst (sample_jobs 0))"
  by (simp add: CreateJob_def sample_build_service_def sample_build_call_def sample_opaque sample_key memory_GetByIdempotency_def NewJobStore_def
      sample_source_valid sample_sha sample_resolved memory_Create_def sample_job_def sample_jobs_def Let_def put_job_def)

lemma sample_workflow: "canonicalRepositoryPath ''.github/workflows/b.yml'' False"
  by (rule plain_canonical) (simp_all add: plain_segment_def in_range_def)

lemma sample_executor_ok: "executor_error sample_executor = None" "executor_available sample_executor"
  using sample_workflow
  by (simp_all add: executor_error_def executor_available_def sample_executor_def Let_def TrimPrefix_def validGitHubName_def char_classes string_eval)

lemma sample_dispatchable: "validateDispatchableJob sample_job = None"
  unfolding sample_job_def
  by (rule created_dispatchable [OF sample_opaque(1,2) sample_source_valid sample_sha sample_resolved]) simp

lemma sample_job_simps [simp]: "jb_ID sample_job = ''j1''" "jb_ProjectID sample_job = ''p1''" "jb_ApplicationID sample_job = ''a1''"
  "jb_Status sample_job = StatusReady"
  by (simp_all add: sample_job_def)

lemma sample_attempt_simps [simp]: "at_AttemptID sample_attempt = ''bja-72''" "at_BuildJobID sample_attempt = ''j1''"
  "at_LastState sample_attempt = DispatchStateDispatching" "at_LeaseHash sample_attempt = []" "at_ClaimedAt sample_attempt = None"
  "at_RunID sample_attempt = 0" "at_RunAttempt sample_attempt = 0"
  by (simp_all add: sample_attempt_def new_attempt_def)

lemma sample_reserved:
  "Dispatch_reserve sample_build_service sample_build_call ''p1'' ''a1'' ''j1'' (fst (sample_jobs 0)) = (Inr sample_attempt, fst (sample_jobs 1))"
proof -
  have "newOpaqueID ''bja-'' ''r'' = ''bja-72''" by (simp add: newOpaqueID_def hex_encode_def hex_digit_def char_of_eq_iff)
  then show ?thesis
    using sample_dispatchable
    by (simp add: Dispatch_reserve_def sample_build_service_def sample_build_call_def sample_executor_ok memory_ReserveDispatch_def scoped_job_def
        sample_attempt_def [symmetric] sample_jobs_def Let_def)
qed

lemma sample_settled:
  "Dispatch_settle (job_memory_ops (\<lambda>xs. xs) :: (job_memory, unit) job_store) sample_build_call ''bja-72''
     (Inr \<lparr>dfa_RunID = 3, dfa_RunAttempt = 1, dfa_RunURL = ''u''\<rparr>) (fst (sample_jobs 1))
     = (Inr (dispatched_attempt \<lparr>dfa_RunID = 3, dfa_RunAttempt = 1, dfa_RunURL = ''u''\<rparr> 2 sample_attempt), fst (sample_jobs 2))"
  by (simp add: Dispatch_settle_def memory_CompleteDispatch_def sample_jobs_def Let_def put_attempt_def sample_build_call_def dispatched_attempt_def)

lemma sample_not_refused: "claim_refused sample_executor ''j1'' ''bja-72'' sample_identity = None"
  using sample_executor_ok
  by (simp add: claim_refused_def sample_opaque sample_identity_def RepositoryFullName_def executor_WorkflowRef_def sample_executor_def or_else_def)

lemma sample_claim:
  "\<exists>lease. Claim sample_build_service sample_build_call ''j1'' ''bja-72'' sample_identity (fst (sample_jobs 2)) = (Inr lease, fst (sample_jobs 3))"
proof -
  have "newLeaseCredential sample_build_hashes ''r'' = (''cg'', ''hcg'')"
    by (simp add: newLeaseCredential_def base64_digit_def sample_build_hashes_def Let_def char_of_eq_iff)
  then show ?thesis
    using sample_not_refused
    by (simp add: Claim_def sample_build_service_def sample_build_call_def memory_ClaimDispatch_def sample_jobs_def Let_def put_attempt_def put_job_def
        sample_claimed_def running_job_def dispatched_attempt_def sample_identity_def)
qed

text \<open>After the claim the run repeats a request that changes nothing, at ever later times.\<close>

lemma idle_step: "build_step now None (s, F) (s, F)"
proof -
  let ?c = "sample_build_call\<lparr>bc_Now := now\<rparr>"
  have "CompleteJob sample_build_service ?c r [] s = (Inl lease_invalid, s)" for r
    by (simp add: CompleteJob_def sample_build_service_def token_ok_def)
  from build_step.complete [OF sample_memory this] show ?thesis by simp
qed

lemma pair_step: "build_step now who (fst x, snd x) (fst y, snd y) \<Longrightarrow> build_step now who x y"
  by simp

lemma sample_flight: "snd (sample_jobs 0) = {}" "snd (sample_jobs 1) = {''bja-72''}" "snd (sample_jobs 2) = {}" "snd (sample_jobs 3) = {}"
  by (simp_all add: sample_jobs_def Let_def)

lemma build_sample_step: "build_step (if n = 1 then 2 else if n < 3 then 1 else 700 * Minute) None (sample_jobs n) (sample_jobs (Suc n))"
proof -
  consider "n = 0" | "n = 1" | "n = 2" | "n \<ge> 3" by linarith
  then show ?thesis
  proof cases
    case 1
    have "build_step (bc_Now sample_build_call) None (fst (sample_jobs 0), {})
        (fst (sample_jobs 1), case Inr sample_attempt of Inl (_ :: build_error) \<Rightarrow> {} | Inr attempt \<Rightarrow> insert (at_AttemptID attempt) {})"
      by (rule build_step.reserve [OF sample_memory sample_reserved]) (simp add: sample_jobs_def Let_def)
    then have "build_step 1 None (sample_jobs 0) (sample_jobs 1)"
      by - (rule pair_step, simp only: sample_flight, simp add: sample_build_call_def)
    then show ?thesis using 1 by simp
  next
    case 2
    have "build_step (bc_Later sample_build_call) None (fst (sample_jobs 1), {''bja-72''}) (fst (sample_jobs 2), {''bja-72''} - {''bja-72''})"
      by (rule build_step.settle [OF sample_memory _ _ sample_settled]) (simp_all add: sample_build_service_def)
    then have "build_step 2 None (sample_jobs 1) (sample_jobs 2)"
      by - (rule pair_step, simp only: sample_flight, simp add: sample_build_call_def)
    then show ?thesis using 2 by (simp add: numeral_2_eq_2)
  next
    case 3
    from sample_claim obtain lease where claim:
      "Claim sample_build_service sample_build_call ''j1'' ''bja-72'' sample_identity (fst (sample_jobs 2)) = (Inr lease, fst (sample_jobs 3))" ..
    have "build_step (bc_Now sample_build_call) None (fst (sample_jobs 2), {}) (fst (sample_jobs 3), {})"
      by (rule build_step.claim [OF sample_memory claim])
        (auto simp: sample_build_service_def newLeaseCredential_def sample_build_hashes_def sample_jobs_def Let_def put_attempt_def dispatched_attempt_def
          sample_attempt_def new_attempt_def)
    then have "build_step 1 None (sample_jobs 2) (sample_jobs 3)"
      by - (rule pair_step, simp only: sample_flight, simp add: sample_build_call_def)
    then show ?thesis using 3 by (simp add: numeral_3_eq_3 numeral_2_eq_2)
  next
    case 4
    then have "sample_jobs (Suc n) = sample_jobs n" by (simp add: sample_jobs_def Let_def)
    with 4 idle_step [of "700 * Minute" "fst (sample_jobs n)" "snd (sample_jobs n)"] show ?thesis by simp
  qed
qed

lemma sample_start: "build_reachable (sample_jobs 0)"
proof -
  have "build_step (bc_Now sample_build_call) None (NewJobStore, {}) (fst (sample_jobs 0), {})"
    by (rule build_step.create [OF sample_memory sample_created]) (simp add: NewJobStore_def)
  moreover have "sample_jobs 0 = (fst (sample_jobs 0), {})" by (simp add: sample_jobs_def Let_def)
  ultimately have "build_steps (NewJobStore, {}) (sample_jobs 0)" unfolding build_steps_def by metis
  then show ?thesis by (simp add: build_reachable_def)
qed

lemma build_sample_reachable: "build_reachable (sample_jobs n)"
proof (induction n)
  case (Suc n)
  have "build_steps (sample_jobs n) (sample_jobs (Suc n))" using build_sample_step [of n] by (auto simp: build_steps_def)
  with Suc show ?case by (auto simp: build_reachable_def intro: rtranclp.rtrancl_into_rtrancl)
qed (rule sample_start)

end
