(* ===== verification/Build_Job_Properties.thy ===== *)
theory Build_Job_Properties
  imports Build_Job_Sample Deployment_Routing
begin

text \<open>
  The properties of build jobs (cloud/internal/buildjob): what the attempts and statuses of reachable
  stores have in common, the authority of a lease, the life of a job along every run, what CreateJob
  stores, the lease that runs out, and the build record a finished job gives to the routing.
\<close>

section \<open>Runs\<close>

lemma lookup_visited:
  assumes "memory_jobs v" "config_ok (s, F)" "RunnerBuildSpec v c jobID token s = Inr spec"
  obtains i a job where "map_of (jm_attempts s) i = Some a" "at_BuildJobID a = jobID" "at_LastState a = DispatchStateClaimed"
    "at_LeaseHash a = bh_sha256 (bv_Hashes v) token" "bc_Now c < at_LeaseExpiresAt a" "map_of (jm_byID s) jobID = Some job"
    "jb_Status job = StatusRunning" "spec = buildSpec (bv_Hashes v) job (bv_Registry v)"
proof -
  from assms(1) obtain visit where v: "bv_Store v = Some (job_memory_ops visit)" "visits visit" by (rule memory_jobsE)
  from assms(2) have s: "stored s" by (simp add: config_ok_def)
  let ?access = "\<lparr>acc_JobID = jobID, acc_AttemptID = [], acc_RunID = 0, acc_RunAttempt = 0, acc_LeaseHash = bh_sha256 (bv_Hashes v) token\<rparr>"
  from assms(3) v(1) obtain job where job: "memory_GetRunnerJob visit ?access (bc_Now c) s = Inr job" "spec = buildSpec (bv_Hashes v) job (bv_Registry v)"
    by (auto simp: RunnerBuildSpec_def split: if_splits sum.splits)
  then obtain i a where "holder visit (bh_sha256 (bv_Hashes v) token) s = Some (i, a)" by (auto simp: memory_GetRunnerJob_def split: option.splits)
  with job find_visited [OF v(2) s, of "\<lambda>a. at_LeaseHash a = bh_sha256 (bv_Hashes v) token" i a] show thesis
    by (intro that [of i a job]) (auto simp: memory_GetRunnerJob_def holder_def split: option.splits if_splits)
qed

text \<open>
  C16: In every reachable store a job is running exactly when one attempt of it, and only one, is
  claimed; no job has two attempts that are dispatching, dispatched or claimed.
\<close>
theorem running_iff_claimed:
  assumes "build_reachable (s, F)"
  shows "((\<exists>job. map_of (jm_byID s) j = Some job \<and> jb_Status job = StatusRunning)
      \<longleftrightarrow> (\<exists>!i. \<exists>a. map_of (jm_attempts s) i = Some a \<and> at_BuildJobID a = j \<and> at_LastState a = DispatchStateClaimed))
    \<and> (\<exists>\<^sub>\<le>\<^sub>1i. \<exists>a. map_of (jm_attempts s) i = Some a \<and> active_attempt j a)"
proof -
  let ?J = "map_of (jm_byID s)" and ?A = "map_of (jm_attempts s)"
  from build_reachable_ok [OF assms] have inv: "keys_ok (?J, ?A, F)" "single_active (?J, ?A, F)" "active_ok (?J, ?A, F)" "running_ok (?J, ?A, F)"
    by (simp_all add: config_ok_def view_def build_inv_def)
  have one: "i = k" if "?A i = Some a" "?A k = Some b" "active_attempt j a" "active_attempt j b" for i k a b
    using single_activeD [OF inv(2) that(1,2)] that(3,4) by (simp add: active_attempt_iff)
  have claimed: "active_attempt j a" if "at_BuildJobID a = j" "at_LastState a = DispatchStateClaimed" for a
    using that by (simp add: active_attempt_iff)
  show ?thesis
  proof (intro conjI iffI)
    assume "\<exists>job. ?J j = Some job \<and> jb_Status job = StatusRunning"
    then obtain i a where "?A i = Some a" "at_BuildJobID a = j" "at_LastState a = DispatchStateClaimed"
      using inv(4) unfolding running_ok_def prod.case by meson
    then show "\<exists>!i. \<exists>a. ?A i = Some a \<and> at_BuildJobID a = j \<and> at_LastState a = DispatchStateClaimed"
      using one claimed by blast
  next
    assume "\<exists>!i. \<exists>a. ?A i = Some a \<and> at_BuildJobID a = j \<and> at_LastState a = DispatchStateClaimed"
    then obtain i a where a: "?A i = Some a" "at_BuildJobID a = j" "at_LastState a = DispatchStateClaimed" by blast
    with keys_okD(1) [OF inv(1) a(1)] obtain job where "?J j = Some job" by auto
    with active_okD [OF inv(3) a(1)] a(2,3) show "\<exists>job. ?J j = Some job \<and> jb_Status job = StatusRunning" by (simp add: status_of_def)
  next
    show "\<exists>\<^sub>\<le>\<^sub>1i. \<exists>a. ?A i = Some a \<and> active_attempt j a" unfolding Uniq_def using one by blast
  qed
qed

lemma running_iff_claimed_witness:
  "\<exists>!i. \<exists>a. map_of (jm_attempts (fst (sample_jobs 3))) i = Some a \<and> at_BuildJobID a = ''j1'' \<and> at_LastState a = DispatchStateClaimed"
proof -
  have "build_reachable (fst (sample_jobs 3), snd (sample_jobs 3))" using build_sample_reachable [of 3] by simp
  from running_iff_claimed [OF this, of "''j1''"] show ?thesis
    by (simp add: sample_jobs_def Let_def put_job_def put_attempt_def)
qed

text \<open>
  C17: A lease gives exactly the job it was issued for. When the service returns a build spec for a
  token, the spec is that of a running job whose claimed attempt holds the hash of the token and has
  not expired, and no other attempt holds that hash or is active for the job, so the answer does not
  depend on the order in which the store's map is visited.
\<close>
theorem lease_authority:
  assumes "build_reachable (s, F)" "memory_jobs v" "RunnerBuildSpec v c jobID token s = Inr spec"
  shows "\<exists>i a job. map_of (jm_attempts s) i = Some a \<and> at_BuildJobID a = jobID \<and> at_LastState a = DispatchStateClaimed
    \<and> at_LeaseHash a = bh_sha256 (bv_Hashes v) token \<and> bc_Now c < at_LeaseExpiresAt a
    \<and> map_of (jm_byID s) jobID = Some job \<and> jb_Status job = StatusRunning \<and> spec = buildSpec (bv_Hashes v) job (bv_Registry v)
    \<and> (\<forall>k b. map_of (jm_attempts s) k = Some b \<longrightarrow> k \<noteq> i \<longrightarrow> at_LeaseHash b \<noteq> bh_sha256 (bv_Hashes v) token \<and> \<not> active_attempt jobID b)"
proof -
  have ok: "config_ok (s, F)" by (rule build_reachable_ok [OF assms(1)])
  then have inv: "single_active (map_of (jm_byID s), map_of (jm_attempts s), F)" "leases_ok (map_of (jm_byID s), map_of (jm_attempts s), F)"
    by (simp_all add: config_ok_def view_def build_inv_def)
  from lookup_visited [OF assms(2) ok assms(3)] obtain i a job where a: "map_of (jm_attempts s) i = Some a" "at_BuildJobID a = jobID"
      "at_LastState a = DispatchStateClaimed" "at_LeaseHash a = bh_sha256 (bv_Hashes v) token" "bc_Now c < at_LeaseExpiresAt a"
      "map_of (jm_byID s) jobID = Some job" "jb_Status job = StatusRunning" "spec = buildSpec (bv_Hashes v) job (bv_Registry v)" .
  have "at_LeaseHash b \<noteq> bh_sha256 (bv_Hashes v) token \<and> \<not> active_attempt jobID b" if b: "map_of (jm_attempts s) k = Some b" "k \<noteq> i" for k b
  proof
    show "at_LeaseHash b \<noteq> bh_sha256 (bv_Hashes v) token"
      using inv(2) a(1,3,4) b unfolding leases_ok_def prod.case by metis
    show "\<not> active_attempt jobID b"
      using single_activeD [OF inv(1) b(1) a(1)] b(2) a(2,3) by (auto simp: active_attempt_iff)
  qed
  with a show ?thesis by blast
qed

lemma sample_spec:
  "RunnerBuildSpec sample_build_service sample_build_call ''j1'' ''cg'' (fst (sample_jobs 3))
     = Inr (buildSpec sample_build_hashes (running_job 1 sample_job) sample_registry)"
proof -
  have registry: "registry_error sample_registry = None"
    by (simp add: registry_error_def sample_registry_def validOCIHost_def validOCIPath_def only_def char_classes string_eval)
  show ?thesis
    by (simp add: RunnerBuildSpec_def sample_build_service_def sample_build_call_def sample_opaque token_ok_def registry memory_GetRunnerJob_def holder_def
        sample_build_hashes_def sample_jobs_def Let_def put_job_def put_attempt_def sample_claimed_def IsZero_def zero_time_def runnerLeaseTTL_def Minute_def Second_def)
qed

lemma lease_authority_witness:
  "\<exists>i a. map_of (jm_attempts (fst (sample_jobs 3))) i = Some a \<and> at_LeaseHash a = ''hcg'' \<and> at_LastState a = DispatchStateClaimed"
proof -
  have "build_reachable (fst (sample_jobs 3), snd (sample_jobs 3))" using build_sample_reachable [of 3] by simp
  from lease_authority [OF this sample_memory sample_spec] show ?thesis
    by (auto simp: sample_build_service_def sample_build_hashes_def)
qed

text \<open>
  C18: Every job comes to rest. Along every infinite run of requests, in any order and with any
  answers of the executor, the record of a job changes at most twice and then never again; its
  snapshot (identity, scope, source, strategy, creator, creation time) never changes.
\<close>
theorem job_comes_to_rest:
  assumes "build_reachable (run 0)" "\<And>n. build_steps (run n) (run (Suc n))" "job_at run j 0 = Some job"
  shows "finite {n. job_at run j (Suc n) \<noteq> job_at run j n} \<and> card {n. job_at run j (Suc n) \<noteq> job_at run j n} \<le> 2
    \<and> (\<exists>m. \<forall>n \<ge> m. job_at run j n = job_at run j m) \<and> (\<forall>n. \<exists>job'. job_at run j n = Some job' \<and> snapshot job' = snapshot job)"
proof -
  let ?rank = "\<lambda>x. job_rank (jb_Status (the x))"
  have step: "\<exists>job''. job_at run j (Suc n) = Some job'' \<and> snapshot job'' = snapshot job'
      \<and> (job'' = job' \<or> job_rank (jb_Status job'') < job_rank (jb_Status job'))" if "job_at run j n = Some job'" for n job'
    using step_job [OF assms(2) run_ok [where run = run, OF assms(1,2)], of n j job'] that by (simp add: job_at_def)
  have kept: "\<exists>job'. job_at run j n = Some job' \<and> snapshot job' = snapshot job" for n
  proof (induction n)
    case (Suc n)
    then obtain job' where "job_at run j n = Some job'" "snapshot job' = snapshot job" by blast
    with step [of n job'] show ?case by auto
  qed (use assms(3) in simp)
  have "job_at run j (Suc n) = job_at run j n \<or> ?rank (job_at run j (Suc n)) < ?rank (job_at run j n)" for n
  proof -
    obtain job' where "job_at run j n = Some job'" using kept [of n] by blast
    with step [OF this] show ?thesis by auto
  qed
  note * = ranked_changes [of "job_at run j" ?rank, OF this]
  have "?rank (job_at run j 0) \<le> 2" by (simp add: assms(3) job_rank_def)
  with * have "finite {n. job_at run j (Suc n) \<noteq> job_at run j n} \<and> card {n. job_at run j (Suc n) \<noteq> job_at run j n} \<le> 2
    \<and> (\<exists>m. \<forall>n \<ge> m. job_at run j n = job_at run j m)" by (meson order_trans)
  with kept show ?thesis by blast
qed

lemma job_comes_to_rest_witness: "card {n. job_at sample_jobs ''j1'' (Suc n) \<noteq> job_at sample_jobs ''j1'' n} \<le> 2"
proof -
  have "build_steps (sample_jobs n) (sample_jobs (Suc n))" for n using build_sample_step [of n] by (auto simp: build_steps_def)
  from job_comes_to_rest [where run = sample_jobs, OF sample_start this, of "''j1''" sample_job] show ?thesis
    by (simp add: job_at_def sample_jobs_def Let_def)
qed

text \<open>
  C19: A job that CreateJob stores can be read back, is ready, passes the checks of a dispatch
  unless its Dockerfile path exceeds the 1024 bytes of a repository path, and the same request
  answers with the same job without storing another.
\<close>
theorem created_job:
  assumes "memory_jobs v" "CreateJob v c p ap actor key s = (Inr (job, False), s')"
  shows "memory_GetJob p ap (jb_ID job) s' = Inr job \<and> jb_Status job = StatusReady
    \<and> (validateDispatchableJob job = None \<or> 1024 < length (jb_DockerfilePath job))
    \<and> CreateJob v c' p ap actor key s' = (Inr (job, True), s')"
proof (cases rule: CreateJob_cases [OF assms])
  case (3 src sha resolved dockerfile exists_file failure jobID job')
  note new = 3
  have [simp]: "failure = None" by (rule resolveStrategy_failure [OF new(6)])
  from new(9) have job: "job = new_job jobID p ap actor key src sha resolved dockerfile failure (bc_Now c)" using new(7) by simp
  have "jb_DockerfilePath job = dockerfile" by (simp add: job new_job_def)
  then have "validateDispatchableJob job = None \<or> 1024 < length (jb_DockerfilePath job)"
    using created_dispatchable [OF new(1-4,6), of jobID actor key "bc_Now c"] job by (cases "length dockerfile \<le> 1024") simp_all
  moreover have "memory_GetJob p ap (jb_ID job) s' = Inr job"
    using new(7,10) by (simp add: job memory_GetJob_def scoped_job_def)
  moreover have "CreateJob v c' p ap actor key s' = (Inr (job, True), s')"
    using CreateJob_replay [OF assms, of s' jobID c'] new(7,10) by (simp add: job lookup_job_def)
  ultimately show ?thesis by (simp add: job)
qed simp_all

lemma created_job_witness: "memory_GetJob ''p1'' ''a1'' ''j1'' (fst (sample_jobs 0)) = Inr sample_job"
  using created_job [OF sample_memory sample_created] by simp

text \<open>
  C20: Only a Cancel ends a build whose runner has gone. Once the lease of a claimed attempt has run
  out, no request other than a Cancel of the job, however late and in whatever order, changes the
  job or the attempt: the job stays running for ever, since only dispatches that no runner claimed
  are expired.
\<close>
theorem expired_lease_stuck:
  assumes "build_reachable (run 0)" "\<And>n. build_step (at_time n) (who n) (run n) (run (Suc n))"
    "attempt_at run i 0 = Some a" "at_LastState a = DispatchStateClaimed"
    "\<And>n. at_LeaseExpiresAt a \<le> at_time n" "\<And>n. who n \<noteq> Some (at_BuildJobID a)"
  shows "attempt_at run i n = Some a \<and> (\<exists>job. job_at run (at_BuildJobID a) n = Some job \<and> jb_Status job = StatusRunning)"
proof (induction n)
  case 0
  have "build_inv (view (fst (run 0)) (snd (run 0)))"
    using build_reachable_ok [OF assms(1)] by (simp add: config_ok_def case_prod_unfold)
  then have inv: "keys_ok (map_of (jm_byID (fst (run 0))), map_of (jm_attempts (fst (run 0))), snd (run 0))"
      "active_ok (map_of (jm_byID (fst (run 0))), map_of (jm_attempts (fst (run 0))), snd (run 0))"
    by (simp_all add: build_inv_def view_def)
  have a: "map_of (jm_attempts (fst (run 0))) i = Some a" using assms(3) by (simp add: attempt_at_def)
  with keys_okD(1) [OF inv(1)] obtain job where "map_of (jm_byID (fst (run 0))) (at_BuildJobID a) = Some job" by blast
  with active_okD [OF inv(2) a] assms(3,4) show ?case by (simp add: job_at_def status_of_def)
next
  case (Suc n)
  then obtain job where "map_of (jm_byID (fst (run n))) (at_BuildJobID a) = Some job" "jb_Status job = StatusRunning"
      "map_of (jm_attempts (fst (run n))) i = Some a"
    by (auto simp: job_at_def attempt_at_def)
  moreover have "config_ok (run n)" by (rule run_ok [where run = run, OF assms(1)]) (use assms(2) in \<open>auto simp: build_steps_def\<close>)
  ultimately show ?case
    using stuck_step [OF assms(2) [of n], of i a job] assms(4) assms(5,6) [of n] by (auto simp: job_at_def attempt_at_def)
qed

lemma expired_lease_stuck_witness:
  "\<exists>job. job_at (\<lambda>n. sample_jobs (n + 3)) ''j1'' 5 = Some job \<and> jb_Status job = StatusRunning"
proof -
  have "build_step (700 * Minute) None (sample_jobs (n + 3)) (sample_jobs (Suc n + 3))" for n
    using build_sample_step [of "n + 3"] by simp
  from expired_lease_stuck [where run = "\<lambda>n. sample_jobs (n + 3)" and at_time = "\<lambda>_. 700 * Minute" and who = "\<lambda>_. None" and i = "''bja-72''"
      and a = sample_claimed and n = 5, OF _ this] build_sample_reachable [of 3]
  show ?thesis
    by (simp add: attempt_at_def sample_jobs_def Let_def put_attempt_def sample_claimed_def runnerLeaseTTL_def Minute_def Second_def)
qed

section \<open>Build records\<close>


section \<open>Behaviour of the checks at their edges\<close>

text \<open>A registry host may have more than one colon: only the part after the first is read as a port.\<close>

lemma host_with_two_colons: "validOCIHost ''ghcr.io:443:x''"
  by (simp add: validOCIHost_def only_def parses_uint16_def dec_val_def digit_val_def char_classes string_eval)

text \<open>A refused dispatch overwrites the attempt that a Cancel has ended in the meantime.\<close>

lemma refused_after_cancel:
  assumes "map_of (jm_attempts s) i = Some a" "at_LastState a = DispatchStateCancelled"
  shows "\<exists>b. map_of (jm_attempts (snd (memory_RejectDispatch i code now s))) i = Some b \<and> at_LastState b = DispatchStateRejected"
  using assms by (simp add: memory_RejectDispatch_def)

end
