(* ===== verification/Spec2Isabelle.thy ===== *)
theory Spec2Isabelle
  imports Rollout_Engine_Properties Topology_Store_Properties Deployment_Properties Build_Job_Properties
begin

text \<open>
  opsi builds repositories into images, places services on runtimes and rolls them out on Kubernetes.
  A control plane in the cloud (src/cloud, Go) keeps placement plans, deployment policies and build
  jobs; an Agent on each cluster (src/agent) executes rollouts and journals them; both speak the
  contracts of src/contracts/go. This development models that deployment core: the contracts, the
  Agent's journal and reconciler, and the cloud services that decide what is built, where it may
  run and which build is let through.

  \<^bold>\<open>Conventions.\<close> A struct is a record, an error a datatype or the left side of a sum, a
  chain of checks the function \<open>first_failure\<close>, which keeps the order of the code. Strings are lists
  of bytes. int64 and uint64 arithmetic that the code does not bound is written with its
  wrap-around (\<open>wrap_s64\<close>, \<open>wrap_u64\<close>). JSON encoding followed by SHA-256 is a parameter
  (\<open>hashes\<close>, \<open>service_hashes\<close>, \<open>policy_hashes\<close>, \<open>build_hashes\<close>); where a property needs that a
  hash is present or that two agree, it says so. Clocks, random identities and the errors of outside
  services are arguments of each call. A store in memory runs every operation under its mutex, so
  its operations are functions of its state, and interleavings are sequences of steps.

  \<^bold>\<open>Contracts.\<close> Prelude holds Go's string functions, decimal numbers and the identifier patterns.
  Exposure models contracts/go/exposurev1/types.go: normalisation of hostnames and paths,
  canonical exposures and route conflicts. Workload models contracts/go/deploymentv1/types.go:
  images, quantities with overflow, environment, probes, Normalize and Validate.
  Rollout_Contract models contracts/go/deploymentv1/rollout.go: intents, snapshots, evidence,
  known-good snapshots and the rollout state machine; the search of CanCompleteRollout has fuel
  bounded by the number of states, each of which it visits once.

  \<^bold>\<open>The Agent.\<close> Rollout_Store models the rollout tables of agent/internal/deploy/store.go as a
  small database: a transaction is a function in \<open>tx\<close>, each statement may fail and rolls everything
  back, and \<open>store_step\<close> is one operation. Rollout_Store_Invariant and Rollout_Store_Properties show
  what every reachable database keeps (one active rollout per target, readable records, an event log
  that follows the state machine) and what each operation does. Rollout_Engine models
  agent/internal/deploy/rollout_engine.go and reconciliation.go over any store and runtime: the
  operations thread a \<open>world\<close> of store, cluster and number of outside calls made so far, and time
  is read per call. Rollout_Store_Contract states the store's promises as the locale
  \<open>rollout_store\<close> and interprets it on the SQLite model; Rollout_Engine_Runs and
  Rollout_Engine_Liveness prove the reconciler against the locale; Rollout_Engine_Properties states
  the results on the model.

  \<^bold>\<open>Placement.\<close> Topology, Topology_Validation and Topology_Service model
  cloud/internal/topology/service.go and memory.go: normal forms of drafts, diffs, the validation of
  a placement against runtimes, nodes, Agents and capacities, and the service over any store.
  Replay and Topology_Contract hold the contract of a store with compare-and-set and recorded
  responses as locales, interpreted in Topology_Memory. Topology_Properties,
  Topology_Validation_Properties, Topology_Runtimes and Topology_Store_Properties hold the results.

  \<^bold>\<open>Policies and routing.\<close> Deployment_Policy, Deployment_Policy_Store and Deployment_Routing model
  cloud/internal/deploymentpolicy: the policies that let a build through, their store, and Route,
  which composes a build record, the policies in force, the placement plan and the topology service
  into a decision. The same replay contract is interpreted for this store. Properties:
  Deployment_Policy_Properties, Deployment_Routing_Properties, Deployment_Properties.

  \<^bold>\<open>Builds.\<close> Build_Job, Build_Job_Store and Build_Job_Service model cloud/internal/buildjob: jobs
  from source bindings, their dispatch to an external executor, the lease of a runner, completion,
  expiry and cancellation. Build_Job_Steps classifies what a request does to jobs and attempts into
  effects and proves the invariant over them; Build_Job_Runs has the step relation over all requests,
  where Dispatch is two steps with the call of the executor in between; Build_Job_Paths,
  Build_Job_Sample and Build_Job_Properties hold path lemmas, a concrete run and the results,
  among them that the build record of a finished job is one that Route reads.

  \<^bold>\<open>Kinds of results.\<close> Invariants of every reachable store; the effect of each request on every
  branch; refinement of the journal by the reconciler; optimistic writes without lost updates;
  safety of routing decisions and of leases; equivalence of validation, matching and conflict
  detection with declarative readings; termination and liveness of rollouts and build jobs; and, as
  errors, inputs on which the code does not do what it means to.

  \<^bold>\<open>Not modelled.\<close> The PostgreSQL stores of the cloud services (SQL text whose meaning lies in the
  database; the services are modelled over the store interfaces), HTTP handlers, command line,
  assistant and telemetry, which carry no deployment decision of their own; Kubernetes, GitHub,
  registries and DNS, which are outside services behind the interfaces that are parameters here;
  cutover, backup, restore, managed resources and the action plane, which are separate machines.
\<close>

end
